(* ===== verification/Vox_Prelude.thy ===== *)
theory Vox_Prelude
  imports
    Main
    "HOL-Library.Signed_Division"
    "HOL-Library.Char_ord"
    "HOL-Library.List_Lexorder"
    "HOL-Library.Product_Lexorder"
begin

text \<open>
  Shared vocabulary of the development.

  \<^item> Rust's fixed-width integers are HOL integers together with an explicit range test per
    width.  \<open>checked_i64 (a + b)\<close> is \<open>a.checked_add(b)\<close>, \<open>checked_i64 x\<close> is also
    \<open>i64::try_from(x)\<close>; \<open>sat_i64\<close> and \<open>wrap_i64\<close> are the saturating operations and the
    \<open>as i64\<close> cast.  Division and remainder are \<open>sdiv\<close> and \<open>smod\<close> of
    \<open>HOL-Library.Signed_Division\<close>: they truncate toward zero, as \<open>/\<close> and \<open>%\<close> do in Rust.
  \<^item> \<open>Result<T, E>\<close> is the sum \<open>'e + 'a\<close> with the error on the left; \<open>and_then\<close> is the
    \<open>?\<close> operator followed by the rest of the function.
  \<^item> A \<open>String\<close> is a HOL string read as a sequence of Latin-1 code points.
  \<^item> A table of the SQLite stores is a list of rows in insertion order, with the key of a row
    given by a projection.
\<close>

section \<open>Collections of facts\<close>

named_theorems result_simps \<open>case rules for fallible computations\<close>
named_theorems range_simps \<open>the ranges of the machine integers\<close>
named_theorems row_simps \<open>lookups after updates of a table\<close>

section \<open>Machine integers\<close>

definition in_i32 :: "int \<Rightarrow> bool" where
  "in_i32 x \<longleftrightarrow> - 2147483648 \<le> x \<and> x \<le> 2147483647"

definition in_i64 :: "int \<Rightarrow> bool" where
  "in_i64 x \<longleftrightarrow> - 9223372036854775808 \<le> x \<and> x \<le> 9223372036854775807"

definition in_u64 :: "int \<Rightarrow> bool" where
  "in_u64 x \<longleftrightarrow> 0 \<le> x \<and> x \<le> 18446744073709551615"

definition in_i128 :: "int \<Rightarrow> bool" where
  "in_i128 x \<longleftrightarrow> - (2 ^ 127) \<le> x \<and> x < 2 ^ 127"

definition checked_i64 :: "int \<Rightarrow> int option" where
  "checked_i64 x = (if in_i64 x then Some x else None)"

definition checked_u64 :: "int \<Rightarrow> int option" where
  "checked_u64 x = (if in_u64 x then Some x else None)"

definition checked_i128 :: "int \<Rightarrow> int option" where
  "checked_i128 x = (if in_i128 x then Some x else None)"

definition sat_i64 :: "int \<Rightarrow> int" where
  "sat_i64 x = max (- 9223372036854775808) (min 9223372036854775807 x)"

definition sat_u64 :: "int \<Rightarrow> int" where
  "sat_u64 x = max 0 (min 18446744073709551615 x)"

definition wrap_i64 :: "int \<Rightarrow> int" where
  "wrap_i64 x = (x + 9223372036854775808) mod 18446744073709551616 - 9223372036854775808"

lemmas range_defs [range_simps] =
  in_i32_def in_i64_def in_u64_def in_i128_def sat_i64_def sat_u64_def

lemma checked_i64_Some [simp, result_simps]:
  "checked_i64 x = Some y \<longleftrightarrow> in_i64 x \<and> y = x"
  by (auto simp: checked_i64_def)

lemma checked_i64_None [simp, result_simps]: "checked_i64 x = None \<longleftrightarrow> \<not> in_i64 x"
  by (simp add: checked_i64_def)

lemma checked_u64_Some [simp, result_simps]:
  "checked_u64 x = Some y \<longleftrightarrow> in_u64 x \<and> y = x"
  by (auto simp: checked_u64_def)

lemma checked_u64_None [simp, result_simps]: "checked_u64 x = None \<longleftrightarrow> \<not> in_u64 x"
  by (simp add: checked_u64_def)

lemma checked_i128_Some [simp, result_simps]:
  "checked_i128 x = Some y \<longleftrightarrow> in_i128 x \<and> y = x"
  by (auto simp: checked_i128_def)

lemma checked_i128_None [simp, result_simps]: "checked_i128 x = None \<longleftrightarrow> \<not> in_i128 x"
  by (simp add: checked_i128_def)

lemma checked_in_range [simp]:
  "in_i64 x \<Longrightarrow> checked_i64 x = Some x"
  "in_u64 x \<Longrightarrow> checked_u64 x = Some x"
  "in_i128 x \<Longrightarrow> checked_i128 x = Some x"
  by (simp_all add: checked_i64_def checked_u64_def checked_i128_def)

lemma wrap_i64_id: "in_i64 x \<Longrightarrow> wrap_i64 x = x"
  by (simp add: wrap_i64_def in_i64_def mod_pos_pos_trivial)

lemma in_i64_i128: "in_i64 x \<Longrightarrow> in_i128 x"
  by (simp add: in_i64_def in_i128_def)

lemma sat_i64_id: "in_i64 x \<Longrightarrow> sat_i64 x = x"
  by (simp add: range_simps)

subsection \<open>Truncating division\<close>

lemma sdiv_nonneg_eq_div: "0 \<le> a \<Longrightarrow> 0 < b \<Longrightarrow> (a::int) sdiv b = a div b"
  by (simp add: signed_divide_int_def sgn_if)

lemma sdiv_smod_recompose: "(a::int) sdiv b * b + a smod b = a"
  by (rule sdiv_mult_smod_eq)

lemma smod_nonneg_eq_mod: "0 \<le> a \<Longrightarrow> 0 < b \<Longrightarrow> (a::int) smod b = a mod b"
  by (cases "a = 0") (simp_all add: signed_modulo_int_def)

lemma smod_zero_exact: "(a::int) smod b = 0 \<Longrightarrow> a sdiv b * b = a"
  using sdiv_smod_recompose [of a b] by simp

lemma sdiv_minus: "(- a) sdiv b = - ((a::int) sdiv b)"
  by (simp add: signed_divide_int_def sgn_minus)

lemma smod_minus: "(- a) smod b = - ((a::int) smod b)"
  by (simp add: signed_modulo_int_def sgn_minus)

lemma div_le_bound:
  assumes "0 < (b::int)" and "a div b \<le> m"
  shows "a < (m + 1) * b"
proof -
  have "a div b * b \<le> m * b" using assms by (simp add: mult_right_mono)
  moreover have "a mod b < b" using assms(1) by (rule pos_mod_bound)
  ultimately have "a div b * b + a mod b < m * b + b" by (rule add_le_less_mono)
  then show ?thesis by (simp add: distrib_right)
qed

lemma abs_smod_less: "0 < b \<Longrightarrow> \<bar>(a::int) smod b\<bar> < b"
  by (simp add: signed_modulo_int_def abs_mult abs_sgn_eq)

section \<open>Results\<close>

primrec and_then :: "'e + 'a \<Rightarrow> ('a \<Rightarrow> 'e + 'b) \<Rightarrow> 'e + 'b" where
  "and_then (Inl e) f = Inl e"
| "and_then (Inr x) f = f x"

primrec ok_or :: "'e \<Rightarrow> 'a option \<Rightarrow> 'e + 'a" where
  "ok_or e None = Inl e"
| "ok_or e (Some x) = Inr x"

primrec map_err :: "('e \<Rightarrow> 'f) \<Rightarrow> 'e + 'a \<Rightarrow> 'f + 'a" where
  "map_err g (Inl e) = Inl (g e)"
| "map_err g (Inr x) = Inr x"

primrec is_ok :: "'e + 'a \<Rightarrow> bool" where
  "is_ok (Inl e) = False"
| "is_ok (Inr x) = True"

definition require :: "bool \<Rightarrow> 'e \<Rightarrow> 'e + unit" where
  "require b e = (if b then Inr () else Inl e)"

lemma and_then_Inr [result_simps]:
  "and_then r f = Inr y \<longleftrightarrow> (\<exists>x. r = Inr x \<and> f x = Inr y)"
  by (cases r) auto

lemma and_then_Inl [result_simps]:
  "and_then r f = Inl e \<longleftrightarrow> r = Inl e \<or> (\<exists>x. r = Inr x \<and> f x = Inl e)"
  by (cases r) auto

lemma ok_or_Inr [result_simps]: "ok_or e r = Inr y \<longleftrightarrow> r = Some y"
  by (cases r) auto

lemma ok_or_Inl [result_simps]: "ok_or e r = Inl e' \<longleftrightarrow> r = None \<and> e' = e"
  by (cases r) auto

lemma map_err_Inr [result_simps]: "map_err g r = Inr y \<longleftrightarrow> r = Inr y"
  by (cases r) auto

lemma map_err_Inl [result_simps]: "map_err g r = Inl f \<longleftrightarrow> (\<exists>e. r = Inl e \<and> f = g e)"
  by (cases r) auto

lemma require_Inr [result_simps]: "require b e = Inr u \<longleftrightarrow> b"
  by (simp add: require_def)

lemma require_Inl [result_simps]: "require b e = Inl e' \<longleftrightarrow> \<not> b \<and> e' = e"
  by (auto simp: require_def)

lemma is_ok_projr: "is_ok r \<Longrightarrow> r = Inr (projr r)"
  by (cases r) auto

lemma is_ok_iff: "is_ok r \<longleftrightarrow> (\<exists>y. r = Inr y)"
  by (cases r) auto

text \<open>\<open>Option<Result<T, E>>::transpose\<close> after a map.\<close>

definition transpose_map :: "('a \<Rightarrow> 'e + 'b) \<Rightarrow> 'a option \<Rightarrow> 'e + 'b option" where
  "transpose_map f x =
     (case x of None \<Rightarrow> Inr None | Some a \<Rightarrow> and_then (f a) (\<lambda>b. Inr (Some b)))"

lemma transpose_map_Some [result_simps]:
  "transpose_map f x = Inr (Some b) \<longleftrightarrow> (\<exists>a. x = Some a \<and> f a = Inr b)"
  by (auto simp: transpose_map_def result_simps split: option.splits)

text \<open>\<open>iter.map(f).collect::<Result<Vec<_>, _>>()\<close>, and a loop whose body may return an error.\<close>

primrec try_map :: "('a \<Rightarrow> 'e + 'b) \<Rightarrow> 'a list \<Rightarrow> 'e + 'b list" where
  "try_map f [] = Inr []"
| "try_map f (x # xs) = and_then (f x) (\<lambda>y. and_then (try_map f xs) (\<lambda>ys. Inr (y # ys)))"

primrec try_fold :: "('a \<Rightarrow> 's \<Rightarrow> 'e + 's) \<Rightarrow> 'a list \<Rightarrow> 's \<Rightarrow> 'e + 's" where
  "try_fold f [] s = Inr s"
| "try_fold f (x # xs) s = and_then (f x s) (try_fold f xs)"

lemma try_map_filter_id:
  assumes "\<And>x y. f x = Inr y \<Longrightarrow> y = x" and "try_map f xs = Inr ys"
  shows "ys = xs"
  using assms(2)
proof (induction xs arbitrary: ys)
  case (Cons x xs)
  then show ?case using assms(1) [of x] by (auto simp: result_simps)
qed simp

lemma try_map_ok:
  "(\<And>x. x \<in> set xs \<Longrightarrow> f x = Inr (g x)) \<Longrightarrow> try_map f xs = Inr (map g xs)"
  by (induction xs) auto

lemma try_fold_invariant:
  assumes "try_fold f xs s = Inr s'" and "P s"
    and "\<And>x s1 s2. x \<in> set xs \<Longrightarrow> P s1 \<Longrightarrow> f x s1 = Inr s2 \<Longrightarrow> P s2"
  shows "P s'"
  using assms
proof (induction xs arbitrary: s)
  case (Cons x xs)
  obtain s1 where s1: "f x s = Inr s1" and rest: "try_fold f xs s1 = Inr s'"
    using Cons.prems(1) by (auto simp: result_simps)
  have "P s1" using Cons.prems(3) [OF _ Cons.prems(2) s1] by simp
  then show ?case by (rule Cons.IH [OF rest]) (rule Cons.prems(3), simp_all)
qed simp

section \<open>Strings\<close>

text \<open>\<open>char::is_whitespace\<close> on the Latin-1 range, and \<open>s.trim().is_empty()\<close>.\<close>

definition is_whitespace :: "char \<Rightarrow> bool" where
  "is_whitespace c \<longleftrightarrow>
     (let n = of_char c :: nat in 9 \<le> n \<and> n \<le> 13 \<or> n = 32 \<or> n = 133 \<or> n = 160)"

definition blank :: "string \<Rightarrow> bool" where
  "blank s \<longleftrightarrow> list_all is_whitespace s"

text \<open>\<open>s.len()\<close> counts UTF-8 bytes: two for a code point above 127.\<close>

definition byte_len :: "string \<Rightarrow> int" where
  "byte_len s = sum_list (map (\<lambda>c. if (of_char c :: nat) < 128 then 1 else 2) s)"

definition ascii_lower :: "char \<Rightarrow> char" where
  "ascii_lower c =
     (let n = of_char c :: nat in if 65 \<le> n \<and> n \<le> 90 then char_of (n + 32) else c)"

definition to_ascii_lowercase :: "string \<Rightarrow> string" where
  "to_ascii_lowercase s = map ascii_lower s"

fun starts_with :: "string \<Rightarrow> string \<Rightarrow> bool" where
  "starts_with s [] \<longleftrightarrow> True"
| "starts_with [] (c # cs) \<longleftrightarrow> False"
| "starts_with (d # ds) (c # cs) \<longleftrightarrow> d = c \<and> starts_with ds cs"

fun contains_str :: "string \<Rightarrow> string \<Rightarrow> bool" where
  "contains_str [] needle \<longleftrightarrow> needle = []"
| "contains_str (c # cs) needle \<longleftrightarrow> starts_with (c # cs) needle \<or> contains_str cs needle"

text \<open>The decimal rendering of unsigned integers and the rendering of booleans.\<close>

definition digit_char :: "nat \<Rightarrow> char" where
  "digit_char d = char_of (48 + d)"

fun show_nat :: "nat \<Rightarrow> string" where
  "show_nat n = (if n < 10 then [digit_char n] else show_nat (n div 10) @ [digit_char (n mod 10)])"

declare show_nat.simps [simp del]

definition show_bool :: "bool \<Rightarrow> string" where
  "show_bool b = (if b then ''true'' else ''false'')"

fun join_with :: "string \<Rightarrow> string list \<Rightarrow> string" where
  "join_with sep [] = []"
| "join_with sep [x] = x"
| "join_with sep (x # y # xs) = x @ sep @ join_with sep (y # xs)"

text \<open>\<open>str::parse::<i128>()\<close>: digits are read from the left, and the first that is none, or that leaves the
  range, decides the error.\<close>

datatype parse_int_error = EmptyInt | InvalidDigit | PosOverflow | NegOverflow

fun parse_int_error_display :: "parse_int_error \<Rightarrow> string" where
  "parse_int_error_display EmptyInt = ''cannot parse integer from empty string''"
| "parse_int_error_display InvalidDigit = ''invalid digit found in string''"
| "parse_int_error_display PosOverflow = ''number too large to fit in target type''"
| "parse_int_error_display NegOverflow = ''number too small to fit in target type''"

primrec parse_digits :: "bool \<Rightarrow> int \<Rightarrow> string \<Rightarrow> parse_int_error + int" where
  "parse_digits negative acc [] = Inr acc"
| "parse_digits negative acc (c # cs) =
     (let overflow = (if negative then NegOverflow else PosOverflow); digit = of_char c - 48 in
      if \<not> (0 \<le> digit \<and> digit \<le> 9) then Inl InvalidDigit
      else and_then (ok_or overflow (checked_i128 (acc * 10))) (\<lambda>scaled.
        and_then (ok_or overflow
          (checked_i128 (if negative then scaled - digit else scaled + digit))) (\<lambda>next.
        parse_digits negative next cs)))"

definition parse_i128 :: "string \<Rightarrow> parse_int_error + int" where
  "parse_i128 s =
     (case s of
        [] \<Rightarrow> Inl EmptyInt
      | c # cs \<Rightarrow>
          if cs = [] \<and> (c = CHR ''+'' \<or> c = CHR ''-'') then Inl InvalidDigit
          else if c = CHR ''-'' then parse_digits True 0 cs
          else if c = CHR ''+'' then parse_digits False 0 cs
          else parse_digits False 0 s)"

lemma byte_len_nonneg: "0 \<le> byte_len s"
  by (auto simp: byte_len_def intro!: sum_list_nonneg)

lemma byte_len_append [simp]: "byte_len (s @ t) = byte_len s + byte_len t"
  by (simp add: byte_len_def)

lemma starts_with_append: "starts_with (needle @ s) needle"
  by (induction needle) auto

lemma contains_str_iff: "contains_str s needle \<longleftrightarrow> (\<exists>pre post. s = pre @ needle @ post)"
proof (induction s)
  case (Cons c cs)
  have start: "starts_with s n \<longleftrightarrow> (\<exists>post. s = n @ post)" for s n :: string
    by (induction s n rule: starts_with.induct) auto
  show ?case
    by (auto simp: start Cons.IH Cons_eq_append_conv)
qed auto

section \<open>Folds that may overflow\<close>

text \<open>A running total that fails as soon as it leaves the range \<open>P\<close>.\<close>

primrec try_sum :: "(int \<Rightarrow> bool) \<Rightarrow> int \<Rightarrow> int list \<Rightarrow> int option" where
  "try_sum P acc [] = Some acc"
| "try_sum P acc (x # xs) = (if P (acc + x) then try_sum P (acc + x) xs else None)"

lemma try_sum_value: "try_sum P t xs = Some v \<Longrightarrow> v = t + sum_list xs"
  by (induction xs arbitrary: t) (fastforce split: if_splits)+

lemma try_sum_range: "try_sum P t xs = Some v \<Longrightarrow> P t \<Longrightarrow> P v"
  by (induction xs arbitrary: t) (auto split: if_splits)

text \<open>Over non-negative summands the running total overflows exactly when the sum does.\<close>

lemma try_sum_nonneg:
  assumes "\<And>x. x \<in> set xs \<Longrightarrow> 0 \<le> x" and "\<And>a b. 0 \<le> a \<Longrightarrow> a \<le> b \<Longrightarrow> P b \<Longrightarrow> P a"
    and "0 \<le> t" and "P (t + sum_list xs)"
  shows "try_sum P t xs = Some (t + sum_list xs)"
  using assms(1,3,4)
proof (induction xs arbitrary: t)
  case (Cons x xs)
  have "0 \<le> sum_list xs" using Cons.prems(1) by (simp add: sum_list_nonneg)
  then have "P (t + x)"
    using assms(2) [of "t + x" "t + sum_list (x # xs)"] Cons.prems by simp
  then show ?case
    using Cons.IH [of "t + x"] Cons.prems by (simp add: add.assoc)
qed simp

section \<open>Tables\<close>

definition row_with :: "('r \<Rightarrow> 'k) \<Rightarrow> 'k \<Rightarrow> 'r list \<Rightarrow> 'r option" where
  "row_with key k rows = find (\<lambda>r. key r = k) rows"

definition modify_row :: "('r \<Rightarrow> 'k) \<Rightarrow> 'k \<Rightarrow> ('r \<Rightarrow> 'r) \<Rightarrow> 'r list \<Rightarrow> 'r list" where
  "modify_row key k f rows = map (\<lambda>r. if key r = k then f r else r) rows"

text \<open>\<open>INSERT ... ON CONFLICT(key) DO UPDATE\<close>: \<open>merge old\<close> is the updated row.\<close>

definition upsert_row :: "('r \<Rightarrow> 'k) \<Rightarrow> 'r \<Rightarrow> ('r \<Rightarrow> 'r) \<Rightarrow> 'r list \<Rightarrow> 'r list" where
  "upsert_row key r merge rows =
     (case row_with key (key r) rows of
        None \<Rightarrow> rows @ [r]
      | Some _ \<Rightarrow> modify_row key (key r) merge rows)"

lemma row_with_Nil [simp, row_simps]: "row_with key k [] = None"
  by (simp add: row_with_def)

lemma row_with_Cons [row_simps]:
  "row_with key k (r # rows) = (if key r = k then Some r else row_with key k rows)"
  by (simp add: row_with_def)

lemma row_with_None [row_simps]: "row_with key k rows = None \<longleftrightarrow> k \<notin> key ` set rows"
  by (auto simp: row_with_def find_None_iff)

lemma row_with_SomeD: "row_with key k rows = Some r \<Longrightarrow> r \<in> set rows \<and> key r = k"
  by (auto simp: row_with_def find_Some_iff)

lemma row_with_append [row_simps]:
  "row_with key k (rows @ [r]) =
     (case row_with key k rows of
        Some x \<Rightarrow> Some x
      | None \<Rightarrow> if key r = k then Some r else None)"
  by (induction rows) (auto simp: row_with_def)

lemma row_with_fresh: "key r \<notin> key ` set rows \<Longrightarrow> row_with key (key r) (rows @ [r]) = Some r"
  by (simp add: row_with_append row_with_None [THEN iffD2])

lemma row_with_map:
  "(\<And>r. key (g r) = key r) \<Longrightarrow> row_with key k (map g rows) = map_option g (row_with key k rows)"
  by (induction rows) (auto simp: row_with_def)

lemma row_with_modify [row_simps]:
  assumes "\<And>r. key2 (f r) = key2 r"
  shows "row_with key2 k2 (modify_row key k f rows) =
    map_option (\<lambda>r. if key r = k then f r else r) (row_with key2 k2 rows)"
  unfolding modify_row_def by (rule row_with_map) (simp add: assms)

lemma row_with_unique:
  "distinct (map key rows) \<Longrightarrow> r \<in> set rows \<Longrightarrow> row_with key (key r) rows = Some r"
  by (induction rows) (auto simp: row_with_Cons image_iff)

lemma row_unique:
  "distinct (map key rows) \<Longrightarrow> r \<in> set rows \<Longrightarrow> r' \<in> set rows \<Longrightarrow> key r = key r' \<Longrightarrow> r = r'"
  by (simp add: distinct_map inj_on_def)

lemma modify_row_const:
  assumes "distinct (map key xs)" and "r \<in> set xs" and "key r = k"
  shows "modify_row key k f xs = modify_row key k (\<lambda>_. f r) xs"
  unfolding modify_row_def
proof (rule map_cong [OF refl])
  fix x
  assume x: "x \<in> set xs"
  have "x = r" if "key x = k"
    by (rule row_unique [OF assms(1) x assms(2)]) (simp add: that assms(3))
  then show "(if key x = k then f x else x) = (if key x = k then f r else x)" by simp
qed

lemma keys_modify_row [simp]:
  "(\<And>r. key2 (f r) = key2 r) \<Longrightarrow> map key2 (modify_row key k f rows) = map key2 rows"
  by (simp add: modify_row_def)

lemma set_modify_row:
  "set (modify_row key k f rows) = {r \<in> set rows. key r \<noteq> k} \<union> f ` {r \<in> set rows. key r = k}"
  by (auto simp: modify_row_def)

lemma length_modify_row [simp]: "length (modify_row key k f rows) = length rows"
  by (simp add: modify_row_def)

lemma upsert_row_keys:
  assumes "\<And>x. key x = key r \<Longrightarrow> key (merge x) = key r" and "distinct (map key rows)"
  shows "distinct (map key (upsert_row key r merge rows))"
proof (cases "row_with key (key r) rows")
  case None
  moreover then have "key r \<notin> key ` set rows" by (simp add: row_with_None)
  ultimately show ?thesis using assms(2) by (simp add: upsert_row_def)
next
  case (Some y)
  have "map key (modify_row key (key r) merge rows) = map key rows"
    using assms(1) by (simp add: modify_row_def)
  then show ?thesis using Some assms(2) by (simp add: upsert_row_def)
qed

lemma row_with_upsert:
  assumes "\<And>x. key x = key r \<Longrightarrow> key (merge x) = key r"
  shows "row_with key k (upsert_row key r merge rows) =
    (if k = key r then Some (case row_with key k rows of None \<Rightarrow> r | Some x \<Rightarrow> merge x)
     else row_with key k rows)"
proof -
  have "row_with key k (modify_row key (key r) merge rows) =
      map_option (\<lambda>x. if key x = key r then merge x else x) (row_with key k rows)"
    unfolding modify_row_def using assms by (intro row_with_map) simp
  then show ?thesis
    by (auto simp: upsert_row_def row_with_append dest: row_with_SomeD split: option.splits)
qed

text \<open>A key-wise weight of a table drops when the modified row's weight drops.\<close>

lemma sum_modify_row_le:
  assumes "\<And>r. r \<in> set rows \<Longrightarrow> key r = k \<Longrightarrow> w (f r) \<le> (w r :: int)"
  shows "sum_list (map w (modify_row key k f rows)) \<le> sum_list (map w rows)"
  using assms by (induction rows) (auto simp: modify_row_def intro!: add_mono)

lemma sum_modify_row_eq:
  assumes "\<And>r. r \<in> set rows \<Longrightarrow> key r = k \<Longrightarrow> w (f r) = (w r :: int)"
  shows "sum_list (map w (modify_row key k f rows)) = sum_list (map w rows)"
  using assms by (induction rows) (auto simp: modify_row_def)

lemma sum_filter_weight:
  "sum_list (map w (filter P xs)) = sum_list (map (\<lambda>x. if P x then (w x :: int) else 0) xs)"
  by (induction xs) auto

end
