(* ===== verification/Money.thy ===== *)
theory Money
  imports Vox_Prelude
begin

text \<open>
  Exact provider money, \<open>crates/vox-domain/src/money.rs\<close>: the units/nano pair of the broker, the
  fixed-point number at nano precision, and the tick economics of a futures contract.  No value
  is ever rounded: an inexact quotient is an error.
\<close>

definition NANO_SCALE :: int where
  "NANO_SCALE = 1000000000"

record units_nano =
  un_units :: int
  un_nano :: int

datatype fixed_point_error = NanoOutOfRange int

definition validate_nano :: "int \<Rightarrow> fixed_point_error + unit" where
  "validate_nano nano =
     (if - 999999999 \<le> nano \<and> nano \<le> 999999999 then Inr () else Inl (NanoOutOfRange nano))"

definition units_nano_new :: "int \<Rightarrow> int \<Rightarrow> fixed_point_error + units_nano" where
  "units_nano_new units nano =
     and_then (validate_nano nano) (\<lambda>_. Inr \<lparr>un_units = units, un_nano = nano\<rparr>)"

text \<open>A \<open>FixedPoint\<close> is its total number of nanos.\<close>

datatype fixed_point = FixedPoint (total_nanos: int)

definition fixed_point_of :: "units_nano \<Rightarrow> fixed_point" where
  "fixed_point_of u = FixedPoint (un_units u * NANO_SCALE + un_nano u)"

definition from_units_nano :: "int \<Rightarrow> int \<Rightarrow> fixed_point_error + fixed_point" where
  "from_units_nano units nano =
     and_then (units_nano_new units nano) (\<lambda>u. Inr (fixed_point_of u))"

definition units_nano_parts :: "fixed_point \<Rightarrow> int \<times> int" where
  "units_nano_parts p = (total_nanos p sdiv NANO_SCALE, total_nanos p smod NANO_SCALE)"

section \<open>Futures economics\<close>

record futures_economics =
  fe_min_price_increment :: fixed_point
  fe_min_price_increment_amount :: fixed_point
  fe_money_per_point :: fixed_point

datatype futures_economics_error =
    NonPositive string
  | TickMismatch
  | InexactMoneyPerPoint
  | InexactMonetaryValue
  | ArithmeticOverflow

definition require_positive :: "string \<Rightarrow> fixed_point \<Rightarrow> futures_economics_error + unit" where
  "require_positive field v = (if total_nanos v > 0 then Inr () else Inl (NonPositive field))"

definition futures_economics_new ::
  "fixed_point \<Rightarrow> fixed_point \<Rightarrow> fixed_point \<Rightarrow> futures_economics_error + futures_economics" where
  "futures_economics_new catalogue margin amount =
     and_then (require_positive ''catalogue_min_price_increment'' catalogue) (\<lambda>_.
     and_then (require_positive ''margin_min_price_increment'' margin) (\<lambda>_.
     and_then (require_positive ''min_price_increment_amount'' amount) (\<lambda>_.
     if catalogue \<noteq> margin then Inl TickMismatch
     else and_then (ok_or ArithmeticOverflow (checked_i128 (total_nanos amount * NANO_SCALE)))
       (\<lambda>numerator.
          if numerator smod total_nanos margin \<noteq> 0 then Inl InexactMoneyPerPoint
          else Inr \<lparr>fe_min_price_increment = margin,
                    fe_min_price_increment_amount = amount,
                    fe_money_per_point = FixedPoint (numerator sdiv total_nanos margin)\<rparr>))))"

definition value_for_price ::
  "futures_economics \<Rightarrow> fixed_point \<Rightarrow> int \<Rightarrow> futures_economics_error + fixed_point" where
  "value_for_price e quoted_price contracts =
     and_then (require_positive ''quoted_price'' quoted_price) (\<lambda>_.
     if contracts = 0 then Inl (NonPositive ''contracts'')
     else and_then (ok_or ArithmeticOverflow
            (checked_i128 (total_nanos quoted_price * total_nanos (fe_money_per_point e))))
       (\<lambda>product.
          if product smod NANO_SCALE \<noteq> 0 then Inl InexactMonetaryValue
          else and_then (ok_or ArithmeticOverflow
                 (checked_i128 (product sdiv NANO_SCALE * contracts)))
            (\<lambda>v. Inr (FixedPoint v))))"

section \<open>Properties\<close>

lemma units_nano_parts_recompose:
  "units_nano_parts p = (u, n) \<Longrightarrow> u * NANO_SCALE + n = total_nanos p"
  using sdiv_smod_recompose [of "total_nanos p" NANO_SCALE] by (auto simp: units_nano_parts_def)

lemma units_nano_parts_nano:
  "units_nano_parts p = (u, n) \<Longrightarrow> \<bar>n\<bar> < NANO_SCALE"
  using abs_smod_less [of NANO_SCALE "total_nanos p"]
  by (auto simp: units_nano_parts_def NANO_SCALE_def)

lemma units_nano_parts_same_sign:
  assumes "\<bar>nano\<bar> < NANO_SCALE" and "units \<ge> 0 \<and> nano \<ge> 0 \<or> units \<le> 0 \<and> nano \<le> 0"
  shows "units_nano_parts (FixedPoint (units * NANO_SCALE + nano)) = (units, nano)"
proof -
  have n: "0 < NANO_SCALE" by (simp add: NANO_SCALE_def)
  have pos: "(u * NANO_SCALE + m) div NANO_SCALE = u \<and> (u * NANO_SCALE + m) mod NANO_SCALE = m"
    if "0 \<le> m" "m < NANO_SCALE" for u m :: int
    using that n by simp
  show ?thesis
  proof (cases "units \<ge> 0 \<and> nano \<ge> 0")
    case True
    then have "0 \<le> units * NANO_SCALE + nano" using n by simp
    then show ?thesis
      using pos [of nano units] assms(1) True n
      by (simp add: units_nano_parts_def sdiv_nonneg_eq_div smod_nonneg_eq_mod)
  next
    case False
    then have neg: "units \<le> 0" "nano \<le> 0" using assms(2) by auto
    have t: "units * NANO_SCALE + nano = - (- units * NANO_SCALE + - nano)" by simp
    have "0 \<le> - units * NANO_SCALE + - nano" using n neg
      by (intro add_nonneg_nonneg mult_nonneg_nonneg) auto
    then have "(- units * NANO_SCALE + - nano) sdiv NANO_SCALE = - units"
      "(- units * NANO_SCALE + - nano) smod NANO_SCALE = - nano"
      using pos [of "- nano" "- units"] assms(1) neg n
      by (simp_all only: sdiv_nonneg_eq_div smod_nonneg_eq_mod)
    then show ?thesis
      unfolding units_nano_parts_def fixed_point.sel t sdiv_minus smod_minus by simp
  qed
qed



text \<open>C37.  Futures values are exact: when the economics accept the tick metadata, money per point
  times the tick is the tick's amount, and when a position is valued, the value times the nano
  scale is price times money per point times contracts.  Nothing is rounded on the way.\<close>

theorem futures_value_exact:
  assumes "futures_economics_new cat mar amount = Inr e" and "value_for_price e price contracts = Inr v"
    and "0 \<le> contracts"
  shows "total_nanos (fe_money_per_point e) * total_nanos (fe_min_price_increment e)
      = total_nanos (fe_min_price_increment_amount e) * NANO_SCALE \<and>
    total_nanos v * NANO_SCALE = total_nanos price * total_nanos (fe_money_per_point e) * contracts \<and>
    cat = mar \<and> 0 < total_nanos v"
proof -
  have e: "total_nanos (fe_money_per_point e) * total_nanos (fe_min_price_increment e)
      = total_nanos (fe_min_price_increment_amount e) * NANO_SCALE" "cat = mar"
    and pos: "0 < total_nanos mar" "0 < total_nanos amount"
      "fe_min_price_increment e = mar" "fe_min_price_increment_amount e = amount"
    using assms(1) smod_zero_exact [of "total_nanos amount * NANO_SCALE" "total_nanos mar"]
    by (auto simp: futures_economics_new_def require_positive_def result_simps split: if_splits)
  have "0 < total_nanos (fe_money_per_point e) * total_nanos mar"
    using e(1) pos by (simp add: NANO_SCALE_def)
  then have m: "0 < total_nanos (fe_money_per_point e)"
    using pos(1) by (simp add: zero_less_mult_iff)
  let ?p = "total_nanos price * total_nanos (fe_money_per_point e)"
  have v: "0 < total_nanos price" "contracts \<noteq> 0" "?p sdiv NANO_SCALE * NANO_SCALE = ?p"
    "total_nanos v = ?p sdiv NANO_SCALE * contracts"
    using assms(2) smod_zero_exact [of ?p NANO_SCALE]
    by (auto simp: value_for_price_def require_positive_def result_simps split: if_splits)
  have "0 < ?p sdiv NANO_SCALE * NANO_SCALE" unfolding v(3) using m v(1) by simp
  then have "0 < ?p sdiv NANO_SCALE" by (simp add: zero_less_mult_iff NANO_SCALE_def)
  then have "0 < total_nanos v" using v(2,4) assms(3) by simp
  moreover have "total_nanos v * NANO_SCALE = ?p * contracts"
    unfolding v(4) using v(3) by (simp only: mult.assoc mult.commute [of contracts])
      (simp only: mult.assoc [symmetric])
  ultimately show ?thesis using e by simp
qed

theorem futures_value_exact_witness:
  "total_nanos (FixedPoint 83355000000000000) * NANO_SCALE
     = total_nanos (FixedPoint 100000000000000) * 833550000000 * 1"
proof -
  let ?e = "\<lparr>fe_min_price_increment = FixedPoint 1000000,
    fe_min_price_increment_amount = FixedPoint 833550000,
    fe_money_per_point = FixedPoint 833550000000\<rparr>"
  have "futures_economics_new (FixedPoint 1000000) (FixedPoint 1000000) (FixedPoint 833550000) = Inr ?e"
    "value_for_price ?e (FixedPoint 100000000000000) 1 = Inr (FixedPoint 83355000000000000)"
    by code_simp+
  from futures_value_exact [OF this] show ?thesis by simp
qed

end
