(* ===== verification/Domain_Mutation.thy ===== *)
theory Domain_Mutation
  imports Vox_Prelude
begin

text \<open>
  At-most-once dispatch of broker mutations, \<open>crates/vox-domain/src/mutation.rs\<close>.  The recovery
  protocol of the source is generic in the evidence store; its operations take the store's calls as
  arguments.  The locale \<open>evidence_store\<close> states what the trait's documentation promises, its lemmas
  hold for every interleaving of processes that share a store, and the interpretation is on the
  store the crate's tests run the protocol against.
\<close>

section \<open>Identities\<close>

text \<open>\<open>crates/vox-domain/src/identity.rs\<close>: every identity is a text that is not blank.\<close>

datatype identity_error = Empty

definition identity_new :: "string \<Rightarrow> identity_error + string" where
  "identity_new v = (if blank v then Inl Empty else Inr v)"

record instrument_identity =
  ii_provider :: string
  ii_uid :: string
  ii_figi :: "string option"
  ii_ticker :: string
  ii_class_code :: string

datatype instrument_identity_error = EmptyField

definition instrument_identity_new ::
  "string \<Rightarrow> string \<Rightarrow> string option \<Rightarrow> string \<Rightarrow> string
   \<Rightarrow> instrument_identity_error + instrument_identity" where
  "instrument_identity_new provider uid figi ticker class_code =
     (if blank provider \<or> blank uid \<or> blank ticker \<or> blank class_code
         \<or> (case figi of None \<Rightarrow> False | Some f \<Rightarrow> blank f)
      then Inl EmptyField
      else Inr \<lparr>ii_provider = provider, ii_uid = uid, ii_figi = figi, ii_ticker = ticker,
                ii_class_code = class_code\<rparr>)"

section \<open>Evidence\<close>

datatype mutation_outcome = NotDispatched | Accepted | Rejected | Unknown

datatype authoritative_mutation_outcome = Accepted | Rejected

fun into_outcome :: "authoritative_mutation_outcome \<Rightarrow> mutation_outcome" where
  "into_outcome authoritative_mutation_outcome.Accepted = mutation_outcome.Accepted"
| "into_outcome authoritative_mutation_outcome.Rejected = mutation_outcome.Rejected"

fun outcome_debug :: "mutation_outcome \<Rightarrow> string" where
  "outcome_debug NotDispatched = ''NotDispatched''"
| "outcome_debug mutation_outcome.Accepted = ''Accepted''"
| "outcome_debug mutation_outcome.Rejected = ''Rejected''"
| "outcome_debug Unknown = ''Unknown''"

record mutation_evidence =
  me_client_request_id :: string
  me_outcome :: mutation_outcome
  me_broker_order_id :: "string option"
  me_broker_stop_order_id :: "string option"
  me_exchange_order_id :: "string option"
  me_provider_operation_id :: "string option"
  me_correlation_id :: "string option"

definition prepared :: "string \<Rightarrow> mutation_evidence" where
  "prepared request_id =
     \<lparr>me_client_request_id = request_id,
      me_outcome = NotDispatched,
      me_broker_order_id = None,
      me_broker_stop_order_id = None,
      me_exchange_order_id = None,
      me_provider_operation_id = None,
      me_correlation_id = None\<rparr>"

definition dispatched_unknown :: "mutation_evidence \<Rightarrow> string option \<Rightarrow> mutation_evidence" where
  "dispatched_unknown e correlation_id = e\<lparr>me_outcome := Unknown, me_correlation_id := correlation_id\<rparr>"

definition with_broker_order_id :: "mutation_evidence \<Rightarrow> string \<Rightarrow> mutation_evidence" where
  "with_broker_order_id e i = e\<lparr>me_broker_order_id := Some i\<rparr>"

definition with_exchange_order_id :: "mutation_evidence \<Rightarrow> string \<Rightarrow> mutation_evidence" where
  "with_exchange_order_id e i = e\<lparr>me_exchange_order_id := Some i\<rparr>"

definition with_broker_stop_order_id :: "mutation_evidence \<Rightarrow> string \<Rightarrow> mutation_evidence" where
  "with_broker_stop_order_id e i = e\<lparr>me_broker_stop_order_id := Some i\<rparr>"

definition with_provider_operation_id :: "mutation_evidence \<Rightarrow> string \<Rightarrow> mutation_evidence" where
  "with_provider_operation_id e i = e\<lparr>me_provider_operation_id := Some i\<rparr>"

section \<open>The recovery protocol\<close>

datatype evidence_store_error = StoreError string

datatype mutation_decision = Submit | Reconcile | DoNotSubmit

type_synonym 'db load_op = "'db \<Rightarrow> string \<Rightarrow> evidence_store_error + mutation_evidence option"
type_synonym 'db claim_op = "mutation_evidence \<Rightarrow> 'db \<Rightarrow> evidence_store_error + bool \<times> 'db"
type_synonym 'db resolve_op =
  "mutation_evidence \<Rightarrow> mutation_evidence \<Rightarrow> 'db \<Rightarrow> evidence_store_error + bool \<times> 'db"

definition decide :: "mutation_evidence option \<Rightarrow> mutation_decision" where
  "decide stored =
     (case stored of
        None \<Rightarrow> Submit
      | Some e \<Rightarrow>
          (case me_outcome e of
             NotDispatched \<Rightarrow> Submit
           | Unknown \<Rightarrow> Reconcile
           | _ \<Rightarrow> DoNotSubmit))"

definition mutation_decision ::
  "'db load_op \<Rightarrow> string \<Rightarrow> 'db \<Rightarrow> evidence_store_error + mutation_decision" where
  "mutation_decision load request_id db =
     and_then (load db request_id) (\<lambda>stored. Inr (decide stored))"

definition persist_before_dispatch ::
  "'db claim_op \<Rightarrow> string \<Rightarrow> string option \<Rightarrow> 'db
   \<Rightarrow> evidence_store_error + mutation_evidence \<times> 'db" where
  "persist_before_dispatch claim request_id correlation_id db =
     (let evidence = dispatched_unknown (prepared request_id) correlation_id
      in and_then (claim evidence db) (\<lambda>(won, db').
         if won then Inr (evidence, db')
         else Inl (StoreError
           ''mutation identity already dispatched; reconcile instead of resubmitting'')))"

text \<open>The part of \<open>persist_authoritative_outcome\<close> between its load and its compare-and-set: nothing to
  write, or the terminal evidence to replace the loaded one by.\<close>

definition authoritative_target ::
  "mutation_evidence \<Rightarrow> mutation_evidence \<Rightarrow> authoritative_mutation_outcome
   \<Rightarrow> evidence_store_error + mutation_evidence option" where
  "authoritative_target stored evidence authoritative =
     (let outcome = into_outcome authoritative in
      if me_outcome stored \<in> {mutation_outcome.Accepted, mutation_outcome.Rejected} then
        (if stored = evidence \<and> me_outcome stored = outcome then Inr None
         else Inl (StoreError ''terminal mutation evidence is immutable''))
      else if me_outcome stored \<noteq> Unknown then
        Inl (StoreError (''authoritative outcome cannot resolve '' @ outcome_debug (me_outcome stored)
          @ '' evidence''))
      else Inr (Some (evidence\<lparr>me_outcome := outcome\<rparr>)))"

definition persist_authoritative_outcome ::
  "'db load_op \<Rightarrow> 'db resolve_op \<Rightarrow> mutation_evidence \<Rightarrow> authoritative_mutation_outcome \<Rightarrow> 'db
   \<Rightarrow> evidence_store_error + mutation_evidence \<times> 'db" where
  "persist_authoritative_outcome load resolve evidence authoritative db =
     and_then (load db (me_client_request_id evidence)) (\<lambda>loaded.
     and_then (ok_or (StoreError ''mutation dispatch evidence is not persisted'') loaded) (\<lambda>stored.
     and_then (authoritative_target stored evidence authoritative) (\<lambda>target.
       case target of
         None \<Rightarrow> Inr (stored, db)
       | Some resolved \<Rightarrow>
           and_then (resolve stored resolved db) (\<lambda>(won, db').
             if won then Inr (resolved, db')
             else Inl (StoreError
               ''mutation evidence changed during authoritative reconciliation'')))))"

definition resolve_order_accepted ::
  "'db load_op \<Rightarrow> 'db resolve_op \<Rightarrow> string \<Rightarrow> string \<Rightarrow> 'db
   \<Rightarrow> evidence_store_error + mutation_evidence \<times> 'db" where
  "resolve_order_accepted load resolve request_id broker_order_id db =
     and_then (load db request_id) (\<lambda>loaded.
     and_then (ok_or (StoreError ''mutation dispatch evidence is not persisted'') loaded) (\<lambda>stored.
       if me_outcome stored \<noteq> Unknown then
         Inl (StoreError (''authoritative order readback cannot resolve ''
           @ outcome_debug (me_outcome stored) @ '' evidence''))
       else persist_authoritative_outcome load resolve (with_broker_order_id stored broker_order_id)
         authoritative_mutation_outcome.Accepted db))"

section \<open>The store of the tests\<close>

type_synonym harness = "string \<Rightarrow> mutation_evidence option"

definition harness_load :: "harness load_op" where
  "harness_load records request_id = Inr (records request_id)"

definition harness_persist :: "mutation_evidence \<Rightarrow> harness \<Rightarrow> evidence_store_error + harness" where
  "harness_persist evidence records = Inr (records(me_client_request_id evidence \<mapsto> evidence))"

definition harness_claim_dispatch :: "harness claim_op" where
  "harness_claim_dispatch evidence records =
     (case records (me_client_request_id evidence) of
        None \<Rightarrow> Inr (True, records(me_client_request_id evidence \<mapsto> evidence))
      | Some stored \<Rightarrow>
          if me_outcome stored = NotDispatched then
            Inr (True, records(me_client_request_id evidence \<mapsto> evidence))
          else Inr (False, records))"

definition harness_resolve_unknown :: "harness resolve_op" where
  "harness_resolve_unknown expected resolved records =
     (if records (me_client_request_id expected) \<noteq> Some expected then Inr (False, records)
      else Inr (True, records(me_client_request_id resolved \<mapsto> resolved)))"

section \<open>Runs of the protocol\<close>

text \<open>Processes that share a store: a claim, or a compare-and-set whose expected evidence was
  loaded at any earlier time.  \<open>protocol claim resolve i db n db'\<close> counts the dispatches of the
  identity \<open>i\<close>.\<close>

inductive protocol :: "'db claim_op \<Rightarrow> 'db resolve_op \<Rightarrow> string \<Rightarrow> 'db \<Rightarrow> nat \<Rightarrow> 'db \<Rightarrow> bool"
  for claim :: "'db claim_op" and resolve :: "'db resolve_op" and i :: string where
  start: "protocol claim resolve i db 0 db"
| claims: "protocol claim resolve i db n db1 \<Longrightarrow>
    persist_before_dispatch claim request corr db1 = Inr (e, db2) \<Longrightarrow>
    protocol claim resolve i db (n + (if request = i then 1 else 0)) db2"
| resolves: "protocol claim resolve i db n db1 \<Longrightarrow>
    authoritative_target stored ev out = Inr (Some e) \<Longrightarrow>
    me_client_request_id stored = me_client_request_id ev \<Longrightarrow>
    resolve stored e db1 = Inr (won, db2) \<Longrightarrow> protocol claim resolve i db n db2"

definition dispatched :: "'db load_op \<Rightarrow> string \<Rightarrow> 'db \<Rightarrow> bool" where
  "dispatched load i db \<longleftrightarrow> (\<exists>e. load db i = Inr (Some e) \<and> me_outcome e \<noteq> NotDispatched)"

section \<open>What a store promises\<close>

locale evidence_store =
  fixes load :: "'db \<Rightarrow> string \<Rightarrow> evidence_store_error + mutation_evidence option"
    and claim :: "mutation_evidence \<Rightarrow> 'db \<Rightarrow> evidence_store_error + bool \<times> 'db"
    and resolve :: "mutation_evidence \<Rightarrow> mutation_evidence \<Rightarrow> 'db \<Rightarrow> evidence_store_error + bool \<times> 'db"
  assumes claim_won: "claim e db = Inr (True, db') \<Longrightarrow>
      (\<exists>s. load db (me_client_request_id e) = Inr s \<and> decide s = Submit) \<and>
      load db' (me_client_request_id e) = Inr (Some e) \<and>
      (\<forall>i. i \<noteq> me_client_request_id e \<longrightarrow> load db' i = load db i)"
    and claim_lost: "claim e db = Inr (False, db') \<Longrightarrow> db' = db"
    and resolve_won: "resolve expected e db = Inr (True, db') \<Longrightarrow>
      load db (me_client_request_id expected) = Inr (Some expected) \<and>
      load db' (me_client_request_id e) = Inr (Some e) \<and>
      (\<forall>i. i \<noteq> me_client_request_id e \<longrightarrow> load db' i = load db i)"
    and resolve_lost: "resolve expected e db = Inr (False, db') \<Longrightarrow> db' = db"
begin

lemma claim_step:
  assumes "persist_before_dispatch claim request corr db = Inr (e, db')"
  shows "\<not> dispatched load request db" and "dispatched load request db'"
    and "i \<noteq> request \<Longrightarrow> load db' i = load db i"
proof -
  let ?e = "dispatched_unknown (prepared request) corr"
  have e: "me_client_request_id ?e = request" "me_outcome ?e = Unknown"
    by (simp_all add: dispatched_unknown_def prepared_def)
  have "claim ?e db = Inr (True, db')"
    using assms by (auto simp: persist_before_dispatch_def Let_def and_then_Inr split: if_splits)
  note c = claim_won [OF this, unfolded e]
  then obtain st where "load db request = Inr st" "decide st = Submit" by blast
  then show "\<not> dispatched load request db"
    by (auto simp: dispatched_def decide_def split: mutation_outcome.splits)
  show "dispatched load request db'" using c e(2) by (simp add: dispatched_def)
  show "load db' i = load db i" if "i \<noteq> request" using c that by simp
qed

lemma authoritative_target_terminal:
  "authoritative_target stored ev out = Inr (Some e) \<Longrightarrow>
   me_outcome stored = Unknown \<and> me_outcome e = into_outcome out \<and>
   me_client_request_id e = me_client_request_id ev"
  by (auto simp: authoritative_target_def Let_def split: if_splits)

lemma resolve_step:
  assumes "authoritative_target stored ev out = Inr (Some e)"
    and "me_client_request_id stored = me_client_request_id ev"
    and "resolve stored e db = Inr (won, db')"
  shows "dispatched load i db \<longleftrightarrow> dispatched load i db'"
    and "load db i = Inr (Some t) \<Longrightarrow> me_outcome t \<in> {mutation_outcome.Accepted, mutation_outcome.Rejected}
         \<Longrightarrow> load db' i = load db i"
proof -
  note t = authoritative_target_terminal [OF assms(1)]
  have out: "into_outcome out \<noteq> NotDispatched" by (cases out) auto
  have won: "load db (me_client_request_id e) = Inr (Some stored) \<and>
      load db' (me_client_request_id e) = Inr (Some e) \<and>
      (\<forall>i. i \<noteq> me_client_request_id e \<longrightarrow> load db' i = load db i)" if won
    using assms(2,3) resolve_won [of stored e db db'] t that by simp
  have lost: "db' = db" if "\<not> won"
    using assms(3) resolve_lost [of stored e db db'] that by simp
  show "dispatched load i db \<longleftrightarrow> dispatched load i db'"
  proof (cases "won \<and> i = me_client_request_id e")
    case True
    then have "load db i = Inr (Some stored)" "load db' i = Inr (Some e)" using won by simp_all
    then show ?thesis using t out by (simp add: dispatched_def)
  next
    case False
    then have "load db' i = load db i" using won lost by blast
    then show ?thesis by (simp add: dispatched_def)
  qed
  show "load db' i = load db i"
    if "load db i = Inr (Some t)" "me_outcome t \<in> {mutation_outcome.Accepted, mutation_outcome.Rejected}"
  proof (cases "won \<and> i = me_client_request_id e")
    case True
    then have "stored = t" using won that(1) by simp
    then show ?thesis using t that(2) by simp
  next
    case False
    then show ?thesis using won lost by blast
  qed
qed

lemma at_most_once:
  "protocol claim resolve i db n db' \<Longrightarrow>
   n = 0 \<and> dispatched load i db' = dispatched load i db \<or> n = 1 \<and> \<not> dispatched load i db \<and> dispatched load i db'"
proof (induction rule: protocol.induct)
  case (claims db n db1 request corr e db2)
  show ?case
  proof (cases "request = i")
    case True
    then show ?thesis using claims.IH claim_step(1,2) [OF claims.hyps(2)] by auto
  next
    case False
    then have "dispatched load i db2 = dispatched load i db1"
      using claim_step(3) [OF claims.hyps(2), of i] by (simp add: dispatched_def)
    then show ?thesis using claims.IH False by auto
  qed
next
  case (resolves db n db1 stored ev out e won db2)
  then show ?case using resolve_step(1) by blast
qed simp

lemma terminal_is_final:
  assumes "protocol claim resolve i db n db'" and "load db i = Inr (Some t)"
    and "me_outcome t \<in> {mutation_outcome.Accepted, mutation_outcome.Rejected}"
  shows "load db' i = Inr (Some t)"
  using assms
proof (induction rule: protocol.induct)
  case (claims db n db1 request corr e db2)
  then have l: "load db1 i = Inr (Some t)" by simp
  then have "dispatched load i db1" using claims.prems by (auto simp: dispatched_def)
  then have "request \<noteq> i" using claim_step(1) [OF claims.hyps(2)] by blast
  then show ?case using claim_step(3) [OF claims.hyps(2), of i] l by simp
next
  case (resolves db n db1 stored ev out e won db2)
  then show ?case using resolve_step(2) [OF resolves.hyps(2,3,4), of i t] by simp
qed simp

end

section \<open>The store of the tests keeps the promises\<close>

interpretation hs: evidence_store harness_load harness_claim_dispatch harness_resolve_unknown
  by unfold_locales
    (auto simp: harness_load_def harness_claim_dispatch_def harness_resolve_unknown_def decide_def
      split: option.splits if_splits)

section \<open>Properties\<close>

lemma dispatched_decision:
  "dispatched harness_load i db \<longleftrightarrow>
     mutation_decision harness_load i db \<in> {Inr Reconcile, Inr DoNotSubmit}"
  by (auto simp: dispatched_def mutation_decision_def harness_load_def decide_def
      split: option.splits mutation_outcome.splits)

text \<open>C4.  A mutation identity is dispatched at most once, however the processes that share the store
  interleave their claims and their reconciliations; and once it is dispatched the recovery
  decision is to reconcile or to leave it alone, never to submit.\<close>

theorem dispatched_at_most_once:
  assumes "protocol harness_claim_dispatch harness_resolve_unknown i db n db'"
  shows "n \<le> 1 \<and> (n = 1 \<or> dispatched harness_load i db \<longrightarrow>
    mutation_decision harness_load i db' \<in> {Inr Reconcile, Inr DoNotSubmit})"
  using hs.at_most_once [OF assms] dispatched_decision [of i db'] by auto

text \<open>C35.  Terminal evidence is immutable: no later claim or reconciliation of any process changes
  an accepted or a rejected mutation.\<close>

theorem terminal_evidence_immutable:
  assumes "protocol harness_claim_dispatch harness_resolve_unknown i db n db'"
    and "harness_load db i = Inr (Some t)"
    and "me_outcome t \<in> {mutation_outcome.Accepted, mutation_outcome.Rejected}"
  shows "harness_load db' i = Inr (Some t)"
  by (rule hs.terminal_is_final [OF assms])

section \<open>Witnesses\<close>

abbreviation sample_claimed :: harness where
  "sample_claimed \<equiv> [''r'' \<mapsto> dispatched_unknown (prepared ''r'') None]"

abbreviation sample_accepted :: mutation_evidence where
  "sample_accepted \<equiv> (dispatched_unknown (prepared ''r'') None)\<lparr>me_outcome := mutation_outcome.Accepted\<rparr>"

lemma sample_run:
  "protocol harness_claim_dispatch harness_resolve_unknown ''r'' Map.empty 1 sample_claimed"
proof -
  have "persist_before_dispatch harness_claim_dispatch ''r'' None Map.empty
      = Inr (dispatched_unknown (prepared ''r'') None, sample_claimed)"
    by (simp add: persist_before_dispatch_def harness_claim_dispatch_def dispatched_unknown_def
        prepared_def Let_def)
  from protocol.claims [OF protocol.start this, of harness_resolve_unknown "''r''"]
  show ?thesis by simp
qed

theorem dispatched_at_most_once_witness:
  "mutation_decision harness_load ''r'' sample_claimed \<in> {Inr Reconcile, Inr DoNotSubmit}"
  using dispatched_at_most_once [OF sample_run] by blast

theorem terminal_evidence_immutable_witness:
  "harness_load [''r'' \<mapsto> sample_accepted, ''q'' \<mapsto> dispatched_unknown (prepared ''q'') None] ''r''
     = Inr (Some sample_accepted)"
proof (rule terminal_evidence_immutable)
  have "persist_before_dispatch harness_claim_dispatch ''q'' None [''r'' \<mapsto> sample_accepted]
      = Inr (dispatched_unknown (prepared ''q'') None,
          [''r'' \<mapsto> sample_accepted, ''q'' \<mapsto> dispatched_unknown (prepared ''q'') None])"
    by (simp add: persist_before_dispatch_def harness_claim_dispatch_def dispatched_unknown_def
        prepared_def Let_def)
  from protocol.claims [OF protocol.start this, of harness_resolve_unknown "''r''"]
  show "protocol harness_claim_dispatch harness_resolve_unknown ''r'' [''r'' \<mapsto> sample_accepted]
      (0 + (if ''q'' = ''r'' then 1 else 0))
      [''r'' \<mapsto> sample_accepted, ''q'' \<mapsto> dispatched_unknown (prepared ''q'') None]" .
qed (simp_all add: harness_load_def)

end
