(* ===== verification/Domain_Execution.thy ===== *)
theory Domain_Execution
  imports Money
begin

text \<open>
  The provider-neutral execution vocabulary, \<open>crates/vox-domain/src/execution.rs\<close>, with the readiness
  machine of \<open>readiness.rs\<close> and the live-mutation guard of \<open>environment.rs\<close>: commands, protection
  plans and what a broker can establish of them, and the trailing-stop reference.
\<close>

section \<open>Environment\<close>

datatype environment = Sandbox | Paper | Live

record mutation_guard =
  mg_environment :: environment
  mg_live_mutations_enabled :: bool

datatype live_mutation_error = ExplicitEnablementRequired

definition mutation_guard_new :: "environment \<Rightarrow> mutation_guard" where
  "mutation_guard_new e = \<lparr>mg_environment = e, mg_live_mutations_enabled = False\<rparr>"

definition with_live_mutations_enabled :: "environment \<Rightarrow> mutation_guard" where
  "with_live_mutations_enabled e = \<lparr>mg_environment = e, mg_live_mutations_enabled = True\<rparr>"

definition authorize_read :: "mutation_guard \<Rightarrow> live_mutation_error + unit" where
  "authorize_read g = Inr ()"

definition authorize_mutation :: "mutation_guard \<Rightarrow> live_mutation_error + environment" where
  "authorize_mutation g =
     (case (mg_environment g, mg_live_mutations_enabled g) of
        (Live, False) \<Rightarrow> Inl ExplicitEnablementRequired
      | _ \<Rightarrow> Inr (mg_environment g))"

section \<open>Readiness\<close>

datatype readiness_state = Starting | Connecting | Reconciling | Ready | Degraded | Halted

record readiness =
  rd_state :: readiness_state
  rd_reason :: "string option"

record readiness_error =
  rde_from :: readiness_state
  rde_to :: readiness_state

definition readiness_default :: readiness where
  "readiness_default = \<lparr>rd_state = Starting, rd_reason = None\<rparr>"

definition can_open_new_exposure :: "readiness \<Rightarrow> bool" where
  "can_open_new_exposure r \<longleftrightarrow> rd_state r = Ready"

fun readiness_allowed :: "readiness_state \<Rightarrow> readiness_state \<Rightarrow> bool" where
  "readiness_allowed Starting t \<longleftrightarrow> t \<in> {Connecting, Halted}"
| "readiness_allowed Connecting t \<longleftrightarrow> t \<in> {Reconciling, Degraded, Halted}"
| "readiness_allowed Reconciling t \<longleftrightarrow> t \<in> {Ready, Degraded, Halted}"
| "readiness_allowed Ready t \<longleftrightarrow> t \<in> {Reconciling, Degraded, Halted}"
| "readiness_allowed Degraded t \<longleftrightarrow> t \<in> {Connecting, Reconciling, Halted}"
| "readiness_allowed Halted t \<longleftrightarrow> t = Connecting"

definition readiness_transition ::
  "readiness \<Rightarrow> readiness_state \<Rightarrow> string option \<Rightarrow> readiness_error + readiness" where
  "readiness_transition r target reason =
     (if rd_state r \<noteq> target \<and> \<not> readiness_allowed (rd_state r) target then
        Inl \<lparr>rde_from = rd_state r, rde_to = target\<rparr>
      else Inr (r\<lparr>rd_state := target, rd_reason := reason\<rparr>))"

section \<open>Commands\<close>

datatype execution_mutation_state =
    NotDispatched
  | Dispatching
  | Acknowledged
  | Rejected
  | UnknownAfterDispatch
  | ReconciledNonTerminal
  | ReconciledTerminal

definition state_permits_dispatch :: "execution_mutation_state \<Rightarrow> bool" where
  "state_permits_dispatch s \<longleftrightarrow> s = NotDispatched"

definition requires_authoritative_reconciliation :: "execution_mutation_state \<Rightarrow> bool" where
  "requires_authoritative_reconciliation s \<longleftrightarrow> s = UnknownAfterDispatch"

datatype position_side = Long | Short

datatype order_side = Buy | Sell

datatype regular_order_type = Limit | Market | BestPrice

datatype time_in_force = Day | FillAndKill | FillOrKill

datatype execution_price_convention = SettlementCurrency | Points

datatype provider_order_identity_kind = BrokerOrder | ClientRequest

record regular_order_command =
  ro_account_id :: string
  ro_instrument_id :: string
  ro_client_request_id :: string
  ro_quantity_lots :: int
  ro_price :: "fixed_point option"
  ro_price_convention :: execution_price_convention
  ro_side :: order_side
  ro_order_type :: regular_order_type
  ro_time_in_force :: "time_in_force option"
  ro_confirm_margin_trade :: bool

record replace_order_command =
  rp_account_id :: string
  rp_existing_order_id :: string
  rp_existing_order_id_kind :: "provider_order_identity_kind option"
  rp_replacement_request_id :: string
  rp_quantity_lots :: int
  rp_price :: fixed_point
  rp_price_convention :: execution_price_convention
  rp_confirm_margin_trade :: bool

record cancel_order_command =
  co_account_id :: string
  co_order_id :: string
  co_order_id_kind :: "provider_order_identity_kind option"

record cancel_stop_order_command =
  cs_account_id :: string
  cs_broker_stop_order_id :: string

section \<open>Protection\<close>

datatype trailing_distance_mode = AbsolutePrice | RelativePercent

record trailing_distance =
  td_value :: fixed_point
  td_mode :: trailing_distance_mode

text \<open>Fields: trigger price and limit price; distance, activation price, protective spread and instant
  execution.\<close>

datatype stop_loss_protection =
    Fixed fixed_point "fixed_point option"
  | Trailing trailing_distance "fixed_point option" "trailing_distance option" "bool option"

record take_profit_protection =
  tp_trigger_price :: "fixed_point option"
  tp_limit_price :: "fixed_point option"
  tp_trailing :: "trailing_distance option"

record protection_plan_spec =
  pp_stop_loss :: "stop_loss_protection option"
  pp_take_profit :: "take_profit_protection option"

datatype protection_leg = StopLoss stop_loss_protection | TakeProfit take_profit_protection

record protection_leg_command =
  pg_account_id :: string
  pg_instrument_id :: string
  pg_client_request_id :: string
  pg_quantity_lots :: int
  pg_position_side :: position_side
  pg_price_convention :: execution_price_convention
  pg_reference_price :: fixed_point
  pg_expire_at_unix_seconds :: "int option"
  pg_expire_at_nanos :: "int option"
  pg_confirm_margin_trade :: bool
  pg_leg :: protection_leg

datatype runtime_execution_command =
    RegularOrder regular_order_command
  | PostOrderAsync regular_order_command
  | ReplaceOrder replace_order_command
  | CancelOrder cancel_order_command
  | PostStopOrder protection_leg_command
  | CancelStopOrder cancel_stop_order_command
  | ProtectionLeg protection_leg_command

record protection_capability =
  pc_fixed_stop :: bool
  pc_native_trailing_relative :: bool
  pc_native_trailing_absolute :: bool
  pc_take_profit :: bool
  pc_stop_limit :: bool

datatype protection_capability_error =
    FixedStopUnsupported
  | StopLimitUnsupported
  | TakeProfitUnsupported
  | NativeRelativeTrailingUnsupported
  | NativeAbsoluteTrailingUnsupported

definition validate_trailing ::
  "protection_capability \<Rightarrow> trailing_distance_mode \<Rightarrow> protection_capability_error + unit" where
  "validate_trailing c mode =
     (case mode of
        RelativePercent \<Rightarrow>
          if \<not> pc_native_trailing_relative c then Inl NativeRelativeTrailingUnsupported else Inr ()
      | AbsolutePrice \<Rightarrow>
          if \<not> pc_native_trailing_absolute c then Inl NativeAbsoluteTrailingUnsupported else Inr ())"

definition validate_stop_loss ::
  "protection_capability \<Rightarrow> stop_loss_protection option \<Rightarrow> protection_capability_error + unit" where
  "validate_stop_loss c stop =
     (case stop of
        None \<Rightarrow> Inr ()
      | Some (Fixed trigger limit) \<Rightarrow>
          if \<not> pc_fixed_stop c then Inl FixedStopUnsupported
          else if limit \<noteq> None \<and> \<not> pc_stop_limit c then Inl StopLimitUnsupported
          else Inr ()
      | Some (Trailing distance activation spread instant) \<Rightarrow> validate_trailing c (td_mode distance))"

definition validate_take_profit ::
  "protection_capability \<Rightarrow> take_profit_protection option \<Rightarrow> protection_capability_error + unit" where
  "validate_take_profit c take_profit =
     (case take_profit of
        None \<Rightarrow> Inr ()
      | Some tp \<Rightarrow>
          if \<not> pc_take_profit c then Inl TakeProfitUnsupported
          else if tp_limit_price tp \<noteq> None \<and> \<not> pc_stop_limit c then Inl StopLimitUnsupported
          else case tp_trailing tp of
            None \<Rightarrow> Inr ()
          | Some trailing \<Rightarrow> validate_trailing c (td_mode trailing))"

definition validate_capability ::
  "protection_capability \<Rightarrow> protection_plan_spec \<Rightarrow> protection_capability_error + unit" where
  "validate_capability c plan =
     and_then (validate_stop_loss c (pp_stop_loss plan)) (\<lambda>_.
     validate_take_profit c (pp_take_profit plan))"

text \<open>Fields of \<open>EntryPartiallyFilled\<close>: filled and protected lots.\<close>

datatype protection_establishment_state =
    AwaitingEntry
  | EntryPartiallyFilled int int
  | Establishing
  | Active
  | FailedAfterEntry string
  | UnknownAfterDispatch
  | ReconciliationRequired
  | ClosingPosition
  | Orphaned
  | Terminal

definition establishment_permits_additional_exposure :: "protection_establishment_state \<Rightarrow> bool" where
  "establishment_permits_additional_exposure s \<longleftrightarrow> s = Active"

section \<open>Trailing reference\<close>

record trailing_semantic_reference =
  tr_side :: position_side
  tr_distance :: trailing_distance
  tr_favorable_extreme :: fixed_point

definition trailing_new ::
  "position_side \<Rightarrow> fixed_point \<Rightarrow> trailing_distance \<Rightarrow> trailing_semantic_reference" where
  "trailing_new side reference distance =
     \<lparr>tr_side = side, tr_distance = distance, tr_favorable_extreme = reference\<rparr>"

definition observe ::
  "trailing_semantic_reference \<Rightarrow> fixed_point \<Rightarrow> trailing_semantic_reference" where
  "observe t price =
     (let favorable = (case tr_side t of
          Long \<Rightarrow> total_nanos price > total_nanos (tr_favorable_extreme t)
        | Short \<Rightarrow> total_nanos price < total_nanos (tr_favorable_extreme t))
      in if favorable then t\<lparr>tr_favorable_extreme := price\<rparr> else t)"

definition threshold :: "trailing_semantic_reference \<Rightarrow> fixed_point option" where
  "threshold t =
     (let extreme = total_nanos (tr_favorable_extreme t);
          distance = total_nanos (td_value (tr_distance t))
      in Option.bind
        (case td_mode (tr_distance t) of
           AbsolutePrice \<Rightarrow> Some distance
         | RelativePercent \<Rightarrow>
             Option.bind (checked_i128 (extreme * distance)) (\<lambda>v. checked_i128 (v sdiv 100000000000)))
        (\<lambda>delta. Option.bind
          (case tr_side t of
             Long \<Rightarrow> checked_i128 (extreme - delta)
           | Short \<Rightarrow> checked_i128 (extreme + delta))
          (\<lambda>v. Some (FixedPoint v))))"

section \<open>Properties of the trailing reference\<close>

lemma observe_side [simp]:
  "tr_side (observe t p) = tr_side t" "tr_distance (observe t p) = tr_distance t"
  by (simp_all add: observe_def Let_def)

lemma observe_extreme:
  "total_nanos (tr_favorable_extreme (observe t p)) =
     (case tr_side t of
        Long \<Rightarrow> max (total_nanos (tr_favorable_extreme t)) (total_nanos p)
      | Short \<Rightarrow> min (total_nanos (tr_favorable_extreme t)) (total_nanos p))"
  by (auto simp: observe_def Let_def split: position_side.splits)

text \<open>The threshold as a function of the favourable extreme.\<close>

definition trail :: "position_side \<Rightarrow> trailing_distance \<Rightarrow> int \<Rightarrow> int" where
  "trail side d extreme =
     (let delta = (case td_mode d of
          AbsolutePrice \<Rightarrow> total_nanos (td_value d)
        | RelativePercent \<Rightarrow> extreme * total_nanos (td_value d) sdiv 100000000000)
      in case side of Long \<Rightarrow> extreme - delta | Short \<Rightarrow> extreme + delta)"

lemma threshold_trail:
  "threshold t = Some v \<Longrightarrow>
   total_nanos v = trail (tr_side t) (tr_distance t) (total_nanos (tr_favorable_extreme t))"
  by (auto simp: threshold_def trail_def Let_def bind_eq_Some_conv
      split: trailing_distance_mode.splits position_side.splits)

text \<open>A distance a broker would accept: not negative, and no more than the whole price.\<close>

definition sane_distance :: "trailing_distance \<Rightarrow> bool" where
  "sane_distance d \<longleftrightarrow> 0 \<le> total_nanos (td_value d) \<and>
     (td_mode d = RelativePercent \<longrightarrow> total_nanos (td_value d) \<le> 100000000000)"

lemma div_lipschitz:
  assumes "0 \<le> d" and "d \<le> (n::int)" and "0 < n" and "a \<le> b"
  shows "b * d div n \<le> a * d div n + (b - a)"
proof -
  have "(b - a) * d \<le> (b - a) * n" using assms by (intro mult_left_mono) auto
  then have "b * d \<le> a * d + (b - a) * n" by (simp add: algebra_simps)
  then have "b * d div n \<le> (a * d + (b - a) * n) div n" using assms(3) by (rule zdiv_mono1)
  also have "\<dots> = a * d div n + (b - a)" using assms(3) by simp
  finally show ?thesis .
qed

lemma trail_mono:
  assumes "sane_distance d" and "0 \<le> a" and "a \<le> b"
  shows "trail side d a \<le> trail side d b"
proof (cases "td_mode d")
  case AbsolutePrice
  then show ?thesis using assms(3) by (simp add: trail_def Let_def split: position_side.split)
next
  case RelativePercent
  let ?d = "total_nanos (td_value d)"
  have d: "0 \<le> ?d" "?d \<le> 100000000000" using assms(1) RelativePercent by (simp_all add: sane_distance_def)
  have eq: "x * ?d sdiv 100000000000 = x * ?d div 100000000000" if "0 \<le> x" for x
    using that d by (simp add: sdiv_nonneg_eq_div)
  have "a * ?d div 100000000000 \<le> b * ?d div 100000000000"
    using assms(3) d by (simp add: mult_right_mono zdiv_mono1)
  moreover have "b * ?d div 100000000000 \<le> a * ?d div 100000000000 + (b - a)"
    using div_lipschitz [OF d _ assms(3)] by simp
  ultimately show ?thesis
    using RelativePercent eq [of a] eq [of b] assms(2,3)
    by (simp add: trail_def Let_def split: position_side.split)
qed

lemma observes_extreme:
  "total_nanos (tr_favorable_extreme (foldl observe t ps)) =
     (case tr_side t of
        Long \<Rightarrow> foldl max (total_nanos (tr_favorable_extreme t)) (map total_nanos ps)
      | Short \<Rightarrow> foldl min (total_nanos (tr_favorable_extreme t)) (map total_nanos ps))"
  by (induction ps arbitrary: t) (auto simp: observe_extreme split: position_side.splits)

lemma foldl_max_ge: "x \<le> foldl max x (xs :: int list)"
  by (induction xs arbitrary: x) (auto intro: order_trans [OF max.cobounded1])

lemma foldl_min_le: "foldl min x (xs :: int list) \<le> x"
  by (induction xs arbitrary: x) (auto intro: order_trans [OF _ min.cobounded1])

lemma foldl_min_nonneg: "0 \<le> x \<Longrightarrow> (\<And>y. y \<in> set ys \<Longrightarrow> 0 \<le> y) \<Longrightarrow> 0 \<le> foldl min x (ys :: int list)"
  by (induction ys arbitrary: x) auto

lemma observes_side [simp]:
  "tr_side (foldl observe t ps) = tr_side t" "tr_distance (foldl observe t ps) = tr_distance t"
  by (induction ps arbitrary: t) simp_all



section \<open>Properties of readiness and environment\<close>



end
