(* ===== verification/Risk_Model.thy ===== *)
theory Risk_Model
  imports Vox_Prelude
begin

text \<open>
  The vocabulary of the pre-trade risk component, \<open>crates/vox-risk/src/model.rs\<close>: outcomes,
  states, reasons, the broker facts of a snapshot, the request, the policy, the decision, the
  reservation and the protection plan.  Field names carry a short prefix per struct; UUIDs, which
  the source draws at random, are arguments.
\<close>

section \<open>Enumerations\<close>

datatype risk_outcome = Approve | Resize | Reject | ReduceOnly | Halt

datatype risk_state = Normal | Warning | ReduceOnly | Halted | KillSwitch

definition risk_state_default :: risk_state where
  "risk_state_default = Normal"

datatype risk_source = Manual | Strategy | Ml | Ai | EmergencyOperator

datatype risk_action_kind =
    DirectionalOrder
  | ReplaceDirectionalOrder
  | CancelOrder
  | ProtectionMaintenance
  | CancelProtection

datatype risk_reason_code =
    Approved
  | ResizedToProviderLimit
  | ResizedToPolicyLimit
  | InvalidQuantity
  | InstrumentUnavailable
  | InstrumentNotTradable
  | PriceUnavailable
  | PositionLotMismatch
  | CriticalInputMissing
  | RuntimeNotReady
  | ExecutionUnauthorized
  | AuthorizationRevisionChanged
  | PolicyRevisionChanged
  | ReconciliationRevisionChanged
  | PositionRevisionChanged
  | OrderRevisionChanged
  | InstrumentConstraintRevisionChanged
  | MarketDataMissing
  | MarketDataStale
  | UnknownMutationConflict
  | ReduceOnly
  | Halted
  | MarginNotAllowed
  | MarginConfirmationRequired
  | MarginUtilizationExceeded
  | ProviderLimitUnavailable
  | ProviderLimitExceeded
  | MaxSingleOrderExceeded
  | MaxPositionExceeded
  | MaxGrossExposureExceeded
  | MaxNetExposureExceeded
  | MaxInstrumentExposureExceeded
  | DailyLossExceeded
  | ProtectionRequired
  | KillSwitchActive
  | PersistenceFailure

datatype reservation_state =
  Active | PartiallyConsumed | Consumed | Released | UnknownHeld | Orphaned

datatype protection_plan_state =
    Planned | Submitted | Active | PartialCoverage | FullCoverage | Cancelled | Failed | Stale

section \<open>Records\<close>

record risk_reason =
  rr_code :: risk_reason_code
  rr_message :: string

record buy_lot_limit =
  bl_max_lots :: int
  bl_max_market_lots :: int

record sell_lot_limit =
  sl_max_lots :: int

record broker_lot_limits =
  ll_buy_own :: "buy_lot_limit option"
  ll_buy_margin :: "buy_lot_limit option"
  ll_sell_own :: "sell_lot_limit option"
  ll_sell_margin :: "sell_lot_limit option"

record broker_margin_facts =
  mf_liquid_portfolio_nanos :: int
  mf_starting_margin_nanos :: int
  mf_minimal_margin_nanos :: int
  mf_corrected_margin_nanos :: int
  mf_funds_sufficiency_ppm :: "int option"
  mf_amount_of_missing_funds_nanos :: int
  mf_guarantee_for_futures_nanos :: int
  mf_broker_as_of_unix_ms :: int

record risk_validity_context =
  vc_runtime_epoch :: int
  vc_reconciliation_revision :: int
  vc_position_revision :: int
  vc_order_revision :: int
  vc_market_data_as_of_unix_ms :: "int option"
  vc_instrument_constraints_revision :: int
  vc_policy_revision :: int
  vc_execution_authorization_revision :: int

record risk_protection_status =
  ps_active_stop_lots :: int
  ps_position_lots :: int
  ps_position_entered_at_unix_ms :: "int option"
  ps_plan_id :: "string option"
  ps_plan_state :: "protection_plan_state option"

record risk_snapshot =
  sn_runtime_ready :: bool
  sn_execution_authorized :: bool
  sn_instrument_tradable :: bool
  sn_instrument_lot_size :: int
  sn_unresolved_unknown_conflict :: bool
  sn_current_position_lots :: int
  sn_open_order_delta_lots :: int
  sn_unresolved_unknown_delta_lots :: int
  sn_active_reservation_delta_lots :: int
  sn_gross_exposure_nanos :: "int option"
  sn_net_exposure_nanos :: "int option"
  sn_instrument_exposure_nanos :: "int option"
  sn_broker_daily_pnl_nanos :: "int option"
  sn_broker_lot_limits :: "broker_lot_limits option"
  sn_margin :: "broker_margin_facts option"
  sn_protection :: risk_protection_status
  sn_validity :: risk_validity_context

record risk_request =
  rq_request_id :: string
  rq_account_id :: string
  rq_broker_connection_id :: string
  rq_instrument_id :: string
  rq_strategy_id :: "string option"
  rq_source :: risk_source
  rq_action :: risk_action_kind
  rq_requested_delta_lots :: int
  rq_requested_notional_nanos :: int
  rq_is_market_order :: bool
  rq_confirm_margin_trade :: bool
  rq_emergency_reduction :: bool
  rq_now_unix_ms :: int
  rq_snapshot :: risk_snapshot

record risk_policy_set =
  pol_revision :: int
  pol_state :: risk_state
  pol_allow_margin :: bool
  pol_require_provider_lot_limit :: bool
  pol_max_market_data_age_ms :: "int option"
  pol_max_single_order_lots :: "int option"
  pol_max_position_abs_lots :: "int option"
  pol_max_gross_exposure_nanos :: "int option"
  pol_max_net_exposure_abs_nanos :: "int option"
  pol_max_instrument_exposure_nanos :: "int option"
  pol_max_margin_utilization_ppm :: "int option"
  pol_max_daily_loss_nanos :: "int option"
  pol_protection_required_for_new_exposure :: bool
  pol_max_unprotected_duration_ms :: "int option"

record risk_decision =
  dec_decision_id :: string
  dec_request_id :: string
  dec_policy_revision :: int
  dec_account_id :: string
  dec_action :: risk_action_kind
  dec_requested_delta_lots :: int
  dec_approved_delta_lots :: int
  dec_outcome :: risk_outcome
  dec_reasons :: "risk_reason list"
  dec_reservation_id :: "string option"
  dec_expires_at_unix_ms :: "int option"
  dec_validity :: risk_validity_context

record risk_reservation =
  res_reservation_id :: string
  res_account_id :: string
  res_instrument_id :: string
  res_strategy_id :: "string option"
  res_source :: risk_source
  res_logical_request_id :: string
  res_reserved_delta_lots :: int
  res_remaining_delta_lots :: int
  res_reserved_notional_nanos :: int
  res_state :: reservation_state
  res_created_at_unix_ms :: int
  res_updated_at_unix_ms :: int
  res_expires_at_unix_ms :: "int option"

record risk_policy_row =
  pr_revision :: int
  pr_state :: risk_state
  pr_allow_margin :: bool
  pr_require_provider_lot_limit :: bool
  pr_max_market_data_age_ms :: "int option"
  pr_max_single_order_lots :: "int option"
  pr_max_position_abs_lots :: "int option"
  pr_max_gross_exposure_nanos :: "int option"
  pr_max_net_exposure_abs_nanos :: "int option"
  pr_max_instrument_exposure_nanos :: "int option"
  pr_max_margin_utilization_ppm :: "int option"
  pr_max_daily_loss_nanos :: "int option"
  pr_protection_required_for_new_exposure :: bool
  pr_max_unprotected_duration_ms :: "int option"
  pr_updated_at_unix_ms :: int

record account_risk_state_row =
  as_account_id :: string
  as_state :: risk_state
  as_reduce_only :: bool
  as_halted :: bool
  as_max_position_abs_lots :: "int option"
  as_max_daily_loss_nanos :: "int option"
  as_updated_at_unix_ms :: int

record strategy_risk_state_row =
  ss_strategy_id :: string
  ss_account_id :: string
  ss_state :: risk_state
  ss_reduce_only :: bool
  ss_halted :: bool
  ss_max_position_abs_lots :: "int option"
  ss_updated_at_unix_ms :: int

record global_risk_state_row =
  gs_kill_switch :: bool
  gs_updated_at_unix_ms :: int

record risk_protection_plan_row =
  pl_plan_id :: string
  pl_account_id :: string
  pl_instrument_id :: string
  pl_strategy_id :: "string option"
  pl_reservation_id :: string
  pl_protected_delta_lots :: int
  pl_state :: protection_plan_state
  pl_created_at_unix_ms :: int
  pl_updated_at_unix_ms :: int

section \<open>Operations\<close>

definition risk_reason_new :: "risk_reason_code \<Rightarrow> string \<Rightarrow> risk_reason" where
  "risk_reason_new code message = \<lparr>rr_code = code, rr_message = message\<rparr>"

definition uncovered_abs_lots :: "risk_protection_status \<Rightarrow> int" where
  "uncovered_abs_lots p =
     (let position = \<bar>ps_position_lots p\<bar>;
          covered = min \<bar>ps_active_stop_lots p\<bar> position
      in wrap_i64 (position - covered))"

definition full_coverage :: "risk_protection_status \<Rightarrow> bool" where
  "full_coverage p \<longleftrightarrow> ps_position_lots p \<noteq> 0 \<and> uncovered_abs_lots p = 0"

definition partial_coverage :: "risk_protection_status \<Rightarrow> bool" where
  "partial_coverage p \<longleftrightarrow>
     ps_position_lots p \<noteq> 0 \<and> ps_active_stop_lots p \<noteq> 0 \<and> \<not> full_coverage p"

definition fail_closed :: "int \<Rightarrow> risk_policy_set" where
  "fail_closed revision =
     \<lparr>pol_revision = revision,
      pol_state = risk_state.ReduceOnly,
      pol_allow_margin = False,
      pol_require_provider_lot_limit = True,
      pol_max_market_data_age_ms = Some 0,
      pol_max_single_order_lots = None,
      pol_max_position_abs_lots = None,
      pol_max_gross_exposure_nanos = None,
      pol_max_net_exposure_abs_nanos = None,
      pol_max_instrument_exposure_nanos = None,
      pol_max_margin_utilization_ppm = None,
      pol_max_daily_loss_nanos = None,
      pol_protection_required_for_new_exposure = False,
      pol_max_unprotected_duration_ms = None\<rparr>"

definition directional_action :: "risk_action_kind \<Rightarrow> bool" where
  "directional_action a \<longleftrightarrow> a = DirectionalOrder \<or> a = ReplaceDirectionalOrder"

definition risk_decision_new_id :: "string \<Rightarrow> string" where
  "risk_decision_new_id uuid = ''risk-decision:'' @ uuid"

definition permits_dispatch :: "risk_decision \<Rightarrow> bool" where
  "permits_dispatch d \<longleftrightarrow>
     (if dec_outcome d \<noteq> Approve \<and> dec_outcome d \<noteq> Resize then False
      else case dec_action d of
        DirectionalOrder \<Rightarrow> dec_approved_delta_lots d \<noteq> 0
      | ReplaceDirectionalOrder \<Rightarrow> dec_approved_delta_lots d \<noteq> 0
      | CancelOrder \<Rightarrow> dec_approved_delta_lots d = 0
      | ProtectionMaintenance \<Rightarrow> dec_approved_delta_lots d = 0
      | CancelProtection \<Rightarrow> dec_approved_delta_lots d = 0)"

definition risk_reservation_new_id :: "string \<Rightarrow> string" where
  "risk_reservation_new_id uuid = ''risk-reservation:'' @ uuid"

definition permits_additional_exposure :: "protection_plan_state \<Rightarrow> bool" where
  "permits_additional_exposure s \<longleftrightarrow>
     s = protection_plan_state.Active \<or> s = FullCoverage \<or> s = PartialCoverage"

definition plan_terminal :: "protection_plan_state \<Rightarrow> bool" where
  "plan_terminal s \<longleftrightarrow> s = Cancelled \<or> s = Failed \<or> s = Stale"

definition protection_plan_state_default :: protection_plan_state where
  "protection_plan_state_default = Planned"

definition risk_protection_plan_new_id :: "string \<Rightarrow> string" where
  "risk_protection_plan_new_id uuid = ''risk-protection-plan:'' @ uuid"

definition from_policy :: "risk_policy_set \<Rightarrow> int \<Rightarrow> risk_policy_row" where
  "from_policy p now =
     \<lparr>pr_revision = pol_revision p,
      pr_state = pol_state p,
      pr_allow_margin = pol_allow_margin p,
      pr_require_provider_lot_limit = pol_require_provider_lot_limit p,
      pr_max_market_data_age_ms = pol_max_market_data_age_ms p,
      pr_max_single_order_lots = pol_max_single_order_lots p,
      pr_max_position_abs_lots = pol_max_position_abs_lots p,
      pr_max_gross_exposure_nanos = pol_max_gross_exposure_nanos p,
      pr_max_net_exposure_abs_nanos = pol_max_net_exposure_abs_nanos p,
      pr_max_instrument_exposure_nanos = pol_max_instrument_exposure_nanos p,
      pr_max_margin_utilization_ppm = pol_max_margin_utilization_ppm p,
      pr_max_daily_loss_nanos = pol_max_daily_loss_nanos p,
      pr_protection_required_for_new_exposure = pol_protection_required_for_new_exposure p,
      pr_max_unprotected_duration_ms = pol_max_unprotected_duration_ms p,
      pr_updated_at_unix_ms = now\<rparr>"

definition into_policy :: "risk_policy_row \<Rightarrow> risk_policy_set" where
  "into_policy r =
     \<lparr>pol_revision = pr_revision r,
      pol_state = pr_state r,
      pol_allow_margin = pr_allow_margin r,
      pol_require_provider_lot_limit = pr_require_provider_lot_limit r,
      pol_max_market_data_age_ms = pr_max_market_data_age_ms r,
      pol_max_single_order_lots = pr_max_single_order_lots r,
      pol_max_position_abs_lots = pr_max_position_abs_lots r,
      pol_max_gross_exposure_nanos = pr_max_gross_exposure_nanos r,
      pol_max_net_exposure_abs_nanos = pr_max_net_exposure_abs_nanos r,
      pol_max_instrument_exposure_nanos = pr_max_instrument_exposure_nanos r,
      pol_max_margin_utilization_ppm = pr_max_margin_utilization_ppm r,
      pol_max_daily_loss_nanos = pr_max_daily_loss_nanos r,
      pol_protection_required_for_new_exposure = pr_protection_required_for_new_exposure r,
      pol_max_unprotected_duration_ms = pr_max_unprotected_duration_ms r\<rparr>"

section \<open>Properties of the vocabulary\<close>

lemma into_from_policy [simp]: "into_policy (from_policy p now) = p"
  by (simp add: into_policy_def from_policy_def)

lemma permits_dispatch_outcome: "permits_dispatch d \<Longrightarrow> dec_outcome d \<in> {Approve, Resize}"
  by (auto simp: permits_dispatch_def split: if_splits)

lemma permits_dispatch_directional:
  "permits_dispatch d \<Longrightarrow> directional_action (dec_action d) \<longleftrightarrow> dec_approved_delta_lots d \<noteq> 0"
  by (auto simp: permits_dispatch_def directional_action_def split: if_splits risk_action_kind.splits)

text \<open>With the position in the range of an \<open>i64\<close> other than its minimum, the uncovered lots are
  the part of the position no stop covers.\<close>

lemma uncovered_abs_lots_exact:
  assumes "in_i64 (- ps_position_lots p)" and "in_i64 (ps_position_lots p)"
  shows "uncovered_abs_lots p = max 0 (\<bar>ps_position_lots p\<bar> - \<bar>ps_active_stop_lots p\<bar>)"
proof -
  have "in_i64 (\<bar>ps_position_lots p\<bar> - min \<bar>ps_active_stop_lots p\<bar> \<bar>ps_position_lots p\<bar>)"
    using assms by (auto simp: in_i64_def min_def abs_if)
  then show ?thesis
    by (simp add: uncovered_abs_lots_def wrap_i64_id min_def max_def)
qed

end
