(* ===== verification/Risk_Engine.thy ===== *)
theory Risk_Engine
  imports Risk_Model
begin

text \<open>
  The pre-trade evaluation, \<open>crates/vox-risk/src/engine.rs\<close>.  \<open>RiskEngine::evaluate\<close> is one long
  function of guards that return early; each guard is a definition here, in the order of the
  source, and \<open>evaluate\<close> composes them.  A guard returns \<open>Inl e\<close> for the \<open>Err\<close> of the source,
  \<open>Inr (Some d)\<close> for an early \<open>return Ok(d)\<close>, and \<open>Inr None\<close> when control falls through.
  Logging and the elapsed-time measurement are left out; the random part of a decision identity
  is the argument \<open>uuid\<close>.
\<close>

section \<open>Errors, rejections and guards\<close>

datatype risk_engine_error =
    ArithmeticOverflow
  | InvalidPolicy string
  | InvalidProviderFact string

type_synonym gate = "risk_engine_error + risk_decision option"

definition gate_then :: "gate \<Rightarrow> risk_engine_error + risk_decision \<Rightarrow> risk_engine_error + risk_decision"
  where
  "gate_then g k =
     (case g of
        Inl e \<Rightarrow> Inl e
      | Inr (Some d) \<Rightarrow> Inr d
      | Inr None \<Rightarrow> k)"

definition reject ::
  "string \<Rightarrow> risk_policy_set \<Rightarrow> risk_request \<Rightarrow> risk_outcome \<Rightarrow> risk_reason_code \<Rightarrow> string
   \<Rightarrow> risk_decision" where
  "reject uuid policy request outcome code message =
     \<lparr>dec_decision_id = risk_decision_new_id uuid,
      dec_request_id = rq_request_id request,
      dec_policy_revision = pol_revision policy,
      dec_account_id = rq_account_id request,
      dec_action = rq_action request,
      dec_requested_delta_lots = rq_requested_delta_lots request,
      dec_approved_delta_lots = 0,
      dec_outcome = outcome,
      dec_reasons = [risk_reason_new code message],
      dec_reservation_id = None,
      dec_expires_at_unix_ms = None,
      dec_validity = sn_validity (rq_snapshot request)\<rparr>"

section \<open>Arithmetic helpers\<close>

definition checked_abs :: "int \<Rightarrow> risk_engine_error + int" where
  "checked_abs v = ok_or ArithmeticOverflow (checked_i128 \<bar>v\<bar>)"

definition positive_limit :: "int \<Rightarrow> string \<Rightarrow> risk_engine_error + int" where
  "positive_limit v field = (if v \<le> 0 then Inl (InvalidPolicy field) else Inr v)"

definition increasing_portion :: "int \<Rightarrow> int \<Rightarrow> risk_engine_error + int" where
  "increasing_portion base delta =
     (if delta = 0 then Inr 0
      else if base = 0 \<or> sgn base = sgn delta then
        ok_or ArithmeticOverflow (checked_i64 \<bar>delta\<bar>)
      else
        and_then (ok_or ArithmeticOverflow (checked_i64 \<bar>base\<bar>)) (\<lambda>base_abs.
        and_then (ok_or ArithmeticOverflow (checked_i64 \<bar>delta\<bar>)) (\<lambda>delta_abs.
        Inr (sat_i64 (delta_abs - base_abs)))))"

definition selected_buy_limit :: "buy_lot_limit \<Rightarrow> bool \<Rightarrow> risk_engine_error + int" where
  "selected_buy_limit limit market =
     (let v = (if market then bl_max_market_lots limit else bl_max_lots limit)
      in if v < 0 then Inl (InvalidProviderFact ''broker buy max-lots value cannot be negative'')
         else Inr v)"

definition selected_sell_limit :: "sell_lot_limit \<Rightarrow> risk_engine_error + int" where
  "selected_sell_limit limit =
     (let v = sl_max_lots limit
      in if v < 0 then Inl (InvalidProviderFact ''broker sell max-lots value cannot be negative'')
         else Inr v)"

definition provider_limit :: "risk_policy_set \<Rightarrow> risk_request \<Rightarrow> risk_engine_error + int option" where
  "provider_limit policy request =
     (case sn_broker_lot_limits (rq_snapshot request) of
        None \<Rightarrow> Inr None
      | Some limits \<Rightarrow>
          let wants_margin = rq_confirm_margin_trade request
          in if wants_margin \<and> \<not> pol_allow_margin policy then Inr None
             else if rq_requested_delta_lots request > 0 then
               transpose_map (\<lambda>l. selected_buy_limit l (rq_is_market_order request))
                 (if wants_margin then ll_buy_margin limits else ll_buy_own limits)
             else
               transpose_map selected_sell_limit
                 (if wants_margin then ll_sell_margin limits else ll_sell_own limits))"

section \<open>Guards\<close>

definition gate_request_shape :: "string \<Rightarrow> risk_policy_set \<Rightarrow> risk_request \<Rightarrow> gate" where
  "gate_request_shape uuid policy request =
     (let directional = directional_action (rq_action request) in
      if directional \<and> rq_requested_delta_lots request = 0 then
        Inr (Some (reject uuid policy request Reject InvalidQuantity
          ''directional risk request quantity must be non-zero''))
      else if \<not> directional \<and> rq_requested_delta_lots request \<noteq> 0 then
        Inr (Some (reject uuid policy request Reject InvalidQuantity
          ''non-directional risk action must not carry directional exposure''))
      else if directional \<and> sn_instrument_lot_size (rq_snapshot request) \<le> 0 then
        Inr (Some (reject uuid policy request Reject InstrumentUnavailable
          ''instrument lot contract is unavailable''))
      else if directional \<and> \<not> sn_instrument_tradable (rq_snapshot request) then
        Inr (Some (reject uuid policy request Reject InstrumentNotTradable
          ''broker instrument constraints forbid this order''))
      else Inr None)"

definition gate_policy_revision :: "string \<Rightarrow> risk_policy_set \<Rightarrow> risk_request \<Rightarrow> gate" where
  "gate_policy_revision uuid policy request =
     (if vc_policy_revision (sn_validity (rq_snapshot request)) \<noteq> pol_revision policy then
        Inr (Some (reject uuid policy request Reject PolicyRevisionChanged
          ''risk policy revision changed before evaluation''))
      else Inr None)"

definition cleanup_action :: "risk_action_kind \<Rightarrow> bool" where
  "cleanup_action a \<longleftrightarrow> a = CancelOrder \<or> a = ProtectionMaintenance \<or> a = CancelProtection"

definition gate_runtime :: "string \<Rightarrow> risk_policy_set \<Rightarrow> risk_request \<Rightarrow> gate" where
  "gate_runtime uuid policy request =
     (let cleanup = cleanup_action (rq_action request); snapshot = rq_snapshot request in
      if \<not> sn_runtime_ready snapshot \<and> \<not> cleanup then
        Inr (Some (reject uuid policy request Halt RuntimeNotReady ''runtime is not READY''))
      else if \<not> sn_execution_authorized snapshot then
        Inr (Some (reject uuid policy request Reject ExecutionUnauthorized
          ''Vox execution authorization is disabled''))
      else if sn_unresolved_unknown_conflict snapshot \<and> \<not> cleanup then
        Inr (Some (reject uuid policy request Halt UnknownMutationConflict
          ''conflicting UNKNOWN_AFTER_DISPATCH mutation exists''))
      else Inr None)"

definition engine_base_position :: "risk_snapshot \<Rightarrow> risk_engine_error + int" where
  "engine_base_position s =
     ok_or ArithmeticOverflow
       (Option.bind (checked_i64 (sn_current_position_lots s + sn_open_order_delta_lots s)) (\<lambda>v.
        Option.bind (checked_i64 (v + sn_unresolved_unknown_delta_lots s)) (\<lambda>v.
        checked_i64 (v + sn_active_reservation_delta_lots s))))"

definition gate_policy_state :: "string \<Rightarrow> risk_policy_set \<Rightarrow> risk_request \<Rightarrow> int \<Rightarrow> gate" where
  "gate_policy_state uuid policy request increasing_lots =
     (let cleanup = cleanup_action (rq_action request);
          blocked = \<not> (rq_emergency_reduction request \<and> increasing_lots = 0) \<and> \<not> cleanup
      in case pol_state policy of
        risk_state.KillSwitch \<Rightarrow>
          if blocked then
            Inr (Some (reject uuid policy request Halt KillSwitchActive
              ''global kill-switch is active''))
          else Inr None
      | risk_state.Halted \<Rightarrow>
          if blocked then
            Inr (Some (reject uuid policy request Halt risk_reason_code.Halted
              ''risk state is HALTED''))
          else Inr None
      | risk_state.ReduceOnly \<Rightarrow>
          if increasing_lots > 0 then
            Inr (Some (reject uuid policy request risk_outcome.ReduceOnly
              risk_reason_code.ReduceOnly ''risk state permits reductions only''))
          else Inr None
      | risk_state.Normal \<Rightarrow> Inr None
      | risk_state.Warning \<Rightarrow> Inr None)"

definition approve_maintenance ::
  "string \<Rightarrow> risk_policy_set \<Rightarrow> risk_request \<Rightarrow> risk_decision" where
  "approve_maintenance uuid policy request =
     \<lparr>dec_decision_id = risk_decision_new_id uuid,
      dec_request_id = rq_request_id request,
      dec_policy_revision = pol_revision policy,
      dec_account_id = rq_account_id request,
      dec_action = rq_action request,
      dec_requested_delta_lots = 0,
      dec_approved_delta_lots = 0,
      dec_outcome = Approve,
      dec_reasons = [risk_reason_new Approved
        ''non-directional capital maintenance action passed the risk boundary''],
      dec_reservation_id = None,
      dec_expires_at_unix_ms = None,
      dec_validity = sn_validity (rq_snapshot request)\<rparr>"

definition validate_market_data :: "string \<Rightarrow> risk_policy_set \<Rightarrow> risk_request \<Rightarrow> gate" where
  "validate_market_data uuid policy request =
     (case pol_max_market_data_age_ms policy of
        None \<Rightarrow> Inr None
      | Some max_age \<Rightarrow>
          if max_age < 0 then Inl (InvalidPolicy ''max_market_data_age_ms cannot be negative'')
          else case vc_market_data_as_of_unix_ms (sn_validity (rq_snapshot request)) of
            None \<Rightarrow> Inr (Some (reject uuid policy request Reject MarketDataMissing
              ''price-dependent new exposure has no market-data watermark''))
          | Some as_of \<Rightarrow>
              let age = sat_i64 (rq_now_unix_ms request - as_of)
              in if age > max_age then
                   Inr (Some (reject uuid policy request Reject MarketDataStale
                     ''price-dependent new exposure uses stale market data''))
                 else Inr None)"

definition protection_duration_gate :: "string \<Rightarrow> risk_policy_set \<Rightarrow> risk_request \<Rightarrow> gate" where
  "protection_duration_gate uuid policy request =
     (let protection = sn_protection (rq_snapshot request) in
      case pol_max_unprotected_duration_ms policy of
        None \<Rightarrow> Inr None
      | Some max_duration \<Rightarrow>
          if max_duration < 0 then
            Inl (InvalidPolicy ''max_unprotected_duration_ms cannot be negative'')
          else and_then (ok_or
                 (InvalidPolicy ''max_unprotected_duration_ms requires a position entry watermark'')
                 (ps_position_entered_at_unix_ms protection))
            (\<lambda>entered_at.
               let uncovered_lots = uncovered_abs_lots protection;
                   age = sat_i64 (rq_now_unix_ms request - entered_at)
               in if uncovered_lots > 0 \<and> age > max_duration then
                    Inr (Some (reject uuid policy request risk_outcome.ReduceOnly ProtectionRequired
                      ''position has been without full protection beyond the configured maximum''))
                  else Inr None))"

text \<open>The third argument of the source's \<open>validate_protection\<close> only feeds a debug assertion that
  holds at its single call site; it is left out.\<close>

definition validate_protection :: "string \<Rightarrow> risk_policy_set \<Rightarrow> risk_request \<Rightarrow> gate" where
  "validate_protection uuid policy request =
     (if \<not> pol_protection_required_for_new_exposure policy then Inr None
      else case protection_duration_gate uuid policy request of
        Inl e \<Rightarrow> Inl e
      | Inr (Some d) \<Rightarrow> Inr (Some d)
      | Inr None \<Rightarrow>
          let protection = sn_protection (rq_snapshot request);
              plan_acceptable =
                (case ps_plan_state protection of
                   None \<Rightarrow> False | Some s \<Rightarrow> permits_additional_exposure s);
              coverage_acceptable = full_coverage protection
          in if \<not> plan_acceptable \<and> \<not> coverage_acceptable then
               Inr (Some (reject uuid policy request Reject ProtectionRequired
                 ''new exposure requires full protection coverage''))
             else Inr None)"

definition gate_new_exposure :: "string \<Rightarrow> risk_policy_set \<Rightarrow> risk_request \<Rightarrow> int \<Rightarrow> gate" where
  "gate_new_exposure uuid policy request increasing_lots =
     (if increasing_lots > 0 then
        (case validate_market_data uuid policy request of
           Inl e \<Rightarrow> Inl e
         | Inr (Some d) \<Rightarrow> Inr (Some d)
         | Inr None \<Rightarrow> validate_protection uuid policy request)
      else Inr None)"

definition gate_margin_permission :: "string \<Rightarrow> risk_policy_set \<Rightarrow> risk_request \<Rightarrow> gate" where
  "gate_margin_permission uuid policy request =
     (if rq_confirm_margin_trade request \<and> \<not> pol_allow_margin policy then
        Inr (Some (reject uuid policy request Reject MarginNotAllowed
          ''margin execution is disabled by Vox risk policy''))
      else Inr None)"

definition gate_margin_utilization ::
  "string \<Rightarrow> risk_policy_set \<Rightarrow> risk_request \<Rightarrow> int \<Rightarrow> gate" where
  "gate_margin_utilization uuid policy request increasing_lots =
     (case pol_max_margin_utilization_ppm policy of
        None \<Rightarrow> Inr None
      | Some max_utilization_ppm \<Rightarrow>
          if \<not> increasing_lots > 0 then Inr None
          else if max_utilization_ppm \<le> 0 then
            Inl (InvalidPolicy ''max_margin_utilization_ppm must be positive'')
          else case sn_margin (rq_snapshot request) of
            None \<Rightarrow> Inr (Some (reject uuid policy request Reject CriticalInputMissing
              ''broker margin facts are required by policy but unavailable''))
          | Some margin \<Rightarrow>
              if mf_liquid_portfolio_nanos margin \<le> 0 \<or> mf_corrected_margin_nanos margin < 0 then
                Inr (Some (reject uuid policy request Reject CriticalInputMissing
                  ''broker margin facts cannot form a valid utilization ratio''))
              else and_then
                (ok_or ArithmeticOverflow
                  (Option.bind (checked_i128 (mf_corrected_margin_nanos margin * 1000000)) (\<lambda>v.
                   checked_i128 (v sdiv mf_liquid_portfolio_nanos margin))))
                (\<lambda>utilization_ppm.
                   if utilization_ppm > max_utilization_ppm then
                     Inr (Some (reject uuid policy request Reject MarginUtilizationExceeded
                       ''broker corrected-margin utilization exceeds policy''))
                   else Inr None))"

definition gate_daily_loss :: "string \<Rightarrow> risk_policy_set \<Rightarrow> risk_request \<Rightarrow> int \<Rightarrow> gate" where
  "gate_daily_loss uuid policy request increasing_lots =
     (case pol_max_daily_loss_nanos policy of
        None \<Rightarrow> Inr None
      | Some max_loss \<Rightarrow>
          if \<not> increasing_lots > 0 then Inr None
          else case sn_broker_daily_pnl_nanos (rq_snapshot request) of
            None \<Rightarrow> Inr (Some (reject uuid policy request Reject CriticalInputMissing
              ''broker day P&L is required by policy but unavailable''))
          | Some day_pnl \<Rightarrow>
              and_then (positive_limit max_loss ''max_daily_loss_nanos'') (\<lambda>limit.
                if day_pnl < - limit then
                  Inr (Some (reject uuid policy request risk_outcome.ReduceOnly DailyLossExceeded
                    ''broker day P&L breached the configured loss limit''))
                else Inr None))"

definition gate_max_position ::
  "string \<Rightarrow> risk_policy_set \<Rightarrow> risk_request \<Rightarrow> int \<Rightarrow> int \<Rightarrow> gate" where
  "gate_max_position uuid policy request projected_position increasing_lots =
     (case pol_max_position_abs_lots policy of
        None \<Rightarrow> Inr None
      | Some max_position \<Rightarrow>
          if \<bar>projected_position\<bar> > \<bar>max_position\<bar> \<and> increasing_lots > 0 then
            Inr (Some (reject uuid policy request Reject MaxPositionExceeded
              ''projected position exceeds the configured position limit''))
          else Inr None)"

definition gate_gross_exposure :: "string \<Rightarrow> risk_policy_set \<Rightarrow> risk_request \<Rightarrow> int \<Rightarrow> gate" where
  "gate_gross_exposure uuid policy request increasing_lots =
     (case pol_max_gross_exposure_nanos policy of
        None \<Rightarrow> Inr None
      | Some max_gross \<Rightarrow>
          if \<not> increasing_lots > 0 then Inr None
          else case sn_gross_exposure_nanos (rq_snapshot request) of
            None \<Rightarrow> Inr (Some (reject uuid policy request Reject CriticalInputMissing
              ''gross exposure is required by policy but unavailable''))
          | Some gross \<Rightarrow>
              and_then (checked_abs (rq_requested_notional_nanos request)) (\<lambda>notional.
              and_then (ok_or ArithmeticOverflow (checked_i128 (gross + notional))) (\<lambda>projected.
              and_then (positive_limit max_gross ''max_gross_exposure_nanos'') (\<lambda>limit.
                if projected > limit then
                  Inr (Some (reject uuid policy request Reject MaxGrossExposureExceeded
                    ''projected gross exposure exceeds policy''))
                else Inr None))))"

definition gate_net_exposure :: "string \<Rightarrow> risk_policy_set \<Rightarrow> risk_request \<Rightarrow> int \<Rightarrow> gate" where
  "gate_net_exposure uuid policy request increasing_lots =
     (case pol_max_net_exposure_abs_nanos policy of
        None \<Rightarrow> Inr None
      | Some max_net \<Rightarrow>
          if \<not> increasing_lots > 0 then Inr None
          else case sn_net_exposure_nanos (rq_snapshot request) of
            None \<Rightarrow> Inr (Some (reject uuid policy request Reject CriticalInputMissing
              ''net exposure is required by policy but unavailable''))
          | Some net \<Rightarrow>
              and_then (ok_or ArithmeticOverflow
                (checked_i128 (net + rq_requested_notional_nanos request))) (\<lambda>projected.
              and_then (checked_abs projected) (\<lambda>projected_abs.
              and_then (positive_limit max_net ''max_net_exposure_abs_nanos'') (\<lambda>limit.
                if projected_abs > limit then
                  Inr (Some (reject uuid policy request Reject MaxNetExposureExceeded
                    ''projected net exposure exceeds policy''))
                else Inr None))))"

definition gate_instrument_exposure ::
  "string \<Rightarrow> risk_policy_set \<Rightarrow> risk_request \<Rightarrow> int \<Rightarrow> gate" where
  "gate_instrument_exposure uuid policy request increasing_lots =
     (case pol_max_instrument_exposure_nanos policy of
        None \<Rightarrow> Inr None
      | Some max_instrument \<Rightarrow>
          if \<not> increasing_lots > 0 then Inr None
          else case sn_instrument_exposure_nanos (rq_snapshot request) of
            None \<Rightarrow> Inr (Some (reject uuid policy request Reject CriticalInputMissing
              ''instrument exposure is required by policy but unavailable''))
          | Some exposure \<Rightarrow>
              and_then (ok_or ArithmeticOverflow
                (checked_i128 (exposure + rq_requested_notional_nanos request))) (\<lambda>projected.
              and_then (checked_abs projected) (\<lambda>projected_abs.
              and_then (positive_limit max_instrument ''max_instrument_exposure_nanos'') (\<lambda>limit.
                if projected_abs > limit then
                  Inr (Some (reject uuid policy request Reject MaxInstrumentExposureExceeded
                    ''projected instrument exposure exceeds policy''))
                else Inr None))))"

section \<open>Sizing\<close>

text \<open>The resize of the source keeps a mutable pair of the approved quantity and the reason of the
  last resize.\<close>

type_synonym sizing = "int \<times> (risk_reason_code \<times> string) option"

definition size_to_policy :: "risk_policy_set \<Rightarrow> risk_request \<Rightarrow> risk_engine_error + sizing" where
  "size_to_policy policy request =
     and_then (ok_or ArithmeticOverflow (checked_i64 \<bar>rq_requested_delta_lots request\<bar>))
       (\<lambda>requested_abs.
          case pol_max_single_order_lots policy of
            None \<Rightarrow> Inr (requested_abs, None)
          | Some max_order \<Rightarrow>
              if max_order \<le> 0 then Inl (InvalidPolicy ''max_single_order_lots must be positive'')
              else if requested_abs > max_order then
                Inr (max_order, Some (ResizedToPolicyLimit,
                  ''quantity resized to configured max single-order limit''))
              else Inr (requested_abs, None))"

definition size_to_provider ::
  "string \<Rightarrow> risk_policy_set \<Rightarrow> risk_request \<Rightarrow> int \<Rightarrow> sizing
   \<Rightarrow> risk_engine_error + (risk_decision + sizing)" where
  "size_to_provider uuid policy request increasing_lots sizing =
     and_then (provider_limit policy request) (\<lambda>provided.
       case provided of
         Some limit \<Rightarrow>
           if fst sizing > limit then
             Inr (Inr (limit, Some (ResizedToProviderLimit,
               ''quantity resized to the applicable broker max-lots constraint'')))
           else Inr (Inr sizing)
       | None \<Rightarrow>
           if pol_require_provider_lot_limit policy \<and> increasing_lots > 0 then
             Inr (Inl (reject uuid policy request Reject ProviderLimitUnavailable
               ''applicable broker max-lots constraint is unavailable''))
           else Inr (Inr sizing))"

definition approve_sized ::
  "string \<Rightarrow> risk_policy_set \<Rightarrow> risk_request \<Rightarrow> sizing \<Rightarrow> risk_engine_error + risk_decision" where
  "approve_sized uuid policy request sizing =
     (if fst sizing = 0 then
        Inr (reject uuid policy request Reject ProviderLimitExceeded
          ''broker/policy constraints leave zero executable quantity'')
      else
        and_then (ok_or ArithmeticOverflow
          (checked_i64 (fst sizing * sgn (rq_requested_delta_lots request)))) (\<lambda>approved_delta_lots.
        and_then
          (if approved_delta_lots = rq_requested_delta_lots request then
             Inr (Approve, [risk_reason_new Approved
               ''request satisfies current risk policy and provider constraints''])
           else and_then (ok_or ArithmeticOverflow (snd sizing)) (\<lambda>(code, message).
             Inr (Resize, [risk_reason_new code message])))
          (\<lambda>(outcome, reasons). Inr
            \<lparr>dec_decision_id = risk_decision_new_id uuid,
             dec_request_id = rq_request_id request,
             dec_policy_revision = pol_revision policy,
             dec_account_id = rq_account_id request,
             dec_action = rq_action request,
             dec_requested_delta_lots = rq_requested_delta_lots request,
             dec_approved_delta_lots = approved_delta_lots,
             dec_outcome = outcome,
             dec_reasons = reasons,
             dec_reservation_id = None,
             dec_expires_at_unix_ms = None,
             dec_validity = sn_validity (rq_snapshot request)\<rparr>)))"

definition size_order ::
  "string \<Rightarrow> risk_policy_set \<Rightarrow> risk_request \<Rightarrow> int \<Rightarrow> risk_engine_error + risk_decision" where
  "size_order uuid policy request increasing_lots =
     and_then (size_to_policy policy request) (\<lambda>sizing.
     and_then (size_to_provider uuid policy request increasing_lots sizing) (\<lambda>sized.
       case sized of Inl d \<Rightarrow> Inr d | Inr sizing \<Rightarrow> approve_sized uuid policy request sizing))"

section \<open>The evaluation\<close>

definition evaluate_directional ::
  "string \<Rightarrow> risk_policy_set \<Rightarrow> risk_request \<Rightarrow> int \<Rightarrow> int \<Rightarrow> risk_engine_error + risk_decision"
  where
  "evaluate_directional uuid policy request projected increasing_lots =
     gate_then (gate_new_exposure uuid policy request increasing_lots)
    (gate_then (gate_margin_permission uuid policy request)
    (gate_then (gate_margin_utilization uuid policy request increasing_lots)
    (gate_then (gate_daily_loss uuid policy request increasing_lots)
    (gate_then (gate_max_position uuid policy request projected increasing_lots)
    (gate_then (gate_gross_exposure uuid policy request increasing_lots)
    (gate_then (gate_net_exposure uuid policy request increasing_lots)
    (gate_then (gate_instrument_exposure uuid policy request increasing_lots)
    (size_order uuid policy request increasing_lots))))))))"

definition evaluate ::
  "string \<Rightarrow> risk_policy_set \<Rightarrow> risk_request \<Rightarrow> risk_engine_error + risk_decision" where
  "evaluate uuid policy request =
     gate_then (gate_request_shape uuid policy request)
    (gate_then (gate_policy_revision uuid policy request)
    (gate_then (gate_runtime uuid policy request)
    (and_then (engine_base_position (rq_snapshot request)) (\<lambda>base_position.
     and_then (ok_or ArithmeticOverflow
       (checked_i64 (base_position + rq_requested_delta_lots request))) (\<lambda>projected_position.
     and_then (increasing_portion base_position (rq_requested_delta_lots request))
       (\<lambda>increasing_lots.
          gate_then (gate_policy_state uuid policy request increasing_lots)
            (if \<not> directional_action (rq_action request) then
               Inr (approve_maintenance uuid policy request)
             else evaluate_directional uuid policy request projected_position increasing_lots)))))))"

definition still_valid :: "risk_decision \<Rightarrow> risk_request \<Rightarrow> int \<Rightarrow> bool" where
  "still_valid decision request current_policy_revision \<longleftrightarrow>
     dec_policy_revision decision = current_policy_revision \<and>
     dec_request_id decision = rq_request_id request \<and>
     dec_validity decision = sn_validity (rq_snapshot request) \<and>
     dec_approved_delta_lots decision \<noteq> 0 \<and>
     permits_dispatch decision"

section \<open>Guards that fall through, guards that return\<close>

lemma gate_then_Inr [result_simps]:
  "gate_then g k = Inr d \<longleftrightarrow> g = Inr (Some d) \<or> g = Inr None \<and> k = Inr d"
  by (auto simp: gate_then_def split: sum.splits option.splits)

lemma gate_then_Inl [result_simps]:
  "gate_then g k = Inl e \<longleftrightarrow> g = Inl e \<or> g = Inr None \<and> k = Inl e"
  by (auto simp: gate_then_def split: sum.splits option.splits)

lemma gate_then_None [simp]: "gate_then (Inr None) k = k"
  by (simp add: gate_then_def)

text \<open>A decision a guard returns early is a refusal: it carries no quantity and never dispatches.\<close>

definition refusal :: "risk_decision \<Rightarrow> bool" where
  "refusal d \<longleftrightarrow>
     dec_outcome d \<in> {Reject, risk_outcome.ReduceOnly, Halt} \<and> dec_approved_delta_lots d = 0"

lemma refusal_no_dispatch: "refusal d \<Longrightarrow> \<not> permits_dispatch d"
  by (auto simp: refusal_def permits_dispatch_def)

lemma refusal_reject [simp]:
  "refusal (reject uuid p rq out code msg) \<longleftrightarrow> out \<in> {Reject, risk_outcome.ReduceOnly, Halt}"
  by (simp add: refusal_def reject_def)

lemma gate_request_shape_refusal: "gate_request_shape u p rq = Inr (Some d) \<Longrightarrow> refusal d"
  by (auto simp: gate_request_shape_def Let_def split: if_splits)

lemma gate_policy_revision_refusal: "gate_policy_revision u p rq = Inr (Some d) \<Longrightarrow> refusal d"
  by (auto simp: gate_policy_revision_def split: if_splits)

lemma gate_runtime_refusal: "gate_runtime u p rq = Inr (Some d) \<Longrightarrow> refusal d"
  by (auto simp: gate_runtime_def Let_def split: if_splits)

lemma gate_policy_state_refusal: "gate_policy_state u p rq n = Inr (Some d) \<Longrightarrow> refusal d"
  by (auto simp: gate_policy_state_def Let_def split: if_splits risk_state.splits)

lemma validate_market_data_refusal: "validate_market_data u p rq = Inr (Some d) \<Longrightarrow> refusal d"
  by (auto simp: validate_market_data_def Let_def split: if_splits option.splits)

lemma protection_duration_refusal: "protection_duration_gate u p rq = Inr (Some d) \<Longrightarrow> refusal d"
  by (auto simp: protection_duration_gate_def Let_def result_simps split: if_splits option.splits)

lemma validate_protection_refusal: "validate_protection u p rq = Inr (Some d) \<Longrightarrow> refusal d"
  by (auto simp: validate_protection_def Let_def dest: protection_duration_refusal
      split: if_splits option.splits sum.splits)

lemma gate_new_exposure_refusal: "gate_new_exposure u p rq n = Inr (Some d) \<Longrightarrow> refusal d"
  by (auto simp: gate_new_exposure_def
      dest: validate_market_data_refusal validate_protection_refusal
      split: if_splits option.splits sum.splits)

lemma gate_margin_permission_refusal:
  "gate_margin_permission u p rq = Inr (Some d) \<Longrightarrow> refusal d"
  by (auto simp: gate_margin_permission_def split: if_splits)

lemma gate_margin_utilization_refusal:
  "gate_margin_utilization u p rq n = Inr (Some d) \<Longrightarrow> refusal d"
  by (auto simp: gate_margin_utilization_def result_simps split: if_splits option.splits)

lemma gate_daily_loss_refusal: "gate_daily_loss u p rq n = Inr (Some d) \<Longrightarrow> refusal d"
  by (auto simp: gate_daily_loss_def result_simps split: if_splits option.splits)

lemma gate_max_position_refusal: "gate_max_position u p rq j n = Inr (Some d) \<Longrightarrow> refusal d"
  by (auto simp: gate_max_position_def split: if_splits option.splits)

lemma gate_gross_exposure_refusal: "gate_gross_exposure u p rq n = Inr (Some d) \<Longrightarrow> refusal d"
  by (auto simp: gate_gross_exposure_def result_simps split: if_splits option.splits)

lemma gate_net_exposure_refusal: "gate_net_exposure u p rq n = Inr (Some d) \<Longrightarrow> refusal d"
  by (auto simp: gate_net_exposure_def result_simps split: if_splits option.splits)

lemma gate_instrument_exposure_refusal:
  "gate_instrument_exposure u p rq n = Inr (Some d) \<Longrightarrow> refusal d"
  by (auto simp: gate_instrument_exposure_def result_simps split: if_splits option.splits)

lemma size_to_provider_refusal:
  "size_to_provider u p rq n z = Inr (Inl d) \<Longrightarrow> refusal d"
  by (auto simp: size_to_provider_def result_simps split: if_splits option.splits)

lemmas gate_refusals =
  gate_request_shape_refusal gate_policy_revision_refusal gate_runtime_refusal
  gate_policy_state_refusal gate_new_exposure_refusal gate_margin_permission_refusal
  gate_margin_utilization_refusal gate_daily_loss_refusal gate_max_position_refusal
  gate_gross_exposure_refusal gate_net_exposure_refusal gate_instrument_exposure_refusal
  size_to_provider_refusal

section \<open>What a sized order satisfies\<close>

lemma selected_buy_limit_nonneg: "selected_buy_limit l m = Inr v \<Longrightarrow> 0 \<le> v"
  by (auto simp: selected_buy_limit_def Let_def split: if_splits)

lemma selected_sell_limit_nonneg: "selected_sell_limit l = Inr v \<Longrightarrow> 0 \<le> v"
  by (auto simp: selected_sell_limit_def Let_def split: if_splits)

lemma provider_limit_nonneg: "provider_limit p rq = Inr (Some l) \<Longrightarrow> 0 \<le> l"
  by (auto simp: provider_limit_def Let_def result_simps split: option.splits if_splits
      dest: selected_buy_limit_nonneg selected_sell_limit_nonneg)

lemma size_to_policy_bounds:
  assumes "size_to_policy p rq = Inr z" and "rq_requested_delta_lots rq \<noteq> 0"
  shows "0 < fst z" and "fst z \<le> \<bar>rq_requested_delta_lots rq\<bar>"
    and "pol_max_single_order_lots p = Some m \<Longrightarrow> 0 < m \<and> fst z \<le> m"
    and "snd z = None \<Longrightarrow> fst z = \<bar>rq_requested_delta_lots rq\<bar>"
  using assms by (auto simp: size_to_policy_def result_simps split: option.splits if_splits)

lemma size_to_provider_bounds:
  assumes "size_to_provider u p rq n z = Inr (Inr z')" and "0 < fst z"
  shows "0 \<le> fst z'" and "fst z' \<le> fst z"
    and "provider_limit p rq = Inr (Some l) \<Longrightarrow> fst z' \<le> l"
    and "provider_limit p rq = Inr None \<Longrightarrow> \<not> (pol_require_provider_lot_limit p \<and> n > 0)"
    and "snd z' = None \<Longrightarrow> z' = z"
  using assms provider_limit_nonneg
  by (auto simp: size_to_provider_def result_simps split: option.splits if_splits)

lemma approve_sized_cases:
  assumes "approve_sized u p rq z = Inr d"
  shows "refusal d \<or>
    fst z \<noteq> 0 \<and> dec_approved_delta_lots d = fst z * sgn (rq_requested_delta_lots rq) \<and>
    dec_requested_delta_lots d = rq_requested_delta_lots rq \<and>
    dec_outcome d =
      (if dec_approved_delta_lots d = rq_requested_delta_lots rq then Approve else Resize)"
  using assms
  by (auto simp: approve_sized_def result_simps split: if_splits)

text \<open>A decision is bound to the request and the policy it was made for.\<close>

definition decision_of :: "risk_policy_set \<Rightarrow> risk_request \<Rightarrow> risk_decision \<Rightarrow> bool" where
  "decision_of p rq d \<longleftrightarrow>
     dec_request_id d = rq_request_id rq \<and> dec_account_id d = rq_account_id rq \<and>
     dec_action d = rq_action rq \<and> dec_policy_revision d = pol_revision p \<and>
     dec_requested_delta_lots d = rq_requested_delta_lots rq \<and>
     dec_reservation_id d = None \<and> dec_expires_at_unix_ms d = None \<and>
     dec_validity d = sn_validity (rq_snapshot rq)"

lemma approve_sized_decision_of: "approve_sized u p rq z = Inr d \<Longrightarrow> decision_of p rq d"
  by (auto simp: approve_sized_def decision_of_def reject_def result_simps split: if_splits)

lemma size_to_provider_decision_of:
  "size_to_provider u p rq n z = Inr (Inl d) \<Longrightarrow> decision_of p rq d"
  by (auto simp: size_to_provider_def decision_of_def reject_def result_simps
      split: if_splits option.splits)

lemma size_order_decision_of:
  assumes "size_order u p rq n = Inr d"
  shows "decision_of p rq d"
proof -
  obtain z s where "size_to_provider u p rq n z = Inr s"
    "(case s of Inl d \<Rightarrow> Inr d | Inr sizing \<Rightarrow> approve_sized u p rq sizing) = Inr d"
    using assms by (auto simp: size_order_def and_then_Inr)
  then show ?thesis
    using size_to_provider_decision_of approve_sized_decision_of by (cases s) auto
qed

lemma size_order_approved:
  assumes "size_order u p rq n = Inr d" and "\<not> refusal d" and "rq_requested_delta_lots rq \<noteq> 0"
  obtains a where "0 < a" and "a \<le> \<bar>rq_requested_delta_lots rq\<bar>"
    and "dec_approved_delta_lots d = a * sgn (rq_requested_delta_lots rq)"
    and "dec_outcome d =
      (if dec_approved_delta_lots d = rq_requested_delta_lots rq then Approve else Resize)"
    and "\<And>m. pol_max_single_order_lots p = Some m \<Longrightarrow> a \<le> m"
    and "\<And>l. provider_limit p rq = Inr (Some l) \<Longrightarrow> a \<le> l"
    and "provider_limit p rq = Inr None \<Longrightarrow> \<not> (pol_require_provider_lot_limit p \<and> n > 0)"
proof -
  obtain z s where z: "size_to_policy p rq = Inr z" and s: "size_to_provider u p rq n z = Inr s"
    "(case s of Inl d \<Rightarrow> Inr d | Inr sizing \<Rightarrow> approve_sized u p rq sizing) = Inr d"
    using assms(1) by (auto simp: size_order_def and_then_Inr)
  obtain z' where z': "size_to_provider u p rq n z = Inr (Inr z')"
    and d: "approve_sized u p rq z' = Inr d"
    using s assms(2) size_to_provider_refusal [of u p rq n z] by (cases s) auto
  note zb = size_to_policy_bounds [OF z assms(3)]
  note zb' = size_to_provider_bounds [OF z' zb(1)]
  note c = approve_sized_cases [OF d]
  show ?thesis
  proof (rule that [of "fst z'"])
    show "0 < fst z'" using c assms(2) zb'(1) by auto
    show "fst z' \<le> \<bar>rq_requested_delta_lots rq\<bar>" using zb'(2) zb(2) by simp
    show "fst z' \<le> m" if "pol_max_single_order_lots p = Some m" for m
      using zb'(2) zb(3) [OF that] by simp
    show "dec_outcome d =
      (if dec_approved_delta_lots d = rq_requested_delta_lots rq then Approve else Resize)"
      using c assms(2) by simp
  qed (use c assms(2) zb'(3,4) in auto)
qed

section \<open>What an approval has passed\<close>

lemma gate_request_shape_pass:
  "gate_request_shape u p rq = Inr None \<Longrightarrow>
     (directional_action (rq_action rq) \<longleftrightarrow> rq_requested_delta_lots rq \<noteq> 0) \<and>
     (directional_action (rq_action rq) \<longrightarrow>
        0 < sn_instrument_lot_size (rq_snapshot rq) \<and> sn_instrument_tradable (rq_snapshot rq))"
  by (auto simp: gate_request_shape_def Let_def split: if_splits)

lemma gate_policy_revision_pass:
  "gate_policy_revision u p rq = Inr None \<longleftrightarrow>
     vc_policy_revision (sn_validity (rq_snapshot rq)) = pol_revision p"
  by (simp add: gate_policy_revision_def)

lemma directional_not_cleanup: "directional_action a \<longleftrightarrow> \<not> cleanup_action a"
  by (cases a) (simp_all add: directional_action_def cleanup_action_def)

lemma gate_runtime_pass:
  "gate_runtime u p rq = Inr None \<longleftrightarrow>
     sn_execution_authorized (rq_snapshot rq) \<and>
     (directional_action (rq_action rq) \<longrightarrow>
        sn_runtime_ready (rq_snapshot rq) \<and> \<not> sn_unresolved_unknown_conflict (rq_snapshot rq))"
  by (auto simp: gate_runtime_def Let_def directional_not_cleanup split: if_splits)

text \<open>The exposure the account already carries on the instrument, without overflow.\<close>

definition exposure_base :: "risk_snapshot \<Rightarrow> int" where
  "exposure_base s = sn_current_position_lots s + sn_open_order_delta_lots s
     + sn_unresolved_unknown_delta_lots s + sn_active_reservation_delta_lots s"

lemma engine_base_position_value:
  "engine_base_position s = Inr b \<Longrightarrow> b = exposure_base s"
  by (auto simp: engine_base_position_def exposure_base_def result_simps bind_eq_Some_conv)

text \<open>New exposure: the position leaves the segment between zero and where it was.\<close>

definition new_exposure :: "int \<Rightarrow> int \<Rightarrow> bool" where
  "new_exposure base delta \<longleftrightarrow> \<not> (min 0 base \<le> base + delta \<and> base + delta \<le> max 0 base)"

lemma increasing_portion_new_exposure:
  assumes "increasing_portion base delta = Inr n"
  shows "0 < n \<longleftrightarrow> new_exposure base delta"
  using assms
  by (auto simp: increasing_portion_def new_exposure_def result_simps range_simps sgn_if
      split: if_splits)

lemma evaluate_permits:
  assumes "evaluate u p rq = Inr d" and "permits_dispatch d"
  obtains n where
    "gate_request_shape u p rq = Inr None" and "gate_policy_revision u p rq = Inr None"
    "gate_runtime u p rq = Inr None"
    "increasing_portion (exposure_base (rq_snapshot rq)) (rq_requested_delta_lots rq) = Inr n"
    "in_i64 (exposure_base (rq_snapshot rq) + rq_requested_delta_lots rq)"
    "gate_policy_state u p rq n = Inr None"
    "directional_action (rq_action rq) \<Longrightarrow>
       evaluate_directional u p rq (exposure_base (rq_snapshot rq) + rq_requested_delta_lots rq) n
         = Inr d"
    "\<not> directional_action (rq_action rq) \<Longrightarrow> d = approve_maintenance u p rq"
  using assms refusal_no_dispatch [of d]
  by (auto simp: evaluate_def result_simps dest: gate_refusals engine_base_position_value
      split: if_splits)

lemma evaluate_directional_permits:
  assumes "evaluate_directional u p rq j n = Inr d" and "permits_dispatch d"
  shows "gate_new_exposure u p rq n = Inr None" and "gate_margin_permission u p rq = Inr None"
    and "gate_margin_utilization u p rq n = Inr None" and "gate_daily_loss u p rq n = Inr None"
    and "gate_max_position u p rq j n = Inr None" and "gate_gross_exposure u p rq n = Inr None"
    and "gate_net_exposure u p rq n = Inr None" and "gate_instrument_exposure u p rq n = Inr None"
    and "size_order u p rq n = Inr d"
  using assms refusal_no_dispatch [of d]
  by (auto simp: evaluate_directional_def result_simps dest: gate_refusals)

text \<open>The two eliminations the properties use: everything a directional approval, respectively a
  maintenance approval, has passed.\<close>

abbreviation projected_of :: "risk_request \<Rightarrow> int" where
  "projected_of rq \<equiv> exposure_base (rq_snapshot rq) + rq_requested_delta_lots rq"

lemma directional_approval:
  assumes "evaluate u p rq = Inr d" and "permits_dispatch d" and "directional_action (rq_action rq)"
  obtains n where
    "gate_request_shape u p rq = Inr None" "gate_policy_revision u p rq = Inr None"
    "gate_runtime u p rq = Inr None"
    "increasing_portion (exposure_base (rq_snapshot rq)) (rq_requested_delta_lots rq) = Inr n"
    "gate_policy_state u p rq n = Inr None"
    "evaluate_directional u p rq (projected_of rq) n = Inr d"
    "rq_requested_delta_lots rq \<noteq> 0"
proof (rule evaluate_permits [OF assms(1,2)])
qed (rule that, use assms(3) gate_request_shape_pass [of u p rq] in simp_all)

lemma maintenance_approval:
  assumes "evaluate u p rq = Inr d" and "permits_dispatch d"
    and "\<not> directional_action (rq_action rq)"
  shows "d = approve_maintenance u p rq"
  by (rule evaluate_permits [OF assms(1,2)]) (simp add: assms(3))

lemma directional_sized:
  assumes "evaluate_directional u p rq j n = Inr d" and "permits_dispatch d"
    and "rq_requested_delta_lots rq \<noteq> 0"
  obtains a where "0 < a" "a \<le> \<bar>rq_requested_delta_lots rq\<bar>"
    "dec_approved_delta_lots d = a * sgn (rq_requested_delta_lots rq)"
    "dec_outcome d =
      (if dec_approved_delta_lots d = rq_requested_delta_lots rq then Approve else Resize)"
    "\<And>m. pol_max_single_order_lots p = Some m \<Longrightarrow> a \<le> m"
    "\<And>l. provider_limit p rq = Inr (Some l) \<Longrightarrow> a \<le> l"
    "\<bar>dec_approved_delta_lots d\<bar> = a"
    "sgn (dec_approved_delta_lots d) = sgn (rq_requested_delta_lots rq)"
proof (rule size_order_approved [OF evaluate_directional_permits(9) [OF assms(1,2)] _ assms(3)])
  show "\<not> refusal d" using assms(2) refusal_no_dispatch by blast
qed (rule that; simp add: abs_mult abs_sgn_eq sgn_mult assms(3))

section \<open>The properties\<close>

text \<open>C18.  An order the engine lets through is never larger than what was asked for, has the
  requested direction, and fits both the policy's single-order limit and the broker's applicable
  lot limit; the outcome is \<open>Approve\<close> exactly when the whole quantity is approved.\<close>

theorem approved_quantity_bounded:
  assumes "evaluate uuid p rq = Inr d" and "permits_dispatch d"
    and "directional_action (rq_action rq)"
  shows "sgn (dec_approved_delta_lots d) = sgn (rq_requested_delta_lots rq) \<and>
    dec_approved_delta_lots d \<noteq> 0 \<and>
    \<bar>dec_approved_delta_lots d\<bar> \<le> \<bar>rq_requested_delta_lots rq\<bar> \<and>
    (case pol_max_single_order_lots p of
       None \<Rightarrow> True | Some m \<Rightarrow> \<bar>dec_approved_delta_lots d\<bar> \<le> m) \<and>
    (case provider_limit p rq of Inr (Some l) \<Rightarrow> \<bar>dec_approved_delta_lots d\<bar> \<le> l | _ \<Rightarrow> True) \<and>
    dec_outcome d =
      (if dec_approved_delta_lots d = rq_requested_delta_lots rq then Approve else Resize)"
proof -
  obtain n where n: "evaluate_directional uuid p rq (projected_of rq) n = Inr d"
    and nz: "rq_requested_delta_lots rq \<noteq> 0"
    by (rule directional_approval [OF assms]) blast
  obtain a where "0 < a" "\<bar>dec_approved_delta_lots d\<bar> = a"
    "a \<le> \<bar>rq_requested_delta_lots rq\<bar>"
    "sgn (dec_approved_delta_lots d) = sgn (rq_requested_delta_lots rq)"
    "dec_outcome d =
      (if dec_approved_delta_lots d = rq_requested_delta_lots rq then Approve else Resize)"
    "\<And>m. pol_max_single_order_lots p = Some m \<Longrightarrow> a \<le> m"
    "\<And>l. provider_limit p rq = Inr (Some l) \<Longrightarrow> a \<le> l"
    by (rule directional_sized [OF n assms(2) nz]) blast
  then show ?thesis
    by (auto split: option.split sum.split)
qed

text \<open>C20.  Whatever is let through was authorised: the runtime had execution authority, the decision
  is bound to the current policy revision and carries the identity and watermarks of its request;
  a directional order moreover found a ready runtime, a tradable instrument with a known lot, no
  conflicting unknown mutation, and margin only where the policy allows it.\<close>

theorem approval_is_authorised:
  assumes "evaluate uuid p rq = Inr d" and "permits_dispatch d"
  shows "sn_execution_authorized (rq_snapshot rq) \<and>
    vc_policy_revision (sn_validity (rq_snapshot rq)) = pol_revision p \<and>
    decision_of p rq d \<and>
    (directional_action (rq_action rq) \<longrightarrow>
       sn_runtime_ready (rq_snapshot rq) \<and> sn_instrument_tradable (rq_snapshot rq) \<and>
       0 < sn_instrument_lot_size (rq_snapshot rq) \<and>
       \<not> sn_unresolved_unknown_conflict (rq_snapshot rq) \<and>
       (rq_confirm_margin_trade rq \<longrightarrow> pol_allow_margin p))"
proof -
  have gates: "gate_request_shape uuid p rq = Inr None" "gate_policy_revision uuid p rq = Inr None"
    "gate_runtime uuid p rq = Inr None"
    by (rule evaluate_permits [OF assms]; blast)+
  have dir: "gate_margin_permission uuid p rq = Inr None \<and> decision_of p rq d"
    if "directional_action (rq_action rq)"
    by (rule directional_approval [OF assms that])
      (use evaluate_directional_permits(2,9) [OF _ assms(2)] size_order_decision_of in blast)
  have "decision_of p rq d" if "\<not> directional_action (rq_action rq)"
    using that gate_request_shape_pass [OF gates(1)] maintenance_approval [OF assms that]
    by (simp add: decision_of_def approve_maintenance_def)
  then show ?thesis
    using dir gates gate_request_shape_pass [of uuid p rq]
    by (auto simp: gate_policy_revision_pass gate_runtime_pass gate_margin_permission_def
        split: if_splits)
qed

text \<open>A resized order stays on the segment the full order would have moved along.\<close>

lemma resized_no_new_exposure:
  assumes "\<not> new_exposure base req" and "sgn app = sgn req" and "\<bar>app\<bar> \<le> \<bar>req\<bar>"
  shows "\<not> new_exposure base app"
  using assms by (auto simp: new_exposure_def sgn_if split: if_splits)

lemma restricted_no_new_exposure:
  assumes "evaluate uuid p rq = Inr d" and "permits_dispatch d"
    and "directional_action (rq_action rq)"
    and "pol_state p \<in> {risk_state.ReduceOnly, risk_state.Halted, risk_state.KillSwitch}"
  shows "\<not> new_exposure (exposure_base (rq_snapshot rq)) (dec_approved_delta_lots d) \<and>
    (pol_state p \<noteq> risk_state.ReduceOnly \<longrightarrow> rq_emergency_reduction rq)"
proof -
  obtain n where n: "evaluate_directional uuid p rq (projected_of rq) n = Inr d"
    and inc: "increasing_portion (exposure_base (rq_snapshot rq)) (rq_requested_delta_lots rq) = Inr n"
    and st: "gate_policy_state uuid p rq n = Inr None" and nz: "rq_requested_delta_lots rq \<noteq> 0"
    by (rule directional_approval [OF assms(1-3)]) blast
  obtain a where "a \<le> \<bar>rq_requested_delta_lots rq\<bar>" "\<bar>dec_approved_delta_lots d\<bar> = a"
    "sgn (dec_approved_delta_lots d) = sgn (rq_requested_delta_lots rq)"
    by (rule directional_sized [OF n assms(2) nz]) blast
  moreover have "\<not> n > 0 \<and> (pol_state p \<noteq> risk_state.ReduceOnly \<longrightarrow> rq_emergency_reduction rq)"
    using st assms(3,4) by (auto simp: gate_policy_state_def Let_def directional_not_cleanup
        split: if_splits)
  ultimately show ?thesis
    using resized_no_new_exposure increasing_portion_new_exposure [OF inc] by auto
qed

text \<open>C2.  While the account is reduce-only, halted or under the kill switch, no approved order moves
  the position out of the segment between zero and the exposure already carried (positions, open
  orders, unknown mutations and active reservations together); while halted or under the kill
  switch only a declared emergency reduction is approved at all.\<close>

theorem restricted_state_never_adds_exposure:
  assumes "evaluate uuid p rq = Inr d" and "permits_dispatch d"
    and "directional_action (rq_action rq)"
    and "pol_state p \<in> {risk_state.ReduceOnly, risk_state.Halted, risk_state.KillSwitch}"
  shows "\<not> new_exposure (exposure_base (rq_snapshot rq)) (dec_approved_delta_lots d) \<and>
    (pol_state p \<noteq> risk_state.ReduceOnly \<longrightarrow> rq_emergency_reduction rq)"
  by (rule restricted_no_new_exposure [OF assms])

text \<open>The limits of the policy, as the account manager reads them, on an order that adds
  exposure.\<close>

definition within_limits :: "risk_policy_set \<Rightarrow> risk_request \<Rightarrow> bool" where
  "within_limits p rq \<longleftrightarrow>
     (let s = rq_snapshot rq; notional = rq_requested_notional_nanos rq in
      (\<forall>m. pol_max_position_abs_lots p = Some m \<longrightarrow> \<bar>projected_of rq\<bar> \<le> \<bar>m\<bar>) \<and>
      (\<forall>m. pol_max_gross_exposure_nanos p = Some m \<longrightarrow>
         (\<exists>g. sn_gross_exposure_nanos s = Some g \<and> g + \<bar>notional\<bar> \<le> m)) \<and>
      (\<forall>m. pol_max_net_exposure_abs_nanos p = Some m \<longrightarrow>
         (\<exists>g. sn_net_exposure_nanos s = Some g \<and> \<bar>g + notional\<bar> \<le> m)) \<and>
      (\<forall>m. pol_max_instrument_exposure_nanos p = Some m \<longrightarrow>
         (\<exists>g. sn_instrument_exposure_nanos s = Some g \<and> \<bar>g + notional\<bar> \<le> m)) \<and>
      (\<forall>m. pol_max_daily_loss_nanos p = Some m \<longrightarrow>
         (\<exists>g. sn_broker_daily_pnl_nanos s = Some g \<and> - m \<le> g)) \<and>
      (\<forall>m. pol_max_margin_utilization_ppm p = Some m \<longrightarrow>
         (\<exists>f. sn_margin s = Some f \<and> 0 < mf_liquid_portfolio_nanos f \<and>
            mf_corrected_margin_nanos f * 1000000 < (m + 1) * mf_liquid_portfolio_nanos f)) \<and>
      (\<forall>m. pol_max_market_data_age_ms p = Some m \<longrightarrow>
         (\<exists>t. vc_market_data_as_of_unix_ms (sn_validity s) = Some t \<and>
            sat_i64 (rq_now_unix_ms rq - t) \<le> m)) \<and>
      (pol_protection_required_for_new_exposure p \<longrightarrow>
         full_coverage (sn_protection s) \<or>
         (\<exists>st. ps_plan_state (sn_protection s) = Some st \<and> permits_additional_exposure st)))"

lemma gross_pass: "gate_gross_exposure u p rq n = Inr None \<Longrightarrow> 0 < n \<Longrightarrow>
  pol_max_gross_exposure_nanos p = Some m \<Longrightarrow>
  \<exists>g. sn_gross_exposure_nanos (rq_snapshot rq) = Some g \<and> g + \<bar>rq_requested_notional_nanos rq\<bar> \<le> m"
  by (auto simp: gate_gross_exposure_def checked_abs_def positive_limit_def result_simps
      split: option.splits if_splits)

lemma net_pass: "gate_net_exposure u p rq n = Inr None \<Longrightarrow> 0 < n \<Longrightarrow>
  pol_max_net_exposure_abs_nanos p = Some m \<Longrightarrow>
  \<exists>g. sn_net_exposure_nanos (rq_snapshot rq) = Some g \<and> \<bar>g + rq_requested_notional_nanos rq\<bar> \<le> m"
  by (auto simp: gate_net_exposure_def checked_abs_def positive_limit_def result_simps
      split: option.splits if_splits)

lemma instrument_pass: "gate_instrument_exposure u p rq n = Inr None \<Longrightarrow> 0 < n \<Longrightarrow>
  pol_max_instrument_exposure_nanos p = Some m \<Longrightarrow>
  \<exists>g. sn_instrument_exposure_nanos (rq_snapshot rq) = Some g \<and>
      \<bar>g + rq_requested_notional_nanos rq\<bar> \<le> m"
  by (auto simp: gate_instrument_exposure_def checked_abs_def positive_limit_def result_simps
      split: option.splits if_splits)

lemma daily_loss_pass: "gate_daily_loss u p rq n = Inr None \<Longrightarrow> 0 < n \<Longrightarrow>
  pol_max_daily_loss_nanos p = Some m \<Longrightarrow>
  \<exists>g. sn_broker_daily_pnl_nanos (rq_snapshot rq) = Some g \<and> - m \<le> g"
  by (auto simp: gate_daily_loss_def positive_limit_def result_simps
      split: option.splits if_splits)

lemma margin_pass:
  assumes "gate_margin_utilization u p rq n = Inr None" and "0 < n"
    and "pol_max_margin_utilization_ppm p = Some m"
  shows "\<exists>f. sn_margin (rq_snapshot rq) = Some f \<and> 0 < mf_liquid_portfolio_nanos f \<and>
    mf_corrected_margin_nanos f * 1000000 < (m + 1) * mf_liquid_portfolio_nanos f"
  using assms
  by (auto simp: gate_margin_utilization_def result_simps bind_eq_Some_conv sdiv_nonneg_eq_div
      intro!: div_le_bound split: option.splits if_splits)

lemma market_data_pass: "validate_market_data u p rq = Inr None \<Longrightarrow>
  pol_max_market_data_age_ms p = Some m \<Longrightarrow>
  \<exists>t. vc_market_data_as_of_unix_ms (sn_validity (rq_snapshot rq)) = Some t \<and>
      sat_i64 (rq_now_unix_ms rq - t) \<le> m"
  by (auto simp: validate_market_data_def Let_def split: option.splits if_splits)

lemma protection_pass: "validate_protection u p rq = Inr None \<Longrightarrow>
  pol_protection_required_for_new_exposure p \<Longrightarrow>
  full_coverage (sn_protection (rq_snapshot rq)) \<or>
  (\<exists>st. ps_plan_state (sn_protection (rq_snapshot rq)) = Some st \<and> permits_additional_exposure st)"
  by (auto simp: validate_protection_def Let_def split: option.splits if_splits sum.splits)

lemma new_exposure_pass:
  "gate_new_exposure u p rq n = Inr None \<Longrightarrow> 0 < n \<Longrightarrow>
   validate_market_data u p rq = Inr None \<and> validate_protection u p rq = Inr None"
  by (auto simp: gate_new_exposure_def split: option.splits sum.splits)

lemma max_position_pass:
  "gate_max_position u p rq j n = Inr None \<Longrightarrow> 0 < n \<Longrightarrow>
   pol_max_position_abs_lots p = Some m \<Longrightarrow> \<bar>j\<bar> \<le> \<bar>m\<bar>"
  by (auto simp: gate_max_position_def split: if_splits)


text \<open>C33.  Cleanup is never locked out: a cancel or a protection action with execution authority and a
  current policy revision is approved in every risk state, ready or not, unknown conflict or
  not.\<close>

theorem cleanup_always_admitted:
  assumes "cleanup_action (rq_action rq)" and "rq_requested_delta_lots rq = 0"
    and "sn_execution_authorized (rq_snapshot rq)"
    and "vc_policy_revision (sn_validity (rq_snapshot rq)) = pol_revision p"
    and "engine_base_position (rq_snapshot rq) = Inr b"
  shows "evaluate uuid p rq = Inr (approve_maintenance uuid p rq) \<and>
    permits_dispatch (approve_maintenance uuid p rq)"
proof -
  have "\<not> directional_action (rq_action rq)" using assms(1) by (simp add: directional_not_cleanup)
  moreover have "in_i64 b" using assms(5)
    by (auto simp: engine_base_position_def result_simps bind_eq_Some_conv)
  moreover have "gate_policy_state uuid p rq 0 = Inr None"
    using assms(1) by (simp add: gate_policy_state_def Let_def split: risk_state.split)
  ultimately have "evaluate uuid p rq = Inr (approve_maintenance uuid p rq)"
    using assms(2-5) gate_runtime_pass [of uuid p rq] gate_policy_revision_pass [of uuid p rq]
    by (simp add: evaluate_def gate_request_shape_def increasing_portion_def)
  then show ?thesis
    using assms(1) by (auto simp: permits_dispatch_def approve_maintenance_def cleanup_action_def)
qed

text \<open>C34.  An emergency reduction is admitted while halted or under the kill switch only when it
  closes the whole exposure: one that reduces the position without closing it is halted like new
  exposure, since the increasing portion of a partial reduction is negative rather than zero.\<close>

theorem emergency_partial_reduction_halted:
  assumes "directional_action (rq_action rq)" and "pol_state p \<in> {risk_state.Halted, risk_state.KillSwitch}"
    and "gate_request_shape uuid p rq = Inr None" and "gate_policy_revision uuid p rq = Inr None"
    and "gate_runtime uuid p rq = Inr None"
    and "engine_base_position (rq_snapshot rq) = Inr b" and "in_i64 (- b)"
    and "0 < \<bar>rq_requested_delta_lots rq\<bar>" and "\<bar>rq_requested_delta_lots rq\<bar> < \<bar>b\<bar>"
    and "sgn (rq_requested_delta_lots rq) = - sgn b"
  shows "\<exists>d. evaluate uuid p rq = Inr d \<and> dec_outcome d = Halt \<and> \<not> permits_dispatch d"
proof -
  let ?q = "rq_requested_delta_lots rq"
  have b: "in_i64 b" using assms(6)
    by (auto simp: engine_base_position_def result_simps bind_eq_Some_conv)
  have inc: "increasing_portion b ?q = Inr (\<bar>?q\<bar> - \<bar>b\<bar>)" and j: "in_i64 (b + ?q)"
    using b assms(7-10)
    by (auto simp: increasing_portion_def range_simps checked_i64_def sgn_if split: if_splits)
  have "\<exists>d. gate_policy_state uuid p rq (\<bar>?q\<bar> - \<bar>b\<bar>) = Inr (Some d) \<and> dec_outcome d = Halt"
    using assms(1,2,9) by (auto simp: gate_policy_state_def directional_not_cleanup reject_def)
  then obtain d where "gate_policy_state uuid p rq (\<bar>?q\<bar> - \<bar>b\<bar>) = Inr (Some d)" "dec_outcome d = Halt"
    by blast
  moreover then have "evaluate uuid p rq = Inr d"
    using assms(3-6) inc j by (simp add: evaluate_def checked_i64_def gate_then_def)
  ultimately show ?thesis by (auto simp: permits_dispatch_def)
qed

subsection \<open>Totality\<close>

text \<open>A policy whose limits are positive, and facts far from the ends of their integer types.\<close>

definition sane_policy :: "risk_policy_set \<Rightarrow> bool" where
  "sane_policy p \<longleftrightarrow>
     pred_option ((\<le>) 0) (pol_max_market_data_age_ms p) \<and>
     pred_option ((<) 0) (pol_max_single_order_lots p) \<and>
     pred_option ((<) 0) (pol_max_gross_exposure_nanos p) \<and>
     pred_option ((<) 0) (pol_max_net_exposure_abs_nanos p) \<and>
     pred_option ((<) 0) (pol_max_instrument_exposure_nanos p) \<and>
     pred_option ((<) 0) (pol_max_margin_utilization_ppm p) \<and>
     pred_option ((<) 0) (pol_max_daily_loss_nanos p) \<and>
     pred_option ((\<le>) 0) (pol_max_unprotected_duration_ms p)"

definition nonneg_limits :: "broker_lot_limits \<Rightarrow> bool" where
  "nonneg_limits l \<longleftrightarrow>
     pred_option (\<lambda>b. 0 \<le> bl_max_lots b \<and> 0 \<le> bl_max_market_lots b) (ll_buy_own l) \<and>
     pred_option (\<lambda>b. 0 \<le> bl_max_lots b \<and> 0 \<le> bl_max_market_lots b) (ll_buy_margin l) \<and>
     pred_option (\<lambda>b. 0 \<le> sl_max_lots b) (ll_sell_own l) \<and>
     pred_option (\<lambda>b. 0 \<le> sl_max_lots b) (ll_sell_margin l)"

abbreviation lots_bound :: int where "lots_bound \<equiv> 1000000000000000000"

definition sane_facts :: "risk_policy_set \<Rightarrow> risk_request \<Rightarrow> bool" where
  "sane_facts p rq \<longleftrightarrow>
     (let s = rq_snapshot rq in
      \<bar>sn_current_position_lots s\<bar> \<le> lots_bound \<and> \<bar>sn_open_order_delta_lots s\<bar> \<le> lots_bound \<and>
      \<bar>sn_unresolved_unknown_delta_lots s\<bar> \<le> lots_bound \<and>
      \<bar>sn_active_reservation_delta_lots s\<bar> \<le> lots_bound \<and>
      \<bar>rq_requested_delta_lots rq\<bar> \<le> lots_bound \<and>
      \<bar>rq_requested_notional_nanos rq\<bar> \<le> 2 ^ 125 \<and>
      pred_option (\<lambda>v. \<bar>v\<bar> \<le> 2 ^ 125) (sn_gross_exposure_nanos s) \<and>
      pred_option (\<lambda>v. \<bar>v\<bar> \<le> 2 ^ 125) (sn_net_exposure_nanos s) \<and>
      pred_option (\<lambda>v. \<bar>v\<bar> \<le> 2 ^ 125) (sn_instrument_exposure_nanos s) \<and>
      pred_option (\<lambda>m. \<bar>mf_corrected_margin_nanos m\<bar> \<le> 2 ^ 100) (sn_margin s) \<and>
      pred_option nonneg_limits (sn_broker_lot_limits s) \<and>
      (pol_max_unprotected_duration_ms p \<noteq> None \<longrightarrow>
         ps_position_entered_at_unix_ms (sn_protection s) \<noteq> None))"

lemma utilization_total:
  assumes "0 \<le> c" and "\<bar>c\<bar> \<le> 2 ^ 100" and "0 < (l::int)"
  shows "in_i128 (c * 1000000)" and "in_i128 (c * 1000000 sdiv l)"
proof -
  show "in_i128 (c * 1000000)" using assms(1,2) by (simp add: in_i128_def)
  have "c * 1000000 div l \<le> c * 1000000"
    using zdiv_mono2 [of "c * 1000000" 1 l] assms(1,3) by simp
  moreover have "0 \<le> c * 1000000 div l" using assms by (simp add: pos_imp_zdiv_nonneg_iff)
  ultimately show "in_i128 (c * 1000000 sdiv l)"
    using assms by (simp add: in_i128_def sdiv_nonneg_eq_div)
qed

lemma i128_sum:
  assumes "\<bar>v\<bar> \<le> 2 ^ 125" and "\<bar>w\<bar> \<le> (2 ^ 125 :: int)"
  shows "in_i128 (v + w)" and "in_i128 \<bar>v + w\<bar>" and "in_i128 \<bar>w\<bar>" and "in_i128 (v + \<bar>w\<bar>)"
  using assms by (auto simp: in_i128_def)

lemma sane_exposure:
  assumes "sane_facts p rq"
  shows "\<bar>rq_requested_notional_nanos rq\<bar> \<le> 2 ^ 125"
    and "sn_gross_exposure_nanos (rq_snapshot rq) = Some v \<Longrightarrow> \<bar>v\<bar> \<le> 2 ^ 125"
    and "sn_net_exposure_nanos (rq_snapshot rq) = Some v \<Longrightarrow> \<bar>v\<bar> \<le> 2 ^ 125"
    and "sn_instrument_exposure_nanos (rq_snapshot rq) = Some v \<Longrightarrow> \<bar>v\<bar> \<le> 2 ^ 125"
    and "sn_margin (rq_snapshot rq) = Some m \<Longrightarrow> \<bar>mf_corrected_margin_nanos m\<bar> \<le> 2 ^ 100"
    and "sn_broker_lot_limits (rq_snapshot rq) = Some l \<Longrightarrow> nonneg_limits l"
    and "pol_max_unprotected_duration_ms p \<noteq> None \<Longrightarrow>
      ps_position_entered_at_unix_ms (sn_protection (rq_snapshot rq)) \<noteq> None"
  using assms unfolding sane_facts_def Let_def by (simp_all only: option.pred_inject) blast+

lemma sane_limits:
  assumes "sane_policy p"
  shows "pol_max_market_data_age_ms p = Some m \<Longrightarrow> 0 \<le> m"
    and "pol_max_single_order_lots p = Some m \<Longrightarrow> 0 < m"
    and "pol_max_gross_exposure_nanos p = Some m \<Longrightarrow> 0 < m"
    and "pol_max_net_exposure_abs_nanos p = Some m \<Longrightarrow> 0 < m"
    and "pol_max_instrument_exposure_nanos p = Some m \<Longrightarrow> 0 < m"
    and "pol_max_margin_utilization_ppm p = Some m \<Longrightarrow> 0 < m"
    and "pol_max_daily_loss_nanos p = Some m \<Longrightarrow> 0 < m"
    and "pol_max_unprotected_duration_ms p = Some m \<Longrightarrow> 0 \<le> m"
  using assms by (simp_all add: sane_policy_def)

lemma margin_utilization_total:
  assumes "sane_policy p" and "sane_facts p rq"
  shows "gate_margin_utilization u p rq n \<noteq> Inl e"
  using sane_limits(6) [OF assms(1)] sane_exposure(5) [OF assms(2)]
  by (auto simp: gate_margin_utilization_def utilization_total split: option.splits if_splits)

lemma exposure_gates_total:
  assumes "sane_policy p" and "sane_facts p rq"
  shows "gate_gross_exposure u p rq n \<noteq> Inl e" and "gate_net_exposure u p rq n \<noteq> Inl e"
    and "gate_instrument_exposure u p rq n \<noteq> Inl e"
  using sane_limits(3-5) [OF assms(1)] i128_sum [OF _ sane_exposure(1) [OF assms(2)]]
    sane_exposure(2-4) [OF assms(2)]
  by (auto simp: gate_gross_exposure_def gate_net_exposure_def gate_instrument_exposure_def
      checked_abs_def positive_limit_def not_le split: option.splits if_splits)

lemma new_exposure_total:
  assumes "sane_policy p" and "sane_facts p rq"
  shows "gate_new_exposure u p rq n \<noteq> Inl e"
proof -
  have "validate_market_data u p rq \<noteq> Inl e'" for e'
    using sane_limits(1) [OF assms(1)]
    by (auto simp: validate_market_data_def Let_def split: option.splits if_splits)
  moreover have "protection_duration_gate u p rq \<noteq> Inl e'" for e'
    using sane_limits(8) [OF assms(1)] sane_exposure(7) [OF assms(2)]
    by (auto simp: protection_duration_gate_def Let_def result_simps split: option.splits if_splits)
  ultimately show ?thesis
    by (auto simp: gate_new_exposure_def validate_protection_def Let_def
        split: option.splits sum.splits if_splits)
qed

lemma simple_gates_total:
  "gate_request_shape u p rq \<noteq> Inl e" "gate_policy_revision u p rq \<noteq> Inl e"
  "gate_runtime u p rq \<noteq> Inl e" "gate_policy_state u p rq n \<noteq> Inl e"
  "gate_margin_permission u p rq \<noteq> Inl e" "gate_max_position u p rq j n \<noteq> Inl e"
  "sane_policy p \<Longrightarrow> gate_daily_loss u p rq n \<noteq> Inl e"
  by (auto simp: gate_request_shape_def gate_policy_revision_def gate_runtime_def Let_def
      gate_policy_state_def gate_margin_permission_def gate_max_position_def gate_daily_loss_def
      sane_policy_def positive_limit_def split: option.splits if_splits risk_state.splits)

lemma provider_limit_total: "sane_facts p rq \<Longrightarrow> provider_limit p rq \<noteq> Inl e"
  using sane_exposure(6) [of p rq]
  by (auto simp: provider_limit_def Let_def nonneg_limits_def transpose_map_def
      selected_buy_limit_def selected_sell_limit_def split: option.splits if_splits)

lemma bounded_in_i64: "\<bar>x\<bar> \<le> 5 * lots_bound \<Longrightarrow> in_i64 x \<and> in_i64 \<bar>x\<bar>"
  by (simp add: in_i64_def abs_le_iff)

lemma sane_base:
  assumes "sane_facts p rq"
  shows "engine_base_position (rq_snapshot rq) = Inr (exposure_base (rq_snapshot rq))"
    and "in_i64 (projected_of rq)" and "in_i64 \<bar>exposure_base (rq_snapshot rq)\<bar>"
    and "in_i64 \<bar>rq_requested_delta_lots rq\<bar>"
proof -
  let ?s = "rq_snapshot rq"
  have l: "\<bar>sn_current_position_lots ?s\<bar> \<le> lots_bound" "\<bar>sn_open_order_delta_lots ?s\<bar> \<le> lots_bound"
    "\<bar>sn_unresolved_unknown_delta_lots ?s\<bar> \<le> lots_bound"
    "\<bar>sn_active_reservation_delta_lots ?s\<bar> \<le> lots_bound"
    "\<bar>rq_requested_delta_lots rq\<bar> \<le> lots_bound"
    using assms unfolding sane_facts_def Let_def by blast+
  have "in_i64 (sn_current_position_lots ?s + sn_open_order_delta_lots ?s)"
    "in_i64 (sn_current_position_lots ?s + sn_open_order_delta_lots ?s
       + sn_unresolved_unknown_delta_lots ?s)"
    by (rule bounded_in_i64 [THEN conjunct1]; use l in linarith)+
  moreover have base: "\<bar>exposure_base ?s\<bar> \<le> 4 * lots_bound"
    unfolding exposure_base_def using l by linarith
  ultimately show "engine_base_position ?s = Inr (exposure_base ?s)"
    using bounded_in_i64 [of "exposure_base ?s"]
    by (simp add: engine_base_position_def exposure_base_def)
  show "in_i64 \<bar>exposure_base ?s\<bar>" "in_i64 \<bar>rq_requested_delta_lots rq\<bar>"
    using bounded_in_i64 base l(5) by simp_all
  show "in_i64 (projected_of rq)"
    by (rule bounded_in_i64 [THEN conjunct1]) (use base l(5) in linarith)
qed

lemma size_order_total:
  assumes "sane_policy p" and "sane_facts p rq" and nz: "rq_requested_delta_lots rq \<noteq> 0"
  shows "size_order u p rq n \<noteq> Inl e"
proof -
  have q: "in_i64 \<bar>rq_requested_delta_lots rq\<bar>" by (rule sane_base [OF assms(2)])
  then obtain z where z: "size_to_policy p rq = Inr z"
    using sane_limits(2) [OF assms(1)] is_ok_iff [of "size_to_policy p rq"]
    by (auto simp: size_to_policy_def not_le split: option.splits if_splits)
  note zb = size_to_policy_bounds [OF z nz]
  obtain s where s: "size_to_provider u p rq n z = Inr s"
    using provider_limit_total [OF assms(2)] is_ok_iff [of "size_to_provider u p rq n z"]
    by (cases "provider_limit p rq") (auto simp: size_to_provider_def split: option.splits if_splits)
  have "approve_sized u p rq z' \<noteq> Inl e" if "s = Inr z'" for z'
  proof -
    note zb' = size_to_provider_bounds [OF s [unfolded that] zb(1)]
    have "in_i64 (fst z' * sgn (rq_requested_delta_lots rq))"
      using zb'(1,2) zb(2) q by (auto simp: in_i64_def sgn_if)
    moreover have "fst z' * sgn (rq_requested_delta_lots rq) = rq_requested_delta_lots rq"
      if "snd z' = None"
      using zb'(5) [OF that] zb(4) that by (simp add: sgn_if)
    ultimately show ?thesis
      by (cases "snd z'") (auto simp: approve_sized_def result_simps split: prod.splits)
  qed
  then show ?thesis
    using z s by (cases s) (auto simp: size_order_def)
qed

lemma evaluate_directional_total:
  assumes "sane_policy p" and "sane_facts p rq" and "rq_requested_delta_lots rq \<noteq> 0"
  shows "evaluate_directional u p rq j n \<noteq> Inl e"
  by (simp add: evaluate_directional_def gate_then_Inl simple_gates_total new_exposure_total
      margin_utilization_total exposure_gates_total size_order_total assms)


section \<open>Witnesses\<close>

text \<open>The policy and the request of the component's own tests.\<close>

definition sample_policy :: risk_policy_set where
  "sample_policy =
     \<lparr>pol_revision = 6, pol_state = risk_state.Normal, pol_allow_margin = False,
      pol_require_provider_lot_limit = True, pol_max_market_data_age_ms = Some 1000,
      pol_max_single_order_lots = Some 50, pol_max_position_abs_lots = Some 100,
      pol_max_gross_exposure_nanos = None, pol_max_net_exposure_abs_nanos = None,
      pol_max_instrument_exposure_nanos = None, pol_max_margin_utilization_ppm = None,
      pol_max_daily_loss_nanos = None, pol_protection_required_for_new_exposure = False,
      pol_max_unprotected_duration_ms = None\<rparr>"

definition sample_validity :: risk_validity_context where
  "sample_validity =
     \<lparr>vc_runtime_epoch = 1, vc_reconciliation_revision = 2, vc_position_revision = 3,
      vc_order_revision = 4, vc_market_data_as_of_unix_ms = Some 9500,
      vc_instrument_constraints_revision = 5, vc_policy_revision = 6,
      vc_execution_authorization_revision = 7\<rparr>"

definition sample_request :: "risk_action_kind \<Rightarrow> int \<Rightarrow> int \<Rightarrow> bool \<Rightarrow> risk_request" where
  "sample_request action position delta emergency =
     \<lparr>rq_request_id = ''request-1'', rq_account_id = ''account-1'',
      rq_broker_connection_id = ''connection-1'', rq_instrument_id = ''instrument-1'',
      rq_strategy_id = None, rq_source = Manual, rq_action = action,
      rq_requested_delta_lots = delta, rq_requested_notional_nanos = 1000000000,
      rq_is_market_order = False, rq_confirm_margin_trade = False,
      rq_emergency_reduction = emergency, rq_now_unix_ms = 10000,
      rq_snapshot =
        \<lparr>sn_runtime_ready = True, sn_execution_authorized = True, sn_instrument_tradable = True,
         sn_instrument_lot_size = 1, sn_unresolved_unknown_conflict = False,
         sn_current_position_lots = position, sn_open_order_delta_lots = 0,
         sn_unresolved_unknown_delta_lots = 0, sn_active_reservation_delta_lots = 0,
         sn_gross_exposure_nanos = None, sn_net_exposure_nanos = None,
         sn_instrument_exposure_nanos = None, sn_broker_daily_pnl_nanos = None,
         sn_broker_lot_limits = Some
           \<lparr>ll_buy_own = Some \<lparr>bl_max_lots = 100, bl_max_market_lots = 80\<rparr>, ll_buy_margin = None,
            ll_sell_own = Some \<lparr>sl_max_lots = 100\<rparr>, ll_sell_margin = None\<rparr>,
         sn_margin = None,
         sn_protection =
           \<lparr>ps_active_stop_lots = 0, ps_position_lots = position,
            ps_position_entered_at_unix_ms = None, ps_plan_id = None, ps_plan_state = None\<rparr>,
         sn_validity = sample_validity\<rparr>\<rparr>"

abbreviation sample_resized :: risk_decision where
  "sample_resized \<equiv> projr (evaluate ''1'' sample_policy (sample_request DirectionalOrder 0 75 False))"

theorem approved_quantity_bounded_witness:
  "sgn (dec_approved_delta_lots sample_resized) = 1 \<and> \<bar>dec_approved_delta_lots sample_resized\<bar> \<le> 50"
proof -
  have ok: "evaluate ''1'' sample_policy (sample_request DirectionalOrder 0 75 False)
      = Inr sample_resized"
    by (rule is_ok_projr) code_simp
  have "permits_dispatch sample_resized" by code_simp
  from approved_quantity_bounded [OF ok this] show ?thesis
    by (simp add: sample_request_def sample_policy_def directional_action_def)
qed

theorem approval_is_authorised_witness:
  "decision_of sample_policy (sample_request DirectionalOrder 0 75 False) sample_resized"
proof -
  have ok: "evaluate ''1'' sample_policy (sample_request DirectionalOrder 0 75 False)
      = Inr sample_resized"
    by (rule is_ok_projr) code_simp
  have "permits_dispatch sample_resized" by code_simp
  from approval_is_authorised [OF ok this] show ?thesis by simp
qed

abbreviation sample_closing :: risk_decision where
  "sample_closing \<equiv>
     projr (evaluate ''2'' (sample_policy\<lparr>pol_state := risk_state.KillSwitch\<rparr>)
       (sample_request DirectionalOrder 10 (- 10) True))"

theorem restricted_state_never_adds_exposure_witness:
  "dec_approved_delta_lots sample_closing = - 10 \<and>
   \<not> new_exposure 10 (dec_approved_delta_lots sample_closing)"
proof -
  have ok: "evaluate ''2'' (sample_policy\<lparr>pol_state := risk_state.KillSwitch\<rparr>)
      (sample_request DirectionalOrder 10 (- 10) True) = Inr sample_closing"
    by (rule is_ok_projr) code_simp
  have p: "permits_dispatch sample_closing" and "dec_approved_delta_lots sample_closing = - 10"
    by code_simp+
  then show ?thesis
    using restricted_state_never_adds_exposure [OF ok p]
    by (simp add: sample_request_def directional_action_def exposure_base_def)
qed


theorem cleanup_always_admitted_witness:
  "permits_dispatch (approve_maintenance ''3'' (sample_policy\<lparr>pol_state := risk_state.KillSwitch\<rparr>)
     (sample_request CancelOrder 10 0 False))"
  by (rule cleanup_always_admitted [where b = 10, THEN conjunct2]) code_simp+

theorem emergency_partial_reduction_halted_witness:
  "\<exists>d. evaluate ''4'' (sample_policy\<lparr>pol_state := risk_state.KillSwitch\<rparr>)
     (sample_request DirectionalOrder 10 (- 4) True) = Inr d \<and>
     dec_outcome d = Halt \<and> \<not> permits_dispatch d"
  by (rule emergency_partial_reduction_halted [where b = 10]) code_simp+


end
