(* ===== verification/Risk_Store.thy ===== *)
theory Risk_Store
  imports Risk_Model
begin

text \<open>
  The durable risk store, \<open>crates/vox-risk/src/store.rs\<close>.  The database is a record of tables, a
  table the list of its rows in insertion order; the unique keys of the schema are invariants the
  operations keep.  A write returns the new database, and an error leaves the old one, as the
  rollback of the source's transactions does.  Rows hold the values the JSON payloads and the text
  columns encode; the names the enumeration columns use are modelled and proved to read back.
  Failures of the disk itself, and of the JSON library, are not modelled: \<open>Sqlite\<close> stands for the
  constraint and numeric errors the database raises on its own.
\<close>

section \<open>Data\<close>

datatype risk_store_error =
    Sqlite string
  | CapacityExceeded
  | InvalidCapacity
  | ReservationNotFound
  | InvalidTransition
  | ArithmeticOverflow
  | ApprovalInvariantViolation string
  | PolicyRevisionConflict
  | InvalidPolicyMutation

record reservation_capacity =
  cap_max_account_reserved_notional_nanos :: "int option"
  cap_max_instrument_reserved_abs_lots :: "int option"

record persisted_risk_approval =
  pa_decision :: risk_decision
  pa_reservation :: risk_reservation

record policy_table_row =
  pt_account_id :: string
  pt_revision :: int
  pt_payload :: risk_policy_set
  pt_updated_at_unix_ms :: int

record policy_audit_row =
  pt_event_id :: string
  pt_audit_account_id :: string
  pt_old_revision :: "int option"
  pt_new_revision :: int
  pt_reason :: string
  pt_audit_payload :: risk_policy_set
  pt_observed_at_unix_ms :: int

record risk_db =
  db_decisions :: "risk_decision list"
  db_reservations :: "risk_reservation list"
  db_policies :: "policy_table_row list"
  db_policy_audit :: "policy_audit_row list"
  db_plans :: "risk_protection_plan_row list"

definition risk_db_empty :: risk_db where
  "risk_db_empty =
     \<lparr>db_decisions = [], db_reservations = [], db_policies = [], db_policy_audit = [],
      db_plans = []\<rparr>"

abbreviation decision_request :: "risk_decision \<Rightarrow> string \<times> string" where
  "decision_request d \<equiv> (dec_account_id d, dec_request_id d)"

abbreviation reservation_request :: "risk_reservation \<Rightarrow> string \<times> string" where
  "reservation_request r \<equiv> (res_account_id r, res_logical_request_id r)"

section \<open>Column names\<close>

fun state_name :: "reservation_state \<Rightarrow> string" where
  "state_name reservation_state.Active = ''ACTIVE''"
| "state_name PartiallyConsumed = ''PARTIALLY_CONSUMED''"
| "state_name Consumed = ''CONSUMED''"
| "state_name Released = ''RELEASED''"
| "state_name UnknownHeld = ''UNKNOWN_HELD''"
| "state_name Orphaned = ''ORPHANED''"

definition parse_state :: "string \<Rightarrow> string + reservation_state" where
  "parse_state v =
     (if v = ''ACTIVE'' then Inr reservation_state.Active
      else if v = ''PARTIALLY_CONSUMED'' then Inr PartiallyConsumed
      else if v = ''CONSUMED'' then Inr Consumed
      else if v = ''RELEASED'' then Inr Released
      else if v = ''UNKNOWN_HELD'' then Inr UnknownHeld
      else if v = ''ORPHANED'' then Inr Orphaned
      else Inl ''unknown reservation state'')"

fun plan_state_name :: "protection_plan_state \<Rightarrow> string" where
  "plan_state_name Planned = ''PLANNED''"
| "plan_state_name Submitted = ''SUBMITTED''"
| "plan_state_name protection_plan_state.Active = ''ACTIVE''"
| "plan_state_name PartialCoverage = ''PARTIAL_COVERAGE''"
| "plan_state_name FullCoverage = ''FULL_COVERAGE''"
| "plan_state_name Cancelled = ''CANCELLED''"
| "plan_state_name Failed = ''FAILED''"
| "plan_state_name Stale = ''STALE''"

definition parse_plan_state :: "string \<Rightarrow> string + protection_plan_state" where
  "parse_plan_state v =
     (if v = ''PLANNED'' then Inr Planned
      else if v = ''SUBMITTED'' then Inr Submitted
      else if v = ''ACTIVE'' then Inr protection_plan_state.Active
      else if v = ''PARTIAL_COVERAGE'' then Inr PartialCoverage
      else if v = ''FULL_COVERAGE'' then Inr FullCoverage
      else if v = ''CANCELLED'' then Inr Cancelled
      else if v = ''FAILED'' then Inr Failed
      else if v = ''STALE'' then Inr Stale
      else Inl ''unknown protection plan state'')"

fun source_name :: "risk_source \<Rightarrow> string" where
  "source_name Manual = ''MANUAL''"
| "source_name Strategy = ''STRATEGY''"
| "source_name Ml = ''ML''"
| "source_name Ai = ''AI''"
| "source_name EmergencyOperator = ''EMERGENCY_OPERATOR''"

definition parse_source :: "string \<Rightarrow> string + risk_source" where
  "parse_source v =
     (if v = ''MANUAL'' then Inr Manual
      else if v = ''STRATEGY'' then Inr Strategy
      else if v = ''ML'' then Inr Ml
      else if v = ''AI'' then Inr Ai
      else if v = ''EMERGENCY_OPERATOR'' then Inr EmergencyOperator
      else Inl ''unknown risk source'')"

text \<open>The states whose rows the queries count: \<open>state IN ('ACTIVE', 'PARTIALLY_CONSUMED',
  'UNKNOWN_HELD', 'ORPHANED')\<close>.\<close>

definition holds_capacity :: "reservation_state \<Rightarrow> bool" where
  "holds_capacity s \<longleftrightarrow>
     state_name s \<in> {''ACTIVE'', ''PARTIALLY_CONSUMED'', ''UNKNOWN_HELD'', ''ORPHANED''}"

section \<open>Queries\<close>

definition decision_by_id :: "risk_db \<Rightarrow> string \<Rightarrow> risk_decision option" where
  "decision_by_id db i = row_with dec_decision_id i (db_decisions db)"

definition decision_for_request :: "risk_db \<Rightarrow> string \<Rightarrow> string \<Rightarrow> risk_decision option" where
  "decision_for_request db account request =
     row_with decision_request (account, request) (db_decisions db)"

definition reservation_for_request ::
  "risk_db \<Rightarrow> string \<Rightarrow> string \<Rightarrow> risk_store_error + risk_reservation option" where
  "reservation_for_request db account request =
     Inr (row_with reservation_request (account, request) (db_reservations db))"

definition reservation_by_id :: "risk_db \<Rightarrow> string \<Rightarrow> risk_reservation option" where
  "reservation_by_id db i = row_with res_reservation_id i (db_reservations db)"

definition active_rows :: "risk_db \<Rightarrow> string \<Rightarrow> risk_reservation list" where
  "active_rows db account =
     filter (\<lambda>r. res_account_id r = account \<and> holds_capacity (res_state r)) (db_reservations db)"

definition active_instrument_rows :: "risk_db \<Rightarrow> string \<Rightarrow> string \<Rightarrow> risk_reservation list" where
  "active_instrument_rows db account instrument =
     filter (\<lambda>r. res_instrument_id r = instrument) (active_rows db account)"

text \<open>SQLite's \<open>SUM\<close> over integers fails when the running total leaves the 64-bit range.\<close>

definition active_reserved_delta ::
  "risk_db \<Rightarrow> string \<Rightarrow> string \<Rightarrow> risk_store_error + int" where
  "active_reserved_delta db account instrument =
     ok_or (Sqlite ''integer overflow'')
       (try_sum in_i64 0
         (map res_remaining_delta_lots (active_instrument_rows db account instrument)))"

definition active_reservations :: "risk_db \<Rightarrow> string \<Rightarrow> risk_reservation list" where
  "active_reservations db account =
     sort_key (\<lambda>r. (res_created_at_unix_ms r, res_reservation_id r)) (active_rows db account)"

definition policy :: "risk_db \<Rightarrow> string \<Rightarrow> risk_policy_set option" where
  "policy db account = map_option pt_payload (row_with pt_account_id account (db_policies db))"

definition protection_plan :: "risk_db \<Rightarrow> string \<Rightarrow> risk_protection_plan_row option" where
  "protection_plan db i = row_with pl_plan_id i (db_plans db)"

definition protection_plans_for_instrument ::
  "risk_db \<Rightarrow> string \<Rightarrow> string \<Rightarrow> risk_protection_plan_row list" where
  "protection_plans_for_instrument db account instrument =
     sort_key pl_created_at_unix_ms
       (filter (\<lambda>r. pl_account_id r = account \<and> pl_instrument_id r = instrument) (db_plans db))"

section \<open>Guards\<close>

definition validate_approval_link ::
  "risk_decision \<Rightarrow> risk_reservation \<Rightarrow> risk_store_error + unit" where
  "validate_approval_link d r =
     (if dec_account_id d \<noteq> res_account_id r
         \<or> dec_request_id d \<noteq> res_logical_request_id r
         \<or> dec_reservation_id d \<noteq> Some (res_reservation_id r)
         \<or> \<not> permits_dispatch d
         \<or> dec_approved_delta_lots d \<noteq> res_reserved_delta_lots r
      then Inl (ApprovalInvariantViolation
        ''decision and reservation do not describe the same approved request'')
      else Inr ())"

definition validate_capacity :: "reservation_capacity \<Rightarrow> risk_store_error + unit" where
  "validate_capacity c =
     (if (case cap_max_account_reserved_notional_nanos c of None \<Rightarrow> False | Some v \<Rightarrow> v < 0)
         \<or> (case cap_max_instrument_reserved_abs_lots c of None \<Rightarrow> False | Some v \<Rightarrow> v < 0)
      then Inl InvalidCapacity
      else Inr ())"

text \<open>The running total of absolute values, each of which must itself be representable.\<close>

primrec sum_abs :: "(int \<Rightarrow> bool) \<Rightarrow> int \<Rightarrow> int list \<Rightarrow> risk_store_error + int" where
  "sum_abs P active [] = Inr active"
| "sum_abs P active (v # vs) =
     (if \<not> P \<bar>v\<bar> then Inl ArithmeticOverflow
      else if \<not> P (active + \<bar>v\<bar>) then Inl ArithmeticOverflow
      else sum_abs P (active + \<bar>v\<bar>) vs)"

definition enforce_limit ::
  "(int \<Rightarrow> bool) \<Rightarrow> int list \<Rightarrow> int \<Rightarrow> int option \<Rightarrow> risk_store_error + unit" where
  "enforce_limit P held wanted limit =
     (case limit of
        None \<Rightarrow> Inr ()
      | Some l \<Rightarrow>
          and_then (sum_abs P 0 held) (\<lambda>active.
          if \<not> P \<bar>wanted\<bar> then Inl ArithmeticOverflow
          else if \<not> P (active + \<bar>wanted\<bar>) then Inl ArithmeticOverflow
          else if active + \<bar>wanted\<bar> > l then Inl CapacityExceeded
          else Inr ()))"

definition enforce_capacity ::
  "risk_db \<Rightarrow> risk_reservation \<Rightarrow> reservation_capacity \<Rightarrow> risk_store_error + unit" where
  "enforce_capacity db r c =
     and_then (enforce_limit in_i64
       (map res_remaining_delta_lots
         (active_instrument_rows db (res_account_id r) (res_instrument_id r)))
       (res_remaining_delta_lots r) (cap_max_instrument_reserved_abs_lots c)) (\<lambda>_.
     enforce_limit in_i128
       (map res_reserved_notional_nanos (active_rows db (res_account_id r)))
       (res_reserved_notional_nanos r) (cap_max_account_reserved_notional_nanos c))"

section \<open>Writes\<close>

definition insert_decision :: "risk_decision \<Rightarrow> risk_db \<Rightarrow> risk_store_error + risk_db" where
  "insert_decision d db =
     (if row_with dec_decision_id (dec_decision_id d) (db_decisions db) \<noteq> None
         \<or> row_with decision_request (decision_request d) (db_decisions db) \<noteq> None
      then Inl (Sqlite ''UNIQUE constraint failed: risk_decisions'')
      else Inr (db\<lparr>db_decisions := db_decisions db @ [d]\<rparr>))"

definition insert_reservation :: "risk_reservation \<Rightarrow> risk_db \<Rightarrow> risk_store_error + risk_db" where
  "insert_reservation r db =
     (if row_with res_reservation_id (res_reservation_id r) (db_reservations db) \<noteq> None
         \<or> row_with reservation_request (reservation_request r) (db_reservations db) \<noteq> None
      then Inl (Sqlite ''UNIQUE constraint failed: risk_reservations'')
      else Inr (db\<lparr>db_reservations := db_reservations db @ [r]\<rparr>))"

definition put_decision :: "risk_decision \<Rightarrow> risk_db \<Rightarrow> risk_store_error + risk_db" where
  "put_decision d db =
     (if row_with dec_decision_id (dec_decision_id d) (db_decisions db) \<noteq> None then Inr db
      else insert_decision d db)"

definition approval_for_request ::
  "risk_db \<Rightarrow> string \<Rightarrow> string \<Rightarrow> risk_store_error + persisted_risk_approval option" where
  "approval_for_request db account request =
     and_then (reservation_for_request db account request) (\<lambda>reservation.
     case (decision_for_request db account request, reservation) of
       (None, None) \<Rightarrow> Inr None
     | (Some d, Some r) \<Rightarrow>
         and_then (validate_approval_link d r) (\<lambda>_.
         Inr (Some \<lparr>pa_decision = d, pa_reservation = r\<rparr>))
     | _ \<Rightarrow> Inl (ApprovalInvariantViolation ''risk request has incomplete persisted approval''))"

definition persist_approval_atomic ::
  "risk_decision \<Rightarrow> risk_reservation \<Rightarrow> reservation_capacity \<Rightarrow> risk_db
   \<Rightarrow> risk_store_error + persisted_risk_approval \<times> risk_db" where
  "persist_approval_atomic d r c db =
     and_then (validate_approval_link d r) (\<lambda>_.
     and_then (validate_capacity c) (\<lambda>_.
     and_then (reservation_for_request db (res_account_id r) (res_logical_request_id r))
       (\<lambda>existing.
        case existing of
          Some existing_reservation \<Rightarrow>
            and_then (ok_or
              (ApprovalInvariantViolation ''reservation exists without its risk decision'')
              (decision_for_request db (dec_account_id d) (dec_request_id d)))
              (\<lambda>existing_decision.
               Inr (\<lparr>pa_decision = existing_decision, pa_reservation = existing_reservation\<rparr>, db))
        | None \<Rightarrow>
            and_then (enforce_capacity db r c) (\<lambda>_.
            and_then (insert_decision d db) (\<lambda>db.
            and_then (insert_reservation r db) (\<lambda>db.
            Inr (\<lparr>pa_decision = d, pa_reservation = r\<rparr>, db)))))))"

text \<open>\<open>SUM(ABS(x))\<close>: \<open>ABS\<close> fails on the least 64-bit integer, \<open>SUM\<close> on overflow.\<close>

definition sql_sum_abs :: "int list \<Rightarrow> risk_store_error + int" where
  "sql_sum_abs vs = map_err (\<lambda>_. Sqlite ''integer overflow'') (sum_abs in_i64 0 vs)"

definition reserve_atomic ::
  "risk_reservation \<Rightarrow> int \<Rightarrow> risk_db \<Rightarrow> risk_store_error + risk_reservation \<times> risk_db" where
  "reserve_atomic r max_active_abs_lots db =
     (if max_active_abs_lots < 0 then Inl InvalidCapacity
      else and_then (reservation_for_request db (res_account_id r) (res_logical_request_id r))
        (\<lambda>existing.
         case existing of
           Some e \<Rightarrow> Inr (e, db)
         | None \<Rightarrow>
             and_then (sql_sum_abs (map res_remaining_delta_lots (active_rows db (res_account_id r))))
               (\<lambda>active.
                if \<not> in_i64 \<bar>res_remaining_delta_lots r\<bar> then Inl ArithmeticOverflow
                else if \<not> in_i64 (active + \<bar>res_remaining_delta_lots r\<bar>) then Inl ArithmeticOverflow
                else if active + \<bar>res_remaining_delta_lots r\<bar> > max_active_abs_lots then
                  Inl CapacityExceeded
                else and_then (insert_reservation r db) (\<lambda>db. Inr (r, db)))))"

definition update_reservation ::
  "string \<Rightarrow> reservation_state list \<Rightarrow> int \<Rightarrow> reservation_state \<Rightarrow> int \<Rightarrow> risk_db
   \<Rightarrow> risk_store_error + risk_reservation \<times> risk_db" where
  "update_reservation reservation_id expected remaining state now db =
     and_then (ok_or ReservationNotFound (reservation_by_id db reservation_id)) (\<lambda>current.
     if res_state current \<notin> set expected then Inl InvalidTransition
     else
       let db' = db\<lparr>db_reservations :=
             modify_row res_reservation_id reservation_id
               (\<lambda>r. r\<lparr>res_remaining_delta_lots := remaining, res_state := state,
                       res_updated_at_unix_ms := now\<rparr>)
               (db_reservations db)\<rparr>
       in and_then (ok_or ReservationNotFound (reservation_by_id db' reservation_id)) (\<lambda>updated.
          Inr (updated, db')))"

definition put_policy ::
  "string \<Rightarrow> string \<Rightarrow> int option \<Rightarrow> risk_policy_set \<Rightarrow> string \<Rightarrow> int \<Rightarrow> risk_db
   \<Rightarrow> risk_store_error + risk_policy_set \<times> risk_db" where
  "put_policy uuid account expected_revision new reason now db =
     (if blank account \<or> blank reason \<or> pol_revision new = 0 then Inl InvalidPolicyMutation
      else
        let current = row_with pt_account_id account (db_policies db);
            stale = (case (expected_revision, current) of
                (None, None) \<Rightarrow> False
              | (Some expected, Some actual) \<Rightarrow> expected \<noteq> pt_revision actual
              | _ \<Rightarrow> True)
        in if stale then Inl PolicyRevisionConflict
           else if (case current of None \<Rightarrow> False | Some actual \<Rightarrow> pol_revision new \<le> pt_revision actual)
           then Inl PolicyRevisionConflict
           else if \<not> in_i64 (pol_revision new) then Inl (Sqlite ''u64 out of range'')
           else
             let row = \<lparr>pt_account_id = account, pt_revision = pol_revision new, pt_payload = new,
                        pt_updated_at_unix_ms = now\<rparr>;
                 event = \<lparr>pt_event_id = ''risk-policy-audit:'' @ uuid,
                          pt_audit_account_id = account,
                          pt_old_revision = map_option pt_revision current,
                          pt_new_revision = pol_revision new,
                          pt_reason = reason,
                          pt_audit_payload = new,
                          pt_observed_at_unix_ms = now\<rparr>
             in if row_with pt_event_id (pt_event_id event) (db_policy_audit db) \<noteq> None
                then Inl (Sqlite ''UNIQUE constraint failed: risk_policy_audit.event_id'')
                else Inr (new, db\<lparr>db_policies := upsert_row pt_account_id row (\<lambda>_. row) (db_policies db),
                                   db_policy_audit := db_policy_audit db @ [event]\<rparr>))"

definition put_protection_plan ::
  "risk_protection_plan_row \<Rightarrow> risk_db \<Rightarrow> risk_store_error + risk_db" where
  "put_protection_plan p db =
     Inr (db\<lparr>db_plans := upsert_row pl_plan_id p
       (\<lambda>old. old\<lparr>pl_protected_delta_lots := pl_protected_delta_lots p, pl_state := pl_state p,
                   pl_updated_at_unix_ms := pl_updated_at_unix_ms p\<rparr>) (db_plans db)\<rparr>)"

definition transition_protection_plan ::
  "string \<Rightarrow> protection_plan_state list \<Rightarrow> protection_plan_state \<Rightarrow> int \<Rightarrow> risk_db
   \<Rightarrow> risk_store_error + risk_protection_plan_row \<times> risk_db" where
  "transition_protection_plan plan_id expected new_state now db =
     and_then (ok_or ReservationNotFound (protection_plan db plan_id)) (\<lambda>current.
     if pl_state current \<notin> set expected then Inl InvalidTransition
     else
       let db' = db\<lparr>db_plans := modify_row pl_plan_id plan_id
             (\<lambda>p. p\<lparr>pl_state := new_state, pl_updated_at_unix_ms := now\<rparr>) (db_plans db)\<rparr>
       in and_then (ok_or ReservationNotFound (protection_plan db' plan_id)) (\<lambda>updated.
          Inr (updated, db')))"

section \<open>The invariant of the tables\<close>

definition risk_db_inv :: "risk_db \<Rightarrow> bool" where
  "risk_db_inv db \<longleftrightarrow>
     distinct (map dec_decision_id (db_decisions db)) \<and>
     distinct (map decision_request (db_decisions db)) \<and>
     distinct (map res_reservation_id (db_reservations db)) \<and>
     distinct (map reservation_request (db_reservations db)) \<and>
     distinct (map pt_account_id (db_policies db)) \<and>
     (\<forall>row \<in> set (db_policies db). pt_revision row = pol_revision (pt_payload row)) \<and>
     distinct (map pt_event_id (db_policy_audit db)) \<and>
     distinct (map pl_plan_id (db_plans db))"

lemma risk_db_empty_inv [simp]: "risk_db_inv risk_db_empty"
  by (simp add: risk_db_inv_def risk_db_empty_def)

lemma insert_decision_inv: "insert_decision d db = Inr db' \<Longrightarrow> risk_db_inv db \<Longrightarrow> risk_db_inv db'"
  by (auto simp: insert_decision_def risk_db_inv_def row_with_None split: if_splits)

lemma insert_reservation_inv:
  "insert_reservation r db = Inr db' \<Longrightarrow> risk_db_inv db \<Longrightarrow> risk_db_inv db'"
  by (auto simp: insert_reservation_def risk_db_inv_def row_with_None split: if_splits)

lemma put_decision_inv: "put_decision d db = Inr db' \<Longrightarrow> risk_db_inv db \<Longrightarrow> risk_db_inv db'"
  by (auto simp: put_decision_def insert_decision_inv split: if_splits)

lemma persist_approval_cases:
  assumes "persist_approval_atomic d r c db = Inr (a, db')"
  obtains (replay) "db' = db"
      "reservation_for_request db (res_account_id r) (res_logical_request_id r)
         = Inr (Some (pa_reservation a))"
      "decision_for_request db (dec_account_id d) (dec_request_id d) = Some (pa_decision a)"
      "validate_approval_link d r = Inr ()"
  | (fresh) db1 where "a = \<lparr>pa_decision = d, pa_reservation = r\<rparr>"
      "validate_approval_link d r = Inr ()" "enforce_capacity db r c = Inr ()"
      "insert_decision d db = Inr db1" "insert_reservation r db1 = Inr db'"
      "reservation_for_request db (res_account_id r) (res_logical_request_id r) = Inr None"
  using assms
  by (fastforce simp: persist_approval_atomic_def reservation_for_request_def result_simps
      split: option.splits)

lemma persist_approval_inv:
  "persist_approval_atomic d r c db = Inr (a, db') \<Longrightarrow> risk_db_inv db \<Longrightarrow> risk_db_inv db'"
  by (erule persist_approval_cases) (auto dest: insert_decision_inv insert_reservation_inv)

lemma reserve_atomic_inv:
  "reserve_atomic r m db = Inr (x, db') \<Longrightarrow> risk_db_inv db \<Longrightarrow> risk_db_inv db'"
  by (auto simp: reserve_atomic_def reservation_for_request_def result_simps
      dest: insert_reservation_inv split: if_splits option.splits)

lemma update_reservation_rows:
  assumes "update_reservation i expected remaining st now db = Inr (r', db')"
  obtains r where "row_with res_reservation_id i (db_reservations db) = Some r"
    "res_state r \<in> set expected"
    "r' = r\<lparr>res_remaining_delta_lots := remaining, res_state := st, res_updated_at_unix_ms := now\<rparr>"
    "db' = db\<lparr>db_reservations := modify_row res_reservation_id i
       (\<lambda>r. r\<lparr>res_remaining_delta_lots := remaining, res_state := st, res_updated_at_unix_ms := now\<rparr>)
       (db_reservations db)\<rparr>"
  using assms
  by (auto simp: update_reservation_def reservation_by_id_def result_simps Let_def row_with_modify
      dest: row_with_SomeD split: if_splits)

lemma update_reservation_inv:
  "update_reservation i expected remaining st now db = Inr (r', db') \<Longrightarrow> risk_db_inv db
   \<Longrightarrow> risk_db_inv db'"
  by (erule update_reservation_rows) (simp add: risk_db_inv_def)

lemma put_policy_cases:
  assumes "put_policy uuid account expected new reason now db = Inr (p, db')"
  obtains "p = new" "\<not> blank account" "\<not> blank reason" "pol_revision new \<noteq> 0"
    "map_option pt_revision (row_with pt_account_id account (db_policies db)) = expected"
    "\<And>old. expected = Some old \<Longrightarrow> old < pol_revision new"
    "row_with pt_event_id (''risk-policy-audit:'' @ uuid) (db_policy_audit db) = None"
    "db' = db\<lparr>db_policies := upsert_row pt_account_id
         \<lparr>pt_account_id = account, pt_revision = pol_revision new, pt_payload = new,
          pt_updated_at_unix_ms = now\<rparr>
         (\<lambda>_. \<lparr>pt_account_id = account, pt_revision = pol_revision new, pt_payload = new,
               pt_updated_at_unix_ms = now\<rparr>) (db_policies db),
       db_policy_audit := db_policy_audit db @
         [\<lparr>pt_event_id = ''risk-policy-audit:'' @ uuid, pt_audit_account_id = account,
           pt_old_revision = expected, pt_new_revision = pol_revision new,
           pt_reason = reason, pt_audit_payload = new, pt_observed_at_unix_ms = now\<rparr>]\<rparr>"
  using assms by (auto simp: put_policy_def Let_def split: if_splits option.splits)

lemma put_policy_inv:
  assumes "put_policy uuid account expected new reason now db = Inr (p, db')" and "risk_db_inv db"
  shows "risk_db_inv db'"
  using assms(1)
proof (rule put_policy_cases)
  let ?row = "\<lparr>pt_account_id = account, pt_revision = pol_revision new, pt_payload = new,
    pt_updated_at_unix_ms = now\<rparr>"
  assume "db' = db\<lparr>db_policies := upsert_row pt_account_id ?row (\<lambda>_. ?row) (db_policies db),
       db_policy_audit := db_policy_audit db @
         [\<lparr>pt_event_id = ''risk-policy-audit:'' @ uuid, pt_audit_account_id = account,
           pt_old_revision = expected, pt_new_revision = pol_revision new,
           pt_reason = reason, pt_audit_payload = new, pt_observed_at_unix_ms = now\<rparr>]\<rparr>"
    and "row_with pt_event_id (''risk-policy-audit:'' @ uuid) (db_policy_audit db) = None"
  moreover have "distinct (map pt_account_id (upsert_row pt_account_id ?row (\<lambda>_. ?row) (db_policies db)))"
    by (rule upsert_row_keys) (use assms(2) in \<open>simp_all add: risk_db_inv_def\<close>)
  moreover have "\<forall>row \<in> set (upsert_row pt_account_id ?row (\<lambda>_. ?row) (db_policies db)).
      pt_revision row = pol_revision (pt_payload row)"
    using assms(2)
    by (auto simp: risk_db_inv_def upsert_row_def set_modify_row split: option.splits)
  ultimately show ?thesis
    using assms(2) by (simp add: risk_db_inv_def row_with_None)
qed

lemma put_protection_plan_inv:
  "put_protection_plan p db = Inr db' \<Longrightarrow> risk_db_inv db \<Longrightarrow> risk_db_inv db'"
  by (auto simp: put_protection_plan_def risk_db_inv_def intro!: upsert_row_keys)

lemma transition_protection_plan_inv:
  "transition_protection_plan i ex st now db = Inr (p, db') \<Longrightarrow> risk_db_inv db \<Longrightarrow> risk_db_inv db'"
  by (auto simp: transition_protection_plan_def risk_db_inv_def result_simps Let_def
      split: if_splits)

section \<open>What the writes achieve\<close>

lemma parse_state_name: "parse_state v = Inr s \<longleftrightarrow> v = state_name s"
  by (cases s) (auto simp: parse_state_def)

lemma parse_plan_state_name: "parse_plan_state v = Inr p \<longleftrightarrow> v = plan_state_name p"
  by (cases p) (auto simp: parse_plan_state_def)

lemma parse_source_name: "parse_source v = Inr src \<longleftrightarrow> v = source_name src"
  by (cases src) (auto simp: parse_source_def)

text \<open> The names written in the enumeration columns read back as the value written, and nothing
  else reads as that value.\<close>

theorem column_names_round_trip:
  "(parse_state v = Inr s \<longleftrightarrow> v = state_name s) \<and>
   (parse_plan_state v = Inr p \<longleftrightarrow> v = plan_state_name p) \<and>
   (parse_source v = Inr src \<longleftrightarrow> v = source_name src)"
  by (simp add: parse_state_name parse_plan_state_name parse_source_name)

lemma holds_capacity_iff [simp]:
  "holds_capacity s \<longleftrightarrow> s \<noteq> Consumed \<and> s \<noteq> Released"
  by (cases s) (simp_all add: holds_capacity_def)

lemma sum_abs_value: "sum_abs P a vs = Inr t \<Longrightarrow> t = a + sum_list (map abs vs)"
  by (induction vs arbitrary: a) (fastforce split: if_splits)+

lemma enforce_limit_ok:
  "enforce_limit P held wanted (Some l) = Inr u \<Longrightarrow> sum_list (map abs held) + \<bar>wanted\<bar> \<le> l"
  by (auto simp: enforce_limit_def and_then_Inr dest!: sum_abs_value split: if_splits)

text \<open>The capacity a set of live reservations takes: the lots still outstanding on an instrument,
  and the notional reserved on an account.\<close>

definition held_lots :: "risk_db \<Rightarrow> string \<Rightarrow> string \<Rightarrow> int" where
  "held_lots db account instrument =
     sum_list (map (\<lambda>r. \<bar>res_remaining_delta_lots r\<bar>) (active_instrument_rows db account instrument))"

definition held_notional :: "risk_db \<Rightarrow> string \<Rightarrow> int" where
  "held_notional db account =
     sum_list (map (\<lambda>r. \<bar>res_reserved_notional_nanos r\<bar>) (active_rows db account))"

lemma enforce_capacity_lots:
  "enforce_capacity db r c = Inr u \<Longrightarrow> cap_max_instrument_reserved_abs_lots c = Some l \<Longrightarrow>
   held_lots db (res_account_id r) (res_instrument_id r) + \<bar>res_remaining_delta_lots r\<bar> \<le> l"
  by (auto simp: enforce_capacity_def and_then_Inr held_lots_def comp_def dest!: enforce_limit_ok)

lemma enforce_capacity_notional:
  "enforce_capacity db r c = Inr u \<Longrightarrow> cap_max_account_reserved_notional_nanos c = Some l \<Longrightarrow>
   held_notional db (res_account_id r) + \<bar>res_reserved_notional_nanos r\<bar> \<le> l"
  by (auto simp: enforce_capacity_def and_then_Inr held_notional_def comp_def dest!: enforce_limit_ok)

lemma insert_decision_db: "insert_decision d db = Inr db' \<Longrightarrow>
  db' = db\<lparr>db_decisions := db_decisions db @ [d]\<rparr> \<and>
  decision_request d \<notin> decision_request ` set (db_decisions db)"
  by (auto simp: insert_decision_def row_with_None split: if_splits)

lemma insert_reservation_db: "insert_reservation r db = Inr db' \<Longrightarrow>
  db' = db\<lparr>db_reservations := db_reservations db @ [r]\<rparr> \<and>
  reservation_request r \<notin> reservation_request ` set (db_reservations db)"
  by (auto simp: insert_reservation_def row_with_None split: if_splits)

lemma held_append:
  assumes "db_reservations db' = db_reservations db @ [r]"
  shows "held_lots db' acc ins \<le> held_lots db acc ins +
      (if acc = res_account_id r \<and> ins = res_instrument_id r then \<bar>res_remaining_delta_lots r\<bar> else 0)"
    and "held_notional db' acc \<le> held_notional db acc +
      (if acc = res_account_id r then \<bar>res_reserved_notional_nanos r\<bar> else 0)"
  using assms
  by (auto simp: held_lots_def held_notional_def active_instrument_rows_def active_rows_def)

lemma persist_reservations:
  assumes "persist_approval_atomic d r c db = Inr (a, db')"
  shows "db' = db \<or> db_reservations db' = db_reservations db @ [r]"
  using assms by (rule persist_approval_cases) (auto dest!: insert_decision_db insert_reservation_db)

text \<open>C27.  Reservations never exceed the capacity they were admitted under: whatever else runs
  before, an approval that is persisted leaves the lots held on its instrument, and the notional
  held on its account, within the limits it was given; a replay changes nothing.\<close>

theorem persisted_approval_within_capacity:
  assumes "persist_approval_atomic d r c db = Inr (a, db')"
  shows "db' = db \<or>
    (case cap_max_instrument_reserved_abs_lots c of
       None \<Rightarrow> True | Some l \<Rightarrow> held_lots db' (res_account_id r) (res_instrument_id r) \<le> l) \<and>
    (case cap_max_account_reserved_notional_nanos c of
       None \<Rightarrow> True | Some l \<Rightarrow> held_notional db' (res_account_id r) \<le> l)"
  using assms
proof (rule persist_approval_cases)
  fix db1
  assume cap: "enforce_capacity db r c = Inr ()"
    and "insert_decision d db = Inr db1" "insert_reservation r db1 = Inr db'"
  then have rows: "db_reservations db' = db_reservations db @ [r]"
    by (auto dest!: insert_decision_db insert_reservation_db)
  show ?thesis
    using held_append(1) [OF rows, of "res_account_id r" "res_instrument_id r"]
      held_append(2) [OF rows, of "res_account_id r"]
      enforce_capacity_lots [OF cap] enforce_capacity_notional [OF cap]
    by (fastforce split: option.splits)
qed simp

text \<open>Every reservation has the decision that approved it.\<close>

definition linked :: "risk_db \<Rightarrow> bool" where
  "linked db \<longleftrightarrow>
     (\<forall>r \<in> set (db_reservations db). \<exists>d \<in> set (db_decisions db).
        decision_request d = reservation_request r \<and> validate_approval_link d r = Inr ())"

lemma linked_empty [simp]: "linked risk_db_empty"
  by (simp add: linked_def risk_db_empty_def)

lemma validate_approval_link_request:
  "validate_approval_link d r = Inr u \<Longrightarrow> decision_request d = reservation_request r"
  by (auto simp: validate_approval_link_def split: if_splits)

lemma persist_approval_linked:
  assumes "persist_approval_atomic d r c db = Inr (a, db')" and "linked db"
  shows "linked db'"
  using assms(1)
proof (rule persist_approval_cases)
  fix db1
  assume "insert_decision d db = Inr db1" "insert_reservation r db1 = Inr db'"
    and v: "validate_approval_link d r = Inr ()"
  then have "db_decisions db' = db_decisions db @ [d]" "db_reservations db' = db_reservations db @ [r]"
    by (auto dest!: insert_decision_db insert_reservation_db)
  then show ?thesis
    using assms(2) v validate_approval_link_request [OF v] by (auto simp: linked_def)
qed (use assms(2) in simp)

lemma linked_decision:
  assumes "risk_db_inv db" and "linked db"
    and "row_with reservation_request (acc, q) (db_reservations db) = Some r"
    and "row_with decision_request (acc, q) (db_decisions db) = Some d"
  shows "validate_approval_link d r = Inr ()"
proof -
  obtain d' where d': "d' \<in> set (db_decisions db)" "decision_request d' = (acc, q)"
    "validate_approval_link d' r = Inr ()"
    using assms(2) row_with_SomeD [OF assms(3)] by (auto simp: linked_def)
  moreover have "d = d'"
    using row_unique [of decision_request "db_decisions db" d d'] assms(1) d'
      row_with_SomeD [OF assms(4)] by (simp add: risk_db_inv_def)
  ultimately show ?thesis by simp
qed

lemma persisted_approval_reads_back':
  assumes "persist_approval_atomic d r c db = Inr (a, db')" and "risk_db_inv db" and "linked db"
  shows "approval_for_request db' (res_account_id r) (res_logical_request_id r) = Inr (Some a) \<and>
    risk_db_inv db' \<and> linked db'"
proof -
  have inv: "risk_db_inv db'" "linked db'"
    using persist_approval_inv persist_approval_linked assms by blast+
  have "row_with reservation_request (reservation_request r) (db_reservations db')
        = Some (pa_reservation a) \<and>
      row_with decision_request (reservation_request r) (db_decisions db') = Some (pa_decision a)"
    using assms(1)
  proof (rule persist_approval_cases)
    assume "db' = db" and "validate_approval_link d r = Inr ()"
      "reservation_for_request db (res_account_id r) (res_logical_request_id r)
         = Inr (Some (pa_reservation a))"
      "decision_for_request db (dec_account_id d) (dec_request_id d) = Some (pa_decision a)"
    then show ?thesis
      by (auto simp: reservation_for_request_def decision_for_request_def
          dest: validate_approval_link_request)
  next
    fix db1
    assume "a = \<lparr>pa_decision = d, pa_reservation = r\<rparr>" "insert_decision d db = Inr db1"
      "insert_reservation r db1 = Inr db'" "validate_approval_link d r = Inr ()"
    then show ?thesis
      using row_with_fresh [of reservation_request r "db_reservations db"]
        row_with_fresh [of decision_request d "db_decisions db"]
      by (auto dest!: insert_decision_db insert_reservation_db validate_approval_link_request)
  qed
  moreover from this have "validate_approval_link (pa_decision a) (pa_reservation a) = Inr ()"
    using linked_decision [OF inv] by blast
  ultimately show ?thesis
    using inv
    by (simp add: approval_for_request_def reservation_for_request_def decision_for_request_def)
qed

text \<open>C25.  Persisting an approval is atomic and durable: afterwards the request has both its decision
  and its reservation, they describe the same approval, and reading the approval back gives what
  was returned.\<close>

theorem persisted_approval_reads_back:
  assumes "persist_approval_atomic d r c db = Inr (a, db')" and "risk_db_inv db" and "linked db"
  shows "approval_for_request db' (res_account_id r) (res_logical_request_id r) = Inr (Some a) \<and>
    risk_db_inv db' \<and> linked db'"
  by (rule persisted_approval_reads_back' [OF assms])

text \<open>C26.  Retrying an admitted request is harmless: once an approval is persisted, any later attempt
  for the same account and request returns that same approval and leaves the store as it is,
  whatever decision, reservation and capacity the retry carries.\<close>

theorem persisted_approval_replay:
  assumes "persist_approval_atomic d r c db = Inr (a, db1)" and "risk_db_inv db" and "linked db"
    and "reservation_request r' = reservation_request r"
    and "validate_approval_link d' r' = Inr ()" and "validate_capacity c' = Inr ()"
  shows "persist_approval_atomic d' r' c' db1 = Inr (a, db1)"
proof -
  have "approval_for_request db1 (res_account_id r) (res_logical_request_id r) = Inr (Some a)"
    using persisted_approval_reads_back' assms(1-3) by blast
  then have "row_with reservation_request (reservation_request r) (db_reservations db1)
        = Some (pa_reservation a)"
      "row_with decision_request (reservation_request r) (db_decisions db1) = Some (pa_decision a)"
    by (auto simp: approval_for_request_def reservation_for_request_def decision_for_request_def
        result_simps split: option.splits)
  then show ?thesis
    using assms(4-6) validate_approval_link_request [OF assms(5)]
    by (simp add: persist_approval_atomic_def reservation_for_request_def decision_for_request_def)
qed

text \<open>The history of an account's policy: the revisions its audit events went through.\<close>

definition audit_steps :: "risk_db \<Rightarrow> string \<Rightarrow> (int option \<times> int) list" where
  "audit_steps db account =
     map (\<lambda>e. (pt_old_revision e, pt_new_revision e))
       (filter (\<lambda>e. pt_audit_account_id e = account) (db_policy_audit db))"

fun audit_chain :: "int option \<Rightarrow> (int option \<times> int) list \<Rightarrow> int option \<Rightarrow> bool" where
  "audit_chain start [] finish \<longleftrightarrow> start = finish"
| "audit_chain start ((old, new) # steps) finish \<longleftrightarrow>
     old = start \<and> (\<forall>o'. old = Some o' \<longrightarrow> o' < new) \<and> audit_chain (Some new) steps finish"

definition policy_revision :: "risk_db \<Rightarrow> string \<Rightarrow> int option" where
  "policy_revision db account =
     map_option pt_revision (row_with pt_account_id account (db_policies db))"

definition audited :: "risk_db \<Rightarrow> bool" where
  "audited db \<longleftrightarrow> (\<forall>account. audit_chain None (audit_steps db account) (policy_revision db account))"

lemma audit_chain_snoc:
  "audit_chain start (steps @ [(old, new)]) (Some new) \<longleftrightarrow>
     audit_chain start steps old \<and> (\<forall>o'. old = Some o' \<longrightarrow> o' < new)"
  by (induction start steps old rule: audit_chain.induct) auto

text \<open>C29.  A policy write is an audited compare-and-set: it succeeds only against the revision the
  caller expected, the stored policy is then the new one for that account alone, its revision is
  strictly larger, and the audit trail of every account stays an unbroken chain of increasing
  revisions that ends at the stored one.\<close>

theorem put_policy_audited_cas:
  assumes "put_policy uuid account expected new reason now db = Inr (p, db')" and "audited db"
  shows "policy_revision db account = expected \<and>
    (\<forall>old. expected = Some old \<longrightarrow> old < pol_revision new) \<and>
    policy db' account = Some new \<and>
    (\<forall>other. other \<noteq> account \<longrightarrow> policy db' other = policy db other) \<and>
    audited db'"
  using assms(1)
proof (rule put_policy_cases)
  let ?row = "\<lparr>pt_account_id = account, pt_revision = pol_revision new, pt_payload = new,
    pt_updated_at_unix_ms = now\<rparr>"
  assume exp: "map_option pt_revision (row_with pt_account_id account (db_policies db)) = expected"
    and mono: "\<And>old. expected = Some old \<Longrightarrow> old < pol_revision new"
    and db': "db' = db\<lparr>db_policies := upsert_row pt_account_id ?row (\<lambda>_. ?row) (db_policies db),
       db_policy_audit := db_policy_audit db @
         [\<lparr>pt_event_id = ''risk-policy-audit:'' @ uuid, pt_audit_account_id = account,
           pt_old_revision = expected, pt_new_revision = pol_revision new,
           pt_reason = reason, pt_audit_payload = new, pt_observed_at_unix_ms = now\<rparr>]\<rparr>"
  have rows: "row_with pt_account_id k (db_policies db') =
      (if k = account then Some ?row else row_with pt_account_id k (db_policies db))" for k
    using row_with_upsert [of pt_account_id ?row "\<lambda>_. ?row"] db' by (auto split: option.splits)
  have "audited db'"
    unfolding audited_def
  proof
    fix k
    show "audit_chain None (audit_steps db' k) (policy_revision db' k)"
      using assms(2) exp mono rows [of k]
      by (cases "k = account")
        (auto simp: audited_def audit_steps_def policy_revision_def db' audit_chain_snoc)
  qed
  then show ?thesis
    using exp mono rows by (simp add: policy_def policy_revision_def)
qed

section \<open>Witnesses\<close>

definition sample_decision :: "string \<Rightarrow> int \<Rightarrow> risk_decision" where
  "sample_decision request lots =
     \<lparr>dec_decision_id = ''risk-decision:'' @ request, dec_request_id = request,
      dec_policy_revision = 6, dec_account_id = ''account-1'', dec_action = DirectionalOrder,
      dec_requested_delta_lots = lots, dec_approved_delta_lots = lots, dec_outcome = Approve,
      dec_reasons = [], dec_reservation_id = Some (''risk-reservation:'' @ request),
      dec_expires_at_unix_ms = None,
      dec_validity = \<lparr>vc_runtime_epoch = 1, vc_reconciliation_revision = 2, vc_position_revision = 2,
        vc_order_revision = 2, vc_market_data_as_of_unix_ms = None,
        vc_instrument_constraints_revision = 5, vc_policy_revision = 6,
        vc_execution_authorization_revision = 7\<rparr>\<rparr>"

definition sample_reservation :: "string \<Rightarrow> int \<Rightarrow> risk_reservation" where
  "sample_reservation request lots =
     \<lparr>res_reservation_id = ''risk-reservation:'' @ request, res_account_id = ''account-1'',
      res_instrument_id = ''instrument-1'', res_strategy_id = None, res_source = Manual,
      res_logical_request_id = request, res_reserved_delta_lots = lots,
      res_remaining_delta_lots = lots, res_reserved_notional_nanos = 1000,
      res_state = reservation_state.Active, res_created_at_unix_ms = 1, res_updated_at_unix_ms = 1,
      res_expires_at_unix_ms = None\<rparr>"

definition sample_capacity :: reservation_capacity where
  "sample_capacity =
     \<lparr>cap_max_account_reserved_notional_nanos = Some 5000,
      cap_max_instrument_reserved_abs_lots = Some 10\<rparr>"

abbreviation sample_persist :: "risk_store_error + persisted_risk_approval \<times> risk_db" where
  "sample_persist \<equiv>
     persist_approval_atomic (sample_decision ''r1'' 7) (sample_reservation ''r1'' 7)
       sample_capacity risk_db_empty"

lemma sample_persist_ok: "sample_persist = Inr (fst (projr sample_persist), snd (projr sample_persist))"
  using is_ok_projr [of sample_persist] by (simp, code_simp)

theorem persisted_approval_within_capacity_witness:
  "held_lots (snd (projr sample_persist)) ''account-1'' ''instrument-1'' \<le> 10"
proof -
  have "snd (projr sample_persist) \<noteq> risk_db_empty" by code_simp
  then show ?thesis
    using persisted_approval_within_capacity [OF sample_persist_ok]
    by (simp add: sample_capacity_def sample_reservation_def)
qed

theorem persisted_approval_reads_back_witness:
  "approval_for_request (snd (projr sample_persist)) ''account-1'' ''r1''
     = Inr (Some (fst (projr sample_persist)))"
  using persisted_approval_reads_back [OF sample_persist_ok] by (simp add: sample_reservation_def)

theorem persisted_approval_replay_witness:
  "persist_approval_atomic (sample_decision ''r1'' 3) (sample_reservation ''r1'' 3) sample_capacity
     (snd (projr sample_persist)) = Inr (projr sample_persist)"
proof -
  have "validate_approval_link (sample_decision ''r1'' 3) (sample_reservation ''r1'' 3) = Inr ()"
    "validate_capacity sample_capacity = Inr ()"
    by code_simp+
  from persisted_approval_replay [OF sample_persist_ok _ _ _ this] show ?thesis
    by (simp add: sample_reservation_def)
qed

theorem put_policy_audited_cas_witness:
  "policy (snd (projr (put_policy ''u'' ''account-1'' None (fail_closed 1) ''init'' 5 risk_db_empty)))
     ''account-1'' = Some (fail_closed 1)"
proof -
  let ?r = "put_policy ''u'' ''account-1'' None (fail_closed 1) ''init'' 5 risk_db_empty"
  have "is_ok ?r" by code_simp
  then have "?r = Inr (fst (projr ?r), snd (projr ?r))" using is_ok_projr [of ?r] by simp
  moreover have "audited risk_db_empty"
    by (simp add: audited_def audit_steps_def policy_revision_def risk_db_empty_def)
  ultimately show ?thesis using put_policy_audited_cas by blast
qed

end
