(* ===== verification/Risk_Reconcile.thy ===== *)
theory Risk_Reconcile
  imports Risk_Store
begin

text \<open>
  The lifecycle of reservations, \<open>crates/vox-risk/src/reconcile.rs\<close>.  The reconciler of the source is
  generic in its store, so its operations take the store's two calls, the lookup by request and the
  conditional update, as arguments.  The locale \<open>reservation_store\<close> states what the reconciler relies
  on; its lemmas show that every operation refines the abstract lifecycle \<open>reservation_step\<close>, and the
  interpretation at the end discharges the laws for the SQLite store.
\<close>

section \<open>Operations\<close>

datatype risk_reconcile_error =
    ReservationNotFound
  | InvalidFill
  | FillDirectionMismatch
  | FillExceedsReservation
  | TerminalReservation
  | ArithmeticOverflow
  | Store risk_store_error

type_synonym 'db lookup_op =
  "'db \<Rightarrow> string \<Rightarrow> string \<Rightarrow> risk_store_error + risk_reservation option"

type_synonym 'db update_op =
  "string \<Rightarrow> reservation_state list \<Rightarrow> int \<Rightarrow> reservation_state \<Rightarrow> int \<Rightarrow> 'db
   \<Rightarrow> risk_store_error + risk_reservation \<times> 'db"

type_synonym 'db reconciled = "risk_reconcile_error + risk_reservation \<times> 'db"

definition required ::
  "'db lookup_op \<Rightarrow> string \<Rightarrow> string \<Rightarrow> 'db \<Rightarrow> risk_reconcile_error + risk_reservation" where
  "required lookup account request db =
     and_then (map_err Store (lookup db account request))
       (ok_or risk_reconcile_error.ReservationNotFound)"

definition proven_pre_dispatch_failure ::
  "'db lookup_op \<Rightarrow> 'db update_op \<Rightarrow> string \<Rightarrow> string \<Rightarrow> int \<Rightarrow> 'db \<Rightarrow> 'db reconciled" where
  "proven_pre_dispatch_failure lookup update account request now db =
     and_then (required lookup account request db) (\<lambda>r.
     map_err Store (update (res_reservation_id r) [reservation_state.Active] 0 Released now db))"

definition unknown_after_dispatch ::
  "'db lookup_op \<Rightarrow> 'db update_op \<Rightarrow> string \<Rightarrow> string \<Rightarrow> int \<Rightarrow> 'db \<Rightarrow> 'db reconciled" where
  "unknown_after_dispatch lookup update account request now db =
     and_then (required lookup account request db) (\<lambda>r.
     if res_state r = UnknownHeld then Inr (r, db)
     else map_err Store
       (update (res_reservation_id r) [reservation_state.Active, PartiallyConsumed]
         (res_remaining_delta_lots r) UnknownHeld now db))"

definition authoritative_fill ::
  "'db lookup_op \<Rightarrow> 'db update_op \<Rightarrow> string \<Rightarrow> string \<Rightarrow> int \<Rightarrow> int \<Rightarrow> 'db \<Rightarrow> 'db reconciled" where
  "authoritative_fill lookup update account request filled now db =
     (if filled = 0 then Inl InvalidFill
      else and_then (required lookup account request db) (\<lambda>r.
        if res_state r \<notin> {reservation_state.Active, PartiallyConsumed, UnknownHeld} then
          Inl TerminalReservation
        else if sgn (res_remaining_delta_lots r) \<noteq> sgn filled then Inl FillDirectionMismatch
        else if \<bar>filled\<bar> > \<bar>res_remaining_delta_lots r\<bar> then Inl FillExceedsReservation
        else and_then (ok_or risk_reconcile_error.ArithmeticOverflow
               (checked_i64 (res_remaining_delta_lots r - filled))) (\<lambda>remaining.
          map_err Store
            (update (res_reservation_id r)
              [reservation_state.Active, PartiallyConsumed, UnknownHeld] remaining
              (if remaining = 0 then Consumed else PartiallyConsumed) now db))))"

definition broker_authoritative_no_remaining_exposure ::
  "'db lookup_op \<Rightarrow> 'db update_op \<Rightarrow> string \<Rightarrow> string \<Rightarrow> int \<Rightarrow> 'db \<Rightarrow> 'db reconciled" where
  "broker_authoritative_no_remaining_exposure lookup update account request now db =
     and_then (required lookup account request db) (\<lambda>r.
     if res_state r \<in> {Consumed, Released} then Inr (r, db)
     else map_err Store
       (update (res_reservation_id r)
         [reservation_state.Active, PartiallyConsumed, UnknownHeld, Orphaned] 0 Released now db))"

definition orphan_fail_closed ::
  "'db lookup_op \<Rightarrow> 'db update_op \<Rightarrow> string \<Rightarrow> string \<Rightarrow> int \<Rightarrow> 'db \<Rightarrow> 'db reconciled" where
  "orphan_fail_closed lookup update account request now db =
     and_then (required lookup account request db) (\<lambda>r.
     if res_state r = Orphaned then Inr (r, db)
     else map_err Store
       (update (res_reservation_id r) [reservation_state.Active, PartiallyConsumed]
         (res_remaining_delta_lots r) Orphaned now db))"

definition dispatch_acknowledged ::
  "'db lookup_op \<Rightarrow> string \<Rightarrow> string \<Rightarrow> 'db \<Rightarrow> risk_reconcile_error + risk_reservation" where
  "dispatch_acknowledged lookup account request db =
     and_then (required lookup account request db) (\<lambda>r.
     if res_state r \<notin> {reservation_state.Active, PartiallyConsumed, UnknownHeld} then
       Inl TerminalReservation
     else Inr r)"

definition broker_authoritative_reject ::
  "'db lookup_op \<Rightarrow> 'db update_op \<Rightarrow> string \<Rightarrow> string \<Rightarrow> int \<Rightarrow> 'db \<Rightarrow> 'db reconciled" where
  "broker_authoritative_reject lookup update account request now db =
     and_then (required lookup account request db) (\<lambda>r.
     if res_state r \<in> {Consumed, Released} then Inr (r, db)
     else map_err Store
       (update (res_reservation_id r)
         [reservation_state.Active, PartiallyConsumed, UnknownHeld, Orphaned] 0 Released now db))"

definition runtime_reconciliation ::
  "'db lookup_op \<Rightarrow> 'db update_op \<Rightarrow> string \<Rightarrow> string \<Rightarrow> int \<Rightarrow> int \<Rightarrow> 'db \<Rightarrow> 'db reconciled" where
  "runtime_reconciliation lookup update account request runtime_remaining now db =
     and_then (required lookup account request db) (\<lambda>r.
     if res_state r \<notin> {reservation_state.Active, PartiallyConsumed, UnknownHeld} then
       Inl TerminalReservation
     else let original_sign = sgn (res_remaining_delta_lots r) in
       if original_sign = 0 then Inl InvalidFill
       else if runtime_remaining \<noteq> 0 \<and> sgn runtime_remaining \<noteq> original_sign then
         Inl FillDirectionMismatch
       else and_then (ok_or risk_reconcile_error.ArithmeticOverflow (checked_i64 \<bar>runtime_remaining\<bar>))
         (\<lambda>runtime_abs.
        and_then (ok_or risk_reconcile_error.ArithmeticOverflow
           (checked_i64 \<bar>res_remaining_delta_lots r\<bar>)) (\<lambda>original_abs.
         if runtime_abs > original_abs then Inl FillExceedsReservation
         else map_err Store
           (update (res_reservation_id r)
             [reservation_state.Active, PartiallyConsumed, UnknownHeld] runtime_remaining
             (if runtime_remaining = 0 then Consumed else PartiallyConsumed) now db))))"

text \<open>The evidence the reconciler is driven by, one constructor per operation.\<close>

datatype reservation_evidence =
    PreDispatchFailure
  | UnknownDispatch
  | Fill int
  | NoRemainingExposure
  | Orphan
  | Acknowledged
  | BrokerReject
  | RuntimeRemaining int

fun reconcile_evidence ::
  "'db lookup_op \<Rightarrow> 'db update_op \<Rightarrow> reservation_evidence \<Rightarrow> string \<Rightarrow> string \<Rightarrow> int \<Rightarrow> 'db
   \<Rightarrow> 'db reconciled" where
  "reconcile_evidence lookup update PreDispatchFailure account request now db =
     proven_pre_dispatch_failure lookup update account request now db"
| "reconcile_evidence lookup update UnknownDispatch account request now db =
     unknown_after_dispatch lookup update account request now db"
| "reconcile_evidence lookup update (Fill n) account request now db =
     authoritative_fill lookup update account request n now db"
| "reconcile_evidence lookup update NoRemainingExposure account request now db =
     broker_authoritative_no_remaining_exposure lookup update account request now db"
| "reconcile_evidence lookup update Orphan account request now db =
     orphan_fail_closed lookup update account request now db"
| "reconcile_evidence lookup update Acknowledged account request now db =
     and_then (dispatch_acknowledged lookup account request db) (\<lambda>r. Inr (r, db))"
| "reconcile_evidence lookup update BrokerReject account request now db =
     broker_authoritative_reject lookup update account request now db"
| "reconcile_evidence lookup update (RuntimeRemaining n) account request now db =
     runtime_reconciliation lookup update account request n now db"

section \<open>The abstract lifecycle\<close>

abbreviation set_reservation ::
  "risk_reservation \<Rightarrow> int \<Rightarrow> reservation_state \<Rightarrow> int \<Rightarrow> risk_reservation" where
  "set_reservation r remaining st now \<equiv>
     r\<lparr>res_remaining_delta_lots := remaining, res_state := st, res_updated_at_unix_ms := now\<rparr>"

inductive reservation_step ::
  "reservation_evidence \<Rightarrow> risk_reservation \<Rightarrow> risk_reservation \<Rightarrow> bool" where
  hold: "res_state r \<in> {reservation_state.Active, PartiallyConsumed} \<Longrightarrow>
    reservation_step UnknownDispatch r (set_reservation r (res_remaining_delta_lots r) UnknownHeld now)"
| orphan: "res_state r \<in> {reservation_state.Active, PartiallyConsumed} \<Longrightarrow>
    reservation_step Orphan r (set_reservation r (res_remaining_delta_lots r) Orphaned now)"
| consume: "res_state r \<in> {reservation_state.Active, PartiallyConsumed, UnknownHeld} \<Longrightarrow>
    left = 0 \<or> sgn left = sgn (res_remaining_delta_lots r) \<Longrightarrow>
    \<bar>left\<bar> \<le> \<bar>res_remaining_delta_lots r\<bar> \<Longrightarrow>
    e = Fill (res_remaining_delta_lots r - left) \<or> e = RuntimeRemaining left \<Longrightarrow>
    reservation_step e r
      (set_reservation r left (if left = 0 then Consumed else PartiallyConsumed) now)"
| release: "holds_capacity (res_state r) \<Longrightarrow>
    e \<in> {NoRemainingExposure, BrokerReject} \<or> e = PreDispatchFailure \<and> res_state r = reservation_state.Active
    \<Longrightarrow> reservation_step e r (set_reservation r 0 Released now)"

inductive_cases reservation_stepE: "reservation_step e r r'"

text \<open>A well-formed reservation: what remains is a part of what was reserved, in its direction, and
  it counts as capacity exactly as long as something remains.\<close>

definition wf_reservation :: "risk_reservation \<Rightarrow> bool" where
  "wf_reservation r \<longleftrightarrow>
     \<bar>res_remaining_delta_lots r\<bar> \<le> \<bar>res_reserved_delta_lots r\<bar> \<and>
     (res_remaining_delta_lots r = 0 \<or>
      sgn (res_remaining_delta_lots r) = sgn (res_reserved_delta_lots r)) \<and>
     (holds_capacity (res_state r) \<longleftrightarrow> res_remaining_delta_lots r \<noteq> 0)"

lemma reservation_step_wf:
  "reservation_step e r r' \<Longrightarrow> wf_reservation r \<Longrightarrow> wf_reservation r'"
  by (induction rule: reservation_step.induct) (auto simp: wf_reservation_def)

lemma reservation_step_identity:
  "reservation_step e r r' \<Longrightarrow>
     res_reservation_id r' = res_reservation_id r \<and> reservation_request r' = reservation_request r \<and>
     res_instrument_id r' = res_instrument_id r \<and>
     res_reserved_delta_lots r' = res_reserved_delta_lots r \<and>
     res_reserved_notional_nanos r' = res_reserved_notional_nanos r"
  by (induction rule: reservation_step.induct) auto

lemma reservation_step_shrinks:
  "reservation_step e r r' \<Longrightarrow>
     \<bar>res_remaining_delta_lots r'\<bar> \<le> \<bar>res_remaining_delta_lots r\<bar> \<and>
     (holds_capacity (res_state r') \<longrightarrow> holds_capacity (res_state r))"
  by (induction rule: reservation_step.induct) auto

lemma reservation_step_live: "reservation_step e r r' \<Longrightarrow> holds_capacity (res_state r)"
  by (induction rule: reservation_step.induct) auto

section \<open>The store the reconciler relies on\<close>

locale reservation_store =
  fixes lookup :: "'db \<Rightarrow> string \<Rightarrow> string \<Rightarrow> risk_store_error + risk_reservation option"
    and update :: "string \<Rightarrow> reservation_state list \<Rightarrow> int \<Rightarrow> reservation_state \<Rightarrow> int \<Rightarrow> 'db
      \<Rightarrow> risk_store_error + risk_reservation \<times> 'db"
    and inv :: "'db \<Rightarrow> bool"
    and rows :: "'db \<Rightarrow> risk_reservation list"
  assumes keys: "inv db \<Longrightarrow> distinct (map res_reservation_id (rows db))"
    and lookup_row: "lookup db account request = Inr (Some r) \<Longrightarrow>
      r \<in> set (rows db) \<and> reservation_request r = (account, request)"
    and lookup_ok: "inv db \<Longrightarrow> r \<in> set (rows db) \<Longrightarrow> reservation_request r = (account, request) \<Longrightarrow>
      lookup db account request = Inr (Some r)"
    and update_row: "inv db \<Longrightarrow> update i expected remaining st now db = Inr (r', db') \<Longrightarrow>
      \<exists>r \<in> set (rows db). res_reservation_id r = i \<and> res_state r \<in> set expected \<and>
        r' = set_reservation r remaining st now \<and>
        rows db' = modify_row res_reservation_id i (\<lambda>_. r') (rows db) \<and> inv db'"
    and update_ok: "inv db \<Longrightarrow> r \<in> set (rows db) \<Longrightarrow> res_state r \<in> set expected \<Longrightarrow>
      \<exists>r' db'. update (res_reservation_id r) expected remaining st now db = Inr (r', db')"
begin

text \<open>An outcome of the reconciler for the row of a request: nothing happened, or that row made
  one step of the lifecycle.\<close>

definition reconciles :: "reservation_evidence \<Rightarrow> string \<Rightarrow> string \<Rightarrow> 'db \<Rightarrow> risk_reservation \<Rightarrow> 'db \<Rightarrow> bool"
  where
  "reconciles e account request db r' db' \<longleftrightarrow>
     (\<exists>r \<in> set (rows db). reservation_request r = (account, request) \<and>
        (r' = r \<and> db' = db \<or>
         reservation_step e r r' \<and> inv db' \<and>
         rows db' = modify_row res_reservation_id (res_reservation_id r) (\<lambda>_. r') (rows db)))"

lemma required_row:
  "required lookup account request db = Inr r \<Longrightarrow>
     r \<in> set (rows db) \<and> reservation_request r = (account, request)"
  by (auto simp: required_def result_simps dest: lookup_row)

lemma reconciles_same:
  "required lookup account request db = Inr r \<Longrightarrow> reconciles e account request db r db"
  unfolding reconciles_def using required_row by blast

lemma reconciles_update:
  assumes "inv db" and "required lookup account request db = Inr r"
    and "update (res_reservation_id r) expected remaining st now db = Inr (r', db')"
    and "res_state r \<in> set expected \<Longrightarrow> reservation_step e r (set_reservation r remaining st now)"
  shows "reconciles e account request db r' db'"
proof -
  note r = required_row [OF assms(2)]
  obtain r0 where r0: "r0 \<in> set (rows db)" "res_reservation_id r0 = res_reservation_id r"
    "res_state r0 \<in> set expected" "r' = set_reservation r0 remaining st now"
    "rows db' = modify_row res_reservation_id (res_reservation_id r) (\<lambda>_. r') (rows db)" "inv db'"
    using update_row [OF assms(1,3)] by blast
  have "r0 = r" using row_unique [OF keys [OF assms(1)]] r r0(1,2) by blast
  then show ?thesis unfolding reconciles_def using r r0 assms(4) by blast
qed

lemma pre_dispatch_failure_reconciles:
  "inv db \<Longrightarrow> proven_pre_dispatch_failure lookup update account request now db = Inr (r', db') \<Longrightarrow>
   reconciles PreDispatchFailure account request db r' db'"
  by (auto simp: proven_pre_dispatch_failure_def result_simps
      intro: reconciles_update [OF _ _ _ reservation_step.release])

lemma unknown_after_dispatch_reconciles:
  "inv db \<Longrightarrow> unknown_after_dispatch lookup update account request now db = Inr (r', db') \<Longrightarrow>
   reconciles UnknownDispatch account request db r' db'"
  by (auto simp: unknown_after_dispatch_def result_simps split: if_splits
      intro: reconciles_same reconciles_update [OF _ _ _ reservation_step.hold])

lemma orphan_reconciles:
  "inv db \<Longrightarrow> orphan_fail_closed lookup update account request now db = Inr (r', db') \<Longrightarrow>
   reconciles Orphan account request db r' db'"
  by (auto simp: orphan_fail_closed_def result_simps split: if_splits
      intro: reconciles_same reconciles_update [OF _ _ _ reservation_step.orphan])

lemma no_remaining_reconciles:
  "inv db \<Longrightarrow> broker_authoritative_no_remaining_exposure lookup update account request now db = Inr (r', db')
   \<Longrightarrow> reconciles NoRemainingExposure account request db r' db'"
  by (auto simp: broker_authoritative_no_remaining_exposure_def result_simps split: if_splits
      intro: reconciles_same reconciles_update [OF _ _ _ reservation_step.release])

lemma broker_reject_reconciles:
  "inv db \<Longrightarrow> broker_authoritative_reject lookup update account request now db = Inr (r', db')
   \<Longrightarrow> reconciles BrokerReject account request db r' db'"
  by (auto simp: broker_authoritative_reject_def result_simps split: if_splits
      intro: reconciles_same reconciles_update [OF _ _ _ reservation_step.release])

lemma fill_reconciles:
  assumes "inv db"
    and "authoritative_fill lookup update account request filled now db = Inr (r', db')"
  shows "reconciles (Fill filled) account request db r' db'"
proof -
  obtain r where r: "required lookup account request db = Inr r"
      "sgn (res_remaining_delta_lots r) = sgn filled" "\<bar>filled\<bar> \<le> \<bar>res_remaining_delta_lots r\<bar>"
      "res_state r \<in> {reservation_state.Active, PartiallyConsumed, UnknownHeld}"
    and u: "update (res_reservation_id r) [reservation_state.Active, PartiallyConsumed, UnknownHeld]
      (res_remaining_delta_lots r - filled)
      (if res_remaining_delta_lots r - filled = 0 then Consumed else PartiallyConsumed) now db
      = Inr (r', db')"
    using assms(2) by (auto simp: authoritative_fill_def result_simps split: if_splits)
  show ?thesis
    by (rule reconciles_update [OF assms(1) r(1) u], rule reservation_step.consume)
      (use r(2-4) in \<open>auto simp: sgn_if split: if_splits\<close>)
qed

lemma runtime_remaining_reconciles:
  assumes "inv db"
    and "runtime_reconciliation lookup update account request n now db = Inr (r', db')"
  shows "reconciles (RuntimeRemaining n) account request db r' db'"
proof -
  obtain r where r: "required lookup account request db = Inr r"
      "n = 0 \<or> sgn n = sgn (res_remaining_delta_lots r)" "\<bar>n\<bar> \<le> \<bar>res_remaining_delta_lots r\<bar>"
      "res_state r \<in> {reservation_state.Active, PartiallyConsumed, UnknownHeld}"
    and u: "update (res_reservation_id r) [reservation_state.Active, PartiallyConsumed, UnknownHeld]
      n (if n = 0 then Consumed else PartiallyConsumed) now db = Inr (r', db')"
    using assms(2) by (auto simp: runtime_reconciliation_def Let_def result_simps split: if_splits)
  show ?thesis
    by (rule reconciles_update [OF assms(1) r(1) u], rule reservation_step.consume)
      (use r(2-4) in auto)
qed

lemma acknowledged_reconciles:
  "and_then (dispatch_acknowledged lookup account request db) (\<lambda>r. Inr (r, db)) = Inr (r', db') \<Longrightarrow>
   reconciles Acknowledged account request db r' db'"
  by (auto simp: dispatch_acknowledged_def result_simps split: if_splits intro: reconciles_same)

lemma evidence_reconciles:
  assumes "inv db" and "reconcile_evidence lookup update e account request now db = Inr (r', db')"
  shows "reconciles e account request db r' db'"
  using assms
  by (cases e)
    (simp_all add: pre_dispatch_failure_reconciles unknown_after_dispatch_reconciles
      fill_reconciles no_remaining_reconciles orphan_reconciles acknowledged_reconciles
      broker_reject_reconciles runtime_remaining_reconciles)

text \<open>Release is always possible: as long as the reservation exists, evidence that nothing remains
  at the broker ends it, whatever state it is in.\<close>

lemma release_enabled:
  assumes "inv db" and "r \<in> set (rows db)" and "reservation_request r = (account, request)"
  shows "\<exists>r' db'. broker_authoritative_no_remaining_exposure lookup update account request now db
      = Inr (r', db') \<and> \<not> holds_capacity (res_state r')"
proof (cases "res_state r \<in> {Consumed, Released}")
  case True
  then show ?thesis
    using lookup_ok [OF assms]
    by (auto simp: broker_authoritative_no_remaining_exposure_def required_def)
next
  case False
  then have "res_state r \<in> set [reservation_state.Active, PartiallyConsumed, UnknownHeld, Orphaned]"
    by (cases "res_state r") auto
  then obtain r' db' where u: "update (res_reservation_id r)
      [reservation_state.Active, PartiallyConsumed, UnknownHeld, Orphaned] 0 Released now db
      = Inr (r', db')"
    using update_ok [OF assms(1,2)] by blast
  then have "res_state r' = Released" using update_row [OF assms(1) u] by auto
  then show ?thesis
    using u False lookup_ok [OF assms]
    by (auto simp: broker_authoritative_no_remaining_exposure_def required_def)
qed

end

section \<open>The SQLite store is such a store\<close>

interpretation sq: reservation_store reservation_for_request update_reservation risk_db_inv
  db_reservations
proof
  fix db account request r
  assume "reservation_for_request db account request = Inr (Some r)"
  then show "r \<in> set (db_reservations db) \<and> reservation_request r = (account, request)"
    by (auto simp: reservation_for_request_def dest: row_with_SomeD)
next
  fix db account request r
  assume "risk_db_inv db" "r \<in> set (db_reservations db)" "reservation_request r = (account, request)"
  then show "reservation_for_request db account request = Inr (Some r)"
    using row_with_unique [of reservation_request "db_reservations db" r]
    by (simp add: reservation_for_request_def risk_db_inv_def)
next
  fix db i expected remaining st now r' db'
  assume inv: "risk_db_inv db"
    and u: "update_reservation i expected remaining st now db = Inr (r', db')"
  from u show "\<exists>r \<in> set (db_reservations db). res_reservation_id r = i \<and> res_state r \<in> set expected \<and>
      r' = set_reservation r remaining st now \<and>
      db_reservations db' = modify_row res_reservation_id i (\<lambda>_. r') (db_reservations db) \<and>
      risk_db_inv db'"
  proof (rule update_reservation_rows)
    fix r
    assume r: "row_with res_reservation_id i (db_reservations db) = Some r"
      "res_state r \<in> set expected" "r' = set_reservation r remaining st now"
      "db' = db\<lparr>db_reservations := modify_row res_reservation_id i
         (\<lambda>r. set_reservation r remaining st now) (db_reservations db)\<rparr>"
    have mem: "r \<in> set (db_reservations db)" "res_reservation_id r = i"
      using row_with_SomeD [OF r(1)] by simp_all
    have d: "distinct (map res_reservation_id (db_reservations db))"
      using inv by (simp add: risk_db_inv_def)
    have "db_reservations db' = modify_row res_reservation_id i (\<lambda>_. r') (db_reservations db)"
      using modify_row_const [where key = res_reservation_id and k = i and r = r
          and f = "\<lambda>r. set_reservation r remaining st now", OF d mem]
      unfolding r(3,4) by simp
    with mem r(2,3) update_reservation_inv [OF u inv] show ?thesis by blast
  qed
next
  fix db r expected remaining st now
  assume "risk_db_inv db" "r \<in> set (db_reservations db)" "res_state r \<in> set expected"
  then show "\<exists>r' db'. update_reservation (res_reservation_id r) expected remaining st now db = Inr (r', db')"
    using row_with_unique [of res_reservation_id "db_reservations db" r]
    by (simp add: update_reservation_def reservation_by_id_def risk_db_inv_def Let_def row_with_modify)
qed (simp add: risk_db_inv_def)

section \<open>Properties\<close>

abbreviation sqlite_reconcile ::
  "reservation_evidence \<Rightarrow> string \<Rightarrow> string \<Rightarrow> int \<Rightarrow> risk_db \<Rightarrow> risk_db reconciled" where
  "sqlite_reconcile \<equiv> reconcile_evidence reservation_for_request update_reservation"

text \<open>C21.  Every operation of the reconciler refines the abstract lifecycle: on success the row of its
  request either stays as it is or makes exactly one step the evidence allows, no other row
  changes, and the store keeps its invariant.\<close>

theorem reconciler_refines_lifecycle:
  assumes "risk_db_inv db" and "sqlite_reconcile e account request now db = Inr (r', db')"
  shows "\<exists>r \<in> set (db_reservations db). reservation_request r = (account, request) \<and>
    (r' = r \<and> db' = db \<or>
     reservation_step e r r' \<and> risk_db_inv db' \<and>
     db_reservations db' =
       modify_row res_reservation_id (res_reservation_id r) (\<lambda>_. r') (db_reservations db))"
  using sq.evidence_reconciles [OF assms] by (simp add: sq.reconciles_def)

definition lots_weight :: "string \<Rightarrow> string \<Rightarrow> risk_reservation \<Rightarrow> int" where
  "lots_weight account instrument r =
     (if res_account_id r = account \<and> holds_capacity (res_state r) \<and> res_instrument_id r = instrument
      then \<bar>res_remaining_delta_lots r\<bar> else 0)"

lemma held_lots_weight:
  "held_lots db account instrument = sum_list (map (lots_weight account instrument) (db_reservations db))"
  unfolding held_lots_def active_instrument_rows_def active_rows_def sum_filter_weight
  by (intro arg_cong [of _ _ sum_list] map_cong) (auto simp: lots_weight_def)

lemma step_weight:
  assumes "reservation_step e r r'"
  shows "lots_weight a i r' \<le> lots_weight a i r"
  using reservation_step_identity [OF assms] reservation_step_shrinks [OF assms]
  by (auto simp: lots_weight_def)

lemma step_weight_held:
  assumes "reservation_step e r r'" and "e \<in> {UnknownDispatch, Orphan, Acknowledged}"
  shows "lots_weight a i r' = lots_weight a i r"
  using assms by (induction rule: reservation_step.induct) (auto simp: lots_weight_def)

lemma reconcile_weight:
  assumes "risk_db_inv db" and "r \<in> set (db_reservations db)"
    and "db_reservations db' =
      modify_row res_reservation_id (res_reservation_id r) (\<lambda>_. r') (db_reservations db)"
  shows "lots_weight a i r' \<le> lots_weight a i r \<Longrightarrow> held_lots db' a i \<le> held_lots db a i"
    and "lots_weight a i r' = lots_weight a i r \<Longrightarrow> held_lots db' a i = held_lots db a i"
proof -
  have u: "x = r" if "x \<in> set (db_reservations db)" "res_reservation_id x = res_reservation_id r" for x
    using row_unique [of res_reservation_id "db_reservations db"] assms(1,2) that
    by (simp add: risk_db_inv_def)
  show "held_lots db' a i \<le> held_lots db a i" if "lots_weight a i r' \<le> lots_weight a i r"
    unfolding held_lots_weight assms(3) using that by (intro sum_modify_row_le) (blast dest: u)
  show "held_lots db' a i = held_lots db a i" if "lots_weight a i r' = lots_weight a i r"
    unfolding held_lots_weight assms(3) using that by (intro sum_modify_row_eq) (blast dest: u)
qed

lemma reconcile_held:
  assumes "risk_db_inv db" and "sqlite_reconcile e account request now db = Inr (r', db')"
  shows "held_lots db' a i \<le> held_lots db a i \<and>
    (e \<in> {UnknownDispatch, Orphan, Acknowledged} \<longrightarrow> held_lots db' a i = held_lots db a i)"
proof -
  obtain r where "r \<in> set (db_reservations db)"
    "db' = db \<or> reservation_step e r r' \<and> db_reservations db' =
       modify_row res_reservation_id (res_reservation_id r) (\<lambda>_. r') (db_reservations db)"
    using sq.evidence_reconciles [OF assms] by (auto simp: sq.reconciles_def)
  then show ?thesis
    using reconcile_weight [OF assms(1), of r db' r' a i] step_weight [of e r r' a i]
      step_weight_held [of e r r' a i]
    by blast
qed

lemma update_reservation_decisions:
  "update_reservation i ex rem st now db = Inr (r', db') \<Longrightarrow> db_decisions db' = db_decisions db"
  by (erule update_reservation_rows) simp

lemma reconcile_decisions:
  "sqlite_reconcile e account request now db = Inr (r', db') \<Longrightarrow> db_decisions db' = db_decisions db"
  by (cases e)
    (auto simp: proven_pre_dispatch_failure_def unknown_after_dispatch_def authoritative_fill_def
      broker_authoritative_no_remaining_exposure_def orphan_fail_closed_def
      broker_authoritative_reject_def runtime_reconciliation_def Let_def result_simps
      split: if_splits dest: update_reservation_decisions)

text \<open>C22.  No evidence ever raises the capacity held, and an unknown outcome, an orphaned reservation
  or an acknowledgement frees none of it.\<close>

theorem unknown_never_frees_capacity:
  assumes "risk_db_inv db" and "sqlite_reconcile e account request now db = Inr (r', db')"
  shows "held_lots db' a i \<le> held_lots db a i \<and>
    (e \<in> {UnknownDispatch, Orphan, Acknowledged} \<longrightarrow> held_lots db' a i = held_lots db a i)"
  by (rule reconcile_held [OF assms])

text \<open>Every interleaving of admissions, under one limit on the lots of an instrument, and of
  reconciliations.\<close>

inductive risk_reachable :: "int \<Rightarrow> risk_db \<Rightarrow> bool" for limit :: int where
  init: "risk_reachable limit risk_db_empty"
| admit: "risk_reachable limit db \<Longrightarrow> cap_max_instrument_reserved_abs_lots c = Some limit \<Longrightarrow>
    res_state r = reservation_state.Active \<Longrightarrow>
    res_remaining_delta_lots r = res_reserved_delta_lots r \<Longrightarrow>
    directional_action (dec_action d) \<Longrightarrow>
    persist_approval_atomic d r c db = Inr (a, db') \<Longrightarrow> risk_reachable limit db'"
| refuse: "risk_reachable limit db \<Longrightarrow> put_decision d db = Inr db' \<Longrightarrow> risk_reachable limit db'"
| configure: "risk_reachable limit db \<Longrightarrow>
    put_policy uuid account expected new reason now db = Inr (p, db') \<Longrightarrow> risk_reachable limit db'"
| reconcile: "risk_reachable limit db \<Longrightarrow>
    sqlite_reconcile e account request now db = Inr (r', db') \<Longrightarrow> risk_reachable limit db'"

definition risk_safe :: "int \<Rightarrow> risk_db \<Rightarrow> bool" where
  "risk_safe limit db \<longleftrightarrow>
     risk_db_inv db \<and> linked db \<and> (\<forall>r \<in> set (db_reservations db). wf_reservation r) \<and>
     (\<forall>account instrument. held_lots db account instrument \<le> limit)"

lemma same_reservations_held:
  "db_reservations db' = db_reservations db \<Longrightarrow> held_lots db' a i = held_lots db a i"
  by (simp add: held_lots_weight)

lemma put_decision_tables: "put_decision d db = Inr db' \<Longrightarrow>
  db_reservations db' = db_reservations db \<and> set (db_decisions db) \<subseteq> set (db_decisions db')"
  by (auto simp: put_decision_def dest!: insert_decision_db split: if_splits)

lemma put_policy_tables: "put_policy uuid account expected new reason now db = Inr (p, db') \<Longrightarrow>
  db_reservations db' = db_reservations db \<and> db_decisions db' = db_decisions db"
  by (erule put_policy_cases) simp

lemma linked_mono:
  "linked db \<Longrightarrow> db_reservations db' = db_reservations db \<Longrightarrow>
   set (db_decisions db) \<subseteq> set (db_decisions db') \<Longrightarrow> linked db'"
  unfolding linked_def by fastforce

lemma step_linked:
  assumes "linked db" and "r \<in> set (db_reservations db)" and "db_decisions db' = db_decisions db"
    and "set (db_reservations db') \<subseteq> insert r' (set (db_reservations db))"
    and "reservation_step e r r'"
  shows "linked db'"
  unfolding linked_def assms(3)
proof
  fix x
  assume "x \<in> set (db_reservations db')"
  then consider "x = r'" | "x \<in> set (db_reservations db)" using assms(4) by blast
  then show "\<exists>d \<in> set (db_decisions db).
      decision_request d = reservation_request x \<and> validate_approval_link d x = Inr ()"
  proof cases
    case 1
    note same = reservation_step_identity [OF assms(5)]
    then have "validate_approval_link d r' = validate_approval_link d r" for d
      by (simp add: validate_approval_link_def)
    then show ?thesis using assms(1,2) same 1 unfolding linked_def by metis
  next
    case 2
    then show ?thesis using assms(1) unfolding linked_def by blast
  qed
qed

lemma reconcile_safe:
  assumes "risk_safe limit db" and "sqlite_reconcile e account request now db = Inr (r', db')"
  shows "risk_safe limit db'"
proof -
  have inv: "risk_db_inv db" using assms(1) by (simp add: risk_safe_def)
  obtain r where r: "r \<in> set (db_reservations db)" and cases:
    "db' = db \<or> reservation_step e r r' \<and> risk_db_inv db' \<and> db_reservations db' =
       modify_row res_reservation_id (res_reservation_id r) (\<lambda>_. r') (db_reservations db)"
    using sq.evidence_reconciles [OF inv assms(2)] by (auto simp: sq.reconciles_def)
  have held: "held_lots db' a i \<le> limit" for a i
    using reconcile_held [OF inv assms(2), of a i] assms(1) order_trans
    unfolding risk_safe_def by blast
  have decs: "db_decisions db' = db_decisions db"
    using assms(2) by (rule reconcile_decisions)
  from cases show ?thesis
  proof
    assume st: "reservation_step e r r' \<and> risk_db_inv db' \<and> db_reservations db' =
       modify_row res_reservation_id (res_reservation_id r) (\<lambda>_. r') (db_reservations db)"
    have sub: "set (db_reservations db') \<subseteq> insert r' (set (db_reservations db))"
      using st by (auto simp: set_modify_row)
    have "linked db'"
      using assms(1) step_linked [OF _ r decs sub, of e] st unfolding risk_safe_def by blast
    moreover have "wf_reservation x" if "x \<in> set (db_reservations db')" for x
      using that sub assms(1) r reservation_step_wf [of e r r'] st by (auto simp: risk_safe_def)
    ultimately show ?thesis using held st by (simp add: risk_safe_def)
  qed (use assms(1) in simp)
qed

lemma admit_safe:
  assumes "risk_safe limit db" and "cap_max_instrument_reserved_abs_lots c = Some limit"
    and "res_state r = reservation_state.Active"
    and "res_remaining_delta_lots r = res_reserved_delta_lots r"
    and "directional_action (dec_action d)"
    and p: "persist_approval_atomic d r c db = Inr (a, db')"
  shows "risk_safe limit db'"
  using p
proof (rule persist_approval_cases)
  fix db1
  assume v: "validate_approval_link d r = Inr ()" and cap: "enforce_capacity db r c = Inr ()"
    and "insert_decision d db = Inr db1" "insert_reservation r db1 = Inr db'"
  then have rows: "db_reservations db' = db_reservations db @ [r]"
    by (auto dest!: insert_decision_db insert_reservation_db)
  have "permits_dispatch d" "res_reserved_delta_lots r = dec_approved_delta_lots d"
    using v by (auto simp: validate_approval_link_def split: if_splits)
  then have "wf_reservation r"
    using assms(3-5) permits_dispatch_directional [of d] by (simp add: wf_reservation_def)
  moreover have "held_lots db' a i \<le> limit" for a i
  proof (cases "a = res_account_id r \<and> i = res_instrument_id r")
    case True
    then show ?thesis
      using held_append(1) [OF rows, of a i] enforce_capacity_lots [OF cap assms(2)] by simp
  next
    case False
    then have "held_lots db' a i \<le> held_lots db a i"
      using held_append(1) [OF rows, of a i] by (simp split: if_splits)
    then show ?thesis using assms(1) order_trans unfolding risk_safe_def by blast
  qed
  ultimately show ?thesis
    using assms(1) rows persist_approval_inv [OF p] persist_approval_linked [OF p]
    unfolding risk_safe_def by auto
qed (use assms(1) in simp)


section \<open>Witnesses\<close>

abbreviation sample_store :: risk_db where
  "sample_store \<equiv> snd (projr sample_persist)"

lemma sample_store_inv: "risk_db_inv sample_store"
  using persist_approval_inv [OF sample_persist_ok] by simp

abbreviation sample_fill :: "risk_db reconciled" where
  "sample_fill \<equiv> sqlite_reconcile (Fill 4) ''account-1'' ''r1'' 9 sample_store"

lemma sample_fill_ok: "sample_fill = Inr (fst (projr sample_fill), snd (projr sample_fill))"
  using is_ok_projr [of sample_fill] by (simp, code_simp)

theorem reconciler_refines_lifecycle_witness:
  "\<exists>r \<in> set (db_reservations sample_store). reservation_step (Fill 4) r (fst (projr sample_fill))"
proof -
  have "snd (projr sample_fill) \<noteq> sample_store" by code_simp
  then show ?thesis
    using reconciler_refines_lifecycle [OF sample_store_inv sample_fill_ok] by blast
qed

theorem unknown_never_frees_capacity_witness:
  "held_lots (snd (projr sample_fill)) ''account-1'' ''instrument-1''
     \<le> held_lots sample_store ''account-1'' ''instrument-1''"
  using unknown_never_frees_capacity [OF sample_store_inv sample_fill_ok] by blast


end
