(* ===== verification/Risk_Plan.thy ===== *)
theory Risk_Plan
  imports Risk_Engine Risk_Reconcile
begin

text \<open>
  The hand-off from risk to execution, \<open>crates/vox-risk/src/plan.rs\<close>: a plan exists only for a
  persisted decision and, where exposure is at stake, its active reservation; the dispatch context
  is compared with it once more before the broker is called.  The last section composes engine,
  store and plan.
\<close>

record risk_approved_execution_plan =
  ep_decision_id :: string
  ep_reservation_id :: "string option"
  ep_action :: risk_action_kind
  ep_logical_request_id :: string
  ep_account_id :: string
  ep_broker_connection_id :: string
  ep_instrument_id :: string
  ep_approved_delta_lots :: int
  ep_validity :: risk_validity_context

record risk_dispatch_context =
  cx_logical_request_id :: string
  cx_account_id :: string
  cx_broker_connection_id :: string
  cx_instrument_id :: string
  cx_action :: risk_action_kind
  cx_delta_lots :: int
  cx_validity :: risk_validity_context

datatype risk_approved_execution_plan_error =
    DecisionDoesNotPermitDispatch
  | RequestIdentityMismatch
  | AccountMismatch
  | ActionMismatch
  | InstrumentMismatch
  | ReservationMismatch
  | ReservationRequired
  | UnexpectedReservation
  | QuantityMismatch
  | ReservationNotActive
  | ValidityMismatch

definition plan_reservation ::
  "risk_decision \<Rightarrow> risk_reservation option \<Rightarrow> risk_request
   \<Rightarrow> risk_approved_execution_plan_error + string option" where
  "plan_reservation d reservation rq =
     (if directional_action (rq_action rq) then
        and_then (ok_or ReservationRequired reservation) (\<lambda>r.
        if res_logical_request_id r \<noteq> rq_request_id rq then Inl RequestIdentityMismatch
        else if res_account_id r \<noteq> rq_account_id rq then Inl AccountMismatch
        else if res_instrument_id r \<noteq> rq_instrument_id rq then Inl InstrumentMismatch
        else if dec_reservation_id d \<noteq> Some (res_reservation_id r) then Inl ReservationMismatch
        else if dec_approved_delta_lots d \<noteq> res_reserved_delta_lots r
                \<or> res_remaining_delta_lots r \<noteq> dec_approved_delta_lots d then Inl QuantityMismatch
        else if res_state r \<noteq> reservation_state.Active then Inl ReservationNotActive
        else Inr (Some (res_reservation_id r)))
      else if reservation \<noteq> None \<or> dec_reservation_id d \<noteq> None then Inl UnexpectedReservation
      else if dec_approved_delta_lots d \<noteq> 0 then Inl QuantityMismatch
      else Inr None)"

definition from_persisted ::
  "risk_decision \<Rightarrow> risk_reservation option \<Rightarrow> risk_request
   \<Rightarrow> risk_approved_execution_plan_error + risk_approved_execution_plan" where
  "from_persisted d reservation rq =
     (if \<not> permits_dispatch d then Inl DecisionDoesNotPermitDispatch
      else if dec_request_id d \<noteq> rq_request_id rq then Inl RequestIdentityMismatch
      else if dec_account_id d \<noteq> rq_account_id rq then Inl AccountMismatch
      else if dec_action d \<noteq> rq_action rq then Inl ActionMismatch
      else if dec_validity d \<noteq> sn_validity (rq_snapshot rq) then Inl ValidityMismatch
      else and_then (plan_reservation d reservation rq) (\<lambda>reservation_id. Inr
        \<lparr>ep_decision_id = dec_decision_id d,
         ep_reservation_id = reservation_id,
         ep_action = dec_action d,
         ep_logical_request_id = rq_request_id rq,
         ep_account_id = rq_account_id rq,
         ep_broker_connection_id = rq_broker_connection_id rq,
         ep_instrument_id = rq_instrument_id rq,
         ep_approved_delta_lots = dec_approved_delta_lots d,
         ep_validity = dec_validity d\<rparr>))"

definition matches_dispatch_context ::
  "risk_approved_execution_plan \<Rightarrow> risk_dispatch_context \<Rightarrow> bool" where
  "matches_dispatch_context plan context \<longleftrightarrow>
     ep_logical_request_id plan = cx_logical_request_id context \<and>
     ep_account_id plan = cx_account_id context \<and>
     ep_broker_connection_id plan = cx_broker_connection_id context \<and>
     ep_instrument_id plan = cx_instrument_id context \<and>
     ep_action plan = cx_action context \<and>
     ep_approved_delta_lots plan = cx_delta_lots context \<and>
     ep_validity plan = cx_validity context"

section \<open>Properties\<close>

lemma plan_reservation_directional:
  "plan_reservation d ro rq = Inr i \<Longrightarrow> directional_action (rq_action rq) \<Longrightarrow>
   \<exists>r. ro = Some r \<and> i = Some (res_reservation_id r) \<and>
     reservation_request r = (rq_account_id rq, rq_request_id rq) \<and>
     res_instrument_id r = rq_instrument_id rq \<and> res_state r = reservation_state.Active \<and>
     res_remaining_delta_lots r = dec_approved_delta_lots d"
  by (auto simp: plan_reservation_def result_simps split: if_splits)

text \<open>C24.  What a plan allows to be dispatched is exactly what risk approved and reserved: a dispatch
  context that matches a plan moves the approved lots of the decision, on the instrument and
  account of the request, and an exposure-bearing one is backed by an active reservation of just
  those lots; maintenance moves none and holds no reservation.\<close>

theorem dispatch_is_backed_by_reservation:
  assumes "from_persisted d ro rq = Inr plan" and "matches_dispatch_context plan cx"
  shows "permits_dispatch d \<and> cx_delta_lots cx = dec_approved_delta_lots d \<and>
    cx_validity cx = sn_validity (rq_snapshot rq) \<and>
    (if directional_action (cx_action cx)
     then \<exists>r. ro = Some r \<and> res_state r = reservation_state.Active \<and>
       res_remaining_delta_lots r = cx_delta_lots cx \<and> cx_delta_lots cx \<noteq> 0 \<and>
       reservation_request r = (cx_account_id cx, cx_logical_request_id cx) \<and>
       res_instrument_id r = cx_instrument_id cx
     else ro = None \<and> cx_delta_lots cx = 0)"
proof -
  obtain i where i: "plan_reservation d ro rq = Inr i" and p: "permits_dispatch d"
    and eqs: "dec_action d = rq_action rq" "cx_action cx = rq_action rq"
      "cx_delta_lots cx = dec_approved_delta_lots d" "cx_validity cx = sn_validity (rq_snapshot rq)"
      "cx_account_id cx = rq_account_id rq" "cx_logical_request_id cx = rq_request_id rq"
      "cx_instrument_id cx = rq_instrument_id rq"
    using assms
    by (auto simp: from_persisted_def matches_dispatch_context_def and_then_Inr split: if_splits)
  have "ro = None \<and> dec_approved_delta_lots d = 0" if "\<not> directional_action (rq_action rq)"
    using i that by (auto simp: plan_reservation_def split: if_splits)
  then show ?thesis
    using plan_reservation_directional [OF i] permits_dispatch_directional [OF p] p eqs by auto
qed

text \<open>The reservation an admission makes for an approved decision.\<close>

definition reservation_for ::
  "risk_request \<Rightarrow> risk_decision \<Rightarrow> string \<Rightarrow> int \<Rightarrow> risk_reservation" where
  "reservation_for rq d reservation_id notional =
     \<lparr>res_reservation_id = reservation_id,
      res_account_id = rq_account_id rq,
      res_instrument_id = rq_instrument_id rq,
      res_strategy_id = rq_strategy_id rq,
      res_source = rq_source rq,
      res_logical_request_id = rq_request_id rq,
      res_reserved_delta_lots = dec_approved_delta_lots d,
      res_remaining_delta_lots = dec_approved_delta_lots d,
      res_reserved_notional_nanos = notional,
      res_state = reservation_state.Active,
      res_created_at_unix_ms = rq_now_unix_ms rq,
      res_updated_at_unix_ms = rq_now_unix_ms rq,
      res_expires_at_unix_ms = dec_expires_at_unix_ms d\<rparr>"

lemma permits_dispatch_reservation [simp]:
  "permits_dispatch (d\<lparr>dec_reservation_id := i\<rparr>) = permits_dispatch d"
  by (simp add: permits_dispatch_def split: risk_action_kind.split)

text \<open>C23.  The approval path composes: a directional request the engine approves, whose decision and
  reservation the store then persists for the first time, yields an execution plan for exactly
  the approved lots, and a dispatch built from the request with those lots matches it.\<close>

theorem approved_request_yields_plan:
  assumes "evaluate uuid p rq = Inr d" and "permits_dispatch d"
    and "directional_action (rq_action rq)"
    and "persist_approval_atomic (d\<lparr>dec_reservation_id := Some i\<rparr>)
      (reservation_for rq d i notional) c db = Inr (a, db')"
    and "db' \<noteq> db"
  shows "\<exists>plan. from_persisted (pa_decision a) (Some (pa_reservation a)) rq = Inr plan \<and>
    ep_approved_delta_lots plan = dec_approved_delta_lots d \<and>
    matches_dispatch_context plan
      \<lparr>cx_logical_request_id = rq_request_id rq, cx_account_id = rq_account_id rq,
       cx_broker_connection_id = rq_broker_connection_id rq, cx_instrument_id = rq_instrument_id rq,
       cx_action = rq_action rq, cx_delta_lots = dec_approved_delta_lots d,
       cx_validity = sn_validity (rq_snapshot rq)\<rparr>"
proof -
  obtain n where "evaluate_directional uuid p rq (projected_of rq) n = Inr d"
    by (rule directional_approval [OF assms(1-3)]) blast
  then have "decision_of p rq d"
    using evaluate_directional_permits(9) [OF _ assms(2)] size_order_decision_of by blast
  moreover have "a = \<lparr>pa_decision = d\<lparr>dec_reservation_id := Some i\<rparr>,
      pa_reservation = reservation_for rq d i notional\<rparr>"
    using assms(4) by (rule persist_approval_cases) (use assms(5) in simp_all)
  ultimately show ?thesis
    using assms(2,3)
    by (simp add: from_persisted_def plan_reservation_def reservation_for_def decision_of_def
        matches_dispatch_context_def)
qed

section \<open>Witnesses\<close>

abbreviation sample_plan_request :: risk_request where
  "sample_plan_request \<equiv> sample_request DirectionalOrder 0 75 False"

abbreviation sample_admitted :: "risk_store_error + persisted_risk_approval \<times> risk_db" where
  "sample_admitted \<equiv>
     persist_approval_atomic (sample_resized\<lparr>dec_reservation_id := Some ''res''\<rparr>)
       (reservation_for sample_plan_request sample_resized ''res'' 7)
       \<lparr>cap_max_account_reserved_notional_nanos = None,
        cap_max_instrument_reserved_abs_lots = Some 100\<rparr> risk_db_empty"

abbreviation sample_plan :: "risk_approved_execution_plan_error + risk_approved_execution_plan" where
  "sample_plan \<equiv>
     from_persisted (pa_decision (fst (projr sample_admitted)))
       (Some (pa_reservation (fst (projr sample_admitted)))) sample_plan_request"

theorem dispatch_is_backed_by_reservation_witness:
  "\<exists>r. Some (pa_reservation (fst (projr sample_admitted))) = Some r \<and> res_remaining_delta_lots r = 50"
proof -
  let ?cx = "\<lparr>cx_logical_request_id = ''request-1'', cx_account_id = ''account-1'',
       cx_broker_connection_id = ''connection-1'', cx_instrument_id = ''instrument-1'',
       cx_action = DirectionalOrder, cx_delta_lots = 50, cx_validity = sample_validity\<rparr>"
  have "sample_plan = Inr (projr sample_plan)" by (rule is_ok_projr) code_simp
  moreover have "matches_dispatch_context (projr sample_plan) ?cx" by code_simp
  ultimately show ?thesis
    using dispatch_is_backed_by_reservation [of _ _ _ "projr sample_plan" ?cx]
    by (fastforce simp: directional_action_def)
qed

theorem approved_request_yields_plan_witness:
  "\<exists>plan. sample_plan = Inr plan \<and> ep_approved_delta_lots plan = dec_approved_delta_lots sample_resized"
proof -
  have ev: "evaluate ''1'' sample_policy sample_plan_request = Inr sample_resized"
    by (rule is_ok_projr) code_simp
  have pd: "permits_dispatch sample_resized" by code_simp
  have dir: "directional_action (rq_action sample_plan_request)" by code_simp
  have "is_ok sample_admitted" by code_simp
  then have ok: "sample_admitted = Inr (fst (projr sample_admitted), snd (projr sample_admitted))"
    using is_ok_projr [of sample_admitted] by simp
  have "snd (projr sample_admitted) \<noteq> risk_db_empty" by code_simp
  from approved_request_yields_plan [OF ev pd dir ok this] show ?thesis by blast
qed

end
