(* ===== verification/Risk_Audit.thy ===== *)
theory Risk_Audit
  imports Risk_Model
begin

text \<open>
  The structured audit event of a policy change, \<open>crates/vox-risk/src/audit.rs\<close>.  Emission to the
  tracing backend is left out; the event itself is what is modelled.
\<close>

datatype state_transition =
    ConfigOnly
  | NormalToWarning
  | WarningToHalted
  | NormalToHalted
  | ToReduceOnly
  | ReduceOnlyToNormal
  | HaltedToReduceOnly
  | HaltedToNormal
  | WarningToReduceOnly
  | ToKillSwitch
  | KillSwitchToReduceOnly
  | KillSwitchToNormal
  | KillSwitchToHalted
  | Other

record limits_delta =
  ld_max_single_order_lots_changed :: bool
  ld_max_position_abs_lots_changed :: bool
  ld_max_gross_exposure_nanos_changed :: bool
  ld_max_net_exposure_abs_nanos_changed :: bool
  ld_max_instrument_exposure_nanos_changed :: bool
  ld_max_margin_utilization_ppm_changed :: bool
  ld_max_daily_loss_nanos_changed :: bool
  ld_max_market_data_age_ms_changed :: bool
  ld_allow_margin_changed :: bool
  ld_protection_required_changed :: bool

record policy_audit_event =
  ae_event_id :: string
  ae_old_revision :: "int option"
  ae_new_revision :: int
  ae_old_state :: "risk_state option"
  ae_new_state :: risk_state
  ae_state_transition :: state_transition
  ae_limits_changed :: limits_delta
  ae_emitted_at_unix_ms :: int

definition has_changes :: "limits_delta \<Rightarrow> bool" where
  "has_changes l \<longleftrightarrow>
     ld_max_single_order_lots_changed l
     \<or> ld_max_position_abs_lots_changed l
     \<or> ld_max_gross_exposure_nanos_changed l
     \<or> ld_max_net_exposure_abs_nanos_changed l
     \<or> ld_max_instrument_exposure_nanos_changed l
     \<or> ld_max_margin_utilization_ppm_changed l
     \<or> ld_max_daily_loss_nanos_changed l
     \<or> ld_max_market_data_age_ms_changed l
     \<or> ld_allow_margin_changed l
     \<or> ld_protection_required_changed l"

definition compute_transition :: "risk_state option \<Rightarrow> risk_state \<Rightarrow> state_transition" where
  "compute_transition old new =
     (case old of
        None \<Rightarrow> ConfigOnly
      | Some old_state \<Rightarrow>
          if old_state = new then ConfigOnly
          else case (old_state, new) of
            (Normal, Warning) \<Rightarrow> NormalToWarning
          | (Warning, risk_state.Halted) \<Rightarrow> WarningToHalted
          | (Normal, risk_state.Halted) \<Rightarrow> NormalToHalted
          | (Warning, risk_state.ReduceOnly) \<Rightarrow> ToReduceOnly
          | (Normal, risk_state.ReduceOnly) \<Rightarrow> ToReduceOnly
          | (risk_state.ReduceOnly, Normal) \<Rightarrow> ReduceOnlyToNormal
          | (risk_state.Halted, risk_state.ReduceOnly) \<Rightarrow> HaltedToReduceOnly
          | (risk_state.Halted, Normal) \<Rightarrow> HaltedToNormal
          | (_, KillSwitch) \<Rightarrow> ToKillSwitch
          | (KillSwitch, risk_state.ReduceOnly) \<Rightarrow> KillSwitchToReduceOnly
          | (KillSwitch, Normal) \<Rightarrow> KillSwitchToNormal
          | (KillSwitch, risk_state.Halted) \<Rightarrow> KillSwitchToHalted
          | _ \<Rightarrow> Other)"

definition limits_delta_default :: limits_delta where
  "limits_delta_default =
     \<lparr>ld_max_single_order_lots_changed = False,
      ld_max_position_abs_lots_changed = False,
      ld_max_gross_exposure_nanos_changed = False,
      ld_max_net_exposure_abs_nanos_changed = False,
      ld_max_instrument_exposure_nanos_changed = False,
      ld_max_margin_utilization_ppm_changed = False,
      ld_max_daily_loss_nanos_changed = False,
      ld_max_market_data_age_ms_changed = False,
      ld_allow_margin_changed = False,
      ld_protection_required_changed = False\<rparr>"

definition compute_limits_delta :: "risk_policy_set option \<Rightarrow> risk_policy_set \<Rightarrow> limits_delta" where
  "compute_limits_delta old new =
     (case old of
        None \<Rightarrow> limits_delta_default
      | Some o' \<Rightarrow>
          \<lparr>ld_max_single_order_lots_changed =
             pol_max_single_order_lots o' \<noteq> pol_max_single_order_lots new,
           ld_max_position_abs_lots_changed =
             pol_max_position_abs_lots o' \<noteq> pol_max_position_abs_lots new,
           ld_max_gross_exposure_nanos_changed =
             pol_max_gross_exposure_nanos o' \<noteq> pol_max_gross_exposure_nanos new,
           ld_max_net_exposure_abs_nanos_changed =
             pol_max_net_exposure_abs_nanos o' \<noteq> pol_max_net_exposure_abs_nanos new,
           ld_max_instrument_exposure_nanos_changed =
             pol_max_instrument_exposure_nanos o' \<noteq> pol_max_instrument_exposure_nanos new,
           ld_max_margin_utilization_ppm_changed =
             pol_max_margin_utilization_ppm o' \<noteq> pol_max_margin_utilization_ppm new,
           ld_max_daily_loss_nanos_changed =
             pol_max_daily_loss_nanos o' \<noteq> pol_max_daily_loss_nanos new,
           ld_max_market_data_age_ms_changed =
             pol_max_market_data_age_ms o' \<noteq> pol_max_market_data_age_ms new,
           ld_allow_margin_changed = (pol_allow_margin o' \<noteq> pol_allow_margin new),
           ld_protection_required_changed =
             (pol_protection_required_for_new_exposure o'
              \<noteq> pol_protection_required_for_new_exposure new)\<rparr>)"

definition policy_audit_event_new ::
  "string \<Rightarrow> risk_policy_set option \<Rightarrow> risk_policy_set \<Rightarrow> risk_state option \<Rightarrow> int
   \<Rightarrow> policy_audit_event" where
  "policy_audit_event_new uuid old_policy new_policy old_state now =
     (let old_state' = (case old_state of Some s \<Rightarrow> Some s | None \<Rightarrow> map_option pol_state old_policy)
      in \<lparr>ae_event_id = ''policy-audit:'' @ uuid,
          ae_old_revision = map_option pol_revision old_policy,
          ae_new_revision = pol_revision new_policy,
          ae_old_state = old_state',
          ae_new_state = pol_state new_policy,
          ae_state_transition = compute_transition old_state' (pol_state new_policy),
          ae_limits_changed = compute_limits_delta old_policy new_policy,
          ae_emitted_at_unix_ms = now\<rparr>)"

section \<open>Properties\<close>

text \<open>C40.  An audit event shows neither a limit change nor a state transition exactly when the two
  policies agree on everything but their revision, the provider-limit requirement and the
  unprotected-duration cap: a change of either of the last two goes unreported.\<close>

theorem audit_event_blind_spots:
  "(\<not> has_changes (ae_limits_changed (policy_audit_event_new uuid (Some old) new st now)) \<and>
    ae_state_transition (policy_audit_event_new uuid (Some old) new None now) = ConfigOnly) \<longleftrightarrow>
   new = old\<lparr>pol_revision := pol_revision new,
             pol_require_provider_lot_limit := pol_require_provider_lot_limit new,
             pol_max_unprotected_duration_ms := pol_max_unprotected_duration_ms new\<rparr>"
  by (cases old; cases new)
    (auto simp: policy_audit_event_new_def Let_def compute_limits_delta_def has_changes_def
      compute_transition_def split: risk_state.splits)

text \<open> The class \<open>WarningToReduceOnly\<close> is never reported: the transition it names is reported as
  \<open>ToReduceOnly\<close>.\<close>

theorem warning_to_reduce_only_unreported:
  "compute_transition old new \<noteq> WarningToReduceOnly \<and>
   compute_transition (Some Warning) risk_state.ReduceOnly = ToReduceOnly"
  by (auto simp: compute_transition_def split: option.splits risk_state.splits)

end
