(* ===== verification/Runtime_Model.thy ===== *)
theory Runtime_Model
  imports Domain_Execution
begin

text \<open>
  The vocabulary of the trading runtime, \<open>crates/vox-runtime/src/model.rs\<close>, its port errors
  (\<open>ports.rs\<close>), and the readiness policy and runtime state machine of \<open>policy.rs\<close>.

  Serialisation is the business of a library: the JSON text of a piece of mutation evidence enters
  the validation as the argument \<open>to_json\<close>, with \<open>None\<close> for a serialisation error.  A
  \<open>BTreeSet<String>\<close> is a sorted duplicate-free list.
\<close>

section \<open>Errors and text validation\<close>

datatype model_error =
    Empty string
  | SecretLikeOpaqueReference
  | UnsafeRequestEvidence
  | InvalidField string

definition validate_redacted :: "string \<Rightarrow> model_error + string" where
  "validate_redacted value =
     (let lower = to_ascii_lowercase value in
      if blank value \<or> byte_len value > 2048
        \<or> contains_str lower ''authorization'' \<or> contains_str lower ''bearer ''
        \<or> contains_str lower ''token='' \<or> contains_str lower ''secret=''
      then Inl UnsafeRequestEvidence else Inr value)"

definition validate_safe_text :: "string \<Rightarrow> string \<Rightarrow> int \<Rightarrow> model_error + unit" where
  "validate_safe_text value field maximum_length =
     (if blank value \<or> byte_len value > maximum_length then Inl (InvalidField field)
      else and_then (validate_redacted value) (\<lambda>_. Inr ()))"

definition validate_safe_text_owned :: "string \<Rightarrow> string \<Rightarrow> int \<Rightarrow> model_error + string" where
  "validate_safe_text_owned value field maximum_length =
     and_then (validate_safe_text value field maximum_length) (\<lambda>_. Inr value)"

definition runtime_required :: "string \<Rightarrow> string \<Rightarrow> model_error + string" where
  "runtime_required value field = (if blank value then Inl (Empty field) else Inr value)"

section \<open>Scope\<close>

datatype provider = TInvest

datatype runtime_environment = Sandbox | Production

definition opaque_ref_new :: "string \<Rightarrow> model_error + string" where
  "opaque_ref_new text =
     and_then (runtime_required text ''opaque_ref'') (\<lambda>value.
       if byte_len value > 256 \<or> list_ex is_whitespace value
         \<or> list_ex (\<lambda>needle. contains_str (to_ascii_lowercase value) (to_ascii_lowercase needle))
             [''Bearer'', ''token='', ''secret='', ''t.'']
       then Inl SecretLikeOpaqueReference else Inr value)"

record runtime_scope =
  sc_provider :: provider
  sc_environment :: runtime_environment
  sc_broker_account_id :: string
  sc_connection_ref :: string
  sc_credential_ref :: string

definition runtime_scope_new ::
  "provider \<Rightarrow> runtime_environment \<Rightarrow> string \<Rightarrow> string \<Rightarrow> string \<Rightarrow> model_error + runtime_scope" where
  "runtime_scope_new provider environment account connection_ref credential_ref =
     and_then (runtime_required account ''broker_account_id'') (\<lambda>broker_account_id.
       Inr \<lparr>sc_provider = provider, sc_environment = environment,
            sc_broker_account_id = broker_account_id,
            sc_connection_ref = connection_ref, sc_credential_ref = credential_ref\<rparr>)"

fun provider_debug :: "provider \<Rightarrow> string" where
  "provider_debug TInvest = ''TInvest''"

fun environment_debug :: "runtime_environment \<Rightarrow> string" where
  "environment_debug Sandbox = ''Sandbox''"
| "environment_debug Production = ''Production''"

definition scope_key :: "runtime_scope \<Rightarrow> string" where
  "scope_key s =
     provider_debug (sc_provider s) @ '':'' @ environment_debug (sc_environment s) @ '':''
       @ sc_broker_account_id s"

definition redacted_account_id :: "runtime_scope \<Rightarrow> string" where
  "redacted_account_id s = ''***'' @ rev (take 4 (rev (sc_broker_account_id s)))"

section \<open>States and reasons\<close>

datatype reason_code =
    Startup
  | Connecting
  | ReconciliationStarted
  | ReconciliationComplete
  | ReconciliationIncomplete
  | UnknownMutation
  | BrokerPositionConflict
  | BrokerOrderConflict
  | BrokerStopConflict
  | RequiredReadUnavailable
  | AccountUnavailable
  | CredentialRejected
  | ExecutionUnauthorized
  | StreamDisconnected
  | StreamGap
  | StreamQueueOverflow
  | OptionalCapabilityUnavailable
  | CheckpointRebuild
  | PersistenceFailure
  | OwnershipFailure
  | StaleEpoch
  | CorruptMutationEvidence
  | ShutdownRequested
  | ShutdownComplete

datatype runtime_state =
    Starting
  | Connecting
  | Reconciling
  | Ready
  | Degraded
  | Halted
  | Stopping
  | Stopped

definition new_exposure_allowed :: "runtime_state \<Rightarrow> bool" where
  "new_exposure_allowed s \<longleftrightarrow> s = Ready"

fun runtime_state_debug :: "runtime_state \<Rightarrow> string" where
  "runtime_state_debug Starting = ''Starting''"
| "runtime_state_debug Connecting = ''Connecting''"
| "runtime_state_debug Reconciling = ''Reconciling''"
| "runtime_state_debug Ready = ''Ready''"
| "runtime_state_debug Degraded = ''Degraded''"
| "runtime_state_debug Halted = ''Halted''"
| "runtime_state_debug Stopping = ''Stopping''"
| "runtime_state_debug Stopped = ''Stopped''"

record runtime_transition =
  tr_scope_key :: string
  tr_from :: runtime_state
  tr_to :: runtime_state
  tr_reason_code :: reason_code
  tr_detail :: string
  tr_correlation_id :: string
  tr_observed_at_unix_ms :: int
  tr_runtime_epoch :: int

section \<open>Commands as mutations\<close>

datatype mutation_kind =
    PostOrder
  | PostOrderAsync
  | ReplaceOrder
  | CancelOrder
  | PostStopOrder
  | CancelStopOrder
  | ProtectionLeg

datatype protection_kind = StopLoss | TakeProfit

record runtime_evidence =
  ev_command_kind :: mutation_kind
  ev_instrument_ref :: "string option"
  ev_quantity_lots :: "int option"
  ev_price_present :: bool
  ev_protection_kind :: "protection_kind option"

fun command_kind :: "runtime_execution_command \<Rightarrow> mutation_kind" where
  "command_kind (RegularOrder c) = PostOrder"
| "command_kind (runtime_execution_command.PostOrderAsync c) = PostOrderAsync"
| "command_kind (runtime_execution_command.ReplaceOrder c) = ReplaceOrder"
| "command_kind (runtime_execution_command.CancelOrder c) = CancelOrder"
| "command_kind (runtime_execution_command.PostStopOrder c) = PostStopOrder"
| "command_kind (runtime_execution_command.CancelStopOrder c) = CancelStopOrder"
| "command_kind (runtime_execution_command.ProtectionLeg c) = ProtectionLeg"

fun command_account_id :: "runtime_execution_command \<Rightarrow> string" where
  "command_account_id (RegularOrder c) = ro_account_id c"
| "command_account_id (runtime_execution_command.PostOrderAsync c) = ro_account_id c"
| "command_account_id (runtime_execution_command.ReplaceOrder c) = rp_account_id c"
| "command_account_id (runtime_execution_command.CancelOrder c) = co_account_id c"
| "command_account_id (runtime_execution_command.PostStopOrder c) = pg_account_id c"
| "command_account_id (runtime_execution_command.ProtectionLeg c) = pg_account_id c"
| "command_account_id (runtime_execution_command.CancelStopOrder c) = cs_account_id c"

fun command_request_identity :: "runtime_execution_command \<Rightarrow> string option" where
  "command_request_identity (RegularOrder c) = Some (ro_client_request_id c)"
| "command_request_identity (runtime_execution_command.PostOrderAsync c) = Some (ro_client_request_id c)"
| "command_request_identity (runtime_execution_command.ReplaceOrder c) = Some (rp_replacement_request_id c)"
| "command_request_identity (runtime_execution_command.PostStopOrder c) = Some (pg_client_request_id c)"
| "command_request_identity (runtime_execution_command.ProtectionLeg c) = Some (pg_client_request_id c)"
| "command_request_identity (runtime_execution_command.CancelOrder c) = None"
| "command_request_identity (runtime_execution_command.CancelStopOrder c) = None"

fun leg_price_present :: "protection_leg \<Rightarrow> bool" where
  "leg_price_present (protection_leg.StopLoss (Fixed trigger limit)) \<longleftrightarrow> True"
| "leg_price_present (protection_leg.StopLoss (Trailing distance activation spread instant)) \<longleftrightarrow>
     activation \<noteq> None"
| "leg_price_present (protection_leg.TakeProfit t) \<longleftrightarrow>
     tp_trigger_price t \<noteq> None \<or> tp_limit_price t \<noteq> None"

fun leg_protection_kind :: "protection_leg \<Rightarrow> protection_kind" where
  "leg_protection_kind (protection_leg.StopLoss s) = StopLoss"
| "leg_protection_kind (protection_leg.TakeProfit t) = TakeProfit"

definition order_evidence :: "mutation_kind \<Rightarrow> regular_order_command \<Rightarrow> runtime_evidence" where
  "order_evidence kind c =
     \<lparr>ev_command_kind = kind, ev_instrument_ref = Some (ro_instrument_id c),
      ev_quantity_lots = Some (ro_quantity_lots c), ev_price_present = (ro_price c \<noteq> None),
      ev_protection_kind = None\<rparr>"

definition leg_evidence :: "mutation_kind \<Rightarrow> protection_leg_command \<Rightarrow> runtime_evidence" where
  "leg_evidence kind c =
     \<lparr>ev_command_kind = kind, ev_instrument_ref = Some (pg_instrument_id c),
      ev_quantity_lots = Some (pg_quantity_lots c),
      ev_price_present = leg_price_present (pg_leg c),
      ev_protection_kind = Some (leg_protection_kind (pg_leg c))\<rparr>"

definition cancel_evidence :: "mutation_kind \<Rightarrow> runtime_evidence" where
  "cancel_evidence kind =
     \<lparr>ev_command_kind = kind, ev_instrument_ref = None, ev_quantity_lots = None,
      ev_price_present = False, ev_protection_kind = None\<rparr>"

fun command_evidence :: "runtime_execution_command \<Rightarrow> runtime_evidence" where
  "command_evidence (RegularOrder c) = order_evidence PostOrder c"
| "command_evidence (runtime_execution_command.PostOrderAsync c) = order_evidence PostOrderAsync c"
| "command_evidence (runtime_execution_command.ReplaceOrder c) =
     \<lparr>ev_command_kind = ReplaceOrder, ev_instrument_ref = None,
      ev_quantity_lots = Some (rp_quantity_lots c), ev_price_present = True,
      ev_protection_kind = None\<rparr>"
| "command_evidence (runtime_execution_command.CancelOrder c) = cancel_evidence CancelOrder"
| "command_evidence (runtime_execution_command.CancelStopOrder c) = cancel_evidence CancelStopOrder"
| "command_evidence (runtime_execution_command.PostStopOrder c) = leg_evidence PostStopOrder c"
| "command_evidence (runtime_execution_command.ProtectionLeg c) = leg_evidence ProtectionLeg c"

type_synonym to_json = "runtime_evidence \<Rightarrow> string option"

definition validate_evidence :: "to_json \<Rightarrow> runtime_evidence \<Rightarrow> model_error + runtime_evidence" where
  "validate_evidence to_json e =
     and_then (case ev_instrument_ref e of
                 Some value \<Rightarrow> validate_safe_text value ''instrument_ref'' 256
               | None \<Rightarrow> Inr ()) (\<lambda>_.
     if (case ev_quantity_lots e of Some value \<Rightarrow> value \<le> 0 | None \<Rightarrow> False) then
       Inl (InvalidField ''quantity_lots'')
     else
       and_then (ok_or (InvalidField ''mutation_evidence'') (to_json e)) (\<lambda>encoded.
       and_then (validate_redacted encoded) (\<lambda>_. Inr e)))"

section \<open>The mutation journal\<close>

datatype journal_state =
    NotDispatched
  | Dispatching
  | Acknowledged
  | Rejected
  | UnknownAfterDispatch
  | Reconciled

definition safety_unresolved :: "journal_state \<Rightarrow> bool" where
  "safety_unresolved s \<longleftrightarrow> s \<in> {Dispatching, UnknownAfterDispatch}"

definition journal_terminal :: "journal_state \<Rightarrow> bool" where
  "journal_terminal s \<longleftrightarrow> s \<in> {Acknowledged, Rejected, Reconciled}"

fun journal_state_debug :: "journal_state \<Rightarrow> string" where
  "journal_state_debug NotDispatched = ''NotDispatched''"
| "journal_state_debug Dispatching = ''Dispatching''"
| "journal_state_debug Acknowledged = ''Acknowledged''"
| "journal_state_debug Rejected = ''Rejected''"
| "journal_state_debug UnknownAfterDispatch = ''UnknownAfterDispatch''"
| "journal_state_debug Reconciled = ''Reconciled''"

datatype reconciliation_disposition =
    OrderAccepted
  | OrderActiveNew
  | OrderActivePartial
  | OrderFilled
  | OrderCancelled
  | OrderRejected
  | StopActive
  | StopExecuted
  | StopCanceled
  | StopExpired

fun disposition_debug :: "reconciliation_disposition \<Rightarrow> string" where
  "disposition_debug OrderAccepted = ''OrderAccepted''"
| "disposition_debug OrderActiveNew = ''OrderActiveNew''"
| "disposition_debug OrderActivePartial = ''OrderActivePartial''"
| "disposition_debug OrderFilled = ''OrderFilled''"
| "disposition_debug OrderCancelled = ''OrderCancelled''"
| "disposition_debug OrderRejected = ''OrderRejected''"
| "disposition_debug StopActive = ''StopActive''"
| "disposition_debug StopExecuted = ''StopExecuted''"
| "disposition_debug StopCanceled = ''StopCanceled''"
| "disposition_debug StopExpired = ''StopExpired''"

record mutation_record =
  mr_scope_key :: string
  mr_logical_request_id :: string
  mr_kind :: mutation_kind
  mr_state :: journal_state
  mr_request_evidence :: runtime_evidence
  mr_broker_evidence_ref :: "string option"
  mr_correlation_id :: string
  mr_reconciliation_disposition :: "reconciliation_disposition option"
  mr_created_at_unix_ms :: int
  mr_updated_at_unix_ms :: int
  mr_runtime_epoch :: int

definition record_prepared ::
  "to_json \<Rightarrow> runtime_scope \<Rightarrow> string \<Rightarrow> mutation_kind \<Rightarrow> runtime_evidence \<Rightarrow> string \<Rightarrow> int \<Rightarrow> int
   \<Rightarrow> model_error + mutation_record" where
  "record_prepared to_json scope logical_request_id kind evidence correlation_id epoch now =
     and_then (validate_evidence to_json evidence) (\<lambda>request_evidence.
     if ev_command_kind request_evidence \<noteq> kind then
       Inl (InvalidField ''request_evidence.command_kind'')
     else
       and_then (runtime_required (scope_key scope) ''scope_key'') (\<lambda>key.
       and_then (validate_safe_text_owned logical_request_id ''logical_request_id'' 256) (\<lambda>request.
       and_then (validate_safe_text_owned correlation_id ''correlation_id'' 256) (\<lambda>correlation.
       Inr \<lparr>mr_scope_key = key, mr_logical_request_id = request, mr_kind = kind,
            mr_state = NotDispatched, mr_request_evidence = request_evidence,
            mr_broker_evidence_ref = None, mr_correlation_id = correlation,
            mr_reconciliation_disposition = None, mr_created_at_unix_ms = now,
            mr_updated_at_unix_ms = now, mr_runtime_epoch = epoch\<rparr>))))"

text \<open>\<open>validated\<close> and the \<open>TryFrom\<close> behind it, which also guards deserialisation.\<close>

definition record_validated :: "to_json \<Rightarrow> mutation_record \<Rightarrow> model_error + mutation_record" where
  "record_validated to_json r =
     and_then (validate_safe_text_owned (mr_scope_key r) ''scope_key'' 1024) (\<lambda>_.
     and_then (validate_safe_text_owned (mr_logical_request_id r) ''logical_request_id'' 256) (\<lambda>_.
     and_then (validate_safe_text_owned (mr_correlation_id r) ''correlation_id'' 256) (\<lambda>_.
     and_then (validate_evidence to_json (mr_request_evidence r)) (\<lambda>evidence.
     if ev_command_kind evidence \<noteq> mr_kind r then
       Inl (InvalidField ''request_evidence.command_kind'')
     else
       and_then (case mr_broker_evidence_ref r of
                   Some ref \<Rightarrow>
                     and_then (validate_safe_text_owned ref ''broker_evidence_ref'' 2048) (\<lambda>_. Inr ())
                 | None \<Rightarrow> Inr ()) (\<lambda>_. Inr r)))))"

section \<open>Broker facts\<close>

record broker_identity_links =
  bl_logical_request_id :: string
  bl_broker_order_id :: "string option"
  bl_replacement_broker_order_id :: "string option"
  bl_broker_stop_order_id :: "string option"
  bl_provider_operation_ids :: "string list"
  bl_broker_fill_ids :: "string list"

record broker_account =
  ba_account_id :: string
  ba_open :: bool
  ba_accessible :: bool

record position_fact =
  pf_account_id :: string
  pf_instrument_uid :: string
  pf_quantity_units :: int
  pf_broker_observed_at_unix_ms :: "int option"

record money_fact =
  mf_currency :: string
  mf_amount_nanos :: string

record portfolio_fact =
  pt_account_id :: string
  pt_total_portfolio_valuation :: "money_fact option"
  pt_total_currency_valuation :: "money_fact option"
  pt_broker_daily_yield :: "money_fact option"
  pt_cash_balances :: "(string \<times> string) list"
  pt_broker_observed_at_unix_ms :: "int option"

record positions_fact =
  ps_instruments :: "position_fact list"
  ps_cash_balances :: "(string \<times> string) list"

datatype order_execution_status =
    New
  | PartiallyFilled
  | Filled
  | Cancelled
  | Rejected
  | UnknownProviderStatus int

definition order_active :: "order_execution_status \<Rightarrow> bool" where
  "order_active s \<longleftrightarrow> s \<in> {New, PartiallyFilled}"

datatype stop_execution_status =
    Active
  | Executed
  | Canceled
  | Expired
  | UnknownProviderStatus int

definition stop_active :: "stop_execution_status \<Rightarrow> bool" where
  "stop_active s \<longleftrightarrow> s = Active"

record order_fact =
  of_account_id :: string
  of_broker_order_id :: string
  of_logical_request_id :: "string option"
  of_instrument_uid :: string
  of_side :: "order_side option"
  of_lots_requested :: int
  of_lots_executed :: int
  of_status :: order_execution_status
  of_status_cause :: "int option"

definition remaining_lots :: "order_fact \<Rightarrow> model_error + int" where
  "remaining_lots o1 =
     (if of_lots_requested o1 < 0 \<or> of_lots_executed o1 < 0
        \<or> of_lots_executed o1 > of_lots_requested o1
      then Inl (InvalidField ''order lot progress'')
      else Inr (of_lots_requested o1 - of_lots_executed o1))"

definition signed_remaining_lots :: "order_fact \<Rightarrow> model_error + int" where
  "signed_remaining_lots o1 =
     and_then (remaining_lots o1) (\<lambda>remaining.
       case of_side o1 of
         Some Buy \<Rightarrow> Inr remaining
       | Some Sell \<Rightarrow> ok_or (InvalidField ''order lot progress'') (checked_i64 (- remaining))
       | None \<Rightarrow> Inl (InvalidField ''order direction''))"

record stop_fact =
  sf_account_id :: string
  sf_broker_stop_order_id :: string
  sf_instrument_uid :: string
  sf_status :: stop_execution_status
  sf_status_cause :: "int option"
  sf_quantity_lots :: "int option"
  sf_direction :: "int option"

record operation_fact =
  op_account_id :: string
  op_cursor :: string
  op_provider_operation_id :: "string option"
  op_broker_order_id :: "string option"
  op_logical_request_id :: "string option"
  op_broker_fill_ids :: "string list"

record operations_page =
  pa_items :: "operation_fact list"
  pa_next_cursor :: "string option"

datatype broker_execution_state =
    Order order_execution_status "int option"
  | Stop stop_execution_status "int option"

datatype broker_event_class = Order | Stop | Fill | Operation | Position | Portfolio

record broker_event =
  be_account_id :: string
  be_event_class :: broker_event_class
  be_stable_event_id :: string
  be_broker_order_id :: "string option"
  be_broker_stop_order_id :: "string option"
  be_logical_request_id :: "string option"
  be_execution_state :: "broker_execution_state option"
  be_runtime_epoch :: int

record broker_snapshot =
  bs_accounts :: "broker_account list"
  bs_portfolio :: portfolio_fact
  bs_positions :: "position_fact list"
  bs_active_orders :: "order_fact list"
  bs_stop_orders :: "stop_fact list"
  bs_operations :: "operation_fact list"
  bs_stream_evidence :: "broker_event list"
  bs_observed_at_unix_ms :: int

section \<open>Checkpoints, audit and health\<close>

record reconciliation_checkpoint =
  cp_scope_key :: string
  cp_reconciliation_id :: string
  cp_operations_cursor :: "string option"
  cp_snapshot_observed_at_unix_ms :: int
  cp_completed_at_unix_ms :: int
  cp_runtime_epoch :: int
  cp_accounts_complete :: bool
  cp_portfolio_complete :: bool
  cp_positions_complete :: bool
  cp_orders_complete :: bool
  cp_stops_complete :: bool
  cp_operations_complete :: bool

definition checkpoint_complete :: "reconciliation_checkpoint \<Rightarrow> bool" where
  "checkpoint_complete c \<longleftrightarrow>
     cp_accounts_complete c \<and> cp_portfolio_complete c \<and> cp_positions_complete c
       \<and> cp_orders_complete c \<and> cp_stops_complete c \<and> cp_operations_complete c"

record derived_position_expectation =
  dp_scope_key :: string
  dp_instrument_uid :: string
  dp_expected_quantity_units :: int
  dp_based_on_logical_request_id :: string
  dp_runtime_epoch :: int
  dp_updated_at_unix_ms :: int

record runtime_audit_record =
  au_scope_key :: string
  au_runtime_epoch :: int
  au_event_type :: string
  au_reason_code :: reason_code
  au_correlation_id :: string
  au_redacted_detail :: string
  au_observed_at_unix_ms :: int

record store_counts =
  ct_unresolved_unknown_count :: int
  ct_linked_open_order_count :: int
  ct_linked_active_stop_count :: int

datatype stream_kind = OrderState | Trades | Positions | Portfolio | Operations

datatype stream_state = Disconnected | Connecting | Active | Stale | Failed

record stream_health =
  sh_stream :: stream_kind
  sh_required_for_ready :: bool
  sh_state :: stream_state
  sh_queue_depth :: int
  sh_last_event_at_unix_ms :: "int option"

record runtime_health =
  he_state :: runtime_state
  he_reason_code :: reason_code
  he_reason :: string
  he_provider :: provider
  he_environment :: runtime_environment
  he_account_display :: string
  he_runtime_epoch :: int
  he_connected :: bool
  he_last_successful_reconciliation_at_unix_ms :: "int option"
  he_reconciliation_age_ms :: "int option"
  he_unresolved_unknown_count :: int
  he_open_order_count :: int
  he_active_stop_count :: int
  he_stream_states :: "stream_health list"
  he_persistence_healthy :: bool
  he_execution_authorized :: bool
  he_new_exposure_allowed :: bool

section \<open>Ports\<close>

datatype broker_result_class = Success | RateLimited | Credential | Permission | Transient | Permanent

record broker_port_error =
  bp_service :: string
  bp_method :: string
  bp_class :: broker_result_class
  bp_message :: string
  bp_retry_after :: "int option"

definition safe_read_retryable :: "broker_port_error \<Rightarrow> bool" where
  "safe_read_retryable e \<longleftrightarrow> bp_class e \<in> {RateLimited, Transient}"

record credential_resolution =
  cr_execution_authorized :: bool

datatype runtime_execution_purpose = SandboxMutation | ProductionManual | ProductionAutomated

text \<open>The default \<open>authorize_execution\<close> of a credential resolver, from what \<open>resolve\<close> returned.\<close>

definition authorize_execution ::
  "broker_port_error + credential_resolution \<Rightarrow> broker_port_error + unit" where
  "authorize_execution resolved =
     and_then resolved (\<lambda>r.
       if cr_execution_authorized r then Inr ()
       else Inl \<lparr>bp_service = ''CredentialResolver'', bp_method = ''AuthorizeExecution'',
                 bp_class = Permission, bp_message = ''execution authorization disabled'',
                 bp_retry_after = None\<rparr>)"

record risk_admission =
  ra_decision_id :: string
  ra_reservation_id :: "string option"
  ra_policy_revision :: int
  ra_approved_delta_lots :: int

datatype risk_dispatch_outcome = Acknowledged | Rejected | UnknownAfterDispatch

datatype risk_admission_error =
    Denied string string
  | Stale string
  | Unavailable string

datatype execution_result =
    Acknowledged string broker_identity_links
  | Rejected string
  | UnknownAfterDispatch "string option"

datatype stream_signal =
    Connected stream_kind
  | Event broker_event
  | Gap stream_kind string
  | Disconnected stream_kind string

datatype store_error =
    OwnershipUnavailable
  | StaleEpoch
  | DuplicateMutation
  | InvalidMutationTransition
  | Corrupt string
  | UnsupportedSchema int
  | Persistence string
  | BlockingTask string

section \<open>Readiness policy and state machine\<close>

datatype safety_condition =
    StartupBeforeReconciliation
  | UnresolvedUnknownMutation
  | PositionConflict
  | OrderIdentityConflict
  | StopIdentityConflict
  | RequiredReadUnavailable
  | AccountUnavailable
  | CredentialInvalid
  | ExecutionAuthorizationDisabled
  | ProductionStreamDisconnectedAfterUnaryRecovery
  | OptionalAnalyticsUnavailable
  | CheckpointCorruptSnapshotAvailable
  | PersistenceFailure
  | OwnershipFailure
  | Clear

record policy_decision =
  pd_state :: runtime_state
  pd_reason_code :: reason_code
  pd_new_exposure_allowed :: bool
  pd_requires_reconciliation :: bool
  pd_operator_intervention_required :: bool

definition decision :: "runtime_state \<Rightarrow> reason_code \<Rightarrow> policy_decision" where
  "decision state reason_code =
     \<lparr>pd_state = state, pd_reason_code = reason_code, pd_new_exposure_allowed = False,
      pd_requires_reconciliation = True, pd_operator_intervention_required = False\<rparr>"

definition halt :: "reason_code \<Rightarrow> policy_decision" where
  "halt reason_code =
     \<lparr>pd_state = Halted, pd_reason_code = reason_code, pd_new_exposure_allowed = False,
      pd_requires_reconciliation = True, pd_operator_intervention_required = True\<rparr>"

fun readiness_policy :: "safety_condition \<Rightarrow> policy_decision" where
  "readiness_policy StartupBeforeReconciliation = decision Reconciling Startup"
| "readiness_policy UnresolvedUnknownMutation = halt UnknownMutation"
| "readiness_policy PositionConflict = halt BrokerPositionConflict"
| "readiness_policy OrderIdentityConflict = halt BrokerOrderConflict"
| "readiness_policy StopIdentityConflict = halt BrokerStopConflict"
| "readiness_policy RequiredReadUnavailable = halt reason_code.RequiredReadUnavailable"
| "readiness_policy AccountUnavailable = halt reason_code.AccountUnavailable"
| "readiness_policy CredentialInvalid = halt CredentialRejected"
| "readiness_policy ExecutionAuthorizationDisabled =
     \<lparr>pd_state = Ready, pd_reason_code = ExecutionUnauthorized, pd_new_exposure_allowed = False,
      pd_requires_reconciliation = False, pd_operator_intervention_required = False\<rparr>"
| "readiness_policy ProductionStreamDisconnectedAfterUnaryRecovery =
     \<lparr>pd_state = Degraded, pd_reason_code = StreamDisconnected, pd_new_exposure_allowed = False,
      pd_requires_reconciliation = False, pd_operator_intervention_required = False\<rparr>"
| "readiness_policy OptionalAnalyticsUnavailable =
     \<lparr>pd_state = Degraded, pd_reason_code = OptionalCapabilityUnavailable,
      pd_new_exposure_allowed = False, pd_requires_reconciliation = False,
      pd_operator_intervention_required = False\<rparr>"
| "readiness_policy CheckpointCorruptSnapshotAvailable =
     \<lparr>pd_state = Reconciling, pd_reason_code = CheckpointRebuild, pd_new_exposure_allowed = False,
      pd_requires_reconciliation = True, pd_operator_intervention_required = False\<rparr>"
| "readiness_policy PersistenceFailure = halt reason_code.PersistenceFailure"
| "readiness_policy OwnershipFailure = halt reason_code.OwnershipFailure"
| "readiness_policy Clear =
     \<lparr>pd_state = Ready, pd_reason_code = ReconciliationComplete, pd_new_exposure_allowed = True,
      pd_requires_reconciliation = False, pd_operator_intervention_required = False\<rparr>"

text \<open>The state machine holds nothing but its state, so it is its state.\<close>

record transition_error =
  te_from :: runtime_state
  te_to :: runtime_state

definition runtime_state_machine_default :: runtime_state where
  "runtime_state_machine_default = Starting"

fun runtime_allowed :: "runtime_state \<Rightarrow> runtime_state \<Rightarrow> bool" where
  "runtime_allowed Starting t \<longleftrightarrow> t \<in> {runtime_state.Connecting, Halted, Stopping}"
| "runtime_allowed runtime_state.Connecting t \<longleftrightarrow> t \<in> {Reconciling, Degraded, Halted, Stopping}"
| "runtime_allowed Reconciling t \<longleftrightarrow> t \<in> {Ready, Degraded, Halted, Stopping}"
| "runtime_allowed Ready t \<longleftrightarrow> t \<in> {Reconciling, Degraded, Halted, Stopping}"
| "runtime_allowed Degraded t \<longleftrightarrow> t \<in> {runtime_state.Connecting, Reconciling, Halted, Stopping}"
| "runtime_allowed Halted t \<longleftrightarrow> t \<in> {runtime_state.Connecting, Reconciling, Stopping}"
| "runtime_allowed Stopping t \<longleftrightarrow> t = Stopped"
| "runtime_allowed Stopped t \<longleftrightarrow> False"

definition machine_transition :: "runtime_state \<Rightarrow> runtime_state \<Rightarrow> transition_error + runtime_state" where
  "machine_transition state target =
     (if state \<noteq> target \<and> \<not> runtime_allowed state target
      then Inl \<lparr>te_from = state, te_to = target\<rparr> else Inr target)"

end
