(* ===== verification/Runtime_Store.thy ===== *)
theory Runtime_Store
  imports Runtime_Model
begin

text \<open>
  The durable store of the runtime, \<open>crates/vox-runtime/src/store.rs\<close>: ownership epochs, the
  mutation journal, broker identity links, checkpoints, broker-event deduplication, expected
  positions and the audit trail.

  The database is a record of tables; a table is a list of rows in insertion order and holds the
  decoded values of its JSON columns.  A transaction is a function that returns the new database or
  an error, so a failed transaction changes nothing.  Unique keys, foreign keys and triggers of the
  schema are written out where a statement can violate or fire them.  The text of an error that
  SQLite itself raises is a fixed string.
\<close>

section \<open>Tables\<close>

definition SCHEMA_VERSION :: int where
  "SCHEMA_VERSION = 3"

definition SOFTWARE_VERSION :: string where
  "SOFTWARE_VERSION = ''0.1.0''"

record instance_row =
  ri_scope_key :: string
  ri_provider :: provider
  ri_environment :: runtime_environment
  ri_broker_account_id :: string
  ri_connection_ref :: string
  ri_credential_ref :: string
  ri_epoch :: int
  ri_owner_id :: string
  ri_lease_active :: bool
  ri_started_at_unix_ms :: int
  ri_clean_shutdown_at_unix_ms :: "int option"
  ri_software_version :: string
  ri_schema_version :: int
  ri_last_state :: runtime_state
  ri_last_reason :: reason_code

record link_row =
  lk_logical_request_id :: string
  lk_scope_key :: string
  lk_broker_order_id :: "string option"
  lk_replacement_broker_order_id :: "string option"
  lk_broker_stop_order_id :: "string option"
  lk_updated_at_unix_ms :: int
  lk_runtime_epoch :: int

record operation_link_row =
  ol_scope_key :: string
  ol_logical_request_id :: string
  ol_provider_operation_id :: string

record fill_link_row =
  fl_scope_key :: string
  fl_logical_request_id :: string
  fl_broker_fill_id :: string

record event_row =
  er_scope_key :: string
  er_event_class :: broker_event_class
  er_stable_event_id :: string
  er_first_seen_at_unix_ms :: int
  er_runtime_epoch :: int

record runtime_db =
  rt_instances :: "instance_row list"
  rt_journal :: "mutation_record list"
  rt_links :: "link_row list"
  rt_operation_links :: "operation_link_row list"
  rt_fill_links :: "fill_link_row list"
  rt_checkpoints :: "reconciliation_checkpoint list"
  rt_events :: "event_row list"
  rt_expectations :: "derived_position_expectation list"
  rt_audit :: "runtime_audit_record list"

definition runtime_db_empty :: runtime_db where
  "runtime_db_empty =
     \<lparr>rt_instances = [], rt_journal = [], rt_links = [], rt_operation_links = [],
      rt_fill_links = [], rt_checkpoints = [], rt_events = [], rt_expectations = [],
      rt_audit = []\<rparr>"

type_synonym 'a stored = "store_error + 'a \<times> runtime_db"

section \<open>Helpers\<close>

definition to_i64 :: "int \<Rightarrow> store_error + int" where
  "to_i64 value = ok_or (Corrupt ''integer exceeds SQLite i64'') (checked_i64 value)"

definition to_u64 :: "int \<Rightarrow> store_error + int" where
  "to_u64 value = ok_or (Corrupt ''negative persisted integer'') (checked_u64 value)"

definition changed_one :: "nat \<Rightarrow> store_error + unit" where
  "changed_one changed = (if changed = 1 then Inr () else Inl StaleEpoch)"

text \<open>\<open>DELETE ... ORDER BY time DESC, rowid DESC LIMIT -1 OFFSET n\<close> over the rows of one scope: a row
  stays if fewer than \<open>n\<close> rows of its scope are newer.\<close>

definition newer :: "('r \<Rightarrow> int) \<Rightarrow> nat \<times> 'r \<Rightarrow> nat \<times> 'r \<Rightarrow> bool" where
  "newer time p q \<longleftrightarrow> time (snd q) < time (snd p) \<or> time (snd p) = time (snd q) \<and> fst q < fst p"

definition retain_newest ::
  "('r \<Rightarrow> string) \<Rightarrow> ('r \<Rightarrow> int) \<Rightarrow> string \<Rightarrow> int \<Rightarrow> 'r list \<Rightarrow> 'r list" where
  "retain_newest scope time key n rows =
     (let indexed = enumerate 0 rows in
      map snd (filter (\<lambda>q. scope (snd q) \<noteq> key
        \<or> int (length (filter (\<lambda>p. scope (snd p) = key \<and> newer time p q) indexed)) < n) indexed))"

definition has_instance :: "runtime_db \<Rightarrow> string \<Rightarrow> bool" where
  "has_instance db key \<longleftrightarrow> row_with ri_scope_key key (rt_instances db) \<noteq> None"

definition owned :: "runtime_db \<Rightarrow> string \<Rightarrow> int \<Rightarrow> bool" where
  "owned db key epoch \<longleftrightarrow>
     (case row_with ri_scope_key key (rt_instances db) of
        Some r \<Rightarrow> ri_epoch r = epoch \<and> ri_lease_active r
      | None \<Rightarrow> False)"

definition verify_epoch :: "string \<Rightarrow> int \<Rightarrow> runtime_db \<Rightarrow> store_error + unit" where
  "verify_epoch key epoch db =
     and_then (to_i64 epoch) (\<lambda>e. if owned db key e then Inr () else Inl StaleEpoch)"

definition insert_audit :: "runtime_audit_record \<Rightarrow> runtime_db \<Rightarrow> store_error + runtime_db" where
  "insert_audit a db =
     (if byte_len (au_redacted_detail a) > 2048 then
        Inl (Persistence ''audit detail exceeds bounded size'')
      else and_then (to_i64 (au_runtime_epoch a)) (\<lambda>_.
        if \<not> has_instance db (au_scope_key a) then Inl (Persistence ''FOREIGN KEY constraint failed'')
        else Inr (db\<lparr>rt_audit := retain_newest au_scope_key au_observed_at_unix_ms (au_scope_key a)
               20000 (rt_audit db @ [a])\<rparr>)))"

text \<open>\<open>UPDATE runtime_instance SET ... WHERE scope_key=? AND epoch=? AND lease_active=1\<close>.\<close>

definition update_instance ::
  "string \<Rightarrow> int \<Rightarrow> (instance_row \<Rightarrow> instance_row) \<Rightarrow> runtime_db \<Rightarrow> store_error + runtime_db" where
  "update_instance key epoch f db =
     and_then (to_i64 epoch) (\<lambda>e.
     and_then (changed_one (if owned db key e then 1 else 0)) (\<lambda>_.
       Inr (db\<lparr>rt_instances := modify_row ri_scope_key key f (rt_instances db)\<rparr>)))"

section \<open>Ownership\<close>

definition acquired_row :: "runtime_scope \<Rightarrow> string \<Rightarrow> int \<Rightarrow> int \<Rightarrow> instance_row" where
  "acquired_row scope owner_id started_at epoch =
     \<lparr>ri_scope_key = scope_key scope, ri_provider = sc_provider scope,
      ri_environment = sc_environment scope, ri_broker_account_id = sc_broker_account_id scope,
      ri_connection_ref = sc_connection_ref scope, ri_credential_ref = sc_credential_ref scope,
      ri_epoch = epoch, ri_owner_id = owner_id, ri_lease_active = True,
      ri_started_at_unix_ms = started_at, ri_clean_shutdown_at_unix_ms = None,
      ri_software_version = SOFTWARE_VERSION, ri_schema_version = SCHEMA_VERSION,
      ri_last_state = Starting, ri_last_reason = Startup\<rparr>"

definition acquire_ownership :: "runtime_scope \<Rightarrow> string \<Rightarrow> int \<Rightarrow> runtime_db \<Rightarrow> int stored" where
  "acquire_ownership scope owner_id started_at db =
     (let existing_epoch = (case row_with ri_scope_key (scope_key scope) (rt_instances db) of
                              Some r \<Rightarrow> ri_epoch r | None \<Rightarrow> 0)
      in
      and_then (ok_or (Corrupt ''runtime epoch overflow'') (checked_i64 (existing_epoch + 1)))
        (\<lambda>epoch.
      if epoch < 1 then Inl (Persistence ''CHECK constraint failed: epoch >= 1'')
      else
        let row = acquired_row scope owner_id started_at epoch in
        and_then (to_u64 epoch) (\<lambda>e.
        and_then (insert_audit
          \<lparr>au_scope_key = scope_key scope, au_runtime_epoch = e,
           au_event_type = ''OWNERSHIP_ACQUIRED'', au_reason_code = Startup,
           au_correlation_id = owner_id,
           au_redacted_detail = ''single-writer lease acquired and epoch incremented'',
           au_observed_at_unix_ms = started_at\<rparr>
          (db\<lparr>rt_instances := upsert_row ri_scope_key row (\<lambda>_. row) (rt_instances db)\<rparr>))
        (\<lambda>db'. Inr (e, db')))))"

definition release_ownership :: "string \<Rightarrow> int \<Rightarrow> int \<Rightarrow> runtime_db \<Rightarrow> unit stored" where
  "release_ownership key epoch clean_shutdown_at db =
     and_then (update_instance key epoch (\<lambda>r. r\<lparr>ri_lease_active := False,
         ri_clean_shutdown_at_unix_ms := Some clean_shutdown_at,
         ri_last_state := Stopped, ri_last_reason := ShutdownComplete\<rparr>) db) (\<lambda>db1.
     and_then (insert_audit
       \<lparr>au_scope_key = key, au_runtime_epoch = epoch, au_event_type = ''OWNERSHIP_RELEASED'',
        au_reason_code = ShutdownComplete,
        au_correlation_id = ''shutdown-epoch-'' @ show_nat (nat epoch),
        au_redacted_detail = ''clean shutdown marker committed before ownership release'',
        au_observed_at_unix_ms = clean_shutdown_at\<rparr> db1) (\<lambda>db2. Inr ((), db2)))"

definition record_transition :: "runtime_transition \<Rightarrow> runtime_db \<Rightarrow> unit stored" where
  "record_transition t db =
     and_then (verify_epoch (tr_scope_key t) (tr_runtime_epoch t) db) (\<lambda>_.
     and_then (update_instance (tr_scope_key t) (tr_runtime_epoch t)
       (\<lambda>r. r\<lparr>ri_last_state := tr_to t, ri_last_reason := tr_reason_code t\<rparr>) db) (\<lambda>db1.
     and_then (insert_audit
       \<lparr>au_scope_key = tr_scope_key t, au_runtime_epoch = tr_runtime_epoch t,
        au_event_type = ''STATE_TRANSITION'', au_reason_code = tr_reason_code t,
        au_correlation_id = tr_correlation_id t,
        au_redacted_detail = runtime_state_debug (tr_from t) @ ''->'' @ runtime_state_debug (tr_to t)
          @ '': '' @ tr_detail t,
        au_observed_at_unix_ms = tr_observed_at_unix_ms t\<rparr> db1) (\<lambda>db2. Inr ((), db2))))"

section \<open>The journal\<close>

definition read_mutation :: "to_json \<Rightarrow> mutation_record \<Rightarrow> store_error + mutation_record" where
  "read_mutation to_json row =
     map_err (\<lambda>_. Persistence ''Conversion error from type Text'') (record_validated to_json row)"

definition load_mutation :: "to_json \<Rightarrow> string \<Rightarrow> runtime_db \<Rightarrow> store_error + mutation_record option" where
  "load_mutation to_json logical_request_id db =
     (case row_with mr_logical_request_id logical_request_id (rt_journal db) of
        None \<Rightarrow> Inr None
      | Some row \<Rightarrow> and_then (read_mutation to_json row) (\<lambda>r. Inr (Some r)))"

definition mutation ::
  "to_json \<Rightarrow> string \<Rightarrow> string \<Rightarrow> runtime_db \<Rightarrow> store_error + mutation_record option" where
  "mutation to_json key logical_request_id db =
     and_then (load_mutation to_json logical_request_id db) (\<lambda>found.
       Inr (case found of
              Some r \<Rightarrow> if mr_scope_key r = key then Some r else None
            | None \<Rightarrow> None))"

definition mutations :: "to_json \<Rightarrow> string \<Rightarrow> runtime_db \<Rightarrow> store_error + mutation_record list" where
  "mutations to_json key db =
     try_map (read_mutation to_json)
       (sort_key mr_created_at_unix_ms (filter (\<lambda>r. mr_scope_key r = key) (rt_journal db)))"

text \<open>The capacity trigger and every other constraint of the journal surface as \<open>DuplicateMutation\<close>.\<close>

definition insert_mutation :: "to_json \<Rightarrow> mutation_record \<Rightarrow> runtime_db \<Rightarrow> unit stored" where
  "insert_mutation to_json r db =
     and_then (verify_epoch (mr_scope_key r) (mr_runtime_epoch r) db) (\<lambda>_.
     and_then (ok_or (Persistence ''serialization failed'') (to_json (mr_request_evidence r)))
       (\<lambda>request_evidence.
     and_then (to_i64 (mr_runtime_epoch r)) (\<lambda>_.
     if row_with mr_logical_request_id (mr_logical_request_id r) (rt_journal db) \<noteq> None
       \<or> int (length (rt_journal db)) \<ge> 1000000
       \<or> \<not> (1 \<le> int (length request_evidence) \<and> int (length request_evidence) \<le> 2048)
     then Inl DuplicateMutation
     else Inr ((), db\<lparr>rt_journal := rt_journal db @ [r]\<rparr>))))"

definition disposition_text :: "string \<Rightarrow> reconciliation_disposition option \<Rightarrow> string" where
  "disposition_text otherwise disposition =
     (case disposition of None \<Rightarrow> otherwise | Some value \<Rightarrow> disposition_debug value)"

text \<open>The columns an \<open>UPDATE\<close> of the journal sets.\<close>

definition settle ::
  "journal_state \<Rightarrow> string option \<Rightarrow> reconciliation_disposition option \<Rightarrow> int \<Rightarrow> int
   \<Rightarrow> mutation_record \<Rightarrow> mutation_record" where
  "settle state broker_evidence_ref disposition now epoch r =
     r\<lparr>mr_state := state, mr_broker_evidence_ref := broker_evidence_ref,
       mr_reconciliation_disposition := disposition, mr_updated_at_unix_ms := now,
       mr_runtime_epoch := epoch\<rparr>"

definition transition_mutation ::
  "to_json \<Rightarrow> string \<Rightarrow> string \<Rightarrow> journal_state list \<Rightarrow> journal_state \<Rightarrow> string option
   \<Rightarrow> reconciliation_disposition option \<Rightarrow> int \<Rightarrow> int \<Rightarrow> runtime_db \<Rightarrow> mutation_record stored" where
  "transition_mutation to_json key logical_request_id expected target broker_evidence_ref disposition
       epoch now db =
     and_then (verify_epoch key epoch db) (\<lambda>_.
     and_then (load_mutation to_json logical_request_id db) (\<lambda>found.
     and_then (ok_or InvalidMutationTransition found) (\<lambda>r.
     if mr_scope_key r \<noteq> key \<or> mr_state r \<notin> set expected then Inl InvalidMutationTransition
     else
       and_then (map_err (\<lambda>_. Corrupt ''invalid mutation record'')
         (record_validated to_json (settle target broker_evidence_ref disposition now epoch r)))
         (\<lambda>record.
       and_then (to_i64 epoch) (\<lambda>_.
       and_then (insert_audit
         \<lparr>au_scope_key = key, au_runtime_epoch = epoch,
          au_event_type = ''MUTATION_'' @ journal_state_debug target,
          au_reason_code = (if target = journal_state.UnknownAfterDispatch then UnknownMutation
                            else ReconciliationComplete),
          au_correlation_id = mr_correlation_id record,
          au_redacted_detail = ''logical_request_id='' @ logical_request_id
            @ ''; disposition='' @ disposition_text ''none'' disposition,
          au_observed_at_unix_ms = now\<rparr>
         (db\<lparr>rt_journal := modify_row mr_logical_request_id logical_request_id
           (settle target broker_evidence_ref disposition now epoch) (rt_journal db)\<rparr>))
         (\<lambda>db'. Inr (record, db')))))))"

definition claim_dispatch_unknown ::
  "to_json \<Rightarrow> string \<Rightarrow> string \<Rightarrow> int \<Rightarrow> int \<Rightarrow> runtime_db \<Rightarrow> mutation_record stored" where
  "claim_dispatch_unknown to_json key logical_request_id epoch now db =
     transition_mutation to_json key logical_request_id [NotDispatched] journal_state.UnknownAfterDispatch
       None None epoch now db"

definition unresolved_mutations ::
  "to_json \<Rightarrow> string \<Rightarrow> runtime_db \<Rightarrow> store_error + mutation_record list" where
  "unresolved_mutations to_json key db =
     try_map (read_mutation to_json)
       (sort_key (\<lambda>r. (mr_created_at_unix_ms r, mr_logical_request_id r))
         (filter (\<lambda>r. mr_scope_key r = key \<and> mr_state r \<in> {Dispatching, journal_state.UnknownAfterDispatch})
           (rt_journal db)))"

section \<open>Identity links\<close>

definition operation_ids :: "runtime_db \<Rightarrow> string \<Rightarrow> string \<Rightarrow> string list" where
  "operation_ids db key request =
     sort (remdups (map ol_provider_operation_id
       (filter (\<lambda>r. ol_scope_key r = key \<and> ol_logical_request_id r = request)
         (rt_operation_links db))))"

definition fill_ids :: "runtime_db \<Rightarrow> string \<Rightarrow> string \<Rightarrow> string list" where
  "fill_ids db key request =
     sort (remdups (map fl_broker_fill_id
       (filter (\<lambda>r. fl_scope_key r = key \<and> fl_logical_request_id r = request)
         (rt_fill_links db))))"

definition all_identity_links :: "string \<Rightarrow> runtime_db \<Rightarrow> store_error + broker_identity_links list" where
  "all_identity_links key db =
     Inr (map (\<lambda>r. \<lparr>bl_logical_request_id = lk_logical_request_id r,
                     bl_broker_order_id = lk_broker_order_id r,
                     bl_replacement_broker_order_id = lk_replacement_broker_order_id r,
                     bl_broker_stop_order_id = lk_broker_stop_order_id r,
                     bl_provider_operation_ids = operation_ids db key (lk_logical_request_id r),
                     bl_broker_fill_ids = fill_ids db key (lk_logical_request_id r)\<rparr>)
       (sort_key lk_logical_request_id (filter (\<lambda>r. lk_scope_key r = key) (rt_links db))))"

definition coalesce :: "'a option \<Rightarrow> 'a option \<Rightarrow> 'a option" where
  "coalesce a b = (case a of Some x \<Rightarrow> Some x | None \<Rightarrow> b)"

definition insert_operation_link :: "string \<Rightarrow> string \<Rightarrow> string \<Rightarrow> runtime_db \<Rightarrow> runtime_db" where
  "insert_operation_link key request operation_id db =
     (let row = \<lparr>ol_scope_key = key, ol_logical_request_id = request,
                 ol_provider_operation_id = operation_id\<rparr>
      in if row \<in> set (rt_operation_links db) then db
         else db\<lparr>rt_operation_links := rt_operation_links db @ [row]\<rparr>)"

definition insert_fill_link :: "string \<Rightarrow> string \<Rightarrow> string \<Rightarrow> runtime_db \<Rightarrow> runtime_db" where
  "insert_fill_link key request fill_id db =
     (if list_ex (\<lambda>r. fl_scope_key r = key \<and> fl_broker_fill_id r = fill_id) (rt_fill_links db) then db
      else db\<lparr>rt_fill_links := rt_fill_links db
        @ [\<lparr>fl_scope_key = key, fl_logical_request_id = request, fl_broker_fill_id = fill_id\<rparr>]\<rparr>)"

definition upsert_links ::
  "string \<Rightarrow> broker_identity_links \<Rightarrow> int \<Rightarrow> int \<Rightarrow> runtime_db \<Rightarrow> store_error + runtime_db" where
  "upsert_links key links epoch now db =
     and_then (to_i64 epoch) (\<lambda>e.
     if row_with lk_logical_request_id (bl_logical_request_id links) (rt_links db) = None
       \<and> (row_with mr_logical_request_id (bl_logical_request_id links) (rt_journal db) = None
          \<or> \<not> has_instance db key)
     then Inl (Corrupt ''conflicting typed broker identity link'')
     else
       let row = \<lparr>lk_logical_request_id = bl_logical_request_id links, lk_scope_key = key,
             lk_broker_order_id = bl_broker_order_id links,
             lk_replacement_broker_order_id = bl_replacement_broker_order_id links,
             lk_broker_stop_order_id = bl_broker_stop_order_id links,
             lk_updated_at_unix_ms = now, lk_runtime_epoch = e\<rparr>;
           merge = (\<lambda>old. old\<lparr>
             lk_broker_order_id := coalesce (bl_broker_order_id links) (lk_broker_order_id old),
             lk_replacement_broker_order_id := coalesce (bl_replacement_broker_order_id links)
               (lk_replacement_broker_order_id old),
             lk_broker_stop_order_id := coalesce (bl_broker_stop_order_id links)
               (lk_broker_stop_order_id old),
             lk_updated_at_unix_ms := now, lk_runtime_epoch := e\<rparr>);
           db1 = db\<lparr>rt_links := upsert_row lk_logical_request_id row merge (rt_links db)\<rparr>;
           db2 = fold (insert_operation_link key (bl_logical_request_id links))
             (bl_provider_operation_ids links) db1
       in Inr (fold (insert_fill_link key (bl_logical_request_id links))
            (bl_broker_fill_ids links) db2))"

definition upsert_identity_links ::
  "string \<Rightarrow> broker_identity_links \<Rightarrow> int \<Rightarrow> int \<Rightarrow> runtime_db \<Rightarrow> unit stored" where
  "upsert_identity_links key links epoch now db =
     and_then (verify_epoch key epoch db) (\<lambda>_.
     and_then (upsert_links key links epoch now db) (\<lambda>db'. Inr ((), db')))"

section \<open>Reconciliation, events, expectations\<close>

definition load_checkpoint ::
  "string \<Rightarrow> runtime_db \<Rightarrow> store_error + reconciliation_checkpoint option" where
  "load_checkpoint key db = Inr (row_with cp_scope_key key (rt_checkpoints db))"

definition discard_checkpoint :: "string \<Rightarrow> int \<Rightarrow> runtime_db \<Rightarrow> unit stored" where
  "discard_checkpoint key epoch db =
     and_then (verify_epoch key epoch db) (\<lambda>_.
       Inr ((), db\<lparr>rt_checkpoints := filter (\<lambda>c. cp_scope_key c \<noteq> key) (rt_checkpoints db)\<rparr>))"

definition commit_resolved ::
  "reconciliation_checkpoint \<Rightarrow> mutation_record \<Rightarrow> runtime_db \<Rightarrow> store_error + runtime_db" where
  "commit_resolved checkpoint r db =
     (let key = cp_scope_key checkpoint; epoch = cp_runtime_epoch checkpoint in
      if mr_scope_key r \<noteq> key \<or> mr_state r \<noteq> Reconciled then Inl InvalidMutationTransition
      else and_then (to_i64 epoch) (\<lambda>_.
        let hit = (\<lambda>row. mr_logical_request_id row = mr_logical_request_id r
              \<and> mr_scope_key row = key \<and> mr_state row \<in> {Dispatching, journal_state.UnknownAfterDispatch})
        in if length (filter hit (rt_journal db)) \<noteq> 1 then
             Inl (Corrupt (''reconciliation target '' @ mr_logical_request_id r
               @ '' is missing or no longer unresolved''))
           else insert_audit
             \<lparr>au_scope_key = key, au_runtime_epoch = epoch, au_event_type = ''UNKNOWN_RESOLVED'',
              au_reason_code = ReconciliationComplete, au_correlation_id = mr_correlation_id r,
              au_redacted_detail = ''logical_request_id='' @ mr_logical_request_id r
                @ ''; disposition='' @ disposition_text ''authoritative broker evidence''
                    (mr_reconciliation_disposition r),
              au_observed_at_unix_ms = mr_updated_at_unix_ms r\<rparr>
             (db\<lparr>rt_journal := map (\<lambda>row.
                if hit row then settle (mr_state r) (mr_broker_evidence_ref r)
                  (mr_reconciliation_disposition r) (mr_updated_at_unix_ms r) epoch row
                else row) (rt_journal db)\<rparr>)))"

definition commit_reconciliation ::
  "reconciliation_checkpoint \<Rightarrow> mutation_record list \<Rightarrow> broker_identity_links list \<Rightarrow> runtime_state
   \<Rightarrow> reason_code \<Rightarrow> runtime_db \<Rightarrow> unit stored" where
  "commit_reconciliation checkpoint resolved links readiness_state reason_code db =
     (let key = cp_scope_key checkpoint; epoch = cp_runtime_epoch checkpoint in
      and_then (verify_epoch key epoch db) (\<lambda>_.
      and_then (try_fold (commit_resolved checkpoint) resolved db) (\<lambda>db1.
      and_then (try_fold (\<lambda>link. upsert_links key link epoch (cp_completed_at_unix_ms checkpoint))
        links db1) (\<lambda>db2.
      and_then (to_i64 epoch) (\<lambda>_.
      let db3 = db2\<lparr>rt_checkpoints :=
        upsert_row cp_scope_key checkpoint (\<lambda>_. checkpoint) (rt_checkpoints db2)\<rparr>
      in
      and_then (update_instance key epoch
        (\<lambda>r. r\<lparr>ri_last_state := readiness_state, ri_last_reason := reason_code\<rparr>) db3) (\<lambda>db4.
      and_then (insert_audit
        \<lparr>au_scope_key = key, au_runtime_epoch = epoch,
         au_event_type = ''RECONCILIATION_COMMITTED'', au_reason_code = reason_code,
         au_correlation_id = cp_reconciliation_id checkpoint,
         au_redacted_detail = ''readiness='' @ runtime_state_debug readiness_state
           @ ''; complete='' @ show_bool (checkpoint_complete checkpoint),
         au_observed_at_unix_ms = cp_completed_at_unix_ms checkpoint\<rparr> db4)
        (\<lambda>db5. Inr ((), db5))))))))"

definition event_key :: "event_row \<Rightarrow> string \<times> broker_event_class \<times> string" where
  "event_key r = (er_scope_key r, er_event_class r, er_stable_event_id r)"

definition record_broker_event :: "string \<Rightarrow> broker_event \<Rightarrow> int \<Rightarrow> runtime_db \<Rightarrow> bool stored" where
  "record_broker_event key event first_seen db =
     and_then (verify_epoch key (be_runtime_epoch event) db) (\<lambda>_.
     and_then (to_i64 (be_runtime_epoch event)) (\<lambda>e.
       let row = \<lparr>er_scope_key = key, er_event_class = be_event_class event,
             er_stable_event_id = be_stable_event_id event,
             er_first_seen_at_unix_ms = first_seen, er_runtime_epoch = e\<rparr>
       in if row_with event_key (event_key row) (rt_events db) \<noteq> None then Inr (False, db)
          else Inr (True, db\<lparr>rt_events := retain_newest er_scope_key er_first_seen_at_unix_ms key
                 100000 (rt_events db @ [row])\<rparr>)))"

definition expected_positions ::
  "string \<Rightarrow> runtime_db \<Rightarrow> store_error + derived_position_expectation list" where
  "expected_positions key db =
     Inr (sort_key dp_instrument_uid (filter (\<lambda>d. dp_scope_key d = key) (rt_expectations db)))"

definition expectation_key :: "derived_position_expectation \<Rightarrow> string \<times> string" where
  "expectation_key d = (dp_scope_key d, dp_instrument_uid d)"

definition set_expected_position :: "derived_position_expectation \<Rightarrow> runtime_db \<Rightarrow> unit stored" where
  "set_expected_position d db =
     and_then (verify_epoch (dp_scope_key d) (dp_runtime_epoch d) db) (\<lambda>_.
     and_then (to_i64 (dp_runtime_epoch d)) (\<lambda>_.
     if row_with mr_logical_request_id (dp_based_on_logical_request_id d) (rt_journal db) = None
     then Inl (Persistence ''FOREIGN KEY constraint failed'')
     else Inr ((), db\<lparr>rt_expectations :=
       upsert_row expectation_key d (\<lambda>_. d) (rt_expectations db)\<rparr>)))"

definition append_audit :: "runtime_audit_record \<Rightarrow> runtime_db \<Rightarrow> unit stored" where
  "append_audit a db =
     and_then (verify_epoch (au_scope_key a) (au_runtime_epoch a) db) (\<lambda>_.
     and_then (insert_audit a db) (\<lambda>db'. Inr ((), db')))"

definition compact :: "string \<Rightarrow> int \<Rightarrow> int \<Rightarrow> int \<Rightarrow> runtime_db \<Rightarrow> unit stored" where
  "compact key retain_after max_events max_audit db =
     Inr ((), db\<lparr>
       rt_events := retain_newest er_scope_key er_first_seen_at_unix_ms key max_events
         (filter (\<lambda>r. \<not> (er_scope_key r = key \<and> er_first_seen_at_unix_ms r < retain_after))
           (rt_events db)),
       rt_audit := retain_newest au_scope_key au_observed_at_unix_ms key max_audit
         (filter (\<lambda>r. \<not> (au_scope_key r = key \<and> au_observed_at_unix_ms r < retain_after))
           (rt_audit db))\<rparr>)"

definition counts :: "string \<Rightarrow> runtime_db \<Rightarrow> store_error + store_counts" where
  "counts key db =
     and_then (to_u64 (int (length (filter (\<lambda>r. mr_scope_key r = key
       \<and> mr_state r \<in> {Dispatching, journal_state.UnknownAfterDispatch}) (rt_journal db))))) (\<lambda>unresolved.
     and_then (to_u64 (int (length (filter (\<lambda>r. lk_scope_key r = key \<and> (lk_broker_order_id r \<noteq> None
       \<or> lk_replacement_broker_order_id r \<noteq> None)) (rt_links db))))) (\<lambda>open_orders.
     and_then (to_u64 (int (length (filter (\<lambda>r. lk_scope_key r = key
       \<and> lk_broker_stop_order_id r \<noteq> None) (rt_links db))))) (\<lambda>active_stops.
     Inr \<lparr>ct_unresolved_unknown_count = unresolved, ct_linked_open_order_count = open_orders,
          ct_linked_active_stop_count = active_stops\<rparr>)))"

end
