(* ===== verification/Runtime_Journal.thy ===== *)
theory Runtime_Journal
  imports Runtime_Store
begin

text \<open>
  What the runtime store guarantees: the runs of its operations, epoch fencing, the lifecycle of the
  mutation journal, and the exactness of a committed reconciliation.

  \<open>store_op\<close> names every writing operation of the \<open>RuntimeStore\<close> trait with its arguments and
  \<open>run_ops\<close> executes a sequence of them, in which the operations of any number of processes may be
  interleaved; a failing operation leaves the database.
\<close>

section \<open>Frames\<close>

lemma to_i64_Inr [result_simps]: "to_i64 v = Inr e \<longleftrightarrow> in_i64 v \<and> e = v"
  by (auto simp: to_i64_def result_simps)

lemma to_u64_Inr [result_simps]: "to_u64 v = Inr e \<longleftrightarrow> in_u64 v \<and> e = v"
  by (auto simp: to_u64_def result_simps)

lemma verify_epoch_Inr [result_simps]:
  "verify_epoch key epoch db = Inr u \<longleftrightarrow> in_i64 epoch \<and> owned db key epoch"
  by (auto simp: verify_epoch_def result_simps split: if_splits)

lemma changed_one_Inr [result_simps]: "changed_one n = Inr u \<longleftrightarrow> n = 1"
  by (simp add: changed_one_def)

lemma update_instance_Inr [result_simps]:
  "update_instance key epoch f db = Inr db' \<longleftrightarrow> in_i64 epoch \<and> owned db key epoch
     \<and> db' = db\<lparr>rt_instances := modify_row ri_scope_key key f (rt_instances db)\<rparr>"
  by (auto simp: update_instance_def result_simps split: if_splits)

lemma insert_operation_link_frame [simp]:
  "rt_instances (insert_operation_link key request i db) = rt_instances db"
  "rt_journal (insert_operation_link key request i db) = rt_journal db"
  "rt_links (insert_operation_link key request i db) = rt_links db"
  "rt_fill_links (insert_operation_link key request i db) = rt_fill_links db"
  "rt_checkpoints (insert_operation_link key request i db) = rt_checkpoints db"
  "rt_events (insert_operation_link key request i db) = rt_events db"
  "rt_expectations (insert_operation_link key request i db) = rt_expectations db"
  "rt_audit (insert_operation_link key request i db) = rt_audit db"
  by (simp_all add: insert_operation_link_def Let_def)

lemma insert_fill_link_frame [simp]:
  "rt_instances (insert_fill_link key request i db) = rt_instances db"
  "rt_journal (insert_fill_link key request i db) = rt_journal db"
  "rt_links (insert_fill_link key request i db) = rt_links db"
  "rt_operation_links (insert_fill_link key request i db) = rt_operation_links db"
  "rt_checkpoints (insert_fill_link key request i db) = rt_checkpoints db"
  "rt_events (insert_fill_link key request i db) = rt_events db"
  "rt_expectations (insert_fill_link key request i db) = rt_expectations db"
  "rt_audit (insert_fill_link key request i db) = rt_audit db"
  by (simp_all add: insert_fill_link_def)

lemma fold_frame:
  assumes "\<And>x s. get (f x s) = get s"
  shows "get (fold f xs s) = get s"
  by (induction xs arbitrary: s) (simp_all add: assms)

lemmas fold_operation_link_frame [simp] =
  fold_frame [where f = "insert_operation_link key request" and get = rt_instances for key request]
  fold_frame [where f = "insert_operation_link key request" and get = rt_journal for key request]
  fold_frame [where f = "insert_operation_link key request" and get = rt_links for key request]
  fold_frame [where f = "insert_operation_link key request" and get = rt_fill_links for key request]
  fold_frame [where f = "insert_operation_link key request" and get = rt_checkpoints for key request]
  fold_frame [where f = "insert_operation_link key request" and get = rt_events for key request]
  fold_frame [where f = "insert_operation_link key request" and get = rt_expectations for key request]
  fold_frame [where f = "insert_operation_link key request" and get = rt_audit for key request]

lemmas fold_fill_link_frame [simp] =
  fold_frame [where f = "insert_fill_link key request" and get = rt_instances for key request]
  fold_frame [where f = "insert_fill_link key request" and get = rt_journal for key request]
  fold_frame [where f = "insert_fill_link key request" and get = rt_links for key request]
  fold_frame [where f = "insert_fill_link key request" and get = rt_operation_links for key request]
  fold_frame [where f = "insert_fill_link key request" and get = rt_checkpoints for key request]
  fold_frame [where f = "insert_fill_link key request" and get = rt_events for key request]
  fold_frame [where f = "insert_fill_link key request" and get = rt_expectations for key request]
  fold_frame [where f = "insert_fill_link key request" and get = rt_audit for key request]

text \<open>What each building block leaves alone.\<close>

lemma upsert_links_frame:
  "upsert_links key links epoch now db = Inr db' \<Longrightarrow>
     rt_instances db' = rt_instances db \<and> rt_journal db' = rt_journal db
     \<and> rt_checkpoints db' = rt_checkpoints db \<and> rt_events db' = rt_events db
     \<and> rt_expectations db' = rt_expectations db \<and> rt_audit db' = rt_audit db"
  by (auto simp: upsert_links_def result_simps Let_def split: if_splits)

lemma insert_audit_frame:
  "insert_audit a db = Inr db' \<Longrightarrow>
     rt_instances db' = rt_instances db \<and> rt_journal db' = rt_journal db
     \<and> rt_links db' = rt_links db \<and> rt_operation_links db' = rt_operation_links db
     \<and> rt_fill_links db' = rt_fill_links db
     \<and> rt_checkpoints db' = rt_checkpoints db \<and> rt_events db' = rt_events db
     \<and> rt_expectations db' = rt_expectations db"
  by (auto simp: insert_audit_def result_simps split: if_splits)

lemma commit_resolved_frame:
  assumes "commit_resolved c r db = Inr db'"
  shows "rt_instances db' = rt_instances db \<and> rt_links db' = rt_links db
    \<and> rt_operation_links db' = rt_operation_links db \<and> rt_fill_links db' = rt_fill_links db
    \<and> rt_checkpoints db' = rt_checkpoints db \<and> rt_events db' = rt_events db
    \<and> rt_expectations db' = rt_expectations db"
proof -
  obtain a db1 where "insert_audit a db1 = Inr db'" and "db1 = db\<lparr>rt_journal := rt_journal db1\<rparr>"
    using assms by (auto simp: commit_resolved_def result_simps Let_def split: if_splits)
  then show ?thesis
    by (metis (no_types, lifting) insert_audit_frame runtime_db.select_convs runtime_db.update_convs(2) runtime_db.surjective)
qed

lemma load_mutation_Inr:
  "load_mutation js i db = Inr found
     \<Longrightarrow> found = row_with mr_logical_request_id i (rt_journal db)"
  by (auto simp: load_mutation_def read_mutation_def record_validated_def result_simps
      split: option.splits if_splits)

section \<open>Runs of the store\<close>

text \<open>Every writing operation of the \<open>RuntimeStore\<close> trait, with its arguments.\<close>

datatype store_op =
    AcquireOwnership runtime_scope string int
  | ReleaseOwnership string int int
  | RecordTransition runtime_transition
  | InsertMutation mutation_record
  | TransitionMutation string string "journal_state list" journal_state "string option"
      "reconciliation_disposition option" int int
  | UpsertIdentityLinks string broker_identity_links int int
  | DiscardCheckpoint string int
  | CommitReconciliation reconciliation_checkpoint "mutation_record list"
      "broker_identity_links list" runtime_state reason_code
  | RecordBrokerEvent string broker_event int
  | SetExpectedPosition derived_position_expectation
  | AppendAudit runtime_audit_record
  | Compact string int int int

definition written :: "'a stored \<Rightarrow> store_error + runtime_db" where
  "written r = and_then r (\<lambda>p. Inr (snd p))"

primrec run_op :: "to_json \<Rightarrow> store_op \<Rightarrow> runtime_db \<Rightarrow> store_error + runtime_db" where
  "run_op js (AcquireOwnership scope owner at) db = written (acquire_ownership scope owner at db)"
| "run_op js (ReleaseOwnership key epoch at) db = written (release_ownership key epoch at db)"
| "run_op js (RecordTransition t) db = written (record_transition t db)"
| "run_op js (InsertMutation r) db = written (insert_mutation js r db)"
| "run_op js (TransitionMutation key request expected target ref disp epoch now) db =
     written (transition_mutation js key request expected target ref disp epoch now db)"
| "run_op js (UpsertIdentityLinks key links epoch now) db =
     written (upsert_identity_links key links epoch now db)"
| "run_op js (DiscardCheckpoint key epoch) db = written (discard_checkpoint key epoch db)"
| "run_op js (CommitReconciliation c resolved links state reason) db =
     written (commit_reconciliation c resolved links state reason db)"
| "run_op js (RecordBrokerEvent key event seen) db = written (record_broker_event key event seen db)"
| "run_op js (SetExpectedPosition d) db = written (set_expected_position d db)"
| "run_op js (AppendAudit a) db = written (append_audit a db)"
| "run_op js (Compact key after events audit) db = written (compact key after events audit db)"

text \<open>The scope and the epoch an operation writes under; acquisition and compaction are not fenced.\<close>

primrec op_fence :: "store_op \<Rightarrow> (string \<times> int) option" where
  "op_fence (AcquireOwnership scope owner at) = None"
| "op_fence (ReleaseOwnership key epoch at) = Some (key, epoch)"
| "op_fence (RecordTransition t) = Some (tr_scope_key t, tr_runtime_epoch t)"
| "op_fence (InsertMutation r) = Some (mr_scope_key r, mr_runtime_epoch r)"
| "op_fence (TransitionMutation key request expected target ref disp epoch now) = Some (key, epoch)"
| "op_fence (UpsertIdentityLinks key links epoch now) = Some (key, epoch)"
| "op_fence (DiscardCheckpoint key epoch) = Some (key, epoch)"
| "op_fence (CommitReconciliation c resolved links state reason) =
     Some (cp_scope_key c, cp_runtime_epoch c)"
| "op_fence (RecordBrokerEvent key event seen) = Some (key, be_runtime_epoch event)"
| "op_fence (SetExpectedPosition d) = Some (dp_scope_key d, dp_runtime_epoch d)"
| "op_fence (AppendAudit a) = Some (au_scope_key a, au_runtime_epoch a)"
| "op_fence (Compact key after events audit) = None"

text \<open>Processes take turns on the one connection; an operation that fails leaves the database.\<close>

primrec run_ops :: "to_json \<Rightarrow> store_op list \<Rightarrow> runtime_db \<Rightarrow> runtime_db" where
  "run_ops js [] db = db"
| "run_ops js (op # ops) db =
     run_ops js ops (case run_op js op db of Inr db' \<Rightarrow> db' | Inl _ \<Rightarrow> db)"

definition scope_epoch :: "runtime_db \<Rightarrow> string \<Rightarrow> int" where
  "scope_epoch db key =
     (case row_with ri_scope_key key (rt_instances db) of Some r \<Rightarrow> ri_epoch r | None \<Rightarrow> 0)"

lemma written_Inr [result_simps]: "written r = Inr db \<longleftrightarrow> (\<exists>x. r = Inr (x, db))"
  by (auto simp: written_def result_simps)

lemma run_ops_invariant:
  assumes "\<And>op db db'. op \<in> set ops \<Longrightarrow> P db \<Longrightarrow> run_op js op db = Inr db' \<Longrightarrow> P db'" and "P db"
  shows "P (run_ops js ops db)"
  using assms
proof (induction ops arbitrary: db)
  case (Cons op ops)
  have "P (case run_op js op db of Inr db' \<Rightarrow> db' | Inl _ \<Rightarrow> db)"
    using Cons.prems by (auto split: sum.splits)
  then have "P (run_ops js ops (case run_op js op db of Inr db' \<Rightarrow> db' | Inl _ \<Rightarrow> db))"
    by (rule Cons.IH [rotated]) (rule Cons.prems(1), simp_all)
  then show ?case by simp
qed simp

lemma owned_scope_epoch: "owned db key e \<Longrightarrow> scope_epoch db key = e"
  by (auto simp: owned_def scope_epoch_def split: option.splits)

lemma stale_op_refused:
  assumes "op_fence op = Some (key, e)" and "in_i64 e" and "\<not> owned db key e"
  shows "run_op js op db = Inl store_error.StaleEpoch"
proof -
  have stale: "verify_epoch key e db = Inl store_error.StaleEpoch"
    using assms(2,3) by (simp add: verify_epoch_def to_i64_def)
  show ?thesis
    using assms stale
    by (cases op) (simp_all add: written_def release_ownership_def update_instance_def to_i64_def
        changed_one_def record_transition_def insert_mutation_def transition_mutation_def
        upsert_identity_links_def discard_checkpoint_def commit_reconciliation_def Let_def
        record_broker_event_def set_expected_position_def append_audit_def)
qed

lemma scope_epoch_modify:
  "(\<And>r. ri_scope_key (f r) = ri_scope_key r \<and> ri_epoch (f r) = ri_epoch r) \<Longrightarrow>
   scope_epoch (db\<lparr>rt_instances := modify_row ri_scope_key key f (rt_instances db)\<rparr>) k = scope_epoch db k"
  by (auto simp: scope_epoch_def row_with_modify split: option.splits)

lemma scope_epoch_cong: "rt_instances db' = rt_instances db \<Longrightarrow> scope_epoch db' = scope_epoch db"
  by (simp add: scope_epoch_def fun_eq_iff)

lemma acquire_ownership_instances:
  assumes "acquire_ownership scope owner at db = Inr (e, db')"
  shows "e = scope_epoch db (scope_key scope) + 1 \<and> 1 \<le> e \<and> in_i64 e
    \<and> owned db' (scope_key scope) e
    \<and> (\<forall>k. k \<noteq> scope_key scope \<longrightarrow>
          row_with ri_scope_key k (rt_instances db') = row_with ri_scope_key k (rt_instances db))
    \<and> rt_journal db' = rt_journal db \<and> rt_links db' = rt_links db
    \<and> rt_operation_links db' = rt_operation_links db \<and> rt_fill_links db' = rt_fill_links db
    \<and> rt_checkpoints db' = rt_checkpoints db \<and> rt_events db' = rt_events db
    \<and> rt_expectations db' = rt_expectations db"
proof -
  define row where "row = acquired_row scope owner at e"
  have row: "ri_scope_key row = scope_key scope" "ri_epoch row = e" "ri_lease_active row"
    by (simp_all add: row_def acquired_row_def)
  obtain a where e: "e = scope_epoch db (scope_key scope) + 1" "in_i64 e" "1 \<le> e"
    and audit: "insert_audit a (db\<lparr>rt_instances :=
        upsert_row ri_scope_key row (\<lambda>_. row) (rt_instances db)\<rparr>) = Inr db'"
    using assms unfolding acquire_ownership_def Let_def scope_epoch_def [symmetric] row_def
    by (auto simp: result_simps split: if_splits)
  note frame = insert_audit_frame [OF audit, simplified]
  have lookup: "row_with ri_scope_key k (rt_instances db') =
      (if k = scope_key scope then Some row else row_with ri_scope_key k (rt_instances db))" for k
    using row(1) frame by (simp add: row_with_upsert split: option.splits)
  then show ?thesis
    using row e frame by (simp add: owned_def)
qed

lemma commit_reconciliation_elim:
  assumes "commit_reconciliation c resolved links state reason db = Inr (u, db')"
  obtains db1 db2 a where "in_i64 (cp_runtime_epoch c)" and "owned db (cp_scope_key c) (cp_runtime_epoch c)"
    and "try_fold (commit_resolved c) resolved db = Inr db1"
    and "try_fold (\<lambda>link. upsert_links (cp_scope_key c) link (cp_runtime_epoch c)
          (cp_completed_at_unix_ms c)) links db1 = Inr db2"
    and "insert_audit a (db2\<lparr>
          rt_checkpoints := upsert_row cp_scope_key c (\<lambda>_. c) (rt_checkpoints db2),
          rt_instances := modify_row ri_scope_key (cp_scope_key c)
            (\<lambda>r. r\<lparr>ri_last_state := state, ri_last_reason := reason\<rparr>) (rt_instances db2)\<rparr>) = Inr db'"
  using assms unfolding commit_reconciliation_def Let_def
  by (auto simp: result_simps)

lemma try_fold_commit_resolved_frame:
  assumes "try_fold (commit_resolved c) resolved db = Inr db'"
  shows "rt_instances db' = rt_instances db \<and> rt_links db' = rt_links db
    \<and> rt_operation_links db' = rt_operation_links db \<and> rt_fill_links db' = rt_fill_links db
    \<and> rt_checkpoints db' = rt_checkpoints db \<and> rt_events db' = rt_events db
    \<and> rt_expectations db' = rt_expectations db"
  by (rule try_fold_invariant [OF assms]) (auto dest!: commit_resolved_frame)

lemma try_fold_upsert_links_frame:
  assumes "try_fold (\<lambda>link. upsert_links key link epoch now) links db = Inr db'"
  shows "rt_instances db' = rt_instances db \<and> rt_journal db' = rt_journal db
    \<and> rt_checkpoints db' = rt_checkpoints db \<and> rt_events db' = rt_events db
    \<and> rt_expectations db' = rt_expectations db \<and> rt_audit db' = rt_audit db"
  by (rule try_fold_invariant [OF assms]) (auto dest!: upsert_links_frame)

lemma commit_reconciliation_frame:
  assumes "commit_reconciliation c resolved links state reason db = Inr (u, db')"
  shows "rt_instances db' = modify_row ri_scope_key (cp_scope_key c)
      (\<lambda>r. r\<lparr>ri_last_state := state, ri_last_reason := reason\<rparr>) (rt_instances db)
    \<and> rt_checkpoints db' = upsert_row cp_scope_key c (\<lambda>_. c) (rt_checkpoints db)
    \<and> rt_events db' = rt_events db \<and> rt_expectations db' = rt_expectations db"
  using assms
  by (rule commit_reconciliation_elim)
    (auto dest!: insert_audit_frame try_fold_commit_resolved_frame try_fold_upsert_links_frame)

text \<open>Only an acquisition changes the epoch of a scope, and it raises it by one.\<close>

lemma run_op_scope_epoch:
  assumes "run_op js op db = Inr db'"
  shows "scope_epoch db' k =
    (case op of AcquireOwnership scope owner at \<Rightarrow>
       if k = scope_key scope then scope_epoch db k + 1 else scope_epoch db k
     | _ \<Rightarrow> scope_epoch db k)"
proof (cases op)
  case (AcquireOwnership scope owner at)
  then obtain e where "acquire_ownership scope owner at db = Inr (e, db')"
    using assms by (auto simp: result_simps)
  note a = acquire_ownership_instances [OF this]
  then show ?thesis
    using AcquireOwnership owned_scope_epoch [of db' "scope_key scope" e]
    by (auto simp: scope_epoch_def)
next
  case (ReleaseOwnership key epoch at)
  then show ?thesis
    using assms by (auto simp: result_simps release_ownership_def scope_epoch_modify
      dest!: insert_audit_frame scope_epoch_cong)
next
  case (RecordTransition t)
  then show ?thesis
    using assms by (auto simp: result_simps record_transition_def scope_epoch_modify
      dest!: insert_audit_frame scope_epoch_cong)
next
  case (CommitReconciliation c resolved links state reason)
  then obtain u where "commit_reconciliation c resolved links state reason db = Inr (u, db')"
    using assms by (auto simp: result_simps)
  note frame = commit_reconciliation_frame [OF this]
  have "scope_epoch db' k = scope_epoch (db\<lparr>rt_instances := rt_instances db'\<rparr>) k"
    by (simp add: scope_epoch_def)
  then show ?thesis
    using CommitReconciliation frame by (simp add: scope_epoch_modify)
qed (use assms in \<open>auto simp: result_simps insert_mutation_def transition_mutation_def
      upsert_identity_links_def discard_checkpoint_def record_broker_event_def
      set_expected_position_def append_audit_def compact_def Let_def
      intro!: scope_epoch_cong [THEN fun_cong] dest!: insert_audit_frame upsert_links_frame split: if_splits\<close>)


lemma scope_epoch_mono:
  assumes "e \<le> scope_epoch db key"
  shows "e \<le> scope_epoch (run_ops js ops db) key"
proof (rule run_ops_invariant [where P = "\<lambda>db. e \<le> scope_epoch db key"])
  fix op db db'
  assume "e \<le> scope_epoch db key" "run_op js op db = Inr db'"
  then show "e \<le> scope_epoch db' key"
    by (auto simp: run_op_scope_epoch split: store_op.splits)
qed (rule assms)

text \<open>C8. Epoch fencing.  Acquiring a scope opens it to the new epoch, and from then on, whatever operations
  any processes run on the store, a later acquisition gets a larger epoch and every fenced write
  under an earlier epoch of the scope is refused as stale.\<close>

theorem stale_epoch_never_writes:
  assumes "acquire_ownership scope owner at db = Inr (e, db0)"
  shows "verify_epoch (scope_key scope) e db0 = Inr ()
    \<and> (\<forall>ops. let now = run_ops js ops db0 in
        (\<forall>owner' at' e' db'. acquire_ownership scope owner' at' now = Inr (e', db') \<longrightarrow> e < e')
        \<and> (\<forall>op old. op_fence op = Some (scope_key scope, old) \<and> in_i64 old \<and> old < e \<longrightarrow>
             run_op js op now = Inl store_error.StaleEpoch))"
proof -
  note a = acquire_ownership_instances [OF assms]
  have current: "scope_epoch db0 (scope_key scope) = e"
    using a owned_scope_epoch by blast
  have later: "e \<le> scope_epoch (run_ops js ops db0) (scope_key scope)" for ops
    by (rule scope_epoch_mono) (simp add: current)
  have "e < e'" if "acquire_ownership scope owner' at' (run_ops js ops db0) = Inr (e', db')"
    for ops owner' at' e' db'
    using acquire_ownership_instances [OF that] later [of ops] by linarith
  moreover have "run_op js op (run_ops js ops db0) = Inl store_error.StaleEpoch"
    if "op_fence op = Some (scope_key scope, old)" "in_i64 old" "old < e" for ops op old
  proof (rule stale_op_refused [OF that(1,2)])
    show "\<not> owned (run_ops js ops db0) (scope_key scope) old"
      using owned_scope_epoch [of "run_ops js ops db0" "scope_key scope" old] later [of ops] that(3)
      by auto
  qed
  moreover have "in_i64 e \<and> owned db0 (scope_key scope) e" using a by blast
  then have "verify_epoch (scope_key scope) e db0 = Inr ()" by (simp only: verify_epoch_Inr)
  ultimately show ?thesis unfolding Let_def by blast
qed

section \<open>The journal lifecycle\<close>

text \<open>The abstract lifecycle of one logical request: prepared, fenced before dispatch, then settled by
  the broker's answer or by reconciliation.  Identity, request evidence and creation never change.\<close>

fun journal_move :: "journal_state \<Rightarrow> journal_state \<Rightarrow> bool" where
  "journal_move NotDispatched t \<longleftrightarrow> t = journal_state.UnknownAfterDispatch"
| "journal_move journal_state.UnknownAfterDispatch t \<longleftrightarrow>
     t \<in> {journal_state.UnknownAfterDispatch, journal_state.Acknowledged, journal_state.Rejected,
          Reconciled}"
| "journal_move Dispatching t \<longleftrightarrow> t = Reconciled"
| "journal_move s t \<longleftrightarrow> False"

inductive record_step :: "mutation_record option \<Rightarrow> mutation_record option \<Rightarrow> bool" where
  prepared_record: "mr_state r = NotDispatched \<Longrightarrow> record_step None (Some r)"
| moved_record: "journal_move (mr_state r) s \<Longrightarrow> record_step (Some r)
    (Some (settle s ref disp now epoch r))"

inductive_cases record_step_SomeE: "record_step (Some r) s"

text \<open>The writes the runtime issues: prepared records, the pre-dispatch fence, and outcomes of fenced
  records.\<close>

fun runtime_op :: "store_op \<Rightarrow> bool" where
  "runtime_op (InsertMutation r) \<longleftrightarrow> mr_state r = NotDispatched"
| "runtime_op (TransitionMutation key request expected target ref disp epoch now) \<longleftrightarrow>
     expected = [NotDispatched] \<and> target = journal_state.UnknownAfterDispatch
     \<or> expected = [journal_state.UnknownAfterDispatch]
       \<and> target \<in> {journal_state.UnknownAfterDispatch, journal_state.Acknowledged,
                    journal_state.Rejected}"
| "runtime_op op \<longleftrightarrow> True"

definition record_of :: "runtime_db \<Rightarrow> string \<Rightarrow> mutation_record option" where
  "record_of db request = row_with mr_logical_request_id request (rt_journal db)"

lemma settle_simps [simp]:
  "mr_state (settle s ref disp now epoch r) = s"
  "mr_broker_evidence_ref (settle s ref disp now epoch r) = ref"
  "mr_reconciliation_disposition (settle s ref disp now epoch r) = disp"
  "mr_updated_at_unix_ms (settle s ref disp now epoch r) = now"
  "mr_runtime_epoch (settle s ref disp now epoch r) = epoch"
  "mr_scope_key (settle s ref disp now epoch r) = mr_scope_key r"
  "mr_logical_request_id (settle s ref disp now epoch r) = mr_logical_request_id r"
  "mr_kind (settle s ref disp now epoch r) = mr_kind r"
  "mr_request_evidence (settle s ref disp now epoch r) = mr_request_evidence r"
  "mr_correlation_id (settle s ref disp now epoch r) = mr_correlation_id r"
  "mr_created_at_unix_ms (settle s ref disp now epoch r) = mr_created_at_unix_ms r"
  by (simp_all add: settle_def)

lemma record_validated_Inr: "record_validated js r1 = Inr r2 \<Longrightarrow> r2 = r1"
  by (auto simp: record_validated_def result_simps split: option.splits if_splits)

lemma record_of_id: "record_of db i = Some r \<Longrightarrow> mr_logical_request_id r = i"
  by (auto simp: record_of_def dest: row_with_SomeD)

lemma transition_mutation_elim:
  assumes "transition_mutation js key request expected target ref disp epoch now db = Inr (r, db')"
  obtains row a where "record_of db request = Some row" and "mr_scope_key row = key"
    and "mr_state row \<in> set expected" and "in_i64 epoch" and "owned db key epoch"
    and "r = settle target ref disp now epoch row" and "record_validated js r = Inr r"
    and "insert_audit a (db\<lparr>rt_journal := modify_row mr_logical_request_id request
           (settle target ref disp now epoch) (rt_journal db)\<rparr>) = Inr db'"
proof -
  obtain u found row a where own: "verify_epoch key epoch db = Inr u"
    and found: "load_mutation js request db = Inr found" and row: "found = Some row"
    and guard: "mr_scope_key row = key" "mr_state row \<in> set expected"
    and valid: "record_validated js (settle target ref disp now epoch row) = Inr r"
    and audit: "insert_audit a (db\<lparr>rt_journal := modify_row mr_logical_request_id request
           (settle target ref disp now epoch) (rt_journal db)\<rparr>) = Inr db'"
    using assms unfolding transition_mutation_def and_then_Inr ok_or_Inr map_err_Inr
    by (auto simp: if_split [of "\<lambda>x. x = Inr _"] and_then_Inr map_err_Inr split: if_splits)
  show ?thesis
  proof (rule that)
    show "record_of db request = Some row"
      using load_mutation_Inr [OF found] row by (simp add: record_of_def)
    show "r = settle target ref disp now epoch row" by (rule record_validated_Inr [OF valid])
    then show "record_validated js r = Inr r" using valid by simp
  qed (use guard own audit in \<open>simp_all add: result_simps\<close>)
qed

lemma transition_mutation_records:
  assumes "transition_mutation js key request expected target ref disp epoch now db = Inr (r, db')"
  shows "record_of db' i = (if i = request then Some r else record_of db i)"
  using assms
proof (rule transition_mutation_elim)
  fix row a
  assume row: "record_of db request = Some row" and r: "r = settle target ref disp now epoch row"
    and audit: "insert_audit a (db\<lparr>rt_journal := modify_row mr_logical_request_id request
           (settle target ref disp now epoch) (rt_journal db)\<rparr>) = Inr db'"
  note after = insert_audit_frame [OF audit, simplified]
  have "record_of db' i = map_option (\<lambda>x. if mr_logical_request_id x = request
      then settle target ref disp now epoch x else x) (record_of db i)"
    using after by (simp add: record_of_def row_with_modify)
  then show ?thesis
    using row r record_of_id [of db i] by (cases "record_of db i") auto
qed

lemma commit_resolved_record:
  assumes "commit_resolved c r db = Inr db'"
  shows "record_step\<^sup>=\<^sup>= (record_of db i) (record_of db' i)"
proof -
  define g :: "mutation_record \<Rightarrow> mutation_record" where
    "g = (\<lambda>row. if mr_logical_request_id row = mr_logical_request_id r
      \<and> mr_scope_key row = cp_scope_key c
      \<and> mr_state row \<in> {Dispatching, journal_state.UnknownAfterDispatch}
    then settle (mr_state r) (mr_broker_evidence_ref r) (mr_reconciliation_disposition r)
      (mr_updated_at_unix_ms r) (cp_runtime_epoch c) row else row)"
  obtain a where audit: "insert_audit a (db\<lparr>rt_journal := map g (rt_journal db)\<rparr>) = Inr db'"
    and state: "mr_state r = Reconciled"
    using assms by (auto simp: commit_resolved_def Let_def g_def result_simps split: if_splits)
  have after: "record_of db' i = map_option g (record_of db i)"
    using insert_audit_frame [OF audit] by (simp add: record_of_def row_with_map g_def)
  have "record_step\<^sup>=\<^sup>= (Some row) (Some (g row))" for row
    using moved_record [of row Reconciled] state by (auto simp: g_def)
  then show ?thesis unfolding after by (cases "record_of db i") auto
qed

lemma record_of_cong: "rt_journal db' = rt_journal db \<Longrightarrow> record_of db' = record_of db"
  by (simp add: record_of_def fun_eq_iff)

lemma commit_reconciliation_record:
  assumes "commit_reconciliation c resolved links state reason db = Inr (u, db')"
  shows "record_step\<^sup>*\<^sup>* (record_of db i) (record_of db' i)"
  using assms
proof (rule commit_reconciliation_elim)
  fix db1 db2 a
  assume resolved: "try_fold (commit_resolved c) resolved db = Inr db1"
    and links: "try_fold (\<lambda>link. upsert_links (cp_scope_key c) link (cp_runtime_epoch c)
          (cp_completed_at_unix_ms c)) links db1 = Inr db2"
    and audit: "insert_audit a (db2\<lparr>
          rt_checkpoints := upsert_row cp_scope_key c (\<lambda>_. c) (rt_checkpoints db2),
          rt_instances := modify_row ri_scope_key (cp_scope_key c)
            (\<lambda>r. r\<lparr>ri_last_state := state, ri_last_reason := reason\<rparr>) (rt_instances db2)\<rparr>) = Inr db'"
  have "rt_journal db' = rt_journal db1"
    using insert_audit_frame [OF audit] try_fold_upsert_links_frame [OF links] by simp
  moreover have "record_step\<^sup>*\<^sup>* (record_of db i) (record_of db1 i)"
  proof (rule try_fold_invariant [OF resolved])
    fix x s1 s2
    assume "record_step\<^sup>*\<^sup>* (record_of db i) (record_of s1 i)" "commit_resolved c x s1 = Inr s2"
    then show "record_step\<^sup>*\<^sup>* (record_of db i) (record_of s2 i)"
      using commit_resolved_record [of c x s1 s2 i] by (auto intro: rtranclp.rtrancl_into_rtrancl)
  qed simp
  ultimately show ?thesis by (simp add: record_of_def)
qed

text \<open>Each write of the runtime moves every record along the lifecycle or leaves it.\<close>

lemma run_op_record:
  assumes "run_op js op db = Inr db'" and "runtime_op op"
  shows "record_step\<^sup>*\<^sup>* (record_of db i) (record_of db' i)"
proof (cases op)
  case (InsertMutation r)
  then have "mr_state r = NotDispatched" using assms(2) by simp
  moreover have "record_of db' i = (if i = mr_logical_request_id r \<and> record_of db i = None
      then Some r else record_of db i)"
    using assms(1) InsertMutation
    by (auto simp: result_simps insert_mutation_def record_of_def row_with_append
        split: if_splits option.splits)
  ultimately show ?thesis by (auto intro!: r_into_rtranclp prepared_record)
next
  case (TransitionMutation key request expected target ref disp epoch now)
  then obtain r where t: "transition_mutation js key request expected target ref disp epoch now db
      = Inr (r, db')"
    using assms(1) by (auto simp: result_simps)
  show ?thesis
  proof (rule transition_mutation_elim [OF t])
    fix row
    assume row: "record_of db request = Some row" "mr_state row \<in> set expected"
      and r: "r = settle target ref disp now epoch row"
    have "journal_move (mr_state row) target"
      using assms(2) TransitionMutation row(2) by auto
    then have "record_step (Some row) (Some r)" unfolding r by (rule moved_record)
    then show ?thesis
      using row(1) by (simp add: transition_mutation_records [OF t] r_into_rtranclp)
  qed
next
  case (CommitReconciliation c resolved links state reason)
  then show ?thesis
    using assms(1) by (auto simp: result_simps intro: commit_reconciliation_record)
next
  case (AcquireOwnership scope owner at)
  then show ?thesis
    using assms(1) acquire_ownership_instances [of scope owner at db _ db']
    by (auto simp: result_simps record_of_def)
qed (use assms(1) in \<open>auto simp: result_simps release_ownership_def record_transition_def
      upsert_identity_links_def discard_checkpoint_def record_broker_event_def
      set_expected_position_def append_audit_def compact_def Let_def record_of_def
      dest!: insert_audit_frame upsert_links_frame split: if_splits\<close>)

lemma run_ops_record:
  assumes "\<forall>op \<in> set ops. runtime_op op"
  shows "record_step\<^sup>*\<^sup>* (record_of db request) (record_of (run_ops js ops db) request)"
proof (rule run_ops_invariant [where P = "\<lambda>db'. record_step\<^sup>*\<^sup>* (record_of db request) (record_of db' request)"])
  fix op db1 db2
  assume "op \<in> set ops" "record_step\<^sup>*\<^sup>* (record_of db request) (record_of db1 request)"
    "run_op js op db1 = Inr db2"
  then show "record_step\<^sup>*\<^sup>* (record_of db request) (record_of db2 request)"
    using run_op_record [of js op db1 db2 request] assms by (auto intro: rtranclp_trans)
qed simp

lemma lifecycle_never_reopens:
  assumes "record_step\<^sup>*\<^sup>* s t" and "s = Some r" and "mr_state r \<noteq> NotDispatched"
  shows "\<exists>r'. t = Some r' \<and> mr_state r' \<noteq> NotDispatched"
  using assms
proof (induction rule: rtranclp_induct)
  case (step y z)
  then obtain r' where "y = Some r'" "mr_state r' \<noteq> NotDispatched" by blast
  with step.hyps(2) show ?case
    by (cases "mr_state r'") (auto elim: record_step_SomeE)
qed simp

lemma lifecycle_terminal:
  assumes "record_step\<^sup>*\<^sup>* s t" and "s = Some r" and "journal_terminal (mr_state r)"
  shows "t = s"
  using assms
proof (induction rule: rtranclp_induct)
  case (step y z)
  then show ?case
    by (cases "mr_state r") (auto simp: journal_terminal_def elim: record_step_SomeE)
qed simp

lemma claim_needs_prepared:
  assumes "claim_dispatch_unknown js key request epoch now db = Inr (r, db')"
  shows "(\<exists>row. record_of db request = Some row \<and> mr_state row = NotDispatched)
    \<and> record_of db' request = Some r \<and> mr_state r = journal_state.UnknownAfterDispatch"
proof -
  note t = assms [unfolded claim_dispatch_unknown_def]
  show ?thesis
    by (rule transition_mutation_elim [OF t])
      (auto simp: transition_mutation_records [OF t])
qed

text \<open>C9. The journal implements the lifecycle.  Whatever writes of the runtime run, by whichever
  processes and under whichever epochs, each logical request moves from absent to prepared, to
  fenced, to settled; only its outcome, evidence and timestamps change on the way, and once it is
  acknowledged, rejected or reconciled its record never changes again.\<close>

theorem journal_refines_lifecycle:
  assumes "\<forall>op \<in> set ops. runtime_op op"
  shows "record_step\<^sup>*\<^sup>* (record_of db request) (record_of (run_ops js ops db) request)
    \<and> (\<forall>r. record_of db request = Some r \<and> journal_terminal (mr_state r) \<longrightarrow>
          record_of (run_ops js ops db) request = Some r)"
  using run_ops_record [OF assms] lifecycle_terminal [OF run_ops_record [OF assms]] by auto

text \<open>C7. A logical request is fenced for dispatch at most once.  After one successful claim, no claim of
  the same request succeeds again, under any epoch and after any writes of the runtime.\<close>

theorem dispatch_claimed_once:
  assumes "claim_dispatch_unknown js key request epoch now db = Inr (r, db1)"
    and "\<forall>op \<in> set ops. runtime_op op"
  shows "\<not> is_ok (claim_dispatch_unknown js key' request epoch' now' (run_ops js ops db1))"
proof
  assume "is_ok (claim_dispatch_unknown js key' request epoch' now' (run_ops js ops db1))"
  then obtain r' db2 where again:
    "claim_dispatch_unknown js key' request epoch' now' (run_ops js ops db1) = Inr (r', db2)"
    by (auto simp: is_ok_iff)
  have "\<exists>row. record_of (run_ops js ops db1) request = Some row \<and> mr_state row \<noteq> NotDispatched"
    using claim_needs_prepared [OF assms(1)]
    by (intro lifecycle_never_reopens [OF run_ops_record [OF assms(2)]]) auto
  then show False using claim_needs_prepared [OF again] by auto
qed

section \<open>Committing a reconciliation\<close>

abbreviation journal_ids :: "runtime_db \<Rightarrow> string list" where
  "journal_ids db \<equiv> map mr_logical_request_id (rt_journal db)"

lemma run_op_journal_ids:
  assumes "run_op js op db = Inr db'" and "distinct (journal_ids db)"
  shows "distinct (journal_ids db')"
proof (cases op)
  case (CommitReconciliation c resolved links state reason)
  then obtain u where "commit_reconciliation c resolved links state reason db = Inr (u, db')"
    using assms(1) by (auto simp: result_simps)
  then show ?thesis
  proof (rule commit_reconciliation_elim)
    fix db1 db2 a
    assume resolved: "try_fold (commit_resolved c) resolved db = Inr db1"
      and links: "try_fold (\<lambda>link. upsert_links (cp_scope_key c) link (cp_runtime_epoch c)
            (cp_completed_at_unix_ms c)) links db1 = Inr db2"
      and audit: "insert_audit a (db2\<lparr>
            rt_checkpoints := upsert_row cp_scope_key c (\<lambda>_. c) (rt_checkpoints db2),
            rt_instances := modify_row ri_scope_key (cp_scope_key c)
              (\<lambda>r. r\<lparr>ri_last_state := state, ri_last_reason := reason\<rparr>) (rt_instances db2)\<rparr>) = Inr db'"
    have step: "journal_ids s2 = journal_ids s1" if "commit_resolved c x s1 = Inr s2" for x s1 s2
      using that by (auto simp: commit_resolved_def Let_def result_simps
          dest!: insert_audit_frame split: if_splits)
    have "journal_ids db1 = journal_ids db"
      by (rule try_fold_invariant [OF resolved]) (use step in auto)
    then show ?thesis
      using assms(2) insert_audit_frame [OF audit] try_fold_upsert_links_frame [OF links] by simp
  qed
next
  case (InsertMutation r)
  then show ?thesis
    using assms by (auto simp: result_simps insert_mutation_def row_with_None split: if_splits)
next
  case (TransitionMutation key request expected target ref disp epoch now)
  then obtain r where "transition_mutation js key request expected target ref disp epoch now db
      = Inr (r, db')"
    using assms(1) by (auto simp: result_simps)
  then show ?thesis
    by (rule transition_mutation_elim) (use assms(2) in \<open>auto dest!: insert_audit_frame\<close>)
next
  case (AcquireOwnership scope owner at)
  then show ?thesis
    using assms acquire_ownership_instances [of scope owner at db _ db'] by (auto simp: result_simps)
qed (use assms in \<open>auto simp: result_simps release_ownership_def record_transition_def
      upsert_identity_links_def discard_checkpoint_def record_broker_event_def
      set_expected_position_def append_audit_def compact_def Let_def
      dest!: insert_audit_frame upsert_links_frame split: if_splits\<close>)

lemma reachable_journal_ids: "distinct (journal_ids (run_ops js ops runtime_db_empty))"
  by (rule run_ops_invariant [where P = "\<lambda>db. distinct (journal_ids db)"])
    (use run_op_journal_ids in \<open>auto simp: runtime_db_empty_def\<close>)

definition resolved_row :: "reconciliation_checkpoint \<Rightarrow> mutation_record \<Rightarrow> mutation_record \<Rightarrow> mutation_record" where
  "resolved_row c r row = settle Reconciled (mr_broker_evidence_ref r)
     (mr_reconciliation_disposition r) (mr_updated_at_unix_ms r) (cp_runtime_epoch c) row"

lemma commit_resolved_exact:
  assumes "commit_resolved c r db = Inr db'" and "distinct (journal_ids db)"
  obtains row where "record_of db (mr_logical_request_id r) = Some row"
    and "mr_scope_key row = cp_scope_key c" and "safety_unresolved (mr_state row)"
    and "\<And>i. record_of db' i =
      (if i = mr_logical_request_id r then Some (resolved_row c r row) else record_of db i)"
    and "journal_ids db' = journal_ids db"
proof -
  define hit :: "mutation_record \<Rightarrow> bool" where "hit = (\<lambda>row. mr_logical_request_id row = mr_logical_request_id r
      \<and> mr_scope_key row = cp_scope_key c
      \<and> mr_state row \<in> {Dispatching, journal_state.UnknownAfterDispatch})"
  have state: "mr_state r = Reconciled"
    using assms(1) by (auto simp: commit_resolved_def Let_def split: if_splits)
  obtain a where one: "length (filter hit (rt_journal db)) = 1"
    and audit: "insert_audit a (db\<lparr>rt_journal := map (\<lambda>row.
        if hit row then resolved_row c r row else row) (rt_journal db)\<rparr>) = Inr db'"
    using assms(1) unfolding commit_resolved_def Let_def hit_def resolved_row_def state and_then_Inr
    by (simp only: if_split [of "\<lambda>x. x = Inr db'"] simp_thms and_then_Inr) blast
  from one obtain row where "filter hit (rt_journal db) = [row]"
    by (auto simp: length_Suc_conv)
  then have "set (filter hit (rt_journal db)) = {row}" by simp
  then have row: "row \<in> set (rt_journal db)" "hit row" by auto
  have found: "record_of db (mr_logical_request_id r) = Some row"
    using row_with_unique [OF assms(2) row(1)] row(2) by (simp add: record_of_def hit_def)
  have after: "record_of db' i = map_option (\<lambda>x. if hit x then resolved_row c r x else x) (record_of db i)"
    for i
    using insert_audit_frame [OF audit]
    by (simp add: record_of_def row_with_map resolved_row_def)
  have "\<not> hit x" if "record_of db i = Some x" "i \<noteq> mr_logical_request_id r" for i x
    using that record_of_id [OF that(1)] by (simp add: hit_def)
  then have others: "record_of db' i = record_of db i" if "i \<noteq> mr_logical_request_id r" for i
    using that after [of i] by (cases "record_of db i") auto
  show ?thesis
  proof (rule that [OF found])
    show "mr_scope_key row = cp_scope_key c" "safety_unresolved (mr_state row)"
      using row(2) by (auto simp: hit_def safety_unresolved_def)
    show "record_of db' i = (if i = mr_logical_request_id r then Some (resolved_row c r row)
        else record_of db i)" for i
      using after [of "mr_logical_request_id r"] found row(2) others [of i] by simp
    show "journal_ids db' = journal_ids db"
      using insert_audit_frame [OF audit] by (auto simp: resolved_row_def)
  qed
qed

lemma try_fold_commit_exact:
  assumes "try_fold (commit_resolved c) rs db = Inr db'" and "distinct (journal_ids db)"
  shows "(\<forall>r \<in> set rs. \<exists>row. record_of db (mr_logical_request_id r) = Some row
      \<and> mr_scope_key row = cp_scope_key c \<and> safety_unresolved (mr_state row)
      \<and> record_of db' (mr_logical_request_id r) = Some (resolved_row c r row))
    \<and> (\<forall>i. i \<notin> mr_logical_request_id ` set rs \<longrightarrow> record_of db' i = record_of db i)"
  using assms
proof (induction rs arbitrary: db)
  case (Cons r rs)
  then obtain db1 where first: "commit_resolved c r db = Inr db1"
    and rest: "try_fold (commit_resolved c) rs db1 = Inr db'"
    by (auto simp: result_simps)
  show ?case
  proof (rule commit_resolved_exact [OF first Cons.prems(2)])
    fix row
    assume row: "record_of db (mr_logical_request_id r) = Some row"
        "mr_scope_key row = cp_scope_key c" "safety_unresolved (mr_state row)"
      and after: "\<And>i. record_of db1 i =
        (if i = mr_logical_request_id r then Some (resolved_row c r row) else record_of db i)"
      and ids: "journal_ids db1 = journal_ids db"
    have "distinct (journal_ids db1)" using ids Cons.prems(2) by simp
    note IH = Cons.IH [OF rest this]
    have fresh: "mr_logical_request_id r \<notin> mr_logical_request_id ` set rs"
    proof
      assume "mr_logical_request_id r \<in> mr_logical_request_id ` set rs"
      then obtain x where x: "x \<in> set rs" "mr_logical_request_id x = mr_logical_request_id r" by force
      then obtain row' where "record_of db1 (mr_logical_request_id r) = Some row'"
        "safety_unresolved (mr_state row')"
        using IH by force
      then show False
        using after by (auto simp: resolved_row_def safety_unresolved_def)
    qed
    have head: "record_of db' (mr_logical_request_id r) = Some (resolved_row c r row)"
      using IH fresh after by simp
    have tail: "\<exists>row. record_of db (mr_logical_request_id x) = Some row
        \<and> mr_scope_key row = cp_scope_key c \<and> safety_unresolved (mr_state row)
        \<and> record_of db' (mr_logical_request_id x) = Some (resolved_row c x row)" if "x \<in> set rs" for x
    proof -
      have "mr_logical_request_id x \<noteq> mr_logical_request_id r"
        using fresh that by (metis image_eqI)
      then have "record_of db1 (mr_logical_request_id x) = record_of db (mr_logical_request_id x)"
        by (simp add: after)
      with conjunct1 [OF IH] that show ?thesis by force
    qed
    show ?thesis
      using row head tail IH after by auto
  qed
qed simp

text \<open>C28. A committed reconciliation is exact.  On any store the operations can produce, a commit that
  succeeds found every record it resolves unresolved in its scope and made it Reconciled with the
  given evidence, left every other record alone, and left the checkpoint and the runtime state it
  committed to be read back; a commit that fails changes nothing.\<close>

theorem commit_reconciliation_exact:
  assumes "db = run_ops js ops runtime_db_empty"
    and "commit_reconciliation c resolved links state reason db = Inr (u, db')"
  shows "(\<forall>r \<in> set resolved. \<exists>row. record_of db (mr_logical_request_id r) = Some row
      \<and> mr_scope_key row = cp_scope_key c \<and> safety_unresolved (mr_state row)
      \<and> record_of db' (mr_logical_request_id r) = Some (resolved_row c r row))
    \<and> (\<forall>i. i \<notin> mr_logical_request_id ` set resolved \<longrightarrow> record_of db' i = record_of db i)
    \<and> load_checkpoint (cp_scope_key c) db' = Inr (Some c)
    \<and> map_option ri_last_state (row_with ri_scope_key (cp_scope_key c) (rt_instances db')) = Some state"
  using assms(2)
proof (rule commit_reconciliation_elim)
  fix db1 db2 a
  assume owned: "owned db (cp_scope_key c) (cp_runtime_epoch c)"
    and resolved: "try_fold (commit_resolved c) resolved db = Inr db1"
    and links: "try_fold (\<lambda>link. upsert_links (cp_scope_key c) link (cp_runtime_epoch c)
          (cp_completed_at_unix_ms c)) links db1 = Inr db2"
    and audit: "insert_audit a (db2\<lparr>
          rt_checkpoints := upsert_row cp_scope_key c (\<lambda>_. c) (rt_checkpoints db2),
          rt_instances := modify_row ri_scope_key (cp_scope_key c)
            (\<lambda>r. r\<lparr>ri_last_state := state, ri_last_reason := reason\<rparr>) (rt_instances db2)\<rparr>) = Inr db'"
  have same: "record_of db' = record_of db1"
    using insert_audit_frame [OF audit] try_fold_upsert_links_frame [OF links]
    by (simp add: record_of_def fun_eq_iff)
  note frame = commit_reconciliation_frame [OF assms(2)]
  have "load_checkpoint (cp_scope_key c) db' = Inr (Some c)"
    using frame by (simp add: load_checkpoint_def row_with_upsert split: option.splits)
  moreover have "map_option ri_last_state (row_with ri_scope_key (cp_scope_key c) (rt_instances db'))
      = Some state"
  proof -
    obtain x where x: "row_with ri_scope_key (cp_scope_key c) (rt_instances db) = Some x"
      using owned by (auto simp: owned_def split: option.splits)
    with row_with_SomeD [OF x] show ?thesis using frame by (simp add: row_with_modify)
  qed
  ultimately show ?thesis
    using try_fold_commit_exact [OF resolved] reachable_journal_ids [of js ops] assms(1)
    by (simp add: same)
qed

definition sample_json :: to_json where
  "sample_json = (\<lambda>e. Some ''{}'')"

definition sample_scope :: runtime_scope where
  "sample_scope = \<lparr>sc_provider = TInvest, sc_environment = runtime_environment.Sandbox,
     sc_broker_account_id = ''a1'', sc_connection_ref = ''c1'', sc_credential_ref = ''k1''\<rparr>"

definition sample_owned :: runtime_db where
  "sample_owned = snd (projr (acquire_ownership sample_scope ''o1'' 5 runtime_db_empty))"

definition sample_mutation :: mutation_record where
  "sample_mutation = projr (record_prepared sample_json sample_scope ''r1'' mutation_kind.CancelOrder
     (cancel_evidence mutation_kind.CancelOrder) ''x1'' 1 7)"

definition sample_journal :: "store_op list" where
  "sample_journal = [AcquireOwnership sample_scope ''o1'' 5, InsertMutation sample_mutation]"

definition sample_prepared :: runtime_db where
  "sample_prepared = run_ops sample_json sample_journal runtime_db_empty"

definition sample_claim :: "mutation_record stored" where
  "sample_claim = claim_dispatch_unknown sample_json (scope_key sample_scope) ''r1'' 1 8 sample_prepared"

definition sample_fence :: store_op where
  "sample_fence = TransitionMutation (scope_key sample_scope) ''r1'' [NotDispatched]
     journal_state.UnknownAfterDispatch None None 1 8"

definition sample_ack :: store_op where
  "sample_ack = TransitionMutation (scope_key sample_scope) ''r1''
     [journal_state.UnknownAfterDispatch] journal_state.Acknowledged (Some ''e1'') None 1 9"

definition sample_checkpoint :: reconciliation_checkpoint where
  "sample_checkpoint = \<lparr>cp_scope_key = scope_key sample_scope, cp_reconciliation_id = ''q1'',
     cp_operations_cursor = None, cp_snapshot_observed_at_unix_ms = 9,
     cp_completed_at_unix_ms = 10, cp_runtime_epoch = 1, cp_accounts_complete = True,
     cp_portfolio_complete = True, cp_positions_complete = True, cp_orders_complete = True,
     cp_stops_complete = True, cp_operations_complete = True\<rparr>"

definition sample_fenced :: runtime_db where
  "sample_fenced = run_ops sample_json (sample_journal @ [sample_fence]) runtime_db_empty"

definition sample_commit :: "unit stored" where
  "sample_commit = commit_reconciliation sample_checkpoint
     [settle Reconciled (Some ''e1'') (Some OrderCancelled) 10 1 sample_mutation] [] Ready
     ReconciliationComplete sample_fenced"

definition sample_again :: "int stored" where
  "sample_again = acquire_ownership sample_scope ''o2'' 6 sample_owned"

definition sample_settled :: runtime_db where
  "sample_settled = run_ops sample_json [sample_fence, sample_ack] sample_prepared"

theorem stale_epoch_never_writes_witness:
  "run_op sample_json (InsertMutation sample_mutation) (run_ops sample_json [] (snd (projr sample_again)))
   = Inl store_error.StaleEpoch"
proof -
  have "is_ok sample_again" "fst (projr sample_again) = 2" by code_simp+
  then have "sample_again = Inr (2, snd (projr sample_again))"
    using is_ok_projr [of sample_again] by (metis prod.collapse)
  then have "acquire_ownership sample_scope ''o2'' 6 sample_owned = Inr (2, snd (projr sample_again))"
    by (simp only: sample_again_def)
  moreover have "op_fence (InsertMutation sample_mutation) = Some (scope_key sample_scope, 1)"
    by code_simp
  moreover have "in_i64 1" by code_simp
  ultimately show ?thesis
    using stale_epoch_never_writes [of sample_scope "''o2''" 6 sample_owned 2 "snd (projr sample_again)"
      sample_json] unfolding Let_def by (metis one_less_numeral_iff semiring_norm(76))
qed

theorem journal_refines_lifecycle_witness:
  "runtime_op sample_fence \<and> record_of sample_settled ''r1'' \<noteq> None
   \<and> record_of (run_ops sample_json [sample_fence] sample_settled) ''r1'' = record_of sample_settled ''r1''"
proof -
  have some: "record_of sample_settled ''r1'' \<noteq> None" by code_simp
  have terminal: "journal_terminal (mr_state (the (record_of sample_settled ''r1'')))" by code_simp
  have op: "runtime_op sample_fence" by code_simp
  then have ops: "\<forall>op \<in> set [sample_fence]. runtime_op op" by simp
  from some obtain r where r: "record_of sample_settled ''r1'' = Some r" by blast
  with terminal have "journal_terminal (mr_state r)" by simp
  with r have "record_of (run_ops sample_json [sample_fence] sample_settled) ''r1'' = Some r"
    using journal_refines_lifecycle [OF ops, of sample_settled "''r1''" sample_json] by blast
  with r op show ?thesis by (simp only: option.simps simp_thms)
qed

theorem dispatch_claimed_once_witness:
  "is_ok sample_claim \<and> \<not> is_ok (claim_dispatch_unknown sample_json (scope_key sample_scope) ''r1'' 1 9
     (run_ops sample_json [sample_ack] (snd (projr sample_claim))))"
proof -
  have ok: "is_ok sample_claim" by code_simp
  have "runtime_op sample_ack" by code_simp
  then have ops: "\<forall>op \<in> set [sample_ack]. runtime_op op" by simp
  have "claim_dispatch_unknown sample_json (scope_key sample_scope) ''r1'' 1 8 sample_prepared
      = Inr (fst (projr sample_claim), snd (projr sample_claim))"
    using is_ok_projr [OF ok] by (simp only: prod.collapse sample_claim_def [symmetric])
  from dispatch_claimed_once [OF this ops] ok show ?thesis by (simp only: simp_thms)
qed

theorem commit_reconciliation_exact_witness:
  "is_ok sample_commit
   \<and> load_checkpoint (cp_scope_key sample_checkpoint) (snd (projr sample_commit))
     = Inr (Some sample_checkpoint)"
proof -
  have ok: "is_ok sample_commit" by code_simp
  have "sample_commit = Inr (fst (projr sample_commit), snd (projr sample_commit))"
    using is_ok_projr [OF ok] by (simp only: prod.collapse)
  from commit_reconciliation_exact [OF sample_fenced_def this [unfolded sample_commit_def]] ok
  show ?thesis unfolding sample_commit_def [symmetric] by (simp only: simp_thms)
qed

end
