(* ===== verification/Vox_Action.thy ===== *)
theory Vox_Action
  imports Vox_Prelude
begin

text \<open>
  Fallible computations with effects, the shape of the asynchronous handlers.

  An action takes the state before it and returns its result together with the state after it; unlike
  a transaction it keeps the effects it had before it failed.  \<open>and_do\<close> is \<open>?\<close> followed by the rest of
  the handler, \<open>attempt\<close> hands the \<open>Result\<close> itself to the rest, as a \<open>match\<close> on it does.
\<close>

section \<open>Actions\<close>

type_synonym ('s, 'e, 'a) action = "'s \<Rightarrow> ('e + 'a) \<times> 's"

named_theorems action_simps \<open>results of composed actions\<close>

definition done_with :: "'a \<Rightarrow> ('s, 'e, 'a) action" where
  "done_with x s = (Inr x, s)"

definition fail_with :: "'e \<Rightarrow> ('s, 'e, 'a) action" where
  "fail_with e s = (Inl e, s)"

definition and_do :: "('s, 'e, 'a) action \<Rightarrow> ('a \<Rightarrow> ('s, 'e, 'b) action) \<Rightarrow> ('s, 'e, 'b) action" where
  "and_do m k s = (case m s of (Inr x, t) \<Rightarrow> k x t | (Inl e, t) \<Rightarrow> (Inl e, t))"

definition attempt :: "('s, 'e, 'a) action \<Rightarrow> ('s, 'f, 'e + 'a) action" where
  "attempt m s = (case m s of (r, t) \<Rightarrow> (Inr r, t))"

definition on_err :: "('e \<Rightarrow> 'f) \<Rightarrow> ('s, 'e, 'a) action \<Rightarrow> ('s, 'f, 'a) action" where
  "on_err g m s = (case m s of (r, t) \<Rightarrow> (map_err g r, t))"

definition of_result :: "'e + 'a \<Rightarrow> ('s, 'e, 'a) action" where
  "of_result r s = (r, s)"

definition look :: "('s \<Rightarrow> 'a) \<Rightarrow> ('s, 'e, 'a) action" where
  "look f s = (Inr (f s), s)"

definition change :: "('s \<Rightarrow> 's) \<Rightarrow> ('s, 'e, unit) action" where
  "change f s = (Inr (), f s)"

text \<open>A \<open>for\<close> loop that collects what its body returns.\<close>

primrec each_do :: "('a \<Rightarrow> ('s, 'e, 'b) action) \<Rightarrow> 'a list \<Rightarrow> ('s, 'e, 'b list) action" where
  "each_do f [] = done_with []"
| "each_do f (x # xs) = and_do (f x) (\<lambda>y. and_do (each_do f xs) (\<lambda>ys. done_with (y # ys)))"

text \<open>A guard that is dropped whichever way the action ends.\<close>

definition finally_do :: "('s \<Rightarrow> 's) \<Rightarrow> ('s, 'e, 'a) action \<Rightarrow> ('s, 'e, 'a) action" where
  "finally_do g m s = (case m s of (r, t) \<Rightarrow> (r, g t))"

text \<open>An action on a part of the state.\<close>

definition zoom :: "('t \<Rightarrow> 's) \<Rightarrow> ('s \<Rightarrow> 't \<Rightarrow> 't) \<Rightarrow> ('s, 'e, 'a) action \<Rightarrow> ('t, 'e, 'a) action" where
  "zoom get put m t = (case m (get t) of (r, s) \<Rightarrow> (r, put s t))"

lemma done_with_eq [action_simps]: "done_with x s = (r, t) \<longleftrightarrow> r = Inr x \<and> t = s"
  by (auto simp: done_with_def)

lemma fail_with_eq [action_simps]: "fail_with e s = (r, t) \<longleftrightarrow> r = Inl e \<and> t = s"
  by (auto simp: fail_with_def)

lemma and_do_Inr [action_simps]:
  "and_do m k s = (Inr y, u) \<longleftrightarrow> (\<exists>x t. m s = (Inr x, t) \<and> k x t = (Inr y, u))"
  by (auto simp: and_do_def split: prod.splits sum.splits)

lemma and_do_Inl [action_simps]:
  "and_do m k s = (Inl e, u) \<longleftrightarrow>
     m s = (Inl e, u) \<or> (\<exists>x t. m s = (Inr x, t) \<and> k x t = (Inl e, u))"
  by (auto simp: and_do_def split: prod.splits sum.splits)

lemma attempt_eq [action_simps]:
  "attempt m s = (r, t) \<longleftrightarrow> (\<exists>r'. m s = (r', t) \<and> r = Inr r')"
  by (auto simp: attempt_def split: prod.splits)

lemma on_err_Inr [action_simps]: "on_err g m s = (Inr x, t) \<longleftrightarrow> m s = (Inr x, t)"
  by (auto simp: on_err_def result_simps split: prod.splits)

lemma on_err_Inl [action_simps]:
  "on_err g m s = (Inl f, t) \<longleftrightarrow> (\<exists>e. m s = (Inl e, t) \<and> f = g e)"
  by (auto simp: on_err_def result_simps split: prod.splits)

lemma of_result_eq [action_simps]: "of_result r s = (r', t) \<longleftrightarrow> r' = r \<and> t = s"
  by (auto simp: of_result_def)

lemma look_eq [action_simps]: "look f s = (r, t) \<longleftrightarrow> r = Inr (f s) \<and> t = s"
  by (auto simp: look_def)

lemma change_eq [action_simps]: "change f s = (r, t) \<longleftrightarrow> r = Inr () \<and> t = f s"
  by (auto simp: change_def)

lemma finally_do_eq [action_simps]:
  "finally_do g m s = (r, u) \<longleftrightarrow> (\<exists>t. m s = (r, t) \<and> u = g t)"
  by (auto simp: finally_do_def split: prod.splits)

lemma and_do_InrE:
  assumes "and_do m k s = (Inr y, u)"
  obtains x t where "m s = (Inr x, t)" and "k x t = (Inr y, u)"
  using assms by (auto simp: action_simps)

lemma and_do_cases:
  assumes "and_do m k s = (r, u)"
  obtains (failed) e where "m s = (Inl e, u)" and "r = Inl e"
    | (went_on) x t where "m s = (Inr x, t)" and "k x t = (r, u)"
  using assms by (cases r) (auto simp: action_simps)

lemma zoom_eq [action_simps]:
  "zoom get put m t = (r, u) \<longleftrightarrow> (\<exists>s. m (get t) = (r, s) \<and> u = put s t)"
  by (auto simp: zoom_def split: prod.splits)

section \<open>What an action keeps\<close>

text \<open>A reflexive and transitive relation between the states before and after, and the rules by which
  the actions of a handler inherit it.\<close>

named_theorems moves_intros \<open>composed actions that stay within a relation\<close>

definition moves :: "('s \<Rightarrow> 's \<Rightarrow> bool) \<Rightarrow> ('s, 'e, 'a) action \<Rightarrow> bool" where
  "moves R m \<longleftrightarrow> (\<forall>s. R s (snd (m s)))"

lemma movesD: "moves R m \<Longrightarrow> m s = (r, t) \<Longrightarrow> R s t"
  by (metis moves_def snd_conv)

lemma movesI: "(\<And>s r t. m s = (r, t) \<Longrightarrow> R s t) \<Longrightarrow> moves R m"
  by (metis moves_def prod.collapse)

locale run_relation =
  fixes R :: "'s \<Rightarrow> 's \<Rightarrow> bool"
  assumes stays: "R s s"
    and chains: "R s t \<Longrightarrow> R t u \<Longrightarrow> R s u"
begin

lemma moves_done [moves_intros]: "moves R (done_with x)"
  by (simp add: moves_def done_with_def stays)

lemma moves_fail [moves_intros]: "moves R (fail_with e)"
  by (simp add: moves_def fail_with_def stays)

lemma moves_of_result [moves_intros]: "moves R (of_result r)"
  by (simp add: moves_def of_result_def stays)

lemma moves_look [moves_intros]: "moves R (look f)"
  by (simp add: moves_def look_def stays)

text \<open>What follows may rely on what the first action returned.\<close>

lemma moves_bind:
  assumes "moves R m" and "\<And>x s t. m s = (Inr x, t) \<Longrightarrow> moves R (k x)"
  shows "moves R (and_do m k)"
proof (rule movesI)
  fix s r u
  assume "and_do m k s = (r, u)"
  then consider r' where "m s = (r', u)" | x t where "m s = (Inr x, t)" "k x t = (r, u)"
    by (cases r) (auto simp: action_simps)
  then show "R s u"
  proof cases
    case 1
    then show ?thesis by (rule movesD [OF assms(1)])
  next
    case 2
    then show ?thesis using movesD [OF assms(1)] movesD [OF assms(2)] chains by blast
  qed
qed

lemma moves_and_do [moves_intros]:
  "moves R m \<Longrightarrow> (\<And>x. moves R (k x)) \<Longrightarrow> moves R (and_do m k)"
  by (rule moves_bind)

lemma moves_attempt [moves_intros]: "moves R m \<Longrightarrow> moves R (attempt m)"
  by (rule movesI) (auto simp: action_simps dest: movesD)

lemma moves_on_err [moves_intros]: "moves R m \<Longrightarrow> moves R (on_err g m)"
  by (rule movesI) (auto simp: on_err_def dest: movesD split: prod.splits)

lemma moves_change: "(\<And>s. R s (f s)) \<Longrightarrow> moves R (change f)"
  by (simp add: moves_def change_def)

lemma moves_finally:
  assumes "moves R m" and "\<And>s. R s (g s)"
  shows "moves R (finally_do g m)"
proof (rule movesI)
  fix s r u
  assume "finally_do g m s = (r, u)"
  then obtain t where "m s = (r, t)" "u = g t" by (auto simp: action_simps)
  then show "R s u" using chains [OF movesD [OF assms(1)] assms(2)] by simp
qed

lemma moves_each [moves_intros]: "(\<And>x. x \<in> set xs \<Longrightarrow> moves R (f x)) \<Longrightarrow> moves R (each_do f xs)"
  by (induction xs) (auto intro!: moves_done moves_and_do)

lemma moves_if [moves_intros]:
  "(b \<Longrightarrow> moves R m) \<Longrightarrow> (\<not> b \<Longrightarrow> moves R n) \<Longrightarrow> moves R (if b then m else n)"
  by simp

lemma moves_case_prod [moves_intros]:
  "(\<And>a b. moves R (f a b)) \<Longrightarrow> moves R (case p of (a, b) \<Rightarrow> f a b)"
  by (cases p) simp

lemma moves_case_option [moves_intros]:
  "moves R m \<Longrightarrow> (\<And>x. moves R (f x)) \<Longrightarrow> moves R (case v of None \<Rightarrow> m | Some x \<Rightarrow> f x)"
  by (cases v) auto

lemma moves_case_sum [moves_intros]:
  "(\<And>e. moves R (f e)) \<Longrightarrow> (\<And>x. moves R (g x)) \<Longrightarrow> moves R (case v of Inl e \<Rightarrow> f e | Inr x \<Rightarrow> g x)"
  by (cases v) auto

end

end
