(* ===== verification/Runtime_Ports.thy ===== *)
theory Runtime_Ports
  imports Runtime_Journal Vox_Action
begin

text \<open>
  What surrounds the runtime: the traits of \<open>crates/vox-runtime/src/ports.rs\<close> that broker, credential,
  stream and risk adapters implement, the clock and the identifier source, and the store shared with
  other tasks.

  An adapter is a field of the record \<open>ports\<close>: a function on a world of any type, so that nothing is
  assumed about it.  Every call to the store first lets the operations of other tasks through,
  \<open>po_others\<close>, so that whatever is proved of a handler holds under interleaving.  \<open>spawn_blocking\<close>
  does not fail here.
\<close>

section \<open>Reports\<close>

datatype reconciliation_error =
    Broker broker_port_error
  | Store store_error
  | Safety string

record reconciliation_report =
  rp_reconciliation_id :: string
  rp_runtime_epoch :: int
  rp_resulting_state :: runtime_state
  rp_reason_code :: reason_code
  rp_resolved_logical_request_ids :: "string list"
  rp_unresolved_logical_request_ids :: "string list"
  rp_discrepancies :: "string list"
  rp_position_count :: int
  rp_active_order_count :: int
  rp_active_stop_count :: int
  rp_deduplicated_event_count :: int
  rp_completed_at_unix_ms :: int
  rp_portfolio :: portfolio_fact
  rp_positions :: "position_fact list"
  rp_active_orders :: "order_fact list"
  rp_active_stops :: "stop_fact list"
  rp_snapshot_observed_at_unix_ms :: int

section \<open>Ports\<close>

type_synonym ('w, 'a) broker_call = "'w \<Rightarrow> (broker_port_error + 'a) \<times> 'w"
type_synonym ('w, 'a) risk_call = "runtime_db \<Rightarrow> 'w \<Rightarrow> (risk_admission_error + 'a) \<times> 'w"

record 'w ports =
  po_to_json :: to_json
  po_others :: "'w \<Rightarrow> store_op list \<times> 'w"
  po_clock_nanos :: "'w \<Rightarrow> int \<times> 'w"
  po_uuid :: "'w \<Rightarrow> string \<times> 'w"
  po_uuid_byte :: "'w \<Rightarrow> int \<times> 'w"
  po_sleep_nanos :: "int \<Rightarrow> 'w \<Rightarrow> 'w"
  po_accounts :: "runtime_scope \<Rightarrow> ('w, broker_account list) broker_call"
  po_portfolio :: "runtime_scope \<Rightarrow> ('w, portfolio_fact) broker_call"
  po_positions :: "runtime_scope \<Rightarrow> ('w, positions_fact) broker_call"
  po_active_orders :: "runtime_scope \<Rightarrow> ('w, order_fact list) broker_call"
  po_stop_orders :: "runtime_scope \<Rightarrow> int \<Rightarrow> ('w, stop_fact list) broker_call"
  po_order_state ::
    "runtime_scope \<Rightarrow> string option \<Rightarrow> string option \<Rightarrow> ('w, order_fact option) broker_call"
  po_operations_page ::
    "runtime_scope \<Rightarrow> string option \<Rightarrow> int \<Rightarrow> int \<Rightarrow> ('w, operations_page) broker_call"
  po_dispatch_once ::
    "runtime_scope \<Rightarrow> runtime_execution_purpose \<Rightarrow> runtime_execution_command \<Rightarrow> mutation_record
     \<Rightarrow> ('w, execution_result) broker_call"
  po_connect :: "runtime_scope \<Rightarrow> int \<Rightarrow> ('w, stream_kind list) broker_call"
  po_disconnect :: "('w, unit) broker_call"
  po_resolve :: "runtime_scope \<Rightarrow> ('w, credential_resolution) broker_call"
  po_authorize_execution ::
    "runtime_scope \<Rightarrow> runtime_execution_purpose \<Rightarrow> ('w, unit) broker_call"
  po_admit ::
    "runtime_scope \<Rightarrow> runtime_execution_purpose \<Rightarrow> runtime_execution_command \<Rightarrow> string
     \<Rightarrow> ('w, risk_admission) risk_call"
  po_validate_before_dispatch ::
    "runtime_scope \<Rightarrow> runtime_execution_purpose \<Rightarrow> runtime_execution_command \<Rightarrow> string
     \<Rightarrow> risk_admission \<Rightarrow> ('w, unit) risk_call"
  po_record_dispatch_outcome ::
    "runtime_scope \<Rightarrow> string \<Rightarrow> risk_dispatch_outcome \<Rightarrow> ('w, unit) risk_call"
  po_reconcile_risk :: "runtime_scope \<Rightarrow> reconciliation_report \<Rightarrow> ('w, unit) risk_call"

section \<open>The shared store\<close>

record 'w sys =
  sy_db :: runtime_db
  sy_world :: 'w

definition others_run :: "'w ports \<Rightarrow> 'w sys \<Rightarrow> 'w sys" where
  "others_run P s =
     (case po_others P (sy_world s) of (ops, w) \<Rightarrow>
        \<lparr>sy_db = run_ops (po_to_json P) ops (sy_db s), sy_world = w\<rparr>)"

definition store_write :: "'w ports \<Rightarrow> (runtime_db \<Rightarrow> 'a stored) \<Rightarrow> ('w sys, store_error, 'a) action" where
  "store_write P operation s =
     (let t = others_run P s in
      case operation (sy_db t) of
        Inr (x, db) \<Rightarrow> (Inr x, t\<lparr>sy_db := db\<rparr>)
      | Inl e \<Rightarrow> (Inl e, t))"

definition store_read ::
  "'w ports \<Rightarrow> (runtime_db \<Rightarrow> store_error + 'a) \<Rightarrow> ('w sys, store_error, 'a) action" where
  "store_read P operation s = (let t = others_run P s in (operation (sy_db t), t))"

definition call_out :: "('w \<Rightarrow> 'a \<times> 'w) \<Rightarrow> ('w sys, 'e, 'a) action" where
  "call_out f s = (case f (sy_world s) of (x, w) \<Rightarrow> (Inr x, s\<lparr>sy_world := w\<rparr>))"

definition call_port :: "('w \<Rightarrow> ('e + 'a) \<times> 'w) \<Rightarrow> ('w sys, 'e, 'a) action" where
  "call_port f s = (case f (sy_world s) of (r, w) \<Rightarrow> (r, s\<lparr>sy_world := w\<rparr>))"

text \<open>The risk service reads the store of the runtime, and writes only its own.\<close>

definition call_risk :: "'w ports \<Rightarrow> (runtime_db \<Rightarrow> 'w \<Rightarrow> ('e + 'a) \<times> 'w) \<Rightarrow> ('w sys, 'e, 'a) action" where
  "call_risk P f s =
     (let t = others_run P s in case f (sy_db t) (sy_world t) of (r, w) \<Rightarrow> (r, t\<lparr>sy_world := w\<rparr>))"

definition now_unix_ms_store :: "'w ports \<Rightarrow> ('w sys, store_error, int) action" where
  "now_unix_ms_store P =
     and_do (call_out (po_clock_nanos P)) (\<lambda>nanos.
       of_result (ok_or (Corrupt ''system clock is outside i64 range'')
         (checked_i64 (nanos sdiv 1000000))))"

section \<open>Well-behaved environments\<close>

text \<open>Other tasks write only what a runtime writes.\<close>

definition runtime_others :: "'w ports \<Rightarrow> bool" where
  "runtime_others P \<longleftrightarrow> (\<forall>w. \<forall>op \<in> set (fst (po_others P w)). runtime_op op)"

text \<open>Every state of a run is reached by store operations of runtimes: its own and those of other tasks.\<close>

definition store_runs :: "'w ports \<Rightarrow> 'w sys \<Rightarrow> 'w sys \<Rightarrow> bool" where
  "store_runs P s t \<longleftrightarrow>
     (\<exists>ops. (\<forall>op \<in> set ops. runtime_op op) \<and> sy_db t = run_ops (po_to_json P) ops (sy_db s))"

lemma run_ops_append: "run_ops js (xs @ ys) db = run_ops js ys (run_ops js xs db)"
  by (induction xs arbitrary: db) simp_all

lemma store_runs_same: "sy_db t = sy_db s \<Longrightarrow> store_runs P s t"
  unfolding store_runs_def by (rule exI [of _ "[]"]) simp

lemma store_runs_trans:
  assumes "store_runs P s t" and "store_runs P t u"
  shows "store_runs P s u"
proof -
  from assms obtain xs ys where "\<forall>op \<in> set xs. runtime_op op" "sy_db t = run_ops (po_to_json P) xs (sy_db s)"
      and "\<forall>op \<in> set ys. runtime_op op" "sy_db u = run_ops (po_to_json P) ys (sy_db t)"
    unfolding store_runs_def by blast
  then show ?thesis
    unfolding store_runs_def by (intro exI [of _ "xs @ ys"]) (auto simp: run_ops_append)
qed

interpretation runs: run_relation "store_runs P" for P
  by unfold_locales (auto intro: store_runs_same store_runs_trans)

lemma others_runs:
  assumes "runtime_others P"
  shows "store_runs P s (others_run P s)"
proof -
  obtain ops w where o: "po_others P (sy_world s) = (ops, w)" by (cases "po_others P (sy_world s)")
  then have "\<forall>op \<in> set ops. runtime_op op"
    using assms unfolding runtime_others_def by (metis fst_conv)
  with o show ?thesis unfolding store_runs_def by (auto simp: others_run_def)
qed

lemma call_out_runs [moves_intros]: "moves (store_runs P) (call_out f)"
  by (auto simp: moves_def call_out_def intro: store_runs_same split: prod.splits)

lemma call_port_runs [moves_intros]: "moves (store_runs P) (call_port f)"
  by (auto simp: moves_def call_port_def intro: store_runs_same split: prod.splits)

lemma call_risk_runs [moves_intros]: "runtime_others P \<Longrightarrow> moves (store_runs P) (call_risk P f)"
  using others_runs by (auto simp: moves_def call_risk_def Let_def store_runs_def split: prod.splits)

lemma store_read_runs [moves_intros]:
  "runtime_others P \<Longrightarrow> moves (store_runs P) (store_read P operation)"
  by (simp add: moves_def store_read_def Let_def others_runs)

text \<open>In such a run the records of the journal move along their lifecycle and its identities stay
  unique.\<close>

definition journal_follows :: "'w sys \<Rightarrow> 'w sys \<Rightarrow> bool" where
  "journal_follows s t \<longleftrightarrow>
     (\<forall>i. record_step\<^sup>*\<^sup>* (record_of (sy_db s) i) (record_of (sy_db t) i))
     \<and> (distinct (journal_ids (sy_db s)) \<longrightarrow> distinct (journal_ids (sy_db t)))"

lemma store_runs_follows:
  assumes "store_runs P s t"
  shows "journal_follows s t"
proof -
  from assms obtain ops where ops: "\<forall>op \<in> set ops. runtime_op op"
    and t: "sy_db t = run_ops (po_to_json P) ops (sy_db s)"
    unfolding store_runs_def by blast
  have "distinct (journal_ids (run_ops (po_to_json P) ops (sy_db s)))"
    if "distinct (journal_ids (sy_db s))"
    by (rule run_ops_invariant [where P = "\<lambda>db. distinct (journal_ids db)"])
      (use run_op_journal_ids that in auto)
  with t run_ops_record [OF ops] show ?thesis by (simp add: journal_follows_def)
qed

lemmas store_runs_ids = store_runs_follows [unfolded journal_follows_def, THEN conjunct2, rule_format]
  and store_runs_record = store_runs_follows [unfolded journal_follows_def, THEN conjunct1, rule_format]

text \<open>A successful write was made on the database the other tasks left.\<close>

lemma store_write_Inr:
  "store_write P operation s = (Inr x, t) \<longleftrightarrow>
     (\<exists>db. operation (sy_db (others_run P s)) = Inr (x, db) \<and> t = (others_run P s)\<lparr>sy_db := db\<rparr>)"
  by (auto simp: store_write_def Let_def split: sum.splits prod.splits)

lemma store_write_Inl:
  "store_write P operation s = (Inl e, t) \<longleftrightarrow>
     operation (sy_db (others_run P s)) = Inl e \<and> t = others_run P s"
  by (auto simp: store_write_def Let_def split: sum.splits prod.splits)

lemma store_read_eq:
  "store_read P operation s = (r, t) \<longleftrightarrow>
     r = operation (sy_db (others_run P s)) \<and> t = others_run P s"
  by (auto simp: store_read_def Let_def)

lemma store_write_runs:
  assumes "runtime_others P"
    and "\<And>db x db'. operation db = Inr (x, db') \<Longrightarrow> \<exists>op. runtime_op op \<and> run_op (po_to_json P) op db = Inr db'"
  shows "moves (store_runs P) (store_write P operation)"
proof (rule movesI)
  fix s r t
  assume run: "store_write P operation s = (r, t)"
  let ?o = "others_run P s"
  have "store_runs P ?o t"
  proof (cases r)
    case (Inl e)
    then show ?thesis using run by (simp add: store_write_Inl store_runs_same)
  next
    case (Inr x)
    then obtain db where db: "operation (sy_db ?o) = Inr (x, db)" "t = ?o\<lparr>sy_db := db\<rparr>"
      using run by (auto simp: store_write_Inr)
    then obtain op where "runtime_op op" "run_op (po_to_json P) op (sy_db ?o) = Inr db"
      using assms(2) by blast
    then show ?thesis
      using db(2) unfolding store_runs_def by (intro exI [of _ "[op]"]) simp
  qed
  then show "store_runs P s t" using others_runs [OF assms(1)] store_runs_trans by blast
qed

lemma runtime_writes_run [moves_intros]:
  assumes "runtime_others P"
  shows "moves (store_runs P) (store_write P (record_transition tr))"
    and "moves (store_runs P) (store_write P (release_ownership key epoch at))"
    and "moves (store_runs P) (store_write P (acquire_ownership scope owner at))"
    and "moves (store_runs P) (store_write P (upsert_identity_links key links epoch now))"
    and "moves (store_runs P) (store_write P (discard_checkpoint key epoch))"
    and "moves (store_runs P) (store_write P (commit_reconciliation c resolved ls state reason))"
    and "moves (store_runs P) (store_write P (record_broker_event key event seen))"
    and "moves (store_runs P) (store_write P (append_audit a))"
    and "moves (store_runs P) (store_write P (compact key after events audit))"
  by (rule store_write_runs [OF assms],
      rule exI [where x = "RecordTransition tr"] exI [where x = "ReleaseOwnership key epoch at"]
        exI [where x = "AcquireOwnership scope owner at"]
        exI [where x = "UpsertIdentityLinks key links epoch now"]
        exI [where x = "DiscardCheckpoint key epoch"]
        exI [where x = "CommitReconciliation c resolved ls state reason"]
        exI [where x = "RecordBrokerEvent key event seen"]
        exI [where x = "AppendAudit a"] exI [where x = "Compact key after events audit"],
      simp add: written_def; fail)+

lemma now_runs [moves_intros]: "moves (store_runs P) (now_unix_ms_store P)"
  unfolding now_unix_ms_store_def by (intro moves_intros)

end
