(* ===== verification/Runtime_Reconcile.thy ===== *)
theory Runtime_Reconcile
  imports Runtime_Ports
begin

text \<open>
  Reconciliation, \<open>crates/vox-runtime/src/reconcile.rs\<close>: bounded reads of the broker, paging of the
  operations history, the matching of unknown mutations with broker evidence, the validation of the
  broker snapshot, and the reconciliation that commits what it resolved.

  Durations are nanoseconds.  The retry and paging loops recurse on the number of rounds left, which is
  the bound of the loop in the code.  Metrics are left out.
\<close>

section \<open>Bounds\<close>

definition OPERATIONS_PAGE_LIMIT :: int where "OPERATIONS_PAGE_LIMIT = 1000"
definition MAX_OPERATION_PAGES :: nat where "MAX_OPERATION_PAGES = 100"
definition MAX_UNRESOLVED_MUTATIONS :: int where "MAX_UNRESOLVED_MUTATIONS = 256"
definition HISTORY_WINDOW_MS :: int where "HISTORY_WINDOW_MS = 7 * 24 * 60 * 60 * 1000"
definition HISTORY_OVERLAP_MS :: int where "HISTORY_OVERLAP_MS = 5 * 60 * 1000"
definition RETENTION_MS :: int where "RETENTION_MS = 30 * 24 * 60 * 60 * 1000"
definition MAX_DEDUPE_EVENTS :: int where "MAX_DEDUPE_EVENTS = 100000"
definition MAX_AUDIT_EVENTS :: int where "MAX_AUDIT_EVENTS = 20000"

text \<open>Durations are nanoseconds.\<close>

record reconciliation_config =
  rc_max_safe_read_attempts :: int
  rc_initial_backoff :: int
  rc_maximum_backoff :: int

definition reconciliation_config_default :: reconciliation_config where
  "reconciliation_config_default =
     \<lparr>rc_max_safe_read_attempts = 3, rc_initial_backoff = 250000000,
      rc_maximum_backoff = 5000000000\<rparr>"

type_synonym ('w, 'a) reconciling = "('w sys, reconciliation_error, 'a) action"

section \<open>Bounded reads\<close>

definition jittered :: "'w ports \<Rightarrow> int \<Rightarrow> ('w, int) reconciling" where
  "jittered P base =
     (let spread = base div 4 in
      if spread = 0 then done_with base
      else and_do (call_out (po_uuid_byte P)) (\<lambda>byte.
        done_with (min 18446744073709551615 (base + spread * byte div 255))))"

text \<open>\<open>Duration::checked_mul(2)\<close>: a duration holds less than \<open>2\<^sup>6\<^sup>4\<close> seconds.\<close>

definition next_backoff :: "reconciliation_config \<Rightarrow> int \<Rightarrow> int" where
  "next_backoff C backoff =
     min (if 2 * backoff < 18446744073709551616 * 1000000000 then 2 * backoff
          else rc_maximum_backoff C) (rc_maximum_backoff C)"

definition retry_delay ::
  "'w ports \<Rightarrow> reconciliation_config \<Rightarrow> broker_port_error \<Rightarrow> int \<Rightarrow> ('w, int) reconciling" where
  "retry_delay P C e backoff =
     and_do (case bp_retry_after e of
               Some delay \<Rightarrow> done_with delay
             | None \<Rightarrow> jittered P backoff) (\<lambda>delay.
     done_with (min delay (rc_maximum_backoff C)))"

primrec safe_read_loop ::
  "'w ports \<Rightarrow> reconciliation_config \<Rightarrow> nat \<Rightarrow> int \<Rightarrow> ('w, 'a) broker_call \<Rightarrow> ('w, 'a) reconciling" where
  "safe_read_loop P C 0 backoff operation =
     fail_with (Safety ''safe-read retry loop exhausted unexpectedly'')"
| "safe_read_loop P C (Suc left) backoff operation =
     and_do (attempt (call_port operation)) (\<lambda>answer. case answer of
       Inr x \<Rightarrow> done_with x
     | Inl e \<Rightarrow>
         if left = 0 \<or> \<not> safe_read_retryable e then fail_with (Broker e)
         else and_do (retry_delay P C e backoff) (\<lambda>delay.
              and_do (call_out (\<lambda>w. ((), po_sleep_nanos P delay w))) (\<lambda>_.
              safe_read_loop P C left (next_backoff C backoff) operation)))"

definition safe_read ::
  "'w ports \<Rightarrow> reconciliation_config \<Rightarrow> ('w, 'a) broker_call \<Rightarrow> ('w, 'a) reconciling" where
  "safe_read P C operation =
     safe_read_loop P C (nat (max (rc_max_safe_read_attempts C) 1)) (rc_initial_backoff C) operation"

primrec operations_loop ::
  "'w ports \<Rightarrow> reconciliation_config \<Rightarrow> runtime_scope \<Rightarrow> int \<Rightarrow> nat \<Rightarrow> string option \<Rightarrow> string list
   \<Rightarrow> operation_fact list \<Rightarrow> ('w, operation_fact list) reconciling" where
  "operations_loop P C scope from_ms 0 cursor seen acc =
     fail_with (Safety ''operations history exceeds bounded page count'')"
| "operations_loop P C scope from_ms (Suc left) cursor seen acc =
     and_do (safe_read P C (po_operations_page P scope cursor from_ms OPERATIONS_PAGE_LIMIT)) (\<lambda>page.
       case pa_next_cursor page of
         None \<Rightarrow> done_with (acc @ pa_items page)
       | Some next_cursor \<Rightarrow>
           if blank next_cursor \<or> next_cursor \<in> set seen then
             fail_with (Safety ''operations cursor is empty or cyclic'')
           else operations_loop P C scope from_ms left (Some next_cursor) (next_cursor # seen)
             (acc @ pa_items page))"

definition read_operations ::
  "'w ports \<Rightarrow> reconciliation_config \<Rightarrow> runtime_scope \<Rightarrow> int \<Rightarrow> ('w, operation_fact list) reconciling" where
  "read_operations P C scope from_ms = operations_loop P C scope from_ms MAX_OPERATION_PAGES None [] []"

section \<open>Evidence\<close>

fun order_disposition ::
  "mutation_kind \<Rightarrow> order_execution_status \<Rightarrow> reconciliation_disposition option" where
  "order_disposition CancelOrder Cancelled = Some OrderCancelled"
| "order_disposition CancelOrder Filled = Some OrderFilled"
| "order_disposition CancelOrder order_execution_status.Rejected = Some OrderRejected"
| "order_disposition CancelOrder _ = None"
| "order_disposition _ New = Some OrderActiveNew"
| "order_disposition _ PartiallyFilled = Some OrderActivePartial"
| "order_disposition _ Filled = Some OrderFilled"
| "order_disposition _ Cancelled = Some OrderCancelled"
| "order_disposition _ order_execution_status.Rejected = Some OrderRejected"
| "order_disposition _ (order_execution_status.UnknownProviderStatus _) = None"

fun stop_disposition ::
  "mutation_kind \<Rightarrow> stop_execution_status \<Rightarrow> reconciliation_disposition option" where
  "stop_disposition CancelStopOrder Canceled = Some StopCanceled"
| "stop_disposition CancelStopOrder Executed = Some StopExecuted"
| "stop_disposition CancelStopOrder Expired = Some StopExpired"
| "stop_disposition CancelStopOrder _ = None"
| "stop_disposition _ stop_execution_status.Active = Some StopActive"
| "stop_disposition _ Executed = Some StopExecuted"
| "stop_disposition _ Canceled = Some StopCanceled"
| "stop_disposition _ Expired = Some StopExpired"
| "stop_disposition _ (stop_execution_status.UnknownProviderStatus _) = None"

definition order_evidence_resolves ::
  "mutation_record \<Rightarrow> broker_identity_links \<Rightarrow> order_fact \<Rightarrow> bool" where
  "order_evidence_resolves mu links ord =
     (let logical_match = (of_logical_request_id ord = Some (mr_logical_request_id mu));
          original_match = (bl_broker_order_id links = Some (of_broker_order_id ord));
          replacement_match = (bl_replacement_broker_order_id links = Some (of_broker_order_id ord))
      in case mr_kind mu of
           PostOrder \<Rightarrow> logical_match \<or> original_match
         | PostOrderAsync \<Rightarrow> logical_match \<or> original_match
         | ReplaceOrder \<Rightarrow> logical_match \<or> replacement_match
         | CancelOrder \<Rightarrow> (original_match \<or> replacement_match)
             \<and> order_disposition (mr_kind mu) (of_status ord) \<noteq> None
         | _ \<Rightarrow> False)"

definition operation_evidence_resolves ::
  "mutation_record \<Rightarrow> broker_identity_links \<Rightarrow> operation_fact \<Rightarrow> bool" where
  "operation_evidence_resolves mu links operation \<longleftrightarrow>
     mr_kind mu \<in> {PostOrder, PostOrderAsync}
     \<and> (op_logical_request_id operation = Some (mr_logical_request_id mu)
        \<or> op_broker_order_id operation = bl_broker_order_id links
          \<and> op_broker_order_id operation \<noteq> None)"

definition stream_evidence_resolves ::
  "mutation_record \<Rightarrow> broker_identity_links \<Rightarrow> broker_event \<Rightarrow> bool" where
  "stream_evidence_resolves mu links event =
     (let logical_match = (be_logical_request_id event = Some (mr_logical_request_id mu));
          order_event = (be_event_class event \<in> {Order, Fill}
            \<and> (logical_match \<or> be_broker_order_id event = bl_broker_order_id links
                 \<and> be_broker_order_id event \<noteq> None));
          stop_event = (be_event_class event = Stop
            \<and> (logical_match \<or> be_broker_stop_order_id event = bl_broker_stop_order_id links
                 \<and> be_broker_stop_order_id event \<noteq> None))
      in case mr_kind mu of
           PostOrder \<Rightarrow> order_event
         | PostOrderAsync \<Rightarrow> order_event
         | ReplaceOrder \<Rightarrow> be_event_class event = Order
             \<and> (logical_match \<or> be_broker_order_id event = bl_replacement_broker_order_id links
                  \<and> be_broker_order_id event \<noteq> None)
         | PostStopOrder \<Rightarrow> stop_event
         | ProtectionLeg \<Rightarrow> stop_event
         | CancelOrder \<Rightarrow> False
         | CancelStopOrder \<Rightarrow> False)"

definition reconcile_record ::
  "int \<Rightarrow> int \<Rightarrow> reconciliation_disposition \<Rightarrow> string \<Rightarrow> mutation_record \<Rightarrow> mutation_record" where
  "reconcile_record epoch now disposition evidence r =
     settle Reconciled (Some evidence) (Some disposition) now epoch r"

definition no_links :: "string \<Rightarrow> broker_identity_links" where
  "no_links request =
     \<lparr>bl_logical_request_id = request, bl_broker_order_id = None,
      bl_replacement_broker_order_id = None, bl_broker_stop_order_id = None,
      bl_provider_operation_ids = [], bl_broker_fill_ids = []\<rparr>"

definition links_for :: "broker_identity_links list \<Rightarrow> string \<Rightarrow> broker_identity_links" where
  "links_for existing_links request =
     (case find (\<lambda>l. bl_logical_request_id l = request) existing_links of
        Some l \<Rightarrow> l
      | None \<Rightarrow> no_links request)"

definition order_kind :: "mutation_kind \<Rightarrow> bool" where
  "order_kind k \<longleftrightarrow> k \<in> {PostOrder, PostOrderAsync, ReplaceOrder, CancelOrder}"

definition link_order :: "mutation_kind \<Rightarrow> string \<Rightarrow> broker_identity_links \<Rightarrow> broker_identity_links" where
  "link_order kind broker_order_id links =
     (if kind = ReplaceOrder then links\<lparr>bl_replacement_broker_order_id := Some broker_order_id\<rparr>
      else links\<lparr>bl_broker_order_id := Some broker_order_id\<rparr>)"

type_synonym resolution = "(mutation_record \<times> broker_identity_links) option"

definition resolved_by_order ::
  "int \<Rightarrow> int \<Rightarrow> mutation_record \<Rightarrow> broker_identity_links \<Rightarrow> string \<Rightarrow> order_fact \<Rightarrow> resolution" where
  "resolved_by_order epoch now mu existing source ord =
     (case order_disposition (mr_kind mu) (of_status ord) of
        None \<Rightarrow> None
      | Some disposition \<Rightarrow>
          Some (reconcile_record epoch now disposition (source @ of_broker_order_id ord) mu,
                link_order (mr_kind mu) (of_broker_order_id ord) existing))"

definition extend_set :: "string list \<Rightarrow> string list \<Rightarrow> string list" where
  "extend_set xs ys = sort (remdups (xs @ ys))"

definition resolve_from_stream ::
  "int \<Rightarrow> int \<Rightarrow> broker_snapshot \<Rightarrow> broker_identity_links \<Rightarrow> mutation_record \<Rightarrow> resolution" where
  "resolve_from_stream epoch now snapshot existing mu =
     (case find (stream_evidence_resolves mu existing) (bs_stream_evidence snapshot) of
        Some event \<Rightarrow>
          Some (reconcile_record epoch now OrderAccepted
                  (''accepted stream event='' @ be_stable_event_id event) mu, existing)
      | None \<Rightarrow> None)"

definition resolve_from_operations ::
  "int \<Rightarrow> int \<Rightarrow> broker_snapshot \<Rightarrow> broker_identity_links \<Rightarrow> mutation_record \<Rightarrow> resolution" where
  "resolve_from_operations epoch now snapshot existing mu =
     (case find (operation_evidence_resolves mu existing) (bs_operations snapshot) of
        Some operation \<Rightarrow>
          Some (reconcile_record epoch now OrderAccepted
                  (''GetOperationsByCursor cursor='' @ op_cursor operation) mu,
                existing\<lparr>
                  bl_provider_operation_ids := (case op_provider_operation_id operation of
                      Some i \<Rightarrow> extend_set (bl_provider_operation_ids existing) [i]
                    | None \<Rightarrow> bl_provider_operation_ids existing),
                  bl_broker_fill_ids :=
                    extend_set (bl_broker_fill_ids existing) (op_broker_fill_ids operation)\<rparr>)
      | None \<Rightarrow> resolve_from_stream epoch now snapshot existing mu)"

definition resolve_from_stops ::
  "int \<Rightarrow> int \<Rightarrow> broker_snapshot \<Rightarrow> broker_identity_links \<Rightarrow> mutation_record \<Rightarrow> resolution" where
  "resolve_from_stops epoch now snapshot existing mu =
     (case find (\<lambda>stop. bl_broker_stop_order_id existing = Some (sf_broker_stop_order_id stop))
             (bs_stop_orders snapshot) of
        Some stop \<Rightarrow>
          (case stop_disposition (mr_kind mu) (sf_status stop) of
             Some disposition \<Rightarrow>
               Some (reconcile_record epoch now disposition
                       (''authoritative GetStopOrders broker='' @ sf_broker_stop_order_id stop) mu,
                     existing\<lparr>bl_broker_stop_order_id := Some (sf_broker_stop_order_id stop)\<rparr>)
           | None \<Rightarrow> resolve_from_operations epoch now snapshot existing mu)
      | None \<Rightarrow> resolve_from_operations epoch now snapshot existing mu)"

definition resolve_from_snapshot ::
  "int \<Rightarrow> int \<Rightarrow> broker_snapshot \<Rightarrow> broker_identity_links \<Rightarrow> mutation_record \<Rightarrow> resolution" where
  "resolve_from_snapshot epoch now snapshot existing mu =
     (case find (order_evidence_resolves mu existing) (bs_active_orders snapshot) of
        Some ord \<Rightarrow>
          if mr_kind mu \<noteq> CancelOrder then
            resolved_by_order epoch now mu existing ''authoritative active order broker='' ord
          else resolve_from_stops epoch now snapshot existing mu
      | None \<Rightarrow> resolve_from_stops epoch now snapshot existing mu)"

definition direct_broker_id :: "mutation_kind \<Rightarrow> broker_identity_links \<Rightarrow> string option" where
  "direct_broker_id kind existing =
     (if kind = ReplaceOrder then bl_replacement_broker_order_id existing
      else coalesce (bl_replacement_broker_order_id existing) (bl_broker_order_id existing))"

definition resolve_with_direct ::
  "int \<Rightarrow> int \<Rightarrow> broker_snapshot \<Rightarrow> broker_identity_links \<Rightarrow> mutation_record \<Rightarrow> order_fact option
   \<Rightarrow> resolution" where
  "resolve_with_direct epoch now snapshot existing mu direct =
     (case direct of
        Some ord \<Rightarrow>
          if order_evidence_resolves mu existing ord then
            resolved_by_order epoch now mu existing ''direct GetOrderState broker='' ord
          else resolve_from_snapshot epoch now snapshot existing mu
      | None \<Rightarrow> resolve_from_snapshot epoch now snapshot existing mu)"

definition resolve_mutation ::
  "'w ports \<Rightarrow> reconciliation_config \<Rightarrow> runtime_scope \<Rightarrow> int \<Rightarrow> broker_snapshot
   \<Rightarrow> broker_identity_links list \<Rightarrow> int \<Rightarrow> mutation_record \<Rightarrow> ('w, resolution) reconciling" where
  "resolve_mutation P C scope epoch snapshot existing_links now mu =
     (let existing = links_for existing_links (mr_logical_request_id mu) in
      if order_kind (mr_kind mu) then
        and_do (safe_read P C (po_order_state P scope (direct_broker_id (mr_kind mu) existing)
          (Some (mr_logical_request_id mu)))) (\<lambda>direct.
        done_with (resolve_with_direct epoch now snapshot existing mu direct))
      else done_with (resolve_from_snapshot epoch now snapshot existing mu))"

section \<open>Discrepancies\<close>

definition noted :: "bool \<Rightarrow> string \<Rightarrow> string list" where
  "noted b text = (if b then [text] else [])"

definition has_duplicate :: "string list \<Rightarrow> bool" where
  "has_duplicate identities \<longleftrightarrow> \<not> distinct identities"

definition account_available :: "runtime_scope \<Rightarrow> broker_snapshot \<Rightarrow> bool" where
  "account_available scope snapshot =
     (case filter (\<lambda>a. ba_account_id a = sc_broker_account_id scope) (bs_accounts snapshot) of
        [a] \<Rightarrow> ba_open a \<and> ba_accessible a
      | _ \<Rightarrow> False)"

definition is_linked_order :: "broker_identity_links list \<Rightarrow> string \<Rightarrow> bool" where
  "is_linked_order links i \<longleftrightarrow> list_ex (\<lambda>l. bl_broker_order_id l = Some i
     \<or> bl_replacement_broker_order_id l = Some i) links"

definition is_linked_stop :: "broker_identity_links list \<Rightarrow> string \<Rightarrow> bool" where
  "is_linked_stop links i \<longleftrightarrow> list_ex (\<lambda>l. bl_broker_stop_order_id l = Some i) links"

definition position_units :: "broker_snapshot \<Rightarrow> string \<Rightarrow> int" where
  "position_units snapshot instrument =
     (case map_of (rev (map (\<lambda>p. (pf_instrument_uid p, pf_quantity_units p)) (bs_positions snapshot)))
             instrument of
        Some q \<Rightarrow> q
      | None \<Rightarrow> 0)"

definition validate_snapshot ::
  "runtime_scope \<Rightarrow> broker_snapshot \<Rightarrow> broker_identity_links list \<Rightarrow> derived_position_expectation list
   \<Rightarrow> string list" where
  "validate_snapshot scope snapshot links expectations =
     (let account = sc_broker_account_id scope in
      noted (\<not> account_available scope snapshot) ''broker account missing, closed or inaccessible''
      @ noted (pt_account_id (bs_portfolio snapshot) \<noteq> account) ''portfolio account identity mismatch''
      @ noted (list_ex (\<lambda>p. pf_account_id p \<noteq> account) (bs_positions snapshot))
          ''position account identity mismatch''
      @ noted (list_ex (\<lambda>ord. of_account_id ord \<noteq> account) (bs_active_orders snapshot))
          ''order account identity mismatch''
      @ noted (list_ex (\<lambda>s. sf_account_id s \<noteq> account) (bs_stop_orders snapshot))
          ''stop account identity mismatch''
      @ noted (list_ex (\<lambda>x. op_account_id x \<noteq> account) (bs_operations snapshot))
          ''operation account identity mismatch''
      @ noted (has_duplicate (map of_broker_order_id (bs_active_orders snapshot)))
          ''duplicate active broker order identity''
      @ noted (has_duplicate (map sf_broker_stop_order_id (bs_stop_orders snapshot)))
          ''duplicate broker stop identity''
      @ noted (has_duplicate (map pf_instrument_uid (bs_positions snapshot)))
          ''duplicate broker position identity''
      @ concat (map (\<lambda>ord. noted (\<not> is_linked_order links (of_broker_order_id ord))
            (''unfamiliar broker order preserved: '' @ of_broker_order_id ord))
          (filter (\<lambda>ord. order_active (of_status ord)) (bs_active_orders snapshot)))
      @ concat (map (\<lambda>s. noted (\<not> is_linked_stop links (sf_broker_stop_order_id s))
              (''unfamiliar broker stop preserved: '' @ sf_broker_stop_order_id s)
            @ noted (position_units snapshot (sf_instrument_uid s) = 0)
              (''active stop '' @ sf_broker_stop_order_id s
                @ '' has no broker position; preserved for operator review''))
          (filter (\<lambda>s. stop_active (sf_status s)) (bs_stop_orders snapshot)))
      @ concat (map (\<lambda>x. noted (position_units snapshot (dp_instrument_uid x)
                                 \<noteq> dp_expected_quantity_units x)
            (''derived local position expectation differs for instrument '' @ dp_instrument_uid x))
          expectations))"

definition discrepancy_reason :: "string list \<Rightarrow> string list \<Rightarrow> reason_code" where
  "discrepancy_reason discrepancies unresolved =
     (if unresolved \<noteq> [] then UnknownMutation
      else if list_ex (\<lambda>v. contains_str v ''account missing, closed or inaccessible'') discrepancies
        then reason_code.AccountUnavailable
      else if list_ex (\<lambda>v. contains_str v ''position'') discrepancies then BrokerPositionConflict
      else if list_ex (\<lambda>v. contains_str v ''order'') discrepancies then BrokerOrderConflict
      else if list_ex (\<lambda>v. contains_str v ''stop'') discrepancies then BrokerStopConflict
      else if discrepancies = [] then ReconciliationComplete
      else ReconciliationIncomplete)"

section \<open>The reconciliation\<close>

definition stored_as :: "('s, store_error, 'a) action \<Rightarrow> ('s, reconciliation_error, 'a) action" where
  "stored_as = on_err Store"

definition fill_event :: "runtime_scope \<Rightarrow> int \<Rightarrow> operation_fact \<Rightarrow> string \<Rightarrow> broker_event" where
  "fill_event scope epoch operation fill_id =
     \<lparr>be_account_id = sc_broker_account_id scope, be_event_class = Fill, be_stable_event_id = fill_id,
      be_broker_order_id = op_broker_order_id operation, be_broker_stop_order_id = None,
      be_logical_request_id = op_logical_request_id operation, be_execution_state = None,
      be_runtime_epoch = epoch\<rparr>"

definition persist_fill_dedupe ::
  "'w ports \<Rightarrow> runtime_scope \<Rightarrow> int \<Rightarrow> broker_snapshot \<Rightarrow> int \<Rightarrow> ('w, int) reconciling" where
  "persist_fill_dedupe P scope epoch snapshot now =
     and_do (each_do (\<lambda>event. stored_as (store_write P (record_broker_event (scope_key scope) event now)))
       (concat (map (\<lambda>x. map (fill_event scope epoch x) (op_broker_fill_ids x))
         (bs_operations snapshot)))) (\<lambda>inserted.
     done_with (min 18446744073709551615 (int (length (filter Not inserted)))))"

definition usable_checkpoint :: "string \<Rightarrow> reconciliation_checkpoint \<Rightarrow> bool" where
  "usable_checkpoint key c \<longleftrightarrow>
     cp_scope_key c = key \<and> \<not> blank (cp_reconciliation_id c) \<and> cp_snapshot_observed_at_unix_ms c > 0"

definition load_usable_checkpoint ::
  "'w ports \<Rightarrow> string \<Rightarrow> int \<Rightarrow> ('w, reconciliation_checkpoint option) reconciling" where
  "load_usable_checkpoint P key epoch =
     and_do (stored_as (store_read P (load_checkpoint key))) (\<lambda>found. case found of
       None \<Rightarrow> done_with None
     | Some c \<Rightarrow>
         if usable_checkpoint key c then done_with (Some c)
         else and_do (stored_as (store_write P (discard_checkpoint key epoch))) (\<lambda>_. done_with None))"

definition history_start :: "int \<Rightarrow> reconciliation_checkpoint option \<Rightarrow> int" where
  "history_start now checkpoint =
     (case checkpoint of
        None \<Rightarrow> sat_i64 (now - HISTORY_WINDOW_MS)
      | Some c \<Rightarrow> sat_i64 (cp_snapshot_observed_at_unix_ms c - HISTORY_OVERLAP_MS))"

definition read_snapshot ::
  "'w ports \<Rightarrow> reconciliation_config \<Rightarrow> runtime_scope \<Rightarrow> int \<Rightarrow> int \<Rightarrow> ('w, broker_snapshot) reconciling" where
  "read_snapshot P C scope from_ms now =
     and_do (safe_read P C (po_accounts P scope)) (\<lambda>accounts.
     and_do (safe_read P C (po_portfolio P scope)) (\<lambda>portfolio.
     and_do (safe_read P C (po_positions P scope)) (\<lambda>positions.
     and_do (safe_read P C (po_active_orders P scope)) (\<lambda>active_orders.
     and_do (safe_read P C (po_stop_orders P scope from_ms)) (\<lambda>stop_orders.
     and_do (read_operations P C scope from_ms) (\<lambda>operations.
     done_with \<lparr>bs_accounts = accounts,
       bs_portfolio = portfolio\<lparr>pt_cash_balances := ps_cash_balances positions\<rparr>,
       bs_positions = ps_instruments positions, bs_active_orders = active_orders,
       bs_stop_orders = stop_orders, bs_operations = operations, bs_stream_evidence = [],
       bs_observed_at_unix_ms = now\<rparr>))))))"

definition replace_links ::
  "broker_identity_links \<Rightarrow> broker_identity_links list \<Rightarrow> broker_identity_links list" where
  "replace_links resolved links =
     upsert_row bl_logical_request_id resolved (\<lambda>_. resolved) links"

definition resolved_of :: "(mutation_record \<times> resolution) list \<Rightarrow> (mutation_record \<times> broker_identity_links) list"
  where "resolved_of outcomes = List.map_filter snd outcomes"

definition unresolved_of :: "(mutation_record \<times> resolution) list \<Rightarrow> string list" where
  "unresolved_of outcomes =
     map (mr_logical_request_id \<circ> fst) (filter (\<lambda>p. snd p = None) outcomes)"

definition snapshot_discrepancies ::
  "runtime_scope \<Rightarrow> broker_snapshot \<Rightarrow> broker_identity_links list \<Rightarrow> derived_position_expectation list
   \<Rightarrow> (mutation_record \<times> resolution) list \<Rightarrow> string list" where
  "snapshot_discrepancies scope snapshot existing_links expectations outcomes =
     validate_snapshot scope snapshot
       (fold replace_links (map snd (resolved_of outcomes)) existing_links) expectations
     @ noted (unresolved_of outcomes \<noteq> [])
         (show_nat (length (unresolved_of outcomes))
          @ '' safety-critical mutation(s) remain UNKNOWN_AFTER_DISPATCH'')"

definition full_checkpoint ::
  "string \<Rightarrow> string \<Rightarrow> int \<Rightarrow> broker_snapshot \<Rightarrow> int \<Rightarrow> reconciliation_checkpoint" where
  "full_checkpoint key reconciliation_id epoch snapshot now =
     \<lparr>cp_scope_key = key, cp_reconciliation_id = reconciliation_id,
      cp_operations_cursor = (if bs_operations snapshot = [] then None
        else Some (op_cursor (last (bs_operations snapshot)))),
      cp_snapshot_observed_at_unix_ms = bs_observed_at_unix_ms snapshot,
      cp_completed_at_unix_ms = now, cp_runtime_epoch = epoch, cp_accounts_complete = True,
      cp_portfolio_complete = True, cp_positions_complete = True, cp_orders_complete = True,
      cp_stops_complete = True, cp_operations_complete = True\<rparr>"

definition report_of ::
  "string \<Rightarrow> int \<Rightarrow> broker_snapshot \<Rightarrow> (mutation_record \<times> resolution) list \<Rightarrow> string list \<Rightarrow> int \<Rightarrow> int
   \<Rightarrow> reconciliation_report" where
  "report_of reconciliation_id epoch snapshot outcomes discrepancies deduplicated now =
     \<lparr>rp_reconciliation_id = reconciliation_id, rp_runtime_epoch = epoch,
      rp_resulting_state = (if discrepancies = [] then Ready else Halted),
      rp_reason_code = discrepancy_reason discrepancies (unresolved_of outcomes),
      rp_resolved_logical_request_ids = map (mr_logical_request_id \<circ> fst) (resolved_of outcomes),
      rp_unresolved_logical_request_ids = unresolved_of outcomes,
      rp_discrepancies = discrepancies,
      rp_position_count = int (length (bs_positions snapshot)),
      rp_active_order_count = int (length (bs_active_orders snapshot)),
      rp_active_stop_count =
        int (length (filter (\<lambda>s. stop_active (sf_status s)) (bs_stop_orders snapshot))),
      rp_deduplicated_event_count = deduplicated, rp_completed_at_unix_ms = now,
      rp_portfolio = bs_portfolio snapshot, rp_positions = bs_positions snapshot,
      rp_active_orders = bs_active_orders snapshot, rp_active_stops = bs_stop_orders snapshot,
      rp_snapshot_observed_at_unix_ms = bs_observed_at_unix_ms snapshot\<rparr>"

definition commit_report ::
  "'w ports \<Rightarrow> runtime_scope \<Rightarrow> int \<Rightarrow> broker_snapshot \<Rightarrow> (mutation_record \<times> resolution) list
   \<Rightarrow> reconciliation_report \<Rightarrow> int \<Rightarrow> ('w, reconciliation_report) reconciling" where
  "commit_report P scope epoch snapshot outcomes report now =
     (let key = scope_key scope in
      and_do (stored_as (store_write P (commit_reconciliation
        (full_checkpoint key (rp_reconciliation_id report) epoch snapshot now)
        (map fst (resolved_of outcomes)) (map snd (resolved_of outcomes))
        (if rp_resulting_state report = Ready then Reconciling else rp_resulting_state report)
        (rp_reason_code report)))) (\<lambda>_.
      and_do (stored_as (store_write P
        (compact key (sat_i64 (now - RETENTION_MS)) MAX_DEDUPE_EVENTS MAX_AUDIT_EVENTS))) (\<lambda>_.
      done_with report)))"

definition settle_snapshot ::
  "'w ports \<Rightarrow> reconciliation_config \<Rightarrow> runtime_scope \<Rightarrow> int \<Rightarrow> string \<Rightarrow> int \<Rightarrow> broker_snapshot
   \<Rightarrow> mutation_record list \<Rightarrow> ('w, reconciliation_report) reconciling" where
  "settle_snapshot P C scope epoch reconciliation_id now snapshot unresolved =
     and_do (stored_as (store_read P (all_identity_links (scope_key scope)))) (\<lambda>existing_links.
     and_do (stored_as (store_read P (expected_positions (scope_key scope)))) (\<lambda>expectations.
     and_do (each_do (\<lambda>mu. and_do (resolve_mutation P C scope epoch snapshot existing_links now mu)
         (\<lambda>r. done_with (mu, r))) unresolved) (\<lambda>outcomes.
     and_do (persist_fill_dedupe P scope epoch snapshot now) (\<lambda>deduplicated.
     commit_report P scope epoch snapshot outcomes
       (report_of reconciliation_id epoch snapshot outcomes
         (snapshot_discrepancies scope snapshot existing_links expectations outcomes)
         deduplicated now) now))))"

definition reconcile ::
  "'w ports \<Rightarrow> reconciliation_config \<Rightarrow> runtime_scope \<Rightarrow> int \<Rightarrow> ('w, reconciliation_report) reconciling" where
  "reconcile P C scope epoch =
     and_do (on_err (\<lambda>_. Safety ''system clock is outside i64 range'') (now_unix_ms_store P)) (\<lambda>now.
     and_do (call_out (po_uuid P)) (\<lambda>reconciliation_id.
     and_do (load_usable_checkpoint P (scope_key scope) epoch) (\<lambda>checkpoint.
     and_do (read_snapshot P C scope (history_start now checkpoint) now) (\<lambda>snapshot.
     and_do (stored_as (store_read P (unresolved_mutations (po_to_json P) (scope_key scope))))
       (\<lambda>unresolved.
     if int (length unresolved) > MAX_UNRESOLVED_MUTATIONS then
       fail_with (Safety ''unresolved mutation set exceeds bounded reconciliation capacity'')
     else settle_snapshot P C scope epoch reconciliation_id now snapshot unresolved)))))"

end
