(* ===== verification/Runtime_Reconciled.thy ===== *)
theory Runtime_Reconciled
  imports Runtime_Reconcile
begin

text \<open>
  What reconciliation guarantees: a specification of a consistent snapshot and its equivalence with the
  validation, the evidence behind every resolution, what a report of readiness means, the mutations that
  are never resolved, and the bounds of a read.
\<close>

section \<open>When a reconciliation reports ready\<close>

text \<open>What a snapshot must satisfy, stated on the facts.\<close>

definition consistent_snapshot ::
  "runtime_scope \<Rightarrow> broker_snapshot \<Rightarrow> broker_identity_links list \<Rightarrow> derived_position_expectation list
   \<Rightarrow> bool" where
  "consistent_snapshot scope snapshot links expectations \<longleftrightarrow>
     (let account = sc_broker_account_id scope in
      (\<exists>a. filter (\<lambda>a. ba_account_id a = account) (bs_accounts snapshot) = [a]
           \<and> ba_open a \<and> ba_accessible a)
      \<and> pt_account_id (bs_portfolio snapshot) = account
      \<and> (\<forall>p \<in> set (bs_positions snapshot). pf_account_id p = account)
      \<and> (\<forall>x \<in> set (bs_active_orders snapshot). of_account_id x = account)
      \<and> (\<forall>x \<in> set (bs_stop_orders snapshot). sf_account_id x = account)
      \<and> (\<forall>x \<in> set (bs_operations snapshot). op_account_id x = account)
      \<and> distinct (map of_broker_order_id (bs_active_orders snapshot))
      \<and> distinct (map sf_broker_stop_order_id (bs_stop_orders snapshot))
      \<and> distinct (map pf_instrument_uid (bs_positions snapshot))
      \<and> (\<forall>x \<in> set (bs_active_orders snapshot). order_active (of_status x) \<longrightarrow>
           (\<exists>l \<in> set links. of_broker_order_id x \<in>
              set_option (bl_broker_order_id l) \<union> set_option (bl_replacement_broker_order_id l)))
      \<and> (\<forall>x \<in> set (bs_stop_orders snapshot). stop_active (sf_status x) \<longrightarrow>
           (\<exists>l \<in> set links. bl_broker_stop_order_id l = Some (sf_broker_stop_order_id x))
           \<and> (\<exists>p \<in> set (bs_positions snapshot).
                pf_instrument_uid p = sf_instrument_uid x \<and> pf_quantity_units p \<noteq> 0))
      \<and> (\<forall>x \<in> set expectations. position_units snapshot (dp_instrument_uid x)
           = dp_expected_quantity_units x))"

lemma noted_Nil [simp]: "noted b text = [] \<longleftrightarrow> \<not> b"
  by (simp add: noted_def)

lemma account_available_iff:
  "account_available scope snapshot \<longleftrightarrow>
     (\<exists>a. filter (\<lambda>a. ba_account_id a = sc_broker_account_id scope) (bs_accounts snapshot) = [a]
          \<and> ba_open a \<and> ba_accessible a)"
  by (auto simp: account_available_def split: list.splits)

lemma position_units_nonzero:
  assumes "distinct (map pf_instrument_uid (bs_positions snapshot))"
  shows "position_units snapshot i \<noteq> 0 \<longleftrightarrow>
    (\<exists>p \<in> set (bs_positions snapshot). pf_instrument_uid p = i \<and> pf_quantity_units p \<noteq> 0)"
proof -
  let ?ps = "rev (map (\<lambda>p. (pf_instrument_uid p, pf_quantity_units p)) (bs_positions snapshot))"
  have "distinct (map fst ?ps)" using assms by (simp add: rev_map [symmetric] comp_def)
  then have found: "map_of ?ps i = Some q \<longleftrightarrow> (i, q) \<in> set ?ps" for q
    by (rule map_of_eq_Some_iff)
  have "position_units snapshot i \<noteq> 0 \<longleftrightarrow> (\<exists>q. q \<noteq> 0 \<and> map_of ?ps i = Some q)"
    by (cases "map_of ?ps i") (simp_all add: position_units_def)
  then show ?thesis unfolding found by force
qed

lemma is_linked_order_iff:
  "is_linked_order links i \<longleftrightarrow>
     (\<exists>l \<in> set links. i \<in> set_option (bl_broker_order_id l) \<union> set_option (bl_replacement_broker_order_id l))"
  by (auto simp: is_linked_order_def list_ex_iff elem_set)

lemma is_linked_stop_iff:
  "is_linked_stop links i \<longleftrightarrow> (\<exists>l \<in> set links. bl_broker_stop_order_id l = Some i)"
  by (auto simp: is_linked_stop_def list_ex_iff)

lemma validate_snapshot_Nil:
  "validate_snapshot scope snapshot links expectations = [] \<longleftrightarrow>
     consistent_snapshot scope snapshot links expectations"
proof (cases "distinct (map pf_instrument_uid (bs_positions snapshot))")
  case True
  show ?thesis
    unfolding validate_snapshot_def consistent_snapshot_def Let_def
    by (simp add: has_duplicate_def list_ex_iff account_available_iff is_linked_order_iff
        is_linked_stop_iff position_units_nonzero [OF True]) blast
next
  case False
  then show ?thesis
    by (simp add: validate_snapshot_def consistent_snapshot_def Let_def has_duplicate_def)
qed

section \<open>Reconciliations\<close>

lemma jittered_runs [moves_intros]: "moves (store_runs P) (jittered P base)"
  unfolding jittered_def Let_def by (intro moves_intros)

lemma retry_delay_runs [moves_intros]: "moves (store_runs P) (retry_delay P C e backoff)"
  unfolding retry_delay_def by (intro moves_intros)

lemma safe_read_runs [moves_intros]: "moves (store_runs P) (safe_read P C operation)"
proof -
  have "moves (store_runs P) (safe_read_loop P C n backoff operation)" for n backoff
    by (induction n arbitrary: backoff) (auto intro!: moves_intros)
  then show ?thesis by (simp add: safe_read_def)
qed

lemma read_operations_runs [moves_intros]:
  "moves (store_runs P) (read_operations P C scope from_ms)"
proof -
  have "moves (store_runs P) (operations_loop P C scope from_ms n cursor seen acc)" for n cursor seen acc
    by (induction n arbitrary: cursor seen acc) (auto intro!: moves_intros)
  then show ?thesis by (simp add: read_operations_def)
qed

lemma stored_as_runs [moves_intros]:
  "moves (store_runs P) m \<Longrightarrow> moves (store_runs P) (stored_as m)"
  unfolding stored_as_def by (intro moves_intros)

lemma read_snapshot_runs [moves_intros]:
  "moves (store_runs P) (read_snapshot P C scope from_ms now)"
  unfolding read_snapshot_def by (intro moves_intros)

lemma resolve_mutation_runs [moves_intros]:
  "moves (store_runs P) (resolve_mutation P C scope epoch snapshot links now mu)"
  unfolding resolve_mutation_def Let_def by (intro moves_intros)

lemma load_usable_checkpoint_runs [moves_intros]:
  "runtime_others P \<Longrightarrow> moves (store_runs P) (load_usable_checkpoint P key epoch)"
  unfolding load_usable_checkpoint_def by (intro moves_intros)

lemma persist_fill_dedupe_runs [moves_intros]:
  "runtime_others P \<Longrightarrow> moves (store_runs P) (persist_fill_dedupe P scope epoch snapshot now)"
  unfolding persist_fill_dedupe_def by (intro moves_intros)

lemma commit_report_runs [moves_intros]:
  "runtime_others P \<Longrightarrow> moves (store_runs P) (commit_report P scope epoch snapshot outcomes report now)"
  unfolding commit_report_def Let_def by (intro moves_intros)

lemma settle_snapshot_runs [moves_intros]:
  "runtime_others P \<Longrightarrow>
   moves (store_runs P) (settle_snapshot P C scope epoch rid now snapshot unresolved)"
  unfolding settle_snapshot_def by (intro moves_intros)

lemma reconcile_runs [moves_intros]:
  "runtime_others P \<Longrightarrow> moves (store_runs P) (reconcile P C scope epoch)"
  unfolding reconcile_def by (intro moves_intros)

text \<open>The report of a reconciliation is made from one snapshot, and what it resolves is committed.\<close>

lemma settle_snapshot_elim:
  assumes "settle_snapshot P C scope epoch rid now snapshot unresolved s = (Inr report, t)"
  obtains links s1 expectations s2 outcomes s3 dedup s4
  where "store_read P (all_identity_links (scope_key scope)) s = (Inr links, s1)"
    and "store_read P (expected_positions (scope_key scope)) s1 = (Inr expectations, s2)"
    and "each_do (\<lambda>mu. and_do (resolve_mutation P C scope epoch snapshot links now mu)
           (\<lambda>r. done_with (mu, r))) unresolved s2 = (Inr outcomes, s3)"
    and "persist_fill_dedupe P scope epoch snapshot now s3 = (Inr dedup, s4)"
    and "report = report_of rid epoch snapshot outcomes
           (snapshot_discrepancies scope snapshot links expectations outcomes) dedup now"
    and "commit_report P scope epoch snapshot outcomes report now s4 = (Inr report, t)"
proof -
  from assms [unfolded settle_snapshot_def] show ?thesis
  proof (elim and_do_InrE)
    fix links s1 expectations s2 outcomes s3 dedup s4
    assume *: "stored_as (store_read P (all_identity_links (scope_key scope))) s = (Inr links, s1)"
      "stored_as (store_read P (expected_positions (scope_key scope))) s1 = (Inr expectations, s2)"
      "each_do (\<lambda>mu. and_do (resolve_mutation P C scope epoch snapshot links now mu)
         (\<lambda>r. done_with (mu, r))) unresolved s2 = (Inr outcomes, s3)"
      "persist_fill_dedupe P scope epoch snapshot now s3 = (Inr dedup, s4)"
      and commit: "commit_report P scope epoch snapshot outcomes
         (report_of rid epoch snapshot outcomes
           (snapshot_discrepancies scope snapshot links expectations outcomes) dedup now) now s4
         = (Inr report, t)"
    have same: "report = report_of rid epoch snapshot outcomes
        (snapshot_discrepancies scope snapshot links expectations outcomes) dedup now"
      using commit by (auto simp: commit_report_def Let_def action_simps)
    show ?thesis
      by (rule that [of links s1 expectations s2 outcomes s3 dedup s4])
        (use * commit same in \<open>simp_all add: stored_as_def action_simps\<close>)
  qed
qed

lemma reconcile_elim:
  assumes "reconcile P C scope epoch s = (Inr report, t)"
  obtains now rid s1 checkpoint s2 snapshot s3 unresolved s4
  where "sy_db s1 = sy_db s"
    and "load_usable_checkpoint P (scope_key scope) epoch s1 = (Inr checkpoint, s2)"
    and "read_snapshot P C scope (history_start now checkpoint) now s2 = (Inr snapshot, s3)"
    and "store_read P (unresolved_mutations (po_to_json P) (scope_key scope)) s3 = (Inr unresolved, s4)"
    and "settle_snapshot P C scope epoch rid now snapshot unresolved s4 = (Inr report, t)"
proof -
  from assms [unfolded reconcile_def] show ?thesis
  proof (elim and_do_InrE)
    fix now s0 rid s1 checkpoint s2 snapshot s3 unresolved s4
    assume clock: "on_err (\<lambda>_. Safety ''system clock is outside i64 range'') (now_unix_ms_store P) s = (Inr now, s0)"
      and uuid: "call_out (po_uuid P) s0 = (Inr rid, s1)"
      and *: "load_usable_checkpoint P (scope_key scope) epoch s1 = (Inr checkpoint, s2)"
      "read_snapshot P C scope (history_start now checkpoint) now s2 = (Inr snapshot, s3)"
      "stored_as (store_read P (unresolved_mutations (po_to_json P) (scope_key scope))) s3 = (Inr unresolved, s4)"
      and rest: "(if int (length unresolved) > MAX_UNRESOLVED_MUTATIONS then
          fail_with (Safety ''unresolved mutation set exceeds bounded reconciliation capacity'')
        else settle_snapshot P C scope epoch rid now snapshot unresolved) s4 = (Inr report, t)"
    have "sy_db s1 = sy_db s"
      using clock uuid
      by (auto simp: now_unix_ms_store_def action_simps call_out_def split: prod.splits)
    then show ?thesis
      by (rule that [of s1 checkpoint s2 now snapshot s3 unresolved s4 rid])
        (use * rest in \<open>simp_all add: stored_as_def action_simps fail_with_def split: if_splits\<close>)
  qed
qed

lemma resolved_by_order_Some:
  "resolved_by_order epoch now mu existing source ord = Some (r, links) \<longleftrightarrow>
     (\<exists>d. order_disposition (mr_kind mu) (of_status ord) = Some d
        \<and> r = reconcile_record epoch now d (source @ of_broker_order_id ord) mu
        \<and> links = link_order (mr_kind mu) (of_broker_order_id ord) existing)"
  by (auto simp: resolved_by_order_def split: option.splits)

text \<open>The evidence a mutation may be settled on: an order or a stop of the broker that is identified with
  it and whose status allows the outcome, or an operation or stream event identified with it.\<close>

definition broker_evidence ::
  "order_fact option \<Rightarrow> broker_snapshot \<Rightarrow> broker_identity_links \<Rightarrow> mutation_record
   \<Rightarrow> reconciliation_disposition \<Rightarrow> bool" where
  "broker_evidence direct snapshot existing mu d \<longleftrightarrow>
     (\<exists>ord \<in> set_option direct \<union> set (bs_active_orders snapshot).
        order_evidence_resolves mu existing ord \<and> order_disposition (mr_kind mu) (of_status ord) = Some d)
     \<or> (\<exists>stop \<in> set (bs_stop_orders snapshot).
          bl_broker_stop_order_id existing = Some (sf_broker_stop_order_id stop)
          \<and> stop_disposition (mr_kind mu) (sf_status stop) = Some d)
     \<or> d = OrderAccepted
       \<and> ((\<exists>x \<in> set (bs_operations snapshot). operation_evidence_resolves mu existing x)
          \<or> (\<exists>x \<in> set (bs_stream_evidence snapshot). stream_evidence_resolves mu existing x))"

lemma find_SomeD: "find p xs = Some x \<Longrightarrow> x \<in> set xs \<and> p x"
  by (auto simp: find_Some_iff)

lemma resolve_from_stream_Some:
  "resolve_from_stream epoch now snapshot existing mu = Some (r, links) \<Longrightarrow>
     \<exists>d ref. r = reconcile_record epoch now d ref mu \<and> broker_evidence direct snapshot existing mu d
       \<and> bl_logical_request_id links = bl_logical_request_id existing"
  unfolding resolve_from_stream_def broker_evidence_def
  by (auto dest!: find_SomeD split: option.splits)

lemma resolve_from_operations_Some:
  "resolve_from_operations epoch now snapshot existing mu = Some (r, links) \<Longrightarrow>
     \<exists>d ref. r = reconcile_record epoch now d ref mu \<and> broker_evidence direct snapshot existing mu d
       \<and> bl_logical_request_id links = bl_logical_request_id existing"
  using resolve_from_stream_Some [of epoch now snapshot existing mu r links direct]
  unfolding resolve_from_operations_def broker_evidence_def
  by (auto dest!: find_SomeD split: option.splits)

lemma resolve_from_stops_Some:
  "resolve_from_stops epoch now snapshot existing mu = Some (r, links) \<Longrightarrow>
     \<exists>d ref. r = reconcile_record epoch now d ref mu \<and> broker_evidence direct snapshot existing mu d
       \<and> bl_logical_request_id links = bl_logical_request_id existing"
  using resolve_from_operations_Some [of epoch now snapshot existing mu r links direct]
  unfolding resolve_from_stops_def
  by (auto simp: broker_evidence_def dest!: find_SomeD split: option.splits)

lemma resolved_by_order_evidence:
  assumes "resolved_by_order epoch now mu existing source ord = Some (r, links)"
    and "order_evidence_resolves mu existing ord"
    and "ord \<in> set_option direct \<union> set (bs_active_orders snapshot)"
  shows "\<exists>d ref. r = reconcile_record epoch now d ref mu \<and> broker_evidence direct snapshot existing mu d
    \<and> bl_logical_request_id links = bl_logical_request_id existing"
  using assms
  by (auto simp: resolved_by_order_Some broker_evidence_def link_order_def)

lemma resolve_from_snapshot_Some:
  assumes "resolve_from_snapshot epoch now snapshot existing mu = Some (r, links)"
  shows "\<exists>d ref. r = reconcile_record epoch now d ref mu \<and> broker_evidence direct snapshot existing mu d
    \<and> bl_logical_request_id links = bl_logical_request_id existing"
proof (cases "find (order_evidence_resolves mu existing) (bs_active_orders snapshot)")
  case None
  then show ?thesis
    using assms resolve_from_stops_Some by (auto simp: resolve_from_snapshot_def)
next
  case (Some ord)
  then show ?thesis
    using assms find_SomeD [OF Some] resolve_from_stops_Some
      resolved_by_order_evidence [of epoch now mu existing _ ord r links direct snapshot]
    by (cases "mr_kind mu = mutation_kind.CancelOrder") (auto simp: resolve_from_snapshot_def)
qed

lemma resolve_mutation_evidence:
  assumes "resolve_mutation P C scope epoch snapshot existing_links now mu s = (Inr (Some (r, links)), t)"
  shows "\<exists>direct d ref.
      r = settle Reconciled (Some ref) (Some d) now epoch mu
      \<and> bl_logical_request_id links = mr_logical_request_id mu
      \<and> broker_evidence direct snapshot (links_for existing_links (mr_logical_request_id mu)) mu d
      \<and> (direct \<noteq> None \<longrightarrow> order_kind (mr_kind mu)
          \<and> safe_read P C (po_order_state P scope
              (direct_broker_id (mr_kind mu) (links_for existing_links (mr_logical_request_id mu)))
              (Some (mr_logical_request_id mu))) s = (Inr direct, t))"
proof -
  let ?existing = "links_for existing_links (mr_logical_request_id mu)"
  have id: "bl_logical_request_id ?existing = mr_logical_request_id mu"
    by (auto simp: links_for_def no_links_def dest!: find_SomeD split: option.splits)
  have pure: ?thesis if "resolve_from_snapshot epoch now snapshot ?existing mu = Some (r, links)"
    using resolve_from_snapshot_Some [OF that, of None] id by (auto simp: reconcile_record_def)
  show ?thesis
  proof (cases "order_kind (mr_kind mu)")
    case False
    then show ?thesis
      using assms pure by (simp add: resolve_mutation_def Let_def action_simps)
  next
    case True
    then obtain direct
      where read: "safe_read P C (po_order_state P scope (direct_broker_id (mr_kind mu) ?existing)
          (Some (mr_logical_request_id mu))) s = (Inr direct, t)"
        and result: "resolve_with_direct epoch now snapshot ?existing mu direct = Some (r, links)"
      using assms by (auto simp: resolve_mutation_def Let_def action_simps)
    show ?thesis
    proof (cases "\<exists>ord. direct = Some ord \<and> order_evidence_resolves mu ?existing ord")
      case False
      then have "resolve_from_snapshot epoch now snapshot ?existing mu = Some (r, links)"
        using result by (auto simp: resolve_with_direct_def split: option.splits if_splits)
      then show ?thesis by (rule pure)
    next
      case True
      then obtain ord where ord: "direct = Some ord" "order_evidence_resolves mu ?existing ord" by blast
      then have "resolved_by_order epoch now mu ?existing ''direct GetOrderState broker='' ord
          = Some (r, links)"
        using result by (simp add: resolve_with_direct_def)
      from resolved_by_order_evidence [OF this ord(2), of direct snapshot] ord(1)
      have "\<exists>d ref. r = reconcile_record epoch now d ref mu \<and> broker_evidence direct snapshot ?existing mu d
          \<and> bl_logical_request_id links = mr_logical_request_id mu"
        by (auto simp: id)
      then show ?thesis
        unfolding reconcile_record_def using read \<open>order_kind (mr_kind mu)\<close> by blast
    qed
  qed
qed


lemma each_do_results:
  "each_do f xs s = (Inr ys, t) \<Longrightarrow> list_all2 (\<lambda>x y. \<exists>s t. f x s = (Inr y, t)) xs ys"
proof (induction xs arbitrary: s ys)
  case (Cons x xs)
  then show ?case by (auto simp: action_simps)
qed (simp add: action_simps)

lemma list_all2_set1: "list_all2 R xs ys \<Longrightarrow> x \<in> set xs \<Longrightarrow> \<exists>y \<in> set ys. R x y"
  by (force simp: list_all2_conv_all_nth in_set_conv_nth)

lemma list_all2_set2: "list_all2 R xs ys \<Longrightarrow> y \<in> set ys \<Longrightarrow> \<exists>x \<in> set xs. R x y"
  by (force simp: list_all2_conv_all_nth in_set_conv_nth)

lemma each_do_tagged:
  assumes "each_do (\<lambda>x. and_do (f x) (\<lambda>r. done_with (x, r))) xs s = (Inr ys, t)"
  shows "list_all2 (\<lambda>x y. fst y = x \<and> (\<exists>u v. f x u = (Inr (snd y), v))) xs ys"
  using each_do_results [OF assms]
proof (rule list_all2_mono)
  fix x y
  assume "\<exists>s t. and_do (f x) (\<lambda>r. done_with (x, r)) s = (Inr y, t)"
  then show "fst y = x \<and> (\<exists>u v. f x u = (Inr (snd y), v))"
    by (elim exE and_do_InrE) (auto simp: done_with_eq)
qed

lemma resolved_links_ids:
  assumes "each_do (\<lambda>x. and_do (resolve_mutation P C scope epoch snapshot links now x)
      (\<lambda>r. done_with (x, r))) unresolved s = (Inr outcomes, t)"
  shows "map (bl_logical_request_id \<circ> snd) (resolved_of outcomes)
    = map (mr_logical_request_id \<circ> fst) (resolved_of outcomes)"
proof (rule map_cong [OF refl])
  fix p
  assume "p \<in> set (resolved_of outcomes)"
  then obtain x where "(x, Some p) \<in> set outcomes"
    by (auto simp: resolved_of_def List.map_filter_def)
  from list_all2_set2 [OF each_do_tagged [OF assms] this] obtain u v
    where "resolve_mutation P C scope epoch snapshot links now x u = (Inr (Some (fst p, snd p)), v)"
    by auto
  from resolve_mutation_evidence [OF this]
  show "(bl_logical_request_id \<circ> snd) p = (mr_logical_request_id \<circ> fst) p"
    by (auto simp: settle_def)
qed

lemma commit_report_elim:
  assumes "commit_report P scope epoch snapshot outcomes report now s = (Inr r, t)"
  obtains db where "r = report"
    and "commit_reconciliation
        (full_checkpoint (scope_key scope) (rp_reconciliation_id report) epoch snapshot now)
        (map fst (resolved_of outcomes)) (map snd (resolved_of outcomes))
        (if rp_resulting_state report = Ready then Reconciling else rp_resulting_state report)
        (rp_reason_code report) (sy_db (others_run P s)) = Inr ((), db)"
    and "runtime_others P \<Longrightarrow> store_runs P ((others_run P s)\<lparr>sy_db := db\<rparr>) t"
proof -
  from assms [unfolded commit_report_def Let_def stored_as_def] obtain s1 s2
    where commit: "store_write P (commit_reconciliation
        (full_checkpoint (scope_key scope) (rp_reconciliation_id report) epoch snapshot now)
        (map fst (resolved_of outcomes)) (map snd (resolved_of outcomes))
        (if rp_resulting_state report = Ready then Reconciling else rp_resulting_state report)
        (rp_reason_code report)) s = (Inr (), s1)"
      and compact: "store_write P (compact (scope_key scope) (sat_i64 (now - RETENTION_MS))
        MAX_DEDUPE_EVENTS MAX_AUDIT_EVENTS) s1 = (Inr (), s2)"
      and "r = report" "t = s2"
    by (elim and_do_InrE) (simp add: action_simps)
  moreover have "store_runs P s1 s2" if "runtime_others P"
    by (rule movesD [OF runtime_writes_run(9) [OF that] compact])
  ultimately show ?thesis using that by (auto simp: store_write_Inr)
qed

text \<open>What a reconciliation resolves is settled in the store when it returns.\<close>

lemma commit_report_settles:
  assumes "runtime_others P" and "distinct (journal_ids (sy_db s))"
    and "commit_report P scope epoch snapshot outcomes report now s = (Inr r, t)"
    and "(rec, links) \<in> set (resolved_of outcomes)"
  shows "\<exists>row. record_of (sy_db t) (mr_logical_request_id rec) = Some row
    \<and> mr_state row = Reconciled \<and> mr_scope_key row = scope_key scope"
proof -
  let ?o = "others_run P s"
  let ?c = "full_checkpoint (scope_key scope) (rp_reconciliation_id report) epoch snapshot now"
  obtain db where commit: "commit_reconciliation ?c
        (map fst (resolved_of outcomes)) (map snd (resolved_of outcomes))
        (if rp_resulting_state report = Ready then Reconciling else rp_resulting_state report)
        (rp_reason_code report) (sy_db ?o) = Inr ((), db)"
    and later: "store_runs P (?o\<lparr>sy_db := db\<rparr>) t"
    using commit_report_elim [OF assms(3)] assms(1) by metis
  have ids: "distinct (journal_ids (sy_db ?o))"
    by (rule store_runs_ids [OF others_runs [OF assms(1)] assms(2)])
  from commit obtain db1 where resolved: "try_fold (commit_resolved ?c) (map fst (resolved_of outcomes)) (sy_db ?o) = Inr db1"
    and journal: "rt_journal db = rt_journal db1"
    by (rule commit_reconciliation_elim)
      (auto dest!: insert_audit_frame try_fold_upsert_links_frame)
  have "rec \<in> set (map fst (resolved_of outcomes))" using assms(4) by force
  with try_fold_commit_exact [OF resolved ids] obtain row
    where row: "mr_scope_key row = cp_scope_key ?c"
      and "record_of db1 (mr_logical_request_id rec) = Some (resolved_row ?c rec row)"
    by blast
  then have now: "record_of db (mr_logical_request_id rec) = Some (resolved_row ?c rec row)"
    by (simp add: record_of_def journal)
  have "record_step\<^sup>*\<^sup>* (record_of db (mr_logical_request_id rec)) (record_of (sy_db t) (mr_logical_request_id rec))"
    using store_runs_record [OF later] by simp
  from lifecycle_terminal [OF this now] have "record_of (sy_db t) (mr_logical_request_id rec)
      = Some (resolved_row ?c rec row)"
    using now by (simp add: journal_terminal_def resolved_row_def)
  then show ?thesis using row by (simp add: resolved_row_def full_checkpoint_def)
qed

lemma settle_snapshot_sound:
  assumes "runtime_others P" and "distinct (journal_ids (sy_db s0))" and "store_runs P s0 s"
    and "settle_snapshot P C scope epoch rid now snapshot unresolved s = (Inr report, t)"
  shows "(\<forall>i \<in> set (rp_resolved_logical_request_ids report).
       \<exists>r. record_of (sy_db t) i = Some r \<and> mr_state r = Reconciled \<and> mr_scope_key r = scope_key scope)
    \<and> (rp_resulting_state report = Ready \<longrightarrow> rp_unresolved_logical_request_ids report = []
         \<and> (\<exists>s1 s2 stored found expectations. store_runs P s0 s1 \<and> store_runs P s1 s2 \<and> store_runs P s2 t
              \<and> all_identity_links (scope_key scope) (sy_db s1) = Inr stored
              \<and> map bl_logical_request_id found = rp_resolved_logical_request_ids report
              \<and> expected_positions (scope_key scope) (sy_db s2) = Inr expectations
              \<and> consistent_snapshot scope snapshot (fold replace_links found stored) expectations))
    \<and> rp_resulting_state report \<in> {Ready, Halted}
    \<and> rp_positions report = bs_positions snapshot \<and> rp_active_orders report = bs_active_orders snapshot
    \<and> rp_active_stops report = bs_stop_orders snapshot \<and> rp_portfolio report = bs_portfolio snapshot"
  using assms(4)
proof (rule settle_snapshot_elim)
  fix links s1 expectations s2 outcomes s3 dedup s4
  assume reads: "store_read P (all_identity_links (scope_key scope)) s = (Inr links, s1)"
      "store_read P (expected_positions (scope_key scope)) s1 = (Inr expectations, s2)"
    and outcomes: "each_do (\<lambda>mu. and_do (resolve_mutation P C scope epoch snapshot links now mu)
           (\<lambda>r. done_with (mu, r))) unresolved s2 = (Inr outcomes, s3)"
    and dedup: "persist_fill_dedupe P scope epoch snapshot now s3 = (Inr dedup, s4)"
    and report: "report = report_of rid epoch snapshot outcomes
           (snapshot_discrepancies scope snapshot links expectations outcomes) dedup now"
    and commit: "commit_report P scope epoch snapshot outcomes report now s4 = (Inr report, t)"
  have "moves (store_runs P) (each_do (\<lambda>mu. and_do
      (resolve_mutation P C scope epoch snapshot links now mu) (\<lambda>r. done_with (mu, r))) unresolved)"
    by (intro moves_intros)
  note resolving = movesD [OF this outcomes]
  have s1: "all_identity_links (scope_key scope) (sy_db s1) = Inr links" "store_runs P s0 s1"
    using reads(1) store_runs_trans [OF assms(3) movesD [OF store_read_runs [OF assms(1)] reads(1)]]
    by (auto simp: store_read_eq)
  have s2: "expected_positions (scope_key scope) (sy_db s2) = Inr expectations" "store_runs P s1 s2"
    using reads(2) movesD [OF store_read_runs [OF assms(1)] reads(2)] by (auto simp: store_read_eq)
  have s4: "store_runs P s2 s4"
    using resolving movesD [OF persist_fill_dedupe_runs [OF assms(1)] dedup] by (rule store_runs_trans)
  have "store_runs P s2 t"
    using s4 movesD [OF commit_report_runs [OF assms(1)] commit] by (rule store_runs_trans)
  note stored = s1 s2 this
  have "store_runs P s0 s4" using s1(2) s2(2) s4 by (meson store_runs_trans)
  then have ids: "distinct (journal_ids (sy_db s4))" using assms(2) by (rule store_runs_ids)
  have "\<exists>r. record_of (sy_db t) i = Some r \<and> mr_state r = Reconciled \<and> mr_scope_key r = scope_key scope"
    if "i \<in> set (rp_resolved_logical_request_ids report)" for i
    using that commit_report_settles [OF assms(1) ids commit] by (auto simp: report report_of_def)
  moreover have "rp_unresolved_logical_request_ids report = []
      \<and> consistent_snapshot scope snapshot (fold replace_links (map snd (resolved_of outcomes)) links) expectations"
    if "rp_resulting_state report = Ready"
    using that validate_snapshot_Nil
    by (auto simp: report report_of_def snapshot_discrepancies_def split: if_splits)
  moreover have "map bl_logical_request_id (map snd (resolved_of outcomes))
      = rp_resolved_logical_request_ids report"
    using resolved_links_ids [OF outcomes] by (simp add: report report_of_def)
  moreover have "rp_resulting_state report \<in> {Ready, Halted}
      \<and> rp_positions report = bs_positions snapshot \<and> rp_active_orders report = bs_active_orders snapshot
      \<and> rp_active_stops report = bs_stop_orders snapshot \<and> rp_portfolio report = bs_portfolio snapshot"
    by (simp add: report report_of_def)
  ultimately show ?thesis using stored by blast
qed


section \<open>Mutations that cannot be resolved\<close>

text \<open>No other task writes.\<close>

definition quiet :: "'w ports \<Rightarrow> bool" where
  "quiet P \<longleftrightarrow> (\<forall>w. fst (po_others P w) = [])"

definition same_journal :: "'w sys \<Rightarrow> 'w sys \<Rightarrow> bool" where
  "same_journal s t \<longleftrightarrow>
     rt_journal (sy_db t) = rt_journal (sy_db s) \<and> rt_links (sy_db t) = rt_links (sy_db s)"

interpretation same: run_relation same_journal
  by unfold_locales (auto simp: same_journal_def)

lemma quiet_others: "quiet P \<Longrightarrow> sy_db (others_run P s) = sy_db s"
  by (cases "po_others P (sy_world s)") (auto simp: quiet_def others_run_def dest: spec [of _ "sy_world s"])

lemma call_same [moves_intros]:
  "moves same_journal (call_out f)" "moves same_journal (call_port g)"
  by (auto simp: moves_def call_out_def call_port_def same_journal_def split: prod.splits)

lemma store_read_same [moves_intros]: "quiet P \<Longrightarrow> moves same_journal (store_read P operation)"
  by (simp add: moves_def store_read_def Let_def same_journal_def quiet_others)

lemma store_write_same:
  assumes "quiet P" and "\<And>db x db'. operation db = Inr (x, db') \<Longrightarrow>
    rt_journal db' = rt_journal db \<and> rt_links db' = rt_links db"
  shows "moves same_journal (store_write P operation)"
  by (rule movesI, case_tac r)
    (auto simp: store_write_Inl store_write_Inr same_journal_def quiet_others [OF assms(1)] dest: assms(2))

lemma writes_same [moves_intros]:
  assumes "quiet P"
  shows "moves same_journal (store_write P (discard_checkpoint key epoch))"
    and "moves same_journal (store_write P (record_broker_event key event seen))"
    and "moves same_journal (store_write P (compact key after events audit))"
  by (rule store_write_same [OF assms],
      auto simp: discard_checkpoint_def record_broker_event_def compact_def result_simps Let_def
        split: if_splits)+

lemma stored_as_same [moves_intros]: "moves same_journal m \<Longrightarrow> moves same_journal (stored_as m)"
  unfolding stored_as_def by (intro moves_intros)

lemma safe_read_same [moves_intros]: "moves same_journal (safe_read P C operation)"
proof -
  have "moves same_journal (safe_read_loop P C n backoff operation)" for n backoff
    by (induction n arbitrary: backoff)
      (auto simp: retry_delay_def jittered_def Let_def intro!: moves_intros)
  then show ?thesis by (simp add: safe_read_def)
qed

lemma read_operations_same [moves_intros]: "moves same_journal (read_operations P C scope from_ms)"
proof -
  have "moves same_journal (operations_loop P C scope from_ms n cursor seen acc)" for n cursor seen acc
    by (induction n arbitrary: cursor seen acc) (auto intro!: moves_intros)
  then show ?thesis by (simp add: read_operations_def)
qed

lemma read_snapshot_same [moves_intros]: "moves same_journal (read_snapshot P C scope from_ms now)"
  unfolding read_snapshot_def by (intro moves_intros)

lemma resolve_mutation_same [moves_intros]:
  "moves same_journal (resolve_mutation P C scope epoch snapshot links now mu)"
  unfolding resolve_mutation_def Let_def by (intro moves_intros)

lemma load_usable_checkpoint_same [moves_intros]:
  "quiet P \<Longrightarrow> moves same_journal (load_usable_checkpoint P key epoch)"
  unfolding load_usable_checkpoint_def by (intro moves_intros)

lemma persist_fill_dedupe_same [moves_intros]:
  "quiet P \<Longrightarrow> moves same_journal (persist_fill_dedupe P scope epoch snapshot now)"
  unfolding persist_fill_dedupe_def by (intro moves_intros)

lemma unresolved_mutations_Inr:
  assumes "unresolved_mutations js key db = Inr xs"
  shows "set xs = {r \<in> set (rt_journal db). mr_scope_key r = key \<and> safety_unresolved (mr_state r)}"
proof -
  have "y = x" if "read_mutation js x = Inr y" for x y
    using that by (auto simp: read_mutation_def result_simps dest: record_validated_Inr)
  from try_map_filter_id [OF this assms [unfolded unresolved_mutations_def]] show ?thesis
    by (auto simp: safety_unresolved_def)
qed

text \<open>Cancellations and stop orders are found by the identities the broker gave, never by ours.\<close>

definition found_by_links :: "mutation_kind \<Rightarrow> bool" where
  "found_by_links k \<longleftrightarrow> k \<in> {mutation_kind.CancelOrder, mutation_kind.CancelStopOrder,
     mutation_kind.PostStopOrder, mutation_kind.ProtectionLeg}"

lemma unlinked_unresolved:
  assumes "found_by_links (mr_kind mu)" and "bs_stream_evidence snapshot = []"
    and "\<forall>l \<in> set links. bl_logical_request_id l \<noteq> mr_logical_request_id mu"
    and "resolve_mutation P C scope epoch snapshot links now mu s = (Inr r, t)"
  shows "r = None"
proof -
  let ?none = "no_links (mr_logical_request_id mu)"
  have existing: "links_for links (mr_logical_request_id mu) = ?none"
    using assms(3) by (auto simp: links_for_def split: option.splits dest!: find_SomeD)
  have order: "\<not> order_evidence_resolves mu ?none ord" for ord
    using assms(1) by (cases "mr_kind mu")
      (auto simp: order_evidence_resolves_def no_links_def found_by_links_def)
  have "find (order_evidence_resolves mu ?none) (bs_active_orders snapshot) = None"
    by (simp add: find_None_iff order)
  moreover have "find (operation_evidence_resolves mu ?none) (bs_operations snapshot) = None"
    using assms(1) by (auto simp: find_None_iff operation_evidence_resolves_def found_by_links_def)
  moreover have "find (\<lambda>stop. bl_broker_stop_order_id ?none = Some (sf_broker_stop_order_id stop))
      (bs_stop_orders snapshot) = None"
    by (simp add: find_None_iff no_links_def)
  moreover have "find (stream_evidence_resolves mu ?none) (bs_stream_evidence snapshot) = None"
    by (simp add: assms(2))
  ultimately have "resolve_from_snapshot epoch now snapshot ?none mu = None"
    unfolding resolve_from_snapshot_def resolve_from_stops_def resolve_from_operations_def
      resolve_from_stream_def by simp
  moreover from this have "resolve_with_direct epoch now snapshot ?none mu direct = None" for direct
    by (simp add: resolve_with_direct_def order split: option.splits)
  ultimately show ?thesis
    using assms(4) existing
    by (cases "order_kind (mr_kind mu)") (auto simp: resolve_mutation_def Let_def action_simps)
qed

lemma read_snapshot_no_stream:
  "read_snapshot P C scope from_ms now s = (Inr snapshot, t) \<Longrightarrow> bs_stream_evidence snapshot = []"
  unfolding read_snapshot_def by (elim and_do_InrE) (auto simp: action_simps)

lemma all_identity_links_ids:
  "all_identity_links key db = Inr links \<Longrightarrow> l \<in> set links \<Longrightarrow>
     bl_logical_request_id l \<in> lk_logical_request_id ` set (rt_links db)"
  by (auto simp: all_identity_links_def)

lemma commit_report_compacted:
  assumes "quiet P" and "commit_report P scope epoch snapshot outcomes report now s = (Inr r, t)"
  obtains db where "commit_reconciliation
        (full_checkpoint (scope_key scope) (rp_reconciliation_id report) epoch snapshot now)
        (map fst (resolved_of outcomes)) (map snd (resolved_of outcomes))
        (if rp_resulting_state report = Ready then Reconciling else rp_resulting_state report)
        (rp_reason_code report) (sy_db s) = Inr ((), db)"
    and "rt_journal (sy_db t) = rt_journal db"
proof -
  from assms(2) [unfolded commit_report_def Let_def stored_as_def] obtain s1
    where commit: "store_write P (commit_reconciliation
        (full_checkpoint (scope_key scope) (rp_reconciliation_id report) epoch snapshot now)
        (map fst (resolved_of outcomes)) (map snd (resolved_of outcomes))
        (if rp_resulting_state report = Ready then Reconciling else rp_resulting_state report)
        (rp_reason_code report)) s = (Inr (), s1)"
      and compact: "store_write P (compact (scope_key scope) (sat_i64 (now - RETENTION_MS))
        MAX_DEDUPE_EVENTS MAX_AUDIT_EVENTS) s1 = (Inr (), t)"
    by (elim and_do_InrE) (simp add: action_simps)
  have "rt_journal (sy_db t) = rt_journal (sy_db s1)"
    using movesD [OF writes_same(3) [OF assms(1)] compact] by (simp add: same_journal_def)
  with commit show ?thesis using that by (auto simp: store_write_Inr quiet_others [OF assms(1)])
qed

lemma commit_report_keeps:
  assumes "quiet P" and "distinct (journal_ids (sy_db s))"
    and "commit_report P scope epoch snapshot outcomes report now s = (Inr r, t)"
    and "i \<notin> mr_logical_request_id ` fst ` set (resolved_of outcomes)"
  shows "record_of (sy_db t) i = record_of (sy_db s) i"
proof -
  let ?c = "full_checkpoint (scope_key scope) (rp_reconciliation_id report) epoch snapshot now"
  obtain db where commit: "commit_reconciliation ?c
        (map fst (resolved_of outcomes)) (map snd (resolved_of outcomes))
        (if rp_resulting_state report = Ready then Reconciling else rp_resulting_state report)
        (rp_reason_code report) (sy_db s) = Inr ((), db)"
    and later: "rt_journal (sy_db t) = rt_journal db"
    by (rule commit_report_compacted [OF assms(1,3)])
  from commit obtain db1
    where resolved: "try_fold (commit_resolved ?c) (map fst (resolved_of outcomes)) (sy_db s) = Inr db1"
      and "rt_journal db = rt_journal db1"
    by (rule commit_reconciliation_elim)
      (auto dest!: insert_audit_frame try_fold_upsert_links_frame)
  with later have "record_of (sy_db t) i = record_of db1 i" by (simp add: record_of_def)
  also have "\<dots> = record_of (sy_db s) i"
    using try_fold_commit_exact [OF resolved assms(2)] assms(4) by (simp add: image_image)
  finally show ?thesis .
qed

lemma unresolved_outcome:
  assumes "each_do (\<lambda>x. and_do (resolve_mutation P C scope epoch snapshot links now x)
      (\<lambda>r. done_with (x, r))) unresolved s = (Inr outcomes, t)"
    and "distinct (map mr_logical_request_id rows)" and "set unresolved \<subseteq> set rows" and "mu \<in> set unresolved"
    and "\<And>u v r. resolve_mutation P C scope epoch snapshot links now mu u = (Inr r, v) \<Longrightarrow> r = None"
  shows "mr_logical_request_id mu \<in> set (unresolved_of outcomes)
    \<and> mr_logical_request_id mu \<notin> mr_logical_request_id ` fst ` set (resolved_of outcomes)"
proof
  note pairs = each_do_tagged [OF assms(1)]
  have each: "fst y \<in> set unresolved \<and> (\<exists>u v. resolve_mutation P C scope epoch snapshot links now (fst y) u
      = (Inr (snd y), v))" if "y \<in> set outcomes" for y
    using list_all2_set2 [OF pairs that] by auto
  have none: "snd y = None" if "y \<in> set outcomes" "fst y = mu" for y
    using each [OF that(1)] that(2) assms(5) by blast
  have "\<exists>y \<in> set outcomes. fst y = mu" using list_all2_set1 [OF pairs assms(4)] by auto
  with none have "(mu, None) \<in> set outcomes" by (metis prod.collapse)
  then show "mr_logical_request_id mu \<in> set (unresolved_of outcomes)"
    by (force simp: unresolved_of_def)
  show "mr_logical_request_id mu \<notin> mr_logical_request_id ` fst ` set (resolved_of outcomes)"
  proof
    assume "mr_logical_request_id mu \<in> mr_logical_request_id ` fst ` set (resolved_of outcomes)"
    then obtain x r l where x: "(x, Some (r, l)) \<in> set outcomes"
        "mr_logical_request_id r = mr_logical_request_id mu"
      by (force simp: resolved_of_def List.map_filter_def)
    then obtain u v where xs: "x \<in> set unresolved"
      and run: "resolve_mutation P C scope epoch snapshot links now x u = (Inr (Some (r, l)), v)"
      using each [OF x(1)] by auto
    from resolve_mutation_evidence [OF run] obtain ref d where "r = settle Reconciled ref d now epoch x"
      by blast
    then have "mr_logical_request_id x = mr_logical_request_id mu" using x(2) by (simp add: settle_def)
    then have "x = mu" using row_unique [OF assms(2)] xs assms(3,4) by blast
    with none [OF x(1)] show False by simp
  qed
qed

text \<open>C17. A cancellation or a stop order whose dispatch outcome is unknown and for which no broker identity
  was stored is never resolved: whatever the broker answers, every reconciliation reports the runtime
  halted, lists the mutation as unresolved and leaves its record.\<close>

theorem unlinked_cleanup_never_reconciles:
  assumes "quiet P" and "distinct (journal_ids (sy_db s))"
    and "record_of (sy_db s) request = Some mu" and "mr_scope_key mu = scope_key scope"
    and "safety_unresolved (mr_state mu)" and "found_by_links (mr_kind mu)"
    and "row_with lk_logical_request_id request (rt_links (sy_db s)) = None"
    and "reconcile P C scope epoch s = (Inr report, t)"
  shows "rp_resulting_state report = Halted \<and> rp_reason_code report = UnknownMutation
    \<and> request \<in> set (rp_unresolved_logical_request_ids report)
    \<and> record_of (sy_db t) request = Some mu"
  using assms(8)
proof (rule reconcile_elim)
  fix now rid s1 checkpoint s2 snapshot s3 unresolved s4
  assume db: "sy_db s1 = sy_db s"
    and steps: "load_usable_checkpoint P (scope_key scope) epoch s1 = (Inr checkpoint, s2)"
      "read_snapshot P C scope (history_start now checkpoint) now s2 = (Inr snapshot, s3)"
      "store_read P (unresolved_mutations (po_to_json P) (scope_key scope)) s3 = (Inr unresolved, s4)"
    and settle: "settle_snapshot P C scope epoch rid now snapshot unresolved s4 = (Inr report, t)"
  have id: "mr_logical_request_id mu = request" by (rule record_of_id [OF assms(3)])
  have mem: "mu \<in> set (rt_journal (sy_db s))"
    using assms(3) by (auto simp: record_of_def dest: row_with_SomeD)
  have "same_journal s1 s3"
    using movesD [OF load_usable_checkpoint_same [OF assms(1)] steps(1)]
      movesD [OF read_snapshot_same steps(2)] by (rule same.chains)
  then have s3: "rt_journal (sy_db s3) = rt_journal (sy_db s)" "rt_links (sy_db s3) = rt_links (sy_db s)"
    using db by (simp_all add: same_journal_def)
  have unres: "unresolved_mutations (po_to_json P) (scope_key scope) (sy_db s3) = Inr unresolved"
    and s4: "sy_db s4 = sy_db s3"
    using steps(3) by (simp_all add: store_read_eq quiet_others [OF assms(1)])
  have unresolved: "mu \<in> set unresolved" "set unresolved \<subseteq> set (rt_journal (sy_db s))"
    using unresolved_mutations_Inr [OF unres] mem assms(4,5) s3(1) by auto
  show ?thesis
    using settle
  proof (rule settle_snapshot_elim)
    fix links s5 expectations s6 outcomes s7 dedup s8
    assume reads: "store_read P (all_identity_links (scope_key scope)) s4 = (Inr links, s5)"
        "store_read P (expected_positions (scope_key scope)) s5 = (Inr expectations, s6)"
      and outcomes: "each_do (\<lambda>mu. and_do (resolve_mutation P C scope epoch snapshot links now mu)
           (\<lambda>r. done_with (mu, r))) unresolved s6 = (Inr outcomes, s7)"
      and dedup: "persist_fill_dedupe P scope epoch snapshot now s7 = (Inr dedup, s8)"
      and report: "report = report_of rid epoch snapshot outcomes
           (snapshot_discrepancies scope snapshot links expectations outcomes) dedup now"
      and commit: "commit_report P scope epoch snapshot outcomes report now s8 = (Inr report, t)"
    have "all_identity_links (scope_key scope) (sy_db s4) = Inr links"
      using reads(1) by (simp add: store_read_eq quiet_others [OF assms(1)])
    from all_identity_links_ids [OF this]
    have unlinked: "\<forall>l \<in> set links. bl_logical_request_id l \<noteq> mr_logical_request_id mu"
      using assms(7) id s3(2) s4 by (force simp: row_with_None)
    have same: "rt_journal (sy_db s8) = rt_journal (sy_db s)"
    proof -
      have "moves same_journal (each_do (\<lambda>mu. and_do
          (resolve_mutation P C scope epoch snapshot links now mu) (\<lambda>r. done_with (mu, r))) unresolved)"
        by (intro moves_intros)
      from movesD [OF this outcomes] have "same_journal s4 s8"
        using movesD [OF store_read_same [OF assms(1)] reads(1)]
          movesD [OF store_read_same [OF assms(1)] reads(2)]
          movesD [OF persist_fill_dedupe_same [OF assms(1)] dedup]
        by (meson same.chains)
      then show ?thesis by (simp add: same_journal_def s3 s4)
    qed
    have never: "r = None" if "resolve_mutation P C scope epoch snapshot links now mu u = (Inr r, v)" for u v r
      by (rule unlinked_unresolved [OF assms(6) read_snapshot_no_stream [OF steps(2)] unlinked that])
    note listed = unresolved_outcome [OF outcomes assms(2) unresolved(2,1) never, unfolded id]
    then have "unresolved_of outcomes \<noteq> []" by auto
    then have "rp_resulting_state report = Halted \<and> rp_reason_code report = UnknownMutation"
      by (simp add: report report_of_def snapshot_discrepancies_def noted_def discrepancy_reason_def)
    moreover have "request \<in> set (rp_unresolved_logical_request_ids report)"
      using listed by (simp add: report report_of_def)
    moreover have "record_of (sy_db t) request = record_of (sy_db s) request"
      using commit_report_keeps [OF assms(1) _ commit, of request] assms(2) same listed
      by (simp add: record_of_def)
    ultimately show ?thesis using assms(3) by simp
  qed
qed

section \<open>Attempts of a read\<close>

text \<open>The calls a read makes: each one after the first follows a retryable error and a sleep no longer
  than the maximum, before which the random source may have been asked for the jitter.\<close>

inductive read_attempts ::
  "'w ports \<Rightarrow> reconciliation_config \<Rightarrow> ('w, 'a) broker_call \<Rightarrow> nat \<Rightarrow> 'w \<Rightarrow> broker_port_error + 'a \<Rightarrow> 'w \<Rightarrow> bool"
  for P :: "'w ports" and C :: reconciliation_config and operation :: "('w, 'a) broker_call" where
  answered: "operation w = (answer, w') \<Longrightarrow> read_attempts P C operation 1 w answer w'"
| again: "operation w = (Inl e, w1) \<Longrightarrow> safe_read_retryable e \<Longrightarrow> w2 \<in> {w1, snd (po_uuid_byte P w1)}
    \<Longrightarrow> delay \<le> rc_maximum_backoff C
    \<Longrightarrow> read_attempts P C operation n (po_sleep_nanos P delay w2) answer w'
    \<Longrightarrow> read_attempts P C operation (Suc n) w answer w'"

lemma retry_delay_bounded:
  assumes "retry_delay P C e backoff s = (r, t)"
  shows "\<exists>delay w. r = Inr delay \<and> delay \<le> rc_maximum_backoff C \<and> t = s\<lparr>sy_world := w\<rparr>
    \<and> w \<in> {sy_world s, snd (po_uuid_byte P (sy_world s))}"
proof -
  have "\<exists>delay w. jittered P backoff s = (Inr delay, s\<lparr>sy_world := w\<rparr>)
      \<and> w \<in> {sy_world s, snd (po_uuid_byte P (sy_world s))}"
  proof (cases "backoff div 4 = 0")
    case True
    then show ?thesis
      by (intro exI [of _ backoff] exI [of _ "sy_world s"]) (simp add: jittered_def done_with_def)
  next
    case False
    then show ?thesis
      by (auto simp: jittered_def Let_def and_do_def call_out_def done_with_def split: prod.splits)
  qed
  then obtain delay w where "jittered P backoff s = (Inr delay, s\<lparr>sy_world := w\<rparr>)"
    and "w \<in> {sy_world s, snd (po_uuid_byte P (sy_world s))}" by blast
  note jitter = this
  show ?thesis
  proof (cases "bp_retry_after e")
    case None
    with assms jitter show ?thesis by (auto simp: retry_delay_def and_do_def done_with_def)
  next
    case (Some d)
    with assms have "r = Inr (min d (rc_maximum_backoff C))" "t = s\<lparr>sy_world := sy_world s\<rparr>"
      by (simp_all add: retry_delay_def and_do_def done_with_def)
    then show ?thesis by (intro exI conjI) auto
  qed
qed

lemma safe_read_loop_attempts:
  assumes "safe_read_loop P C (Suc left) backoff operation s = (r, t)"
  shows "\<exists>n answer w. n \<le> Suc left \<and> read_attempts P C operation n (sy_world s) answer w
    \<and> t = s\<lparr>sy_world := w\<rparr> \<and> r = map_err Broker answer
    \<and> (\<forall>e. answer = Inl e \<longrightarrow> n = Suc left \<or> \<not> safe_read_retryable e)"
  using assms
proof (induction left arbitrary: backoff s)
  case (0 backoff s)
  obtain answer w where call: "operation (sy_world s) = (answer, w)" by fastforce
  with 0 have "t = s\<lparr>sy_world := w\<rparr> \<and> r = map_err Broker answer"
    by (cases answer) (auto simp: and_do_def attempt_def call_port_def fail_with_def done_with_def map_err_def)
  with read_attempts.answered [of operation, OF call, of P C] show ?case by fastforce
next
  case (Suc left backoff s)
  obtain answer w where call: "operation (sy_world s) = (answer, w)" by fastforce
  note one = read_attempts.answered [of operation, OF call, of P C]
  show ?case
  proof (cases "\<exists>e. answer = Inl e \<and> safe_read_retryable e")
    case False
    then have "t = s\<lparr>sy_world := w\<rparr> \<and> r = map_err Broker answer"
      using Suc.prems call
      by (cases answer) (auto simp: and_do_def attempt_def call_port_def fail_with_def done_with_def map_err_def)
    with one False show ?thesis by fastforce
  next
    case True
    then obtain e where e: "answer = Inl e" "safe_read_retryable e" by blast
    let ?s1 = "s\<lparr>sy_world := w\<rparr>"
    obtain d s2 where "retry_delay P C e backoff ?s1 = (d, s2)" by fastforce
    from retry_delay_bounded [OF this] obtain delay w2
      where delay: "retry_delay P C e backoff ?s1 = (Inr delay, ?s1\<lparr>sy_world := w2\<rparr>)"
        "delay \<le> rc_maximum_backoff C" "w2 \<in> {w, snd (po_uuid_byte P w)}"
      using \<open>retry_delay P C e backoff ?s1 = (d, s2)\<close> by auto
    have "safe_read_loop P C (Suc left) (next_backoff C backoff) operation
        (s\<lparr>sy_world := po_sleep_nanos P delay w2\<rparr>) = (r, t)"
      using Suc.prems call e delay(1)
      by (simp add: and_do_def attempt_def call_port_def call_out_def del: safe_read_loop.simps(2))
        (simp add: and_do_def attempt_def call_port_def call_out_def)
    from Suc.IH [OF this] obtain n answer' w' where rest: "n \<le> Suc left"
        "read_attempts P C operation n (po_sleep_nanos P delay w2) answer' w'"
        "t = s\<lparr>sy_world := w'\<rparr>" "r = map_err Broker answer'"
        "\<forall>e. answer' = Inl e \<longrightarrow> n = Suc left \<or> \<not> safe_read_retryable e"
      by auto
    have "read_attempts P C operation (Suc n) (sy_world s) answer' w'"
      by (rule read_attempts.again [OF call [unfolded e(1)] e(2) delay(3,2) rest(2)])
    with rest show ?thesis by (intro exI [of _ "Suc n"] exI [of _ answer'] exI [of _ w']) auto
  qed
qed

text \<open>C16. A read of the broker is bounded and its failure is the broker's: it makes at most the configured
  number of calls, never sleeps longer than the maximum between two of them, touches nothing but the
  world, returns the last answer, and gives up early only on an error that may not be retried.\<close>

theorem safe_read_bounded:
  assumes "safe_read P C operation s = (r, t)"
  shows "\<exists>n answer w. int n \<le> max (rc_max_safe_read_attempts C) 1
    \<and> read_attempts P C operation n (sy_world s) answer w
    \<and> t = s\<lparr>sy_world := w\<rparr> \<and> r = map_err Broker answer
    \<and> (\<forall>e. answer = Inl e \<longrightarrow> int n = max (rc_max_safe_read_attempts C) 1 \<or> \<not> safe_read_retryable e)"
proof -
  obtain left where left: "nat (max (rc_max_safe_read_attempts C) 1) = Suc left"
    by (metis One_nat_def Suc_le_D max.cobounded2 nat_mono nat_one_as_int)
  then have "int (Suc left) = max (rc_max_safe_read_attempts C) 1" by linarith
  with safe_read_loop_attempts [OF assms [unfolded safe_read_def left]] show ?thesis
    by (metis of_nat_le_iff)
qed

section \<open>Runs\<close>

text \<open>A broker with one open account and nothing in it, whose order query knows one cancelled order, and
  no other task.\<close>

definition sample_order :: order_fact where
  "sample_order = \<lparr>of_account_id = ''a1'', of_broker_order_id = ''b1'', of_logical_request_id = Some ''r1'',
     of_instrument_uid = ''i1'', of_side = None, of_lots_requested = 1, of_lots_executed = 0,
     of_status = Cancelled, of_status_cause = None\<rparr>"

definition sample_outage :: broker_port_error where
  "sample_outage = \<lparr>bp_service = ''s'', bp_method = ''m'', bp_class = Transient, bp_message = ''down'',
     bp_retry_after = None\<rparr>"

definition sample_ports :: "'w ports" where
  "sample_ports = \<lparr>po_to_json = sample_json, po_others = (\<lambda>w. ([], w)),
     po_clock_nanos = (\<lambda>w. (9000000, w)), po_uuid = (\<lambda>w. (''u1'', w)), po_uuid_byte = (\<lambda>w. (0, w)),
     po_sleep_nanos = (\<lambda>_ w. w),
     po_accounts = (\<lambda>_ w. (Inr [\<lparr>ba_account_id = ''a1'', ba_open = True, ba_accessible = True\<rparr>], w)),
     po_portfolio = (\<lambda>_ w. (Inr \<lparr>pt_account_id = ''a1'', pt_total_portfolio_valuation = None,
       pt_total_currency_valuation = None, pt_broker_daily_yield = None, pt_cash_balances = [],
       pt_broker_observed_at_unix_ms = None\<rparr>, w)),
     po_positions = (\<lambda>_ w. (Inr \<lparr>ps_instruments = [], ps_cash_balances = []\<rparr>, w)),
     po_active_orders = (\<lambda>_ w. (Inr [], w)), po_stop_orders = (\<lambda>_ _ w. (Inr [], w)),
     po_order_state = (\<lambda>_ broker_id _ w.
       (Inr (if broker_id = Some ''b1'' then Some sample_order else None), w)),
     po_operations_page = (\<lambda>_ _ _ _ w. (Inr \<lparr>pa_items = [], pa_next_cursor = None\<rparr>, w)),
     po_dispatch_once = (\<lambda>_ _ _ _ w. (Inr (execution_result.Acknowledged ''e1'' (no_links ''r1'')), w)),
     po_connect = (\<lambda>_ _ w. (Inr [], w)), po_disconnect = (\<lambda>w. (Inr (), w)),
     po_resolve = (\<lambda>_ w. (Inr \<lparr>cr_execution_authorized = True\<rparr>, w)),
     po_authorize_execution = (\<lambda>_ _ w. (Inr (), w)),
     po_admit = (\<lambda>_ _ _ _ _ w. (Inr \<lparr>ra_decision_id = ''d1'', ra_reservation_id = None,
       ra_policy_revision = 1, ra_approved_delta_lots = 1\<rparr>, w)),
     po_validate_before_dispatch = (\<lambda>_ _ _ _ _ _ w. (Inr (), w)),
     po_record_dispatch_outcome = (\<lambda>_ _ _ _ w. (Inr (), w)),
     po_reconcile_risk = (\<lambda>_ _ _ w. (Inr (), w))\<rparr>"

definition sample_snapshot :: broker_snapshot where
  "sample_snapshot = projr (fst (read_snapshot sample_ports reconciliation_config_default sample_scope 0 9
     \<lparr>sy_db = runtime_db_empty, sy_world = (0 :: nat)\<rparr>))"

definition sample_linked :: broker_identity_links where
  "sample_linked = (no_links ''r1'')\<lparr>bl_broker_order_id := Some ''b1''\<rparr>"

definition sample_resolution :: "(reconciliation_error + resolution) \<times> nat sys" where
  "sample_resolution = resolve_mutation sample_ports reconciliation_config_default sample_scope 1
     sample_snapshot [sample_linked] 9 sample_mutation \<lparr>sy_db = sample_fenced, sy_world = 0\<rparr>"

definition sample_clean_run :: "(reconciliation_error + reconciliation_report) \<times> nat sys" where
  "sample_clean_run = reconcile sample_ports reconciliation_config_default sample_scope 1
     \<lparr>sy_db = sample_owned, sy_world = 0\<rparr>"

definition sample_stuck_run :: "(reconciliation_error + reconciliation_report) \<times> nat sys" where
  "sample_stuck_run = reconcile sample_ports reconciliation_config_default sample_scope 1
     \<lparr>sy_db = sample_fenced, sy_world = 0\<rparr>"

definition sample_read :: "nat \<Rightarrow> (broker_port_error + int) \<times> nat" where
  "sample_read w = (if w = 0 then Inl sample_outage else Inr 5, w + 1)"

lemma run_ok: "is_ok (fst m) \<Longrightarrow> m = (Inr (projr (fst m)), snd m)"
  by (metis is_ok_projr prod.collapse)

lemma sample_quiet: "quiet sample_ports" "runtime_others sample_ports"
  by (simp_all add: quiet_def runtime_others_def sample_ports_def)



theorem unlinked_cleanup_never_reconciles_witness:
  "rp_resulting_state (projr (fst sample_stuck_run)) = Halted
   \<and> rp_reason_code (projr (fst sample_stuck_run)) = UnknownMutation
   \<and> ''r1'' \<in> set (rp_unresolved_logical_request_ids (projr (fst sample_stuck_run)))
   \<and> record_of (sy_db (snd sample_stuck_run)) ''r1'' = Some (the (record_of sample_fenced ''r1''))"
proof -
  let ?s = "\<lparr>sy_db = sample_fenced, sy_world = 0 :: nat\<rparr>"
  have "is_ok (fst sample_stuck_run)" by code_simp
  then have run: "reconcile sample_ports reconciliation_config_default sample_scope 1 ?s
      = (Inr (projr (fst sample_stuck_run)), snd sample_stuck_run)"
    using run_ok [of sample_stuck_run] by (simp only: sample_stuck_run_def)
  have ids: "distinct (journal_ids (sy_db ?s))"
    and rec: "record_of (sy_db ?s) ''r1'' = Some (the (record_of sample_fenced ''r1''))"
    and key: "mr_scope_key (the (record_of sample_fenced ''r1'')) = scope_key sample_scope"
    and unresolved: "safety_unresolved (mr_state (the (record_of sample_fenced ''r1'')))"
    and kind: "found_by_links (mr_kind (the (record_of sample_fenced ''r1'')))"
    and link: "row_with lk_logical_request_id ''r1'' (rt_links (sy_db ?s)) = None"
    by code_simp+
  show ?thesis
    by (rule unlinked_cleanup_never_reconciles [OF sample_quiet(1) ids rec key unresolved kind link run])
qed

theorem safe_read_bounded_witness:
  "\<exists>n answer w. int n \<le> max 3 1
    \<and> read_attempts sample_ports reconciliation_config_default sample_read n 0 answer w
    \<and> Inr 5 = map_err Broker answer"
proof -
  let ?s = "\<lparr>sy_db = runtime_db_empty, sy_world = 0 :: nat\<rparr>"
  let ?r = "safe_read sample_ports reconciliation_config_default sample_read ?s"
  have "fst ?r = Inr 5" by code_simp
  then have "?r = (Inr 5, snd ?r)" by (metis prod.collapse)
  from safe_read_bounded [OF this] show ?thesis
    by (auto simp: reconciliation_config_default_def)
qed

end
