(* ===== verification/Runtime_Coordinator.thy ===== *)
theory Runtime_Coordinator
  imports Runtime_Reconciled
begin

text \<open>
  The coordinator of \<open>vox-runtime/src/coordinator.rs\<close>: one runtime per scope that owns the epoch, moves the
  state machine, gates and dispatches commands, follows the broker streams, reconciles, and shuts
  down.  The shared fields (atomics, locks, the semaphore of the execution queue) are the record
  \<open>memory\<close>; the store and the outside world are the \<open>sys\<close> of the ports.  Handlers are actions on both.
  Before each point where a handler awaits, the other tasks of the coordinator may change the shared
  fields in any way (\<open>ru_tasks\<close>), except the state machine while its lock is held; other users of the
  store act before each store call.  An auxiliary trace records calls, answers, reports and moves.
  The refresh task runs a loop that ends when no event has come meanwhile; it takes the number of
  rounds it may run as an argument.  Metrics and logging are left out.
\<close>

section \<open>State\<close>

datatype runtime_error =
    Store store_error
  | Broker broker_port_error
  | RiskAdmission risk_admission_error
  | Reconciliation reconciliation_error
  | Transition transition_error
  | Model model_error
  | ExecutionGateClosed
  | CommandQueueFull
  | UnknownAfterDispatch string
  | UnknownTransport string broker_port_error
  | Safety string

record dispatch_receipt =
  dr_logical_request_id :: string
  dr_state :: journal_state
  dr_broker_evidence_ref :: "string option"

definition EXECUTION_QUEUE_CAPACITY :: int where "EXECUTION_QUEUE_CAPACITY = 256"

text \<open>The fields a coordinator shares between its tasks.  A task handle and a sender are there or not.\<close>

record memory =
  mm_epoch :: int
  mm_started :: bool
  mm_connected :: bool
  mm_execution_authorized :: bool
  mm_state :: runtime_state
  mm_health :: runtime_health
  mm_free_slots :: int
  mm_reconciliation_dirty :: bool
  mm_reconciliation_running :: bool
  mm_refresh_task :: bool
  mm_stream_task :: bool
  mm_stream_sender :: bool

text \<open>The fields a coordinator does not change, and its other tasks: what they do to the shared fields
  whenever a task awaits.\<close>

record 'w runtime =
  ru_ports :: "'w ports"
  ru_config :: reconciliation_config
  ru_scope :: runtime_scope
  ru_owner_id :: string
  ru_tasks :: "'w \<Rightarrow> memory \<Rightarrow> memory \<times> 'w"

text \<open>An auxiliary record of what a coordinator does: its calls to the risk and execution ports, the answers
  of the execution port, the reports of reconciliations, and the moves of the state machine.  No
  operation reads it.\<close>

datatype trace_event =
    Admitted string risk_admission
  | Outcome string risk_dispatch_outcome
  | Sent runtime_execution_purpose runtime_execution_command mutation_record
  | Answered "broker_port_error + execution_result"
  | Reported reconciliation_report
  | Moved runtime_state runtime_state

record 'w coordinator =
  cd_memory :: memory
  cd_sys :: "'w sys"
  cd_trace :: "trace_event list"

type_synonym ('w, 'a) running = "('w coordinator, runtime_error, 'a) action"

section \<open>Awaiting\<close>

definition tasks_run :: "'w runtime \<Rightarrow> 'w coordinator \<Rightarrow> 'w coordinator" where
  "tasks_run R c =
     (case ru_tasks R (sy_world (cd_sys c)) (cd_memory c) of (m, w) \<Rightarrow>
        c\<lparr>cd_memory := m, cd_sys := (cd_sys c)\<lparr>sy_world := w\<rparr>\<rparr>)"

text \<open>While a task holds the lock on the state machine the others leave it.\<close>

definition tasks_run_locked :: "'w runtime \<Rightarrow> 'w coordinator \<Rightarrow> 'w coordinator" where
  "tasks_run_locked R c =
     (let d = tasks_run R c in d\<lparr>cd_memory := (cd_memory d)\<lparr>mm_state := mm_state (cd_memory c)\<rparr>\<rparr>)"

definition wait :: "'w runtime \<Rightarrow> ('w coordinator, 'e, unit) action" where
  "wait R = change (tasks_run R)"

definition wait_locked :: "'w runtime \<Rightarrow> ('w coordinator, 'e, unit) action" where
  "wait_locked R = change (tasks_run_locked R)"

definition on_sys :: "('w sys, 'e, 'a) action \<Rightarrow> ('w coordinator, 'e, 'a) action" where
  "on_sys = zoom cd_sys (\<lambda>s c. c\<lparr>cd_sys := s\<rparr>)"

definition peek :: "(memory \<Rightarrow> 'a) \<Rightarrow> ('w coordinator, 'e, 'a) action" where
  "peek f = look (\<lambda>c. f (cd_memory c))"

definition poke :: "(memory \<Rightarrow> memory) \<Rightarrow> ('w coordinator, 'e, unit) action" where
  "poke f = change (\<lambda>c. c\<lparr>cd_memory := f (cd_memory c)\<rparr>)"

definition traced :: "trace_event \<Rightarrow> ('w coordinator, 'e, unit) action" where
  "traced e = change (\<lambda>c. c\<lparr>cd_trace := cd_trace c @ [e]\<rparr>)"

text \<open>\<open>store_call\<close>: the operation runs on a blocking thread.\<close>

definition store_call :: "'w runtime \<Rightarrow> ('w sys, store_error, 'a) action \<Rightarrow> ('w coordinator, store_error, 'a) action" where
  "store_call R m = and_do (wait R) (\<lambda>_. on_sys m)"

definition port_call :: "'w runtime \<Rightarrow> ('w \<Rightarrow> ('e + 'a) \<times> 'w) \<Rightarrow> ('w coordinator, 'e, 'a) action" where
  "port_call R f = and_do (wait R) (\<lambda>_. on_sys (call_port f))"

definition ask_risk ::
  "'w runtime \<Rightarrow> (runtime_db \<Rightarrow> 'w \<Rightarrow> ('e + 'a) \<times> 'w) \<Rightarrow> ('w coordinator, 'e, 'a) action" where
  "ask_risk R f = and_do (wait R) (\<lambda>_. on_sys (call_risk (ru_ports R) f))"

text \<open>A write that reads the clock first, on the same thread.\<close>

definition timed_write ::
  "'w ports \<Rightarrow> (int \<Rightarrow> runtime_db \<Rightarrow> 'a stored) \<Rightarrow> ('w sys, store_error, 'a) action" where
  "timed_write P operation = and_do (now_unix_ms_store P) (\<lambda>now. store_write P (operation now))"

definition now_unix_ms :: "'w runtime \<Rightarrow> ('w, int) running" where
  "now_unix_ms R = on_err Store (on_sys (now_unix_ms_store (ru_ports R)))"

definition set_health :: "(runtime_health \<Rightarrow> runtime_health) \<Rightarrow> ('w coordinator, 'e, unit) action" where
  "set_health f = poke (\<lambda>m. m\<lparr>mm_health := f (mm_health m)\<rparr>)"

definition update_health ::
  "'w runtime \<Rightarrow> (runtime_health \<Rightarrow> runtime_health) \<Rightarrow> ('w coordinator, 'e, unit) action" where
  "update_health R f = and_do (wait R) (\<lambda>_. set_health f)"

definition current_epoch :: "('w, int) running" where
  "current_epoch = and_do (peek mm_epoch) (\<lambda>epoch.
     if epoch = 0 then fail_with ExecutionGateClosed else done_with epoch)"

section \<open>The state machine\<close>

definition unhealthy ::
  "reason_code \<Rightarrow> string \<Rightarrow> runtime_health \<Rightarrow> runtime_health" where
  "unhealthy reason detail h =
     h\<lparr>he_state := Halted, he_reason_code := reason, he_reason := detail,
       he_persistence_healthy := False, he_new_exposure_allowed := False\<rparr>"

definition moved_health ::
  "runtime_state \<Rightarrow> reason_code \<Rightarrow> string \<Rightarrow> bool \<Rightarrow> bool \<Rightarrow> runtime_health \<Rightarrow> runtime_health" where
  "moved_health target reason detail connected authorized h =
     h\<lparr>he_state := target, he_reason_code := reason, he_reason := detail, he_connected := connected,
       he_execution_authorized := authorized,
       he_new_exposure_allowed := new_exposure_allowed target \<and> authorized \<and> connected,
       he_persistence_healthy := True\<rparr>"

definition move_state :: "runtime_state \<Rightarrow> ('w, runtime_state) running" where
  "move_state target =
     and_do (peek mm_state) (\<lambda>from.
     and_do (of_result (map_err Transition (machine_transition from target))) (\<lambda>next_state.
     and_do (poke (\<lambda>m. m\<lparr>mm_state := next_state\<rparr>)) (\<lambda>_.
     and_do (traced (Moved from target)) (\<lambda>_.
     done_with from))))"

definition record_move ::
  "'w runtime \<Rightarrow> int \<Rightarrow> runtime_state \<Rightarrow> runtime_state \<Rightarrow> reason_code \<Rightarrow> string \<Rightarrow> ('w, unit) running" where
  "record_move R epoch from target reason detail =
     and_do (on_sys (call_out (po_uuid (ru_ports R)))) (\<lambda>correlation_id.
     and_do (now_unix_ms R) (\<lambda>now.
     and_do (wait_locked R) (\<lambda>_.
     on_err Store (on_sys (store_write (ru_ports R) (record_transition
       \<lparr>tr_scope_key = scope_key (ru_scope R), tr_from = from, tr_to = target,
        tr_reason_code = reason, tr_detail = detail, tr_correlation_id = correlation_id,
        tr_observed_at_unix_ms = now, tr_runtime_epoch = epoch\<rparr>))))))"

definition transition ::
  "'w runtime \<Rightarrow> runtime_state \<Rightarrow> reason_code \<Rightarrow> string \<Rightarrow> ('w, unit) running" where
  "transition R target reason detail =
     and_do (peek mm_epoch) (\<lambda>epoch.
     and_do (wait R) (\<lambda>_.
     and_do (move_state target) (\<lambda>from.
     and_do (if epoch > 0 then record_move R epoch from target reason detail else done_with ()) (\<lambda>_.
     and_do (peek (\<lambda>m. (mm_connected m, mm_execution_authorized m))) (\<lambda>(connected, authorized).
     and_do (wait_locked R) (\<lambda>_.
     set_health (moved_health target reason detail connected authorized)))))))"

section \<open>Failures\<close>

definition require_store ::
  "'w runtime \<Rightarrow> string \<Rightarrow> ('w coordinator, store_error, 'a) action \<Rightarrow> ('w, 'a) running" where
  "require_store R detail m =
     and_do (attempt m) (\<lambda>result. case result of
       Inr value \<Rightarrow> done_with value
     | Inl source \<Rightarrow>
         if source = DuplicateMutation then fail_with (Store source)
         else
           and_do (attempt (transition R Halted reason_code.PersistenceFailure detail)) (\<lambda>moved.
           and_do (case moved of
                     Inl _ \<Rightarrow> update_health R (unhealthy reason_code.PersistenceFailure detail)
                   | Inr _ \<Rightarrow> done_with ()) (\<lambda>_.
           fail_with (Store source))))"

definition record_risk_dispatch_outcome ::
  "'w runtime \<Rightarrow> string \<Rightarrow> risk_dispatch_outcome \<Rightarrow> ('w, unit) running" where
  "record_risk_dispatch_outcome R logical_request_id outcome =
     and_do (traced (Outcome logical_request_id outcome)) (\<lambda>_.
     and_do (attempt (ask_risk R
       (po_record_dispatch_outcome (ru_ports R) (ru_scope R) logical_request_id outcome))) (\<lambda>recorded.
     case recorded of
       Inr _ \<Rightarrow> done_with ()
     | Inl e \<Rightarrow>
         and_do (transition R Halted reason_code.PersistenceFailure
           ''risk reservation outcome persistence failed'') (\<lambda>_.
         fail_with (RiskAdmission e))))"

text \<open>The early returns of a dispatch: the outcome is recorded, then the error returned.\<close>

definition reject_with :: "'w runtime \<Rightarrow> string \<Rightarrow> runtime_error \<Rightarrow> ('w, 'a) running" where
  "reject_with R logical_request_id e =
     and_do (record_risk_dispatch_outcome R logical_request_id risk_dispatch_outcome.Rejected) (\<lambda>_.
     fail_with e)"

definition or_reject :: "'w runtime \<Rightarrow> string \<Rightarrow> ('w, 'a) running \<Rightarrow> ('w, 'a) running" where
  "or_reject R logical_request_id m =
     and_do (attempt m) (\<lambda>result. case result of
       Inr value \<Rightarrow> done_with value
     | Inl e \<Rightarrow> reject_with R logical_request_id e)"

section \<open>Reconciling\<close>

fun reconciliation_error_reason :: "reconciliation_error \<Rightarrow> reason_code" where
  "reconciliation_error_reason (reconciliation_error.Broker e) =
     (if bp_class e = Credential then CredentialRejected else reason_code.RequiredReadUnavailable)"
| "reconciliation_error_reason (reconciliation_error.Store _) = reason_code.PersistenceFailure"
| "reconciliation_error_reason (reconciliation_error.Safety _) = ReconciliationIncomplete"

definition reconcile_locked :: "'w runtime \<Rightarrow> ('w, reconciliation_report) running" where
  "reconcile_locked R =
     and_do (wait R) (\<lambda>_.
     and_do current_epoch (\<lambda>epoch.
     and_do (wait R) (\<lambda>_.
     and_do (attempt (on_sys (reconcile (ru_ports R) (ru_config R) (ru_scope R) epoch))) (\<lambda>result.
     case result of
       Inr report \<Rightarrow> and_do (traced (Reported report)) (\<lambda>_. done_with report)
     | Inl e \<Rightarrow>
         and_do (attempt (transition R Halted (reconciliation_error_reason e)
           ''authoritative broker reconciliation failed'')) (\<lambda>moved.
         and_do (case moved of
                   Inl _ \<Rightarrow> update_health R (unhealthy (reconciliation_error_reason e)
                     ''authoritative broker reconciliation failed'')
                 | Inr _ \<Rightarrow> done_with ()) (\<lambda>_.
         fail_with (Reconciliation e)))))))"

definition reported_health :: "reconciliation_report \<Rightarrow> runtime_health \<Rightarrow> runtime_health" where
  "reported_health report h =
     h\<lparr>he_last_successful_reconciliation_at_unix_ms := Some (rp_completed_at_unix_ms report),
       he_reconciliation_age_ms := Some 0,
       he_unresolved_unknown_count := int (length (rp_unresolved_logical_request_ids report)),
       he_open_order_count := rp_active_order_count report,
       he_active_stop_count := rp_active_stop_count report\<rparr>"

definition apply_reconciliation_report :: "'w runtime \<Rightarrow> reconciliation_report \<Rightarrow> ('w, unit) running" where
  "apply_reconciliation_report R report =
     and_do (attempt (ask_risk R (po_reconcile_risk (ru_ports R) (ru_scope R) report))) (\<lambda>reconciled.
     case reconciled of
       Inl e \<Rightarrow>
         and_do (transition R Halted reason_code.PersistenceFailure
           ''risk reservation reconciliation failed'') (\<lambda>_.
         fail_with (RiskAdmission e))
     | Inr _ \<Rightarrow>
         and_do (update_health R (reported_health report)) (\<lambda>_.
         transition R (rp_resulting_state report) (rp_reason_code report)
           (if rp_discrepancies report = []
            then ''authoritative snapshot, stream handoff and checkpoint complete''
            else join_with ''; '' (rp_discrepancies report))))"

definition force_reconciliation ::
  "'w runtime \<Rightarrow> reason_code \<Rightarrow> string \<Rightarrow> ('w, reconciliation_report) running" where
  "force_reconciliation R reason detail =
     and_do (transition R Reconciling reason detail) (\<lambda>_.
     and_do (reconcile_locked R) (\<lambda>report.
     and_do (apply_reconciliation_report R report) (\<lambda>_.
     done_with report)))"

definition report_stream_overflow :: "'w runtime \<Rightarrow> ('w, reconciliation_report) running" where
  "report_stream_overflow R =
     force_reconciliation R StreamQueueOverflow
       ''safety-critical stream queue overflowed; broker snapshot required''"

section \<open>Dispatching\<close>

definition cleanup_command :: "runtime_execution_command \<Rightarrow> bool" where
  "cleanup_command command \<longleftrightarrow>
     (case command of
        runtime_execution_command.CancelOrder _ \<Rightarrow> True
      | runtime_execution_command.PostStopOrder _ \<Rightarrow> True
      | runtime_execution_command.CancelStopOrder _ \<Rightarrow> True
      | runtime_execution_command.ProtectionLeg _ \<Rightarrow> True
      | _ \<Rightarrow> False)"

definition exposure_bearing :: "runtime_execution_command \<Rightarrow> bool" where
  "exposure_bearing command \<longleftrightarrow>
     (case command of
        RegularOrder _ \<Rightarrow> True
      | runtime_execution_command.PostOrderAsync _ \<Rightarrow> True
      | runtime_execution_command.ReplaceOrder _ \<Rightarrow> True
      | _ \<Rightarrow> False)"

definition gate_open :: "runtime_execution_command \<Rightarrow> memory \<Rightarrow> bool" where
  "gate_open command m \<longleftrightarrow>
     mm_connected m
     \<and> (cleanup_command command
        \<or> mm_state m = Ready \<and> \<not> mm_reconciliation_dirty m \<and> \<not> mm_reconciliation_running m)"

definition ensure_execution_allowed ::
  "'w runtime \<Rightarrow> runtime_execution_purpose \<Rightarrow> runtime_execution_command \<Rightarrow> ('w, unit) running" where
  "ensure_execution_allowed R purpose command =
     and_do (wait R) (\<lambda>_.
     and_do (peek (gate_open command)) (\<lambda>opened.
     if \<not> opened then fail_with ExecutionGateClosed
     else
       and_do (attempt (port_call R (po_authorize_execution (ru_ports R) (ru_scope R) purpose)))
         (\<lambda>authorized. case authorized of
           Inl _ \<Rightarrow>
             and_do (poke (\<lambda>m. m\<lparr>mm_execution_authorized := False\<rparr>)) (\<lambda>_.
             and_do (update_health R
               (\<lambda>h. h\<lparr>he_execution_authorized := False, he_new_exposure_allowed := False\<rparr>)) (\<lambda>_.
             fail_with ExecutionGateClosed))
         | Inr _ \<Rightarrow>
             and_do (if purpose \<noteq> ProductionManual then
                 and_do (poke (\<lambda>m. m\<lparr>mm_execution_authorized := True\<rparr>)) (\<lambda>_.
                 update_health R (\<lambda>h. h\<lparr>he_execution_authorized := True\<rparr>))
               else done_with ()) (\<lambda>_.
             and_do current_epoch (\<lambda>epoch.
             require_store R ''runtime ownership/epoch verification failed''
               (store_call R (store_read (ru_ports R) (verify_epoch (scope_key (ru_scope R)) epoch))))))))"

definition stale_approval :: "string \<Rightarrow> runtime_error" where
  "stale_approval text = RiskAdmission (risk_admission_error.Stale text)"

text \<open>\<open>i64::try_from(lots.unsigned_abs())\<close> fails on the least integer.\<close>

definition approved_quantity :: "string \<Rightarrow> int \<Rightarrow> runtime_error + int" where
  "approved_quantity text lots = ok_or (stale_approval text) (checked_i64 \<bar>lots\<bar>)"

definition resize_order :: "regular_order_command \<Rightarrow> int \<Rightarrow> runtime_error + regular_order_command" where
  "resize_order order lots =
     (if sgn lots \<noteq> (case ro_side order of Buy \<Rightarrow> 1 | Sell \<Rightarrow> -1)
      then Inl (stale_approval ''approved direction does not match execution command'')
      else and_then (approved_quantity ''approved quantity is not representable'' lots)
        (\<lambda>quantity. Inr (order\<lparr>ro_quantity_lots := quantity\<rparr>)))"

definition apply_risk_approval ::
  "runtime_execution_command \<Rightarrow> int \<Rightarrow> runtime_error + runtime_execution_command" where
  "apply_risk_approval command approved_delta_lots =
     (case command of
        RegularOrder order \<Rightarrow>
          and_then (resize_order order approved_delta_lots) (\<lambda>sized. Inr (RegularOrder sized))
      | runtime_execution_command.PostOrderAsync order \<Rightarrow>
          and_then (resize_order order approved_delta_lots)
            (\<lambda>sized. Inr (runtime_execution_command.PostOrderAsync sized))
      | runtime_execution_command.ReplaceOrder order \<Rightarrow>
          and_then (approved_quantity ''approved replacement quantity is not representable''
            approved_delta_lots)
            (\<lambda>quantity. Inr (runtime_execution_command.ReplaceOrder (order\<lparr>rp_quantity_lots := quantity\<rparr>)))
      | _ \<Rightarrow>
          if approved_delta_lots \<noteq> 0
          then Inl (stale_approval ''maintenance approval unexpectedly changes exposure'')
          else Inr command)"

definition incomplete_approval :: "runtime_execution_command \<Rightarrow> risk_admission \<Rightarrow> bool" where
  "incomplete_approval command admission \<longleftrightarrow>
     blank (ra_decision_id admission)
     \<or> exposure_bearing command
       \<and> (ra_approved_delta_lots admission = 0
          \<or> (case ra_reservation_id admission of None \<Rightarrow> True | Some reservation \<Rightarrow> reservation = ''''))
     \<or> \<not> exposure_bearing command
       \<and> (ra_approved_delta_lots admission \<noteq> 0 \<or> ra_reservation_id admission \<noteq> None)"

definition receipt :: "mutation_record \<Rightarrow> dispatch_receipt" where
  "receipt r = \<lparr>dr_logical_request_id = mr_logical_request_id r, dr_state = mr_state r,
     dr_broker_evidence_ref = mr_broker_evidence_ref r\<rparr>"

definition finish_mutation ::
  "'w runtime \<Rightarrow> string \<Rightarrow> journal_state \<Rightarrow> string option \<Rightarrow> reconciliation_disposition option
   \<Rightarrow> ('w, mutation_record) running" where
  "finish_mutation R logical_request_id target broker_evidence_ref disposition =
     and_do current_epoch (\<lambda>epoch.
     require_store R ''mutation outcome persistence failed''
       (store_call R (timed_write (ru_ports R) (\<lambda>now.
         transition_mutation (po_to_json (ru_ports R)) (scope_key (ru_scope R)) logical_request_id
           [journal_state.UnknownAfterDispatch] target broker_evidence_ref disposition epoch now))))"

text \<open>Everything before the send: the intent is inserted and fenced, or the reservation released.\<close>

definition fence_dispatch ::
  "'w runtime \<Rightarrow> runtime_execution_command \<Rightarrow> string \<Rightarrow> string \<Rightarrow> ('w, int \<times> mutation_record) running" where
  "fence_dispatch R command logical_request_id correlation_id =
     and_do (or_reject R logical_request_id current_epoch) (\<lambda>epoch.
     and_do (or_reject R logical_request_id (now_unix_ms R)) (\<lambda>now.
     and_do (or_reject R logical_request_id (of_result (map_err Model
       (record_prepared (po_to_json (ru_ports R)) (ru_scope R) logical_request_id (command_kind command)
         (command_evidence command) correlation_id epoch now)))) (\<lambda>prepared_record.
     and_do (or_reject R logical_request_id (require_store R ''failed to persist mutation intent''
       (store_call R (store_write (ru_ports R)
         (insert_mutation (po_to_json (ru_ports R)) prepared_record))))) (\<lambda>_.
     and_do (or_reject R logical_request_id (require_store R ''failed to persist pre-dispatch UNKNOWN fence''
       (store_call R (store_write (ru_ports R)
         (claim_dispatch_unknown (po_to_json (ru_ports R)) (scope_key (ru_scope R)) logical_request_id
           epoch now))))) (\<lambda>fenced.
     done_with (epoch, fenced))))))"

text \<open>An unknown outcome halts the runtime; the failure to record it with the risk service is only
  logged.\<close>

definition halt_unknown :: "'w runtime \<Rightarrow> string \<Rightarrow> string \<Rightarrow> runtime_error \<Rightarrow> ('w, 'a) running" where
  "halt_unknown R logical_request_id detail e =
     and_do (transition R Halted UnknownMutation detail) (\<lambda>_.
     and_do (traced (Outcome logical_request_id risk_dispatch_outcome.UnknownAfterDispatch)) (\<lambda>_.
     and_do (attempt (ask_risk R (po_record_dispatch_outcome (ru_ports R) (ru_scope R)
       logical_request_id risk_dispatch_outcome.UnknownAfterDispatch))) (\<lambda>_.
     fail_with e)))"

definition settle_dispatch ::
  "'w runtime \<Rightarrow> string \<Rightarrow> int \<Rightarrow> broker_port_error + execution_result \<Rightarrow> ('w, dispatch_receipt) running" where
  "settle_dispatch R logical_request_id epoch result =
     (case result of
        Inr (execution_result.Acknowledged broker_evidence_ref links) \<Rightarrow>
          and_do (require_store R ''broker acknowledged mutation but identity-link persistence failed''
            (store_call R (timed_write (ru_ports R) (\<lambda>now.
              upsert_identity_links (scope_key (ru_scope R)) links epoch now)))) (\<lambda>_.
          and_do (finish_mutation R logical_request_id journal_state.Acknowledged
            (Some broker_evidence_ref) None) (\<lambda>record.
          and_do (record_risk_dispatch_outcome R logical_request_id risk_dispatch_outcome.Acknowledged)
            (\<lambda>_.
          done_with (receipt record))))
      | Inr (execution_result.Rejected broker_evidence_ref) \<Rightarrow>
          and_do (finish_mutation R logical_request_id journal_state.Rejected
            (Some broker_evidence_ref) None) (\<lambda>record.
          and_do (record_risk_dispatch_outcome R logical_request_id risk_dispatch_outcome.Rejected) (\<lambda>_.
          done_with (receipt record)))
      | Inr (execution_result.UnknownAfterDispatch broker_evidence_ref) \<Rightarrow>
          and_do (if broker_evidence_ref \<noteq> None then
              and_do (finish_mutation R logical_request_id journal_state.UnknownAfterDispatch
                broker_evidence_ref None) (\<lambda>_. done_with ())
            else done_with ()) (\<lambda>_.
          halt_unknown R logical_request_id ''capital mutation remains UNKNOWN_AFTER_DISPATCH''
            (UnknownAfterDispatch logical_request_id))
      | Inl e \<Rightarrow>
          halt_unknown R logical_request_id ''mutation transport failed after durable dispatch fence''
            (UnknownTransport logical_request_id e))"

definition dispatch_with_permit ::
  "'w runtime \<Rightarrow> runtime_execution_purpose \<Rightarrow> runtime_execution_command \<Rightarrow> string \<Rightarrow> string
   \<Rightarrow> ('w, dispatch_receipt) running" where
  "dispatch_with_permit R purpose command logical_request_id correlation_id =
     and_do (fence_dispatch R command logical_request_id correlation_id) (\<lambda>(epoch, fenced).
     and_do (traced (Sent purpose command fenced)) (\<lambda>_.
     and_do (attempt (port_call R (po_dispatch_once (ru_ports R) (ru_scope R) purpose command fenced)))
       (\<lambda>result.
     and_do (traced (Answered result)) (\<lambda>_.
     settle_dispatch R logical_request_id epoch result))))"

definition release_slot :: "'w coordinator \<Rightarrow> 'w coordinator" where
  "release_slot c = c\<lparr>cd_memory := (cd_memory c)\<lparr>mm_free_slots := mm_free_slots (cd_memory c) + 1\<rparr>\<rparr>"

text \<open>The permit is dropped when the dispatch ends, either way.\<close>

definition with_permit ::
  "'w runtime \<Rightarrow> string \<Rightarrow> ('w, 'a) running \<Rightarrow> ('w, 'a) running" where
  "with_permit R logical_request_id m =
     and_do (peek mm_free_slots) (\<lambda>free.
     if free \<le> 0 then reject_with R logical_request_id CommandQueueFull
     else
       and_do (poke (\<lambda>m. m\<lparr>mm_free_slots := mm_free_slots m - 1\<rparr>)) (\<lambda>_.
       finally_do release_slot m))"

text \<open>From the admission on.  The epoch is read again for the log of the admission.\<close>

definition dispatch_approved ::
  "'w runtime \<Rightarrow> runtime_execution_command \<Rightarrow> string \<Rightarrow> string \<Rightarrow> runtime_execution_purpose
   \<Rightarrow> risk_admission \<Rightarrow> ('w, dispatch_receipt) running" where
  "dispatch_approved R command logical_request_id correlation_id purpose admission =
     and_do (or_reject R logical_request_id
       (of_result (apply_risk_approval command (ra_approved_delta_lots admission)))) (\<lambda>sized.
     and_do current_epoch (\<lambda>_.
     with_permit R logical_request_id
       (and_do (or_reject R logical_request_id (on_err RiskAdmission (ask_risk R
         (po_validate_before_dispatch (ru_ports R) (ru_scope R) purpose sized logical_request_id
           admission)))) (\<lambda>_.
        dispatch_with_permit R purpose sized logical_request_id correlation_id))))"

definition dispatch_admitted ::
  "'w runtime \<Rightarrow> runtime_execution_command \<Rightarrow> string \<Rightarrow> string \<Rightarrow> runtime_execution_purpose
   \<Rightarrow> ('w, dispatch_receipt) running" where
  "dispatch_admitted R command logical_request_id correlation_id purpose =
     and_do (on_err RiskAdmission (ask_risk R
       (po_admit (ru_ports R) (ru_scope R) purpose command logical_request_id))) (\<lambda>admission.
     and_do (traced (Admitted logical_request_id admission)) (\<lambda>_.
     if incomplete_approval command admission then
       and_do (if ra_reservation_id admission \<noteq> None then
           record_risk_dispatch_outcome R logical_request_id risk_dispatch_outcome.Rejected
         else done_with ()) (\<lambda>_.
       fail_with (RiskAdmission
         (Unavailable ''risk admission returned an incomplete approval'')))
     else dispatch_approved R command logical_request_id correlation_id purpose admission))"

definition dispatch_for_purpose ::
  "'w runtime \<Rightarrow> runtime_execution_command \<Rightarrow> string \<Rightarrow> string \<Rightarrow> runtime_execution_purpose
   \<Rightarrow> ('w, dispatch_receipt) running" where
  "dispatch_for_purpose R command logical_request_id correlation_id purpose =
     and_do (ensure_execution_allowed R purpose command) (\<lambda>_.
     if command_account_id command \<noteq> sc_broker_account_id (ru_scope R) then
       fail_with (Safety ''execution command account does not match runtime scope'')
     else if command_request_identity command \<notin> {None, Some logical_request_id} then
       fail_with (Safety
         ''execution command request identity does not match runtime logical identity'')
     else dispatch_admitted R command logical_request_id correlation_id purpose)"

definition dispatch ::
  "'w runtime \<Rightarrow> runtime_execution_command \<Rightarrow> string \<Rightarrow> string \<Rightarrow> ('w, dispatch_receipt) running" where
  "dispatch R command logical_request_id correlation_id =
     dispatch_for_purpose R command logical_request_id correlation_id
       (case sc_environment (ru_scope R) of
          runtime_environment.Sandbox \<Rightarrow> SandboxMutation
        | runtime_environment.Production \<Rightarrow> ProductionAutomated)"

definition dispatch_manual ::
  "'w runtime \<Rightarrow> runtime_execution_command \<Rightarrow> string \<Rightarrow> string \<Rightarrow> ('w, dispatch_receipt) running" where
  "dispatch_manual R command logical_request_id correlation_id =
     dispatch_for_purpose R command logical_request_id correlation_id
       (case sc_environment (ru_scope R) of
          runtime_environment.Sandbox \<Rightarrow> SandboxMutation
        | runtime_environment.Production \<Rightarrow> ProductionManual)"

section \<open>Streams\<close>

definition required_streams :: "stream_kind list" where
  "required_streams = [OrderState, Positions, stream_kind.Portfolio, Operations]"

definition required_stream :: "stream_kind \<Rightarrow> bool" where
  "required_stream stream \<longleftrightarrow> stream \<in> {OrderState, Positions, stream_kind.Portfolio, Operations}"

definition all_stream_health :: "stream_health list" where
  "all_stream_health =
     map (\<lambda>stream. \<lparr>sh_stream = stream, sh_required_for_ready = required_stream stream,
       sh_state = stream_state.Disconnected, sh_queue_depth = 0, sh_last_event_at_unix_ms = None\<rparr>)
       [OrderState, Trades, Positions, stream_kind.Portfolio, Operations]"

fun event_class_stream :: "broker_event_class \<Rightarrow> stream_kind" where
  "event_class_stream broker_event_class.Order = OrderState"
| "event_class_stream broker_event_class.Stop = OrderState"
| "event_class_stream Fill = Trades"
| "event_class_stream Operation = Operations"
| "event_class_stream Position = Positions"
| "event_class_stream broker_event_class.Portfolio = stream_kind.Portfolio"

fun stream_kind_debug :: "stream_kind \<Rightarrow> string" where
  "stream_kind_debug OrderState = ''OrderState''"
| "stream_kind_debug Trades = ''Trades''"
| "stream_kind_debug Positions = ''Positions''"
| "stream_kind_debug stream_kind.Portfolio = ''Portfolio''"
| "stream_kind_debug Operations = ''Operations''"

text \<open>\<open>iter_mut().find(..)\<close>: the first entry of the stream.\<close>

primrec with_stream ::
  "stream_kind \<Rightarrow> (stream_health \<Rightarrow> stream_health) \<Rightarrow> stream_health list \<Rightarrow> stream_health list" where
  "with_stream stream f [] = []"
| "with_stream stream f (x # xs) =
     (if sh_stream x = stream then f x # xs else x # with_stream stream f xs)"

definition stream_update ::
  "stream_kind \<Rightarrow> (stream_health \<Rightarrow> stream_health) \<Rightarrow> runtime_health \<Rightarrow> runtime_health" where
  "stream_update stream f h = h\<lparr>he_stream_states := with_stream stream f (he_stream_states h)\<rparr>"

definition set_stream_state ::
  "'w runtime \<Rightarrow> stream_kind \<Rightarrow> stream_state \<Rightarrow> int \<Rightarrow> ('w, unit) running" where
  "set_stream_state R stream state queue_depth =
     update_health R (stream_update stream
       (\<lambda>x. x\<lparr>sh_state := state, sh_queue_depth := queue_depth\<rparr>))"

definition stamp_stream :: "'w runtime \<Rightarrow> stream_kind \<Rightarrow> ('w, unit) running" where
  "stamp_stream R stream =
     and_do (wait R) (\<lambda>_.
     and_do (peek (\<lambda>m. list_ex (\<lambda>x. sh_stream x = stream) (he_stream_states (mm_health m)))) (\<lambda>listed.
     if listed then
       and_do (attempt (now_unix_ms R)) (\<lambda>now.
       set_health (stream_update stream
         (\<lambda>x. x\<lparr>sh_last_event_at_unix_ms := (case now of Inr t \<Rightarrow> Some t | Inl _ \<Rightarrow> None)\<rparr>)))
     else done_with ()))"

definition jittered_delay :: "'w ports \<Rightarrow> int \<Rightarrow> int \<Rightarrow> ('w sys, 'e, int) action" where
  "jittered_delay P base maximum =
     and_do (call_out (po_uuid_byte P)) (\<lambda>byte.
     done_with (min (min 18446744073709551615 (base + (base div 4) * byte div 255)) maximum))"

primrec connect_loop :: "'w runtime \<Rightarrow> int \<Rightarrow> nat \<Rightarrow> int \<Rightarrow> ('w, unit) running" where
  "connect_loop R epoch 0 delay =
     fail_with (Safety ''bounded stream reconnect attempts exhausted'')"
| "connect_loop R epoch (Suc left) delay =
     and_do (attempt (port_call R (po_connect (ru_ports R) (ru_scope R) epoch))) (\<lambda>answer.
     case answer of
       Inr active \<Rightarrow>
         if set required_streams \<subseteq> set active then
           and_do (each_do (\<lambda>stream. set_stream_state R stream stream_state.Active 0) active) (\<lambda>_.
           poke (\<lambda>m. m\<lparr>mm_connected := True\<rparr>))
         else fail_with (Safety (''required stream ACK set incomplete: '' @ join_with '',''
           (map stream_kind_debug (filter (\<lambda>stream. stream \<notin> set active) required_streams))))
     | Inl e \<Rightarrow>
         if left \<noteq> 0 \<and> safe_read_retryable e then
           and_do (on_sys (jittered_delay (ru_ports R) delay 2000000000)) (\<lambda>pause.
           and_do (wait R) (\<lambda>_.
           and_do (on_sys (call_out (\<lambda>w. ((), po_sleep_nanos (ru_ports R) pause w)))) (\<lambda>_.
           connect_loop R epoch left (min (2 * delay) 2000000000))))
         else fail_with (Broker e))"

definition connect_streams :: "'w runtime \<Rightarrow> ('w, unit) running" where
  "connect_streams R =
     and_do current_epoch (\<lambda>epoch. connect_loop R epoch 3 250000000)"

section \<open>Signals\<close>

definition event_links :: "broker_event \<Rightarrow> broker_identity_links \<Rightarrow> bool" where
  "event_links event l \<longleftrightarrow>
     (case be_broker_order_id event of
        Some i \<Rightarrow> bl_broker_order_id l = Some i \<or> bl_replacement_broker_order_id l = Some i
      | None \<Rightarrow> False)
     \<or> (case be_broker_stop_order_id event of
          Some i \<Rightarrow> bl_broker_stop_order_id l = Some i
        | None \<Rightarrow> False)"

definition stream_event_has_local_provenance :: "'w runtime \<Rightarrow> broker_event \<Rightarrow> ('w, bool) running" where
  "stream_event_has_local_provenance R event =
     and_do (on_err Store (store_call R (store_read (ru_ports R)
       (all_identity_links (scope_key (ru_scope R)))))) (\<lambda>links.
     if list_ex (event_links event) links then done_with True
     else
       and_do (on_err Store (store_call R (store_read (ru_ports R)
         (unresolved_mutations (po_to_json (ru_ports R)) (scope_key (ru_scope R)))))) (\<lambda>unresolved.
       done_with (case be_logical_request_id event of
         Some request_id \<Rightarrow> list_ex (\<lambda>r. mr_logical_request_id r = request_id) unresolved
       | None \<Rightarrow> False)))"

definition recover_stream_gap :: "'w runtime \<Rightarrow> string \<Rightarrow> ('w, unit) running" where
  "recover_stream_gap R reason =
     and_do (transition R Reconciling StreamGap reason) (\<lambda>_.
     and_do (reconcile_locked R) (\<lambda>first.
     if rp_resulting_state first = Halted then apply_reconciliation_report R first
     else
       and_do (wait R) (\<lambda>_.
       and_do (peek mm_stream_sender) (\<lambda>sender.
       if \<not> sender then fail_with (Safety ''stream sender unavailable'')
       else
         and_do (attempt (connect_streams R)) (\<lambda>connected. case connected of
           Inl e \<Rightarrow>
             and_do (transition R Halted StreamDisconnected
               ''execution stream reconnect failed after bounded retries'') (\<lambda>_.
             fail_with e)
         | Inr _ \<Rightarrow>
             and_do (reconcile_locked R) (\<lambda>final_report.
             apply_reconciliation_report R final_report))))))"

text \<open>The refresh task is spawned: \<open>coalesced_refresh\<close> is what it runs.\<close>

definition request_coalesced_reconciliation :: "'w runtime \<Rightarrow> reason_code \<Rightarrow> string \<Rightarrow> ('w, unit) running" where
  "request_coalesced_reconciliation R reason detail =
     and_do (poke (\<lambda>m. m\<lparr>mm_reconciliation_dirty := True\<rparr>)) (\<lambda>_.
     and_do (peek mm_reconciliation_running) (\<lambda>running.
     if running then done_with ()
     else
       and_do (poke (\<lambda>m. m\<lparr>mm_reconciliation_running := True\<rparr>)) (\<lambda>_.
       and_do (transition R Reconciling reason detail) (\<lambda>_.
       and_do (wait R) (\<lambda>_.
       poke (\<lambda>m. m\<lparr>mm_refresh_task := True\<rparr>))))))"

definition stop_running :: "('w, unit) running" where
  "stop_running = poke (\<lambda>m. m\<lparr>mm_reconciliation_running := False\<rparr>)"

text \<open>The loop of the refresh task for a number of rounds; the result tells whether it has returned.\<close>

primrec coalesced_refresh :: "'w runtime \<Rightarrow> nat \<Rightarrow> ('w, bool) running" where
  "coalesced_refresh R 0 = done_with False"
| "coalesced_refresh R (Suc rounds) =
     and_do (poke (\<lambda>m. m\<lparr>mm_reconciliation_dirty := False\<rparr>)) (\<lambda>_.
     and_do (attempt (reconcile_locked R)) (\<lambda>reconciled. case reconciled of
       Inl _ \<Rightarrow> and_do stop_running (\<lambda>_. done_with True)
     | Inr report \<Rightarrow>
         and_do (peek mm_reconciliation_dirty) (\<lambda>dirty.
         if dirty then coalesced_refresh R rounds
         else
           and_do (attempt (apply_reconciliation_report R report)) (\<lambda>applied. case applied of
             Inl _ \<Rightarrow> and_do stop_running (\<lambda>_. done_with True)
           | Inr _ \<Rightarrow>
               and_do stop_running (\<lambda>_.
               and_do (peek (\<lambda>m. \<not> mm_reconciliation_dirty m \<or> mm_reconciliation_running m)) (\<lambda>finished.
               if finished then done_with True
               else
                 and_do (poke (\<lambda>m. m\<lparr>mm_reconciliation_running := True\<rparr>)) (\<lambda>_.
                 and_do (attempt (transition R Reconciling ReconciliationStarted
                   ''capital state changed during authoritative refresh'')) (\<lambda>moved. case moved of
                     Inl _ \<Rightarrow> and_do stop_running (\<lambda>_. done_with True)
                   | Inr _ \<Rightarrow> coalesced_refresh R rounds))))))))"

definition handle_event :: "'w runtime \<Rightarrow> broker_event \<Rightarrow> int \<Rightarrow> ('w, unit) running" where
  "handle_event R event queue_depth =
     (let event_class = be_event_class event; stream = event_class_stream event_class in
      and_do (set_stream_state R stream stream_state.Active queue_depth) (\<lambda>_.
      and_do (stamp_stream R stream) (\<lambda>_.
      and_do current_epoch (\<lambda>epoch.
      if be_runtime_epoch event \<noteq> epoch then done_with ()
      else
        and_do (on_err Store (store_call R (timed_write (ru_ports R)
          (record_broker_event (scope_key (ru_scope R)) event)))) (\<lambda>inserted.
        if \<not> inserted then done_with ()
        else if event_class \<in> {broker_event_class.Order, broker_event_class.Stop} then
          and_do (stream_event_has_local_provenance R event) (\<lambda>familiar.
          if familiar then done_with ()
          else
            let reason = (if event_class = broker_event_class.Order then BrokerOrderConflict
                          else BrokerStopConflict) in
            and_do (force_reconciliation R reason
              ''unfamiliar capital-affecting stream identity requires broker snapshot'') (\<lambda>report.
            if rp_resulting_state report = Ready then
              transition R Halted reason
                ''unfamiliar stream identity not yet confirmed by unary snapshot''
            else done_with ()))
        else
          request_coalesced_reconciliation R ReconciliationStarted
            ''capital-state stream event requires authoritative unary refresh'')))))"

definition handle_gap :: "'w runtime \<Rightarrow> stream_kind \<Rightarrow> string \<Rightarrow> ('w, unit) running" where
  "handle_gap R stream reason =
     and_do (set_stream_state R stream stream_state.Stale 0) (\<lambda>_.
     if required_stream stream then
       and_do (poke (\<lambda>m. m\<lparr>mm_connected := False\<rparr>)) (\<lambda>_.
       and_do (update_health R
         (\<lambda>h. h\<lparr>he_connected := False, he_new_exposure_allowed := False\<rparr>)) (\<lambda>_.
       recover_stream_gap R reason))
     else done_with ())"

fun handle_stream_signal :: "'w runtime \<Rightarrow> stream_signal \<Rightarrow> int \<Rightarrow> ('w, unit) running" where
  "handle_stream_signal R (Connected stream) queue_depth =
     set_stream_state R stream stream_state.Active 0"
| "handle_stream_signal R (Event event) queue_depth = handle_event R event queue_depth"
| "handle_stream_signal R (Gap stream reason) queue_depth = handle_gap R stream reason"
| "handle_stream_signal R (stream_signal.Disconnected stream reason) queue_depth = handle_gap R stream reason"

section \<open>Life of a coordinator\<close>

fun store_error_display :: "store_error \<Rightarrow> string" where
  "store_error_display OwnershipUnavailable = ''runtime ownership unavailable''"
| "store_error_display store_error.StaleEpoch = ''stale runtime epoch''"
| "store_error_display DuplicateMutation = ''duplicate logical mutation identity''"
| "store_error_display InvalidMutationTransition = ''invalid mutation transition''"
| "store_error_display (Corrupt text) = ''runtime store corruption: '' @ text"
| "store_error_display (UnsupportedSchema version) =
     ''unsupported runtime schema version '' @ show_nat (nat version)"
| "store_error_display (Persistence text) = ''runtime persistence failure: '' @ text"
| "store_error_display (BlockingTask text) = ''blocking store task failed: '' @ text"

definition initial_memory :: "runtime_scope \<Rightarrow> memory" where
  "initial_memory scope =
     \<lparr>mm_epoch = 0, mm_started = False, mm_connected = False, mm_execution_authorized = False,
      mm_state = runtime_state_machine_default,
      mm_health =
        \<lparr>he_state = Starting, he_reason_code = Startup,
         he_reason = ''runtime created; no broker reconciliation yet'',
         he_provider = sc_provider scope, he_environment = sc_environment scope,
         he_account_display = redacted_account_id scope, he_runtime_epoch = 0, he_connected = False,
         he_last_successful_reconciliation_at_unix_ms = None, he_reconciliation_age_ms = None,
         he_unresolved_unknown_count = 0, he_open_order_count = 0, he_active_stop_count = 0,
         he_stream_states = all_stream_health, he_persistence_healthy = True,
         he_execution_authorized = False, he_new_exposure_allowed = False\<rparr>,
      mm_free_slots = EXECUTION_QUEUE_CAPACITY, mm_reconciliation_dirty = False,
      mm_reconciliation_running = False, mm_refresh_task = False, mm_stream_task = False,
      mm_stream_sender = False\<rparr>"

definition acquire_epoch :: "'w runtime \<Rightarrow> int \<Rightarrow> ('w, int) running" where
  "acquire_epoch R now =
     and_do (attempt (store_call R (store_write (ru_ports R)
       (acquire_ownership (ru_scope R) (ru_owner_id R) now)))) (\<lambda>ownership. case ownership of
       Inr epoch \<Rightarrow> done_with epoch
     | Inl source \<Rightarrow>
         and_do (wait R) (\<lambda>_.
         and_do (move_state Halted) (\<lambda>_.
         and_do (update_health R (unhealthy
           (if source = OwnershipUnavailable then reason_code.OwnershipFailure
            else reason_code.PersistenceFailure) (store_error_display source))) (\<lambda>_.
         fail_with (Store source)))))"

definition resolve_credentials :: "'w runtime \<Rightarrow> int \<Rightarrow> ('w, unit) running" where
  "resolve_credentials R epoch =
     and_do (attempt (port_call R (po_resolve (ru_ports R) (ru_scope R)))) (\<lambda>resolved. case resolved of
       Inl e \<Rightarrow>
         and_do (transition R Halted CredentialRejected ''credential resolution failed'') (\<lambda>_.
         fail_with (Broker e))
     | Inr resolution \<Rightarrow>
         let authorized = cr_execution_authorized resolution in
         and_do (poke (\<lambda>m. m\<lparr>mm_execution_authorized := authorized\<rparr>)) (\<lambda>_.
         and_do (update_health R (\<lambda>h. h\<lparr>he_execution_authorized := authorized\<rparr>)) (\<lambda>_.
         if authorized then done_with ()
         else
           and_do (on_sys (call_out (po_uuid (ru_ports R)))) (\<lambda>correlation_id.
           and_do (now_unix_ms R) (\<lambda>now.
           on_err Store (store_call R (store_write (ru_ports R) (append_audit
             \<lparr>au_scope_key = scope_key (ru_scope R), au_runtime_epoch = epoch,
              au_event_type = ''EXECUTION_AUTHORIZATION_REJECTED'',
              au_reason_code = ExecutionUnauthorized, au_correlation_id = correlation_id,
              au_redacted_detail =
                ''credential resolved for reads; execution authorization disabled'',
              au_observed_at_unix_ms = now\<rparr>))))))))"

definition open_streams :: "'w runtime \<Rightarrow> ('w, reconciliation_report) running" where
  "open_streams R =
     and_do (attempt (connect_streams R)) (\<lambda>connected. case connected of
       Inl e \<Rightarrow>
         and_do (transition R Halted StreamDisconnected
           ''required execution stream connection failed after bounded retries'') (\<lambda>_.
         fail_with e)
     | Inr _ \<Rightarrow>
         and_do (wait R) (\<lambda>_.
         and_do (poke (\<lambda>m. m\<lparr>mm_stream_sender := True, mm_connected := True\<rparr>)) (\<lambda>_.
         and_do (update_health R (\<lambda>h. h\<lparr>he_connected := True\<rparr>)) (\<lambda>_.
         and_do (wait R) (\<lambda>_.
         and_do (poke (\<lambda>m. m\<lparr>mm_stream_task := True\<rparr>)) (\<lambda>_.
         and_do (reconcile_locked R) (\<lambda>final_report.
         and_do (apply_reconciliation_report R final_report) (\<lambda>_.
         done_with final_report))))))))"

definition start :: "'w runtime \<Rightarrow> ('w, reconciliation_report) running" where
  "start R =
     and_do (peek mm_started) (\<lambda>started.
     if started then fail_with (Safety ''runtime coordinator instance may start exactly once'')
     else
       and_do (poke (\<lambda>m. m\<lparr>mm_started := True\<rparr>)) (\<lambda>_.
       and_do (now_unix_ms R) (\<lambda>now.
       and_do (acquire_epoch R now) (\<lambda>epoch.
       and_do (poke (\<lambda>m. m\<lparr>mm_epoch := epoch\<rparr>)) (\<lambda>_.
       and_do (update_health R (\<lambda>h. h\<lparr>he_runtime_epoch := epoch\<rparr>)) (\<lambda>_.
       and_do (transition R runtime_state.Connecting reason_code.Connecting
         ''resolving opaque credential reference'') (\<lambda>_.
       and_do (resolve_credentials R epoch) (\<lambda>_.
       and_do (transition R Reconciling ReconciliationStarted
         ''initial authoritative broker reconciliation'') (\<lambda>_.
       and_do (reconcile_locked R) (\<lambda>first.
       if rp_resulting_state first = Halted then
         and_do (apply_reconciliation_report R first) (\<lambda>_. done_with first)
       else open_streams R))))))))))"

definition take_all_slots :: "('w, int) running" where
  "take_all_slots =
     and_do (peek mm_free_slots) (\<lambda>free.
     if free \<ge> EXECUTION_QUEUE_CAPACITY then
       and_do (poke (\<lambda>m. m\<lparr>mm_free_slots := mm_free_slots m - EXECUTION_QUEUE_CAPACITY\<rparr>)) (\<lambda>_.
       done_with EXECUTION_QUEUE_CAPACITY)
     else done_with 0)"

text \<open>All slots are awaited until the time is up; what was taken is held until the end.\<close>

definition shutdown :: "'w runtime \<Rightarrow> ('w, unit) running" where
  "shutdown R =
     and_do (transition R Stopping ShutdownRequested ''new command admission closed'') (\<lambda>_.
     and_do (wait R) (\<lambda>_.
     and_do take_all_slots (\<lambda>drained.
     finally_do (\<lambda>c. c\<lparr>cd_memory := (cd_memory c)\<lparr>mm_free_slots := mm_free_slots (cd_memory c) + drained\<rparr>\<rparr>)
       (and_do (attempt (port_call R (po_disconnect (ru_ports R)))) (\<lambda>_.
        and_do (wait R) (\<lambda>_.
        and_do (poke (\<lambda>m. m\<lparr>mm_stream_sender := False\<rparr>)) (\<lambda>_.
        and_do (wait R) (\<lambda>_.
        and_do (poke (\<lambda>m. m\<lparr>mm_stream_task := False\<rparr>)) (\<lambda>_.
        and_do (wait R) (\<lambda>_.
        and_do (poke (\<lambda>m. m\<lparr>mm_refresh_task := False\<rparr>)) (\<lambda>_.
        and_do (poke (\<lambda>m. m\<lparr>mm_connected := False\<rparr>)) (\<lambda>_.
        and_do (transition R Stopped ShutdownComplete
          ''stream tasks closed and final audit persisted'') (\<lambda>_.
        and_do current_epoch (\<lambda>epoch.
        and_do (on_err Store (store_call R (timed_write (ru_ports R)
          (\<lambda>now. release_ownership (scope_key (ru_scope R)) epoch now)))) (\<lambda>_.
        update_health R (\<lambda>h. h\<lparr>he_connected := False, he_new_exposure_allowed := False\<rparr>))))))))))))))))"

text \<open>\<open>HealthReadPort::health\<close>: the age is computed when it is read.\<close>

definition read_health :: "'w runtime \<Rightarrow> ('w, runtime_health) running" where
  "read_health R =
     and_do (wait R) (\<lambda>_.
     and_do (peek mm_health) (\<lambda>h.
     case he_last_successful_reconciliation_at_unix_ms h of
       None \<Rightarrow> done_with (h\<lparr>he_reconciliation_age_ms := None\<rparr>)
     | Some completed \<Rightarrow>
         and_do (attempt (now_unix_ms R)) (\<lambda>now.
         done_with (h\<lparr>he_reconciliation_age_ms :=
           (case now of Inr t \<Rightarrow> checked_u64 (wrap_i64 (t - completed)) | Inl _ \<Rightarrow> None)\<rparr>))))"

end
