(* ===== verification/Runtime_World.thy ===== *)
theory Runtime_World
  imports Runtime_Coordinator
begin

text \<open>
  What the runtime does to its surroundings.  The world changes by nothing but calls of the ports, by
  which whatever an adapter guarantees of each of its calls is carried over to reconciliations and
  handlers.
\<close>

inductive port_step :: "'w ports \<Rightarrow> 'w \<Rightarrow> 'w \<Rightarrow> bool" for P where
  "port_step P w (snd (po_others P w))"
| "port_step P w (snd (po_clock_nanos P w))"
| "port_step P w (snd (po_uuid P w))"
| "port_step P w (snd (po_uuid_byte P w))"
| "port_step P w (po_sleep_nanos P pause w)"
| "port_step P w (snd (po_accounts P scope w))"
| "port_step P w (snd (po_portfolio P scope w))"
| "port_step P w (snd (po_positions P scope w))"
| "port_step P w (snd (po_active_orders P scope w))"
| "port_step P w (snd (po_stop_orders P scope since w))"
| "port_step P w (snd (po_order_state P scope order request w))"
| "port_step P w (snd (po_operations_page P scope cursor since limit w))"
| "port_step P w (snd (po_dispatch_once P scope purpose command r w))"
| "port_step P w (snd (po_connect P scope epoch w))"
| "port_step P w (snd (po_disconnect P w))"
| "port_step P w (snd (po_resolve P scope w))"
| "port_step P w (snd (po_authorize_execution P scope purpose w))"
| "port_step P w (snd (po_admit P scope purpose command i db w))"
| "port_step P w (snd (po_validate_before_dispatch P scope purpose command i admission db w))"
| "port_step P w (snd (po_record_dispatch_outcome P scope i outcome db w))"
| "port_step P w (snd (po_reconcile_risk P scope report db w))"

definition port_runs :: "'w ports \<Rightarrow> 'w sys \<Rightarrow> 'w sys \<Rightarrow> bool" where
  "port_runs P s t \<longleftrightarrow> (port_step P)\<^sup>*\<^sup>* (sy_world s) (sy_world t)"

interpretation ports: run_relation "port_runs P" for P
  by unfold_locales (auto simp: port_runs_def)

lemma port_runs_step: "port_step P (sy_world s) (sy_world t) \<Longrightarrow> port_runs P s t"
  by (simp add: port_runs_def)

lemma others_port: "port_runs P s (others_run P s)"
  using port_step.intros(1) [of P "sy_world s"]
  by (auto simp: others_run_def intro: port_runs_step split: prod.splits)

lemma call_port_ports:
  "(\<And>w. port_step P w (snd (f w))) \<Longrightarrow> moves (port_runs P) (call_port f)"
  by (auto simp: moves_def call_port_def intro!: port_runs_step split: prod.splits) (metis snd_conv)

lemma call_out_ports:
  "(\<And>w. port_step P w (snd (f w))) \<Longrightarrow> moves (port_runs P) (call_out f)"
  by (auto simp: moves_def call_out_def intro!: port_runs_step split: prod.splits) (metis snd_conv)

lemma call_risk_ports:
  assumes "\<And>db w. port_step P w (snd (f db w))"
  shows "moves (port_runs P) (call_risk P f)"
proof (rule movesI)
  fix s r t
  let ?o = "others_run P s"
  assume "call_risk P f s = (r, t)"
  then have "sy_world t = snd (f (sy_db ?o) (sy_world ?o))"
    by (auto simp: call_risk_def Let_def split: prod.splits)
  then have "port_runs P ?o t" using assms port_runs_step by metis
  with others_port show "port_runs P s t" by (rule ports.chains)
qed

lemma store_calls_port [moves_intros]:
  "moves (port_runs P) (store_write P write_op)" "moves (port_runs P) (store_read P read_op)"
  using others_port
  by (auto simp: moves_def store_write_def store_read_def Let_def port_runs_def split: sum.splits prod.splits)

lemma calls_port [moves_intros]:
  "moves (port_runs P) (call_out (po_clock_nanos P))"
  "moves (port_runs P) (call_out (po_uuid P))"
  "moves (port_runs P) (call_out (po_uuid_byte P))"
  "moves (port_runs P) (call_out (\<lambda>w. ((), po_sleep_nanos P pause w)))"
  "moves (port_runs P) (call_port (po_accounts P scope))"
  "moves (port_runs P) (call_port (po_portfolio P scope))"
  "moves (port_runs P) (call_port (po_positions P scope))"
  "moves (port_runs P) (call_port (po_active_orders P scope))"
  "moves (port_runs P) (call_port (po_stop_orders P scope since))"
  "moves (port_runs P) (call_port (po_order_state P scope order request))"
  "moves (port_runs P) (call_port (po_operations_page P scope cursor since limit))"
  "moves (port_runs P) (call_port (po_dispatch_once P scope purpose command r))"
  "moves (port_runs P) (call_port (po_connect P scope epoch))"
  "moves (port_runs P) (call_port (po_disconnect P))"
  "moves (port_runs P) (call_port (po_resolve P scope))"
  "moves (port_runs P) (call_port (po_authorize_execution P scope purpose))"
  "moves (port_runs P) (call_risk P (po_admit P scope purpose command i))"
  "moves (port_runs P) (call_risk P (po_validate_before_dispatch P scope purpose command i admission))"
  "moves (port_runs P) (call_risk P (po_record_dispatch_outcome P scope i outcome))"
  "moves (port_runs P) (call_risk P (po_reconcile_risk P scope report))"
  by (intro call_port_ports call_out_ports call_risk_ports, simp add: port_step.intros)+

section \<open>Reconciliations\<close>

lemma now_port [moves_intros]: "moves (port_runs P) (now_unix_ms_store P)"
  unfolding now_unix_ms_store_def by (intro moves_intros)

lemma timed_write_port [moves_intros]: "moves (port_runs P) (timed_write P operation)"
  unfolding timed_write_def by (intro moves_intros)

lemma safe_read_port [moves_intros]:
  assumes "moves (port_runs P) (call_port operation)"
  shows "moves (port_runs P) (safe_read P C operation)"
proof -
  have "moves (port_runs P) (safe_read_loop P C n backoff operation)" for n backoff
    by (induction n arbitrary: backoff)
      (auto simp: retry_delay_def jittered_def Let_def intro!: moves_intros assms)
  then show ?thesis by (simp add: safe_read_def)
qed

lemma read_operations_port [moves_intros]: "moves (port_runs P) (read_operations P C scope from_ms)"
proof -
  have "moves (port_runs P) (operations_loop P C scope from_ms n cursor seen acc)" for n cursor seen acc
    by (induction n arbitrary: cursor seen acc) (auto intro!: moves_intros)
  then show ?thesis by (simp add: read_operations_def)
qed

lemma reconcile_port [moves_intros]: "moves (port_runs P) (reconcile P C scope epoch)"
  unfolding reconcile_def settle_snapshot_def commit_report_def persist_fill_dedupe_def
    load_usable_checkpoint_def resolve_mutation_def read_snapshot_def stored_as_def Let_def
  by (intro moves_intros)

lemma jittered_delay_port [moves_intros]: "moves (port_runs P) (jittered_delay P base maximum)"
  unfolding jittered_delay_def by (intro moves_intros)

end
