(* ===== verification/Runtime_Handlers.thy ===== *)
theory Runtime_Handlers
  imports Runtime_World
begin

text \<open>
  Handlers and the relations they stay within.  A relation between coordinators that admits every
  elementary step of the coordinator admits each operation; the locale \<open>coordinator_relation\<close> states
  the steps, \<open>handler_relation\<close> and \<open>refreshing_relation\<close> add what the handlers need, and their
  conclusion is that every sequence of handlers stays within the relation.
\<close>

section \<open>Handlers\<close>

datatype handler =
    Start
  | Dispatch runtime_execution_command string string
  | DispatchManual runtime_execution_command string string
  | Signal stream_signal int
  | Refresh nat
  | ForceReconciliation reason_code string
  | StreamOverflow
  | Shutdown
  | ReadHealth

primrec run_handler :: "'w runtime \<Rightarrow> handler \<Rightarrow> 'w coordinator \<Rightarrow> 'w coordinator" where
  "run_handler R Start c = snd (start R c)"
| "run_handler R (Dispatch command i correlation) c = snd (dispatch R command i correlation c)"
| "run_handler R (DispatchManual command i correlation) c = snd (dispatch_manual R command i correlation c)"
| "run_handler R (Signal signal depth) c = snd (handle_stream_signal R signal depth c)"
| "run_handler R (Refresh rounds) c = snd (coalesced_refresh R rounds c)"
| "run_handler R (ForceReconciliation reason detail) c = snd (force_reconciliation R reason detail c)"
| "run_handler R StreamOverflow c = snd (report_stream_overflow R c)"
| "run_handler R Shutdown c = snd (shutdown R c)"
| "run_handler R ReadHealth c = snd (read_health R c)"

definition run_handlers :: "'w runtime \<Rightarrow> handler list \<Rightarrow> 'w coordinator \<Rightarrow> 'w coordinator" where
  "run_handlers R = fold (run_handler R)"

section \<open>Steps of a coordinator\<close>

lemma tasks_run_frame [simp]:
  "sy_db (cd_sys (tasks_run R c)) = sy_db (cd_sys c)" "cd_trace (tasks_run R c) = cd_trace c"
  "sy_db (cd_sys (tasks_run_locked R c)) = sy_db (cd_sys c)" "cd_trace (tasks_run_locked R c) = cd_trace c"
  by (simp_all add: tasks_run_def tasks_run_locked_def Let_def split: prod.splits)

text \<open>No other task of the coordinator runs.\<close>

definition alone :: "'w runtime \<Rightarrow> bool" where
  "alone R \<longleftrightarrow> (\<forall>w m. fst (ru_tasks R w m) = m)"

lemma alone_tasks_run [simp]:
  assumes "alone R"
  shows "cd_memory (tasks_run R c) = cd_memory c" "cd_memory (tasks_run_locked R c) = cd_memory c"
proof -
  obtain m w where t: "ru_tasks R (sy_world (cd_sys c)) (cd_memory c) = (m, w)" by fastforce
  then have "m = cd_memory c" using assms unfolding alone_def by (metis fst_conv)
  with t show "cd_memory (tasks_run R c) = cd_memory c" "cd_memory (tasks_run_locked R c) = cd_memory c"
    by (simp_all add: tasks_run_def tasks_run_locked_def)
qed

lemma step_simps:
  "and_do (wait R) k1 c = k1 () (tasks_run R c)"
  "and_do (wait_locked R) k1 c = k1 () (tasks_run_locked R c)"
  "and_do (peek f) k2 c = k2 (f (cd_memory c)) c"
  "and_do (poke g) k1 c = k1 () (c\<lparr>cd_memory := g (cd_memory c)\<rparr>)"
  "and_do (set_health h) k1 c = k1 () (c\<lparr>cd_memory := (cd_memory c)\<lparr>mm_health := h (mm_health (cd_memory c))\<rparr>\<rparr>)"
  "and_do (traced e) k1 c = k1 () (c\<lparr>cd_trace := cd_trace c @ [e]\<rparr>)"
  by (simp_all add: and_do_def wait_def wait_locked_def peek_def poke_def set_health_def traced_def
    look_def change_def)

lemma and_do_simps:
  "and_do (done_with x) k s = k x s"
  "and_do (fail_with e) k s = (Inl e, s)"
  "and_do (attempt m) k' s = (case m s of (r, t) \<Rightarrow> k' r t)"
  "and_do (and_do m g) k s = and_do m (\<lambda>x. and_do (g x) k) s"
  "and_do (of_result (Inr x)) k s = k x s" "and_do (of_result (Inl e)) k s = (Inl e, s)"
  by (simp_all add: and_do_def done_with_def fail_with_def attempt_def of_result_def
    split: prod.splits sum.splits)

lemmas run_simps = step_simps and_do_simps

lemma timed_write_runs [moves_intros]:
  "(\<And>now. moves (store_runs P) (store_write P (operation now))) \<Longrightarrow>
   moves (store_runs P) (timed_write P operation)"
  unfolding timed_write_def by (intro moves_intros)

lemma reject_with_fails [simp]: "reject_with R i e c \<noteq> (Inr x, d)"
  by (simp add: reject_with_def action_simps)

lemma or_reject_Inr [simp]: "or_reject R i m c = (Inr x, d) \<longleftrightarrow> m c = (Inr x, d)"
  by (cases "m c"; cases "fst (m c)")
    (auto simp: or_reject_def and_do_def attempt_def done_with_def)

lemma insert_runs:
  assumes "runtime_others P" and "mr_state r = NotDispatched"
  shows "moves (store_runs P) (store_write P (insert_mutation (po_to_json P) r))"
  by (rule store_write_runs [OF assms(1)], rule exI [of _ "InsertMutation r"])
    (use assms(2) in \<open>auto simp: written_def\<close>)

lemma transition_mutation_runs [moves_intros]:
  assumes "runtime_others P"
    and "target \<in> {journal_state.UnknownAfterDispatch, journal_state.Acknowledged, journal_state.Rejected}"
  shows "moves (store_runs P) (store_write P (transition_mutation (po_to_json P) key i
    [journal_state.UnknownAfterDispatch] target ref disp epoch now))"
  by (rule store_write_runs [OF assms(1)],
      rule exI [of _ "TransitionMutation key i [journal_state.UnknownAfterDispatch] target ref disp epoch now"])
    (use assms(2) in \<open>auto simp: written_def\<close>)

lemma claim_runs [moves_intros]:
  assumes "runtime_others P"
  shows "moves (store_runs P) (store_write P (claim_dispatch_unknown (po_to_json P) key i epoch now))"
  by (rule store_write_runs [OF assms],
      rule exI [of _ "TransitionMutation key i [NotDispatched] journal_state.UnknownAfterDispatch
        None None epoch now"])
    (auto simp: written_def claim_dispatch_unknown_def)

lemma record_prepared_state: "record_prepared js scope i k e x epoch now = Inr r \<Longrightarrow>
    mr_state r = NotDispatched \<and> mr_logical_request_id r = i \<and> mr_kind r = k
    \<and> mr_request_evidence r = e \<and> mr_scope_key r = scope_key scope \<and> mr_runtime_epoch r = epoch"
  by (auto simp: record_prepared_def validate_evidence_def runtime_required_def
    validate_safe_text_owned_def result_simps split: if_splits)


text \<open>The outcome the risk service is to hear of for an answer of the broker.\<close>

fun outcome_of :: "broker_port_error + execution_result \<Rightarrow> risk_dispatch_outcome" where
  "outcome_of (Inr (execution_result.Acknowledged ref links)) = risk_dispatch_outcome.Acknowledged"
| "outcome_of (Inr (execution_result.Rejected ref)) = risk_dispatch_outcome.Rejected"
| "outcome_of (Inr (execution_result.UnknownAfterDispatch ref)) = risk_dispatch_outcome.UnknownAfterDispatch"
| "outcome_of (Inl e) = risk_dispatch_outcome.UnknownAfterDispatch"

text \<open>The health a coordinator reports: new exposure only when ready and connected.\<close>

definition health_sound :: "runtime_health \<Rightarrow> bool" where
  "health_sound h \<longleftrightarrow> (he_new_exposure_allowed h \<longrightarrow> he_state h = Ready \<and> he_connected h)"

text \<open>The flags of the refresh task are not cleared, and the health stays.\<close>

definition flags_kept :: "memory \<Rightarrow> memory \<Rightarrow> bool" where
  [simp]: "flags_kept m n \<longleftrightarrow> mm_health n = mm_health m
     \<and> (mm_reconciliation_running m \<longrightarrow> mm_reconciliation_running n)
     \<and> (mm_reconciliation_dirty m \<longrightarrow> mm_reconciliation_dirty n)"

section \<open>Relations that handlers stay within\<close>

text \<open>
  What holds of every step of a coordinator holds of its handlers.  A relation between coordinators is
  given by what it has to admit: the steps of other tasks, the writes of runtimes and the calls of ports, every
  event but some special ones, changes of the fields that keep the health and the flags, and sound changes of the health.  A move
  of the state machine is special only if it is one to readiness.
\<close>

locale coordinator_relation =
  run_relation Rel for Rel :: "'w coordinator \<Rightarrow> 'w coordinator \<Rightarrow> bool" +
  fixes R :: "'w runtime" and special :: "trace_event \<Rightarrow> bool"
  assumes tasks: "Rel c (tasks_run R c)"
    and tasks_locked: "Rel c (tasks_run_locked R c)"
    and stores: "(runtime_others (ru_ports R) \<Longrightarrow> store_runs (ru_ports R) (cd_sys c) s) \<Longrightarrow>
      port_runs (ru_ports R) (cd_sys c) s \<Longrightarrow> Rel c (c\<lparr>cd_sys := s\<rparr>)"
    and events: "\<not> special e \<Longrightarrow> Rel c (c\<lparr>cd_trace := cd_trace c @ [e]\<rparr>)"
    and fields: "flags_kept (cd_memory c) m \<Longrightarrow> Rel c (c\<lparr>cd_memory := m\<rparr>)"
    and healths: "(health_sound (mm_health (cd_memory c)) \<Longrightarrow> health_sound h) \<Longrightarrow>
      Rel c (c\<lparr>cd_memory := (cd_memory c)\<lparr>mm_health := h\<rparr>\<rparr>)"
    and special_moves: "special (Moved state target) \<Longrightarrow> target = Ready"
begin

lemma not_special [moves_intros]: "target \<noteq> Ready \<Longrightarrow> \<not> special (Moved s target)"
  using special_moves by blast

lemma keeps_primitives [moves_intros]:
  "moves Rel (wait R)" "moves Rel (wait_locked R)" "moves Rel (peek f)"
  by (auto simp: moves_def wait_def wait_locked_def peek_def look_def change_def tasks tasks_locked stays)

lemma keeps_poke [moves_intros]: "(\<And>m. flags_kept m (g m)) \<Longrightarrow> moves Rel (poke g)"
  by (simp add: moves_def poke_def change_def fields)

lemma keeps_set_health [moves_intros]:
  "(\<And>h. health_sound h \<Longrightarrow> health_sound (f h)) \<Longrightarrow> moves Rel (set_health f)"
  by (simp add: moves_def set_health_def poke_def change_def healths)

lemma keeps_traced [moves_intros]: "\<not> special e \<Longrightarrow> moves Rel (traced e)"
  by (simp add: moves_def traced_def change_def events)

lemma keeps_on_sys [moves_intros]:
  assumes "runtime_others (ru_ports R) \<Longrightarrow> moves (store_runs (ru_ports R)) m"
    and "moves (port_runs (ru_ports R)) m"
  shows "moves Rel (on_sys m)"
proof (rule movesI)
  fix c r d
  assume "on_sys m c = (r, d)"
  then obtain s where "m (cd_sys c) = (r, s)" "d = c\<lparr>cd_sys := s\<rparr>" by (auto simp: on_sys_def action_simps)
  then show "Rel c d" using stores [of c s] movesD [OF assms(1)] movesD [OF assms(2)] by blast
qed

lemma keeps_calls [moves_intros]:
  "(runtime_others (ru_ports R) \<Longrightarrow> moves (store_runs (ru_ports R)) m) \<Longrightarrow>
   moves (port_runs (ru_ports R)) m \<Longrightarrow> moves Rel (store_call R m)"
  "moves (port_runs (ru_ports R)) (call_port f) \<Longrightarrow> moves Rel (port_call R f)"
  "(\<And>h. health_sound h \<Longrightarrow> health_sound (g h)) \<Longrightarrow> moves Rel (update_health R g)"
  "moves Rel (now_unix_ms R)" "moves Rel current_epoch"
  "moves (port_runs (ru_ports R)) (call_risk (ru_ports R) k) \<Longrightarrow> moves Rel (ask_risk R k)"
  unfolding store_call_def port_call_def ask_risk_def update_health_def now_unix_ms_def current_epoch_def
  by (intro moves_intros; assumption)+

lemma moved_health_sound: "health_sound (moved_health target reason detail connected authorized h)"
  by (simp add: health_sound_def moved_health_def new_exposure_allowed_def)

lemma announce_keeps:
  "moves Rel (and_do (if epoch > 0 then record_move R epoch state target reason detail else done_with ())
     (\<lambda>_. and_do (peek (\<lambda>m. (mm_connected m, mm_execution_authorized m))) (\<lambda>(connected, authorized).
     and_do (wait_locked R) (\<lambda>_. set_health (moved_health target reason detail connected authorized)))))"
  unfolding record_move_def by (intro moves_intros moved_health_sound)

lemma transition_keeps:
  assumes "\<And>s. \<not> special (Moved s target)"
  shows "moves Rel (transition R target reason detail)"
  unfolding transition_def move_state_def
  by (intro announce_keeps moves_intros assms) simp_all

lemma transition_not_ready [moves_intros]: "target \<noteq> Ready \<Longrightarrow> moves Rel (transition R target reason detail)"
  by (rule transition_keeps) (rule not_special)

lemma unhealthy_sound [moves_intros]: "health_sound (unhealthy reason detail h)"
  by (simp add: health_sound_def unhealthy_def)

lemma require_store_keeps [moves_intros]: "moves Rel m \<Longrightarrow> moves Rel (require_store R detail m)"
  unfolding require_store_def by (intro moves_intros) simp_all

lemma record_risk_dispatch_outcome_keeps [moves_intros]:
  "\<not> special (Outcome i outcome) \<Longrightarrow> moves Rel (record_risk_dispatch_outcome R i outcome)"
  unfolding record_risk_dispatch_outcome_def by (intro moves_intros) simp_all

lemma reject_keeps [moves_intros]:
  "\<not> special (Outcome i risk_dispatch_outcome.Rejected) \<Longrightarrow> moves Rel (reject_with R i e)"
  "\<not> special (Outcome i risk_dispatch_outcome.Rejected) \<Longrightarrow> moves Rel m \<Longrightarrow> moves Rel (or_reject R i m)"
  unfolding or_reject_def reject_with_def by (intro moves_intros; assumption)+

lemma finish_mutation_keeps [moves_intros]:
  "target \<in> {journal_state.UnknownAfterDispatch, journal_state.Acknowledged, journal_state.Rejected} \<Longrightarrow>
   moves Rel (finish_mutation R i target ref disp)"
  unfolding finish_mutation_def by (intro moves_intros)

lemma halt_unknown_keeps [moves_intros]:
  "\<not> special (Outcome i risk_dispatch_outcome.UnknownAfterDispatch) \<Longrightarrow> moves Rel (halt_unknown R i detail e)"
  unfolding halt_unknown_def by (intro moves_intros) simp_all

lemma settle_dispatch_keeps [moves_intros]:
  assumes "\<not> special (Outcome i (outcome_of answer))"
  shows "moves Rel (settle_dispatch R i epoch answer)"
proof (cases answer)
  case (Inr x)
  then show ?thesis using assms by (cases x) (auto simp: settle_dispatch_def intro!: moves_intros)
qed (use assms in \<open>auto simp: settle_dispatch_def intro!: moves_intros\<close>)

lemma fence_dispatch_keeps [moves_intros]:
  assumes "\<not> special (Outcome i risk_dispatch_outcome.Rejected)"
  shows "moves Rel (fence_dispatch R command i correlation)"
proof -
  have insert_keeps: "moves Rel (require_store R detail (store_call R (store_write (ru_ports R)
      (insert_mutation (po_to_json (ru_ports R)) r))))"
    if "or_reject R i (of_result (map_err Model (record_prepared (po_to_json (ru_ports R)) (ru_scope R) i k e
        correlation epoch now))) s = (Inr r, t)" for r s t k e epoch now detail
  proof -
    have "record_prepared (po_to_json (ru_ports R)) (ru_scope R) i k e correlation epoch now = Inr r"
      using that by (simp add: or_reject_Inr action_simps result_simps eq_commute [of "Inr _" "map_err _ _"])
    then show ?thesis by (intro moves_intros insert_runs) (use record_prepared_state in auto)
  qed
  show ?thesis
    unfolding fence_dispatch_def
    by (intro moves_and_do [OF reject_keeps(2) [OF assms keeps_calls(5)]]
        moves_and_do [OF reject_keeps(2) [OF assms keeps_calls(4)]]
        moves_bind [OF reject_keeps(2) [OF assms moves_of_result]]
        moves_and_do [OF reject_keeps(2) [OF assms insert_keeps]] moves_intros assms)
qed

lemma reconcile_locked_keeps [moves_intros]:
  "(\<And>report. \<not> special (Reported report)) \<Longrightarrow> moves Rel (reconcile_locked R)"
  unfolding reconcile_locked_def by (intro moves_intros) simp_all

lemma ensure_execution_allowed_keeps [moves_intros]: "moves Rel (ensure_execution_allowed R purpose command)"
  unfolding ensure_execution_allowed_def by (intro moves_intros) (simp_all add: health_sound_def)

lemma release_slot_keeps: "Rel c (release_slot c)"
  by (simp add: release_slot_def fields)

lemma connect_streams_keeps [moves_intros]: "moves Rel (connect_streams R)"
proof -
  have delay: "moves (store_runs P) (jittered_delay P base maximum)" for P :: "'w ports" and base maximum
    unfolding jittered_delay_def by (intro moves_intros)
  have "moves Rel (connect_loop R epoch n pause)" for epoch n pause
    by (induction n arbitrary: pause)
      (auto simp: set_stream_state_def health_sound_def stream_update_def intro!: moves_intros delay)
  then show ?thesis unfolding connect_streams_def by (intro moves_intros)
qed

lemma shutdown_keeps: "moves Rel (shutdown R)"
  unfolding shutdown_def take_all_slots_def
  by (intro moves_intros moves_finally) (simp_all add: health_sound_def fields)

lemma read_health_keeps: "moves Rel (read_health R)"
  unfolding read_health_def by (intro moves_intros)

lemma dispatch_for_purpose_keeps:
  assumes "\<And>sized. moves Rel (dispatch_with_permit R purpose sized i correlation)"
    and "\<And>a. \<not> special (Admitted i a)" and "\<not> special (Outcome i risk_dispatch_outcome.Rejected)"
  shows "moves Rel (dispatch_for_purpose R command i correlation purpose)"
  unfolding dispatch_for_purpose_def dispatch_admitted_def dispatch_approved_def with_permit_def
  by (intro moves_intros moves_finally assms release_slot_keeps) simp

end

section \<open>Reports\<close>

fun reported :: "trace_event \<Rightarrow> reconciliation_report option" where
  "reported (Reported report) = Some report"
| "reported _ = None"

text \<open>The last report of a trace.\<close>

definition last_report :: "trace_event list \<Rightarrow> reconciliation_report option" where
  "last_report es = fold (\<lambda>e found. case reported e of None \<Rightarrow> found | Some report \<Rightarrow> Some report) es None"

lemma last_report_snoc [simp]:
  "last_report (es @ [e]) = (case reported e of None \<Rightarrow> last_report es | Some report \<Rightarrow> Some report)"
  by (simp add: last_report_def split: option.split)

lemma reconcile_locked_last: "reconcile_locked R c = (Inr report, d) \<Longrightarrow> last_report (cd_trace d) = Some report"
  unfolding reconcile_locked_def
  by (elim and_do_InrE) (auto simp: action_simps traced_def split: sum.splits)

text \<open>A relation that an action stays within when the given report is the last one made.\<close>

definition fresh ::
  "('w coordinator \<Rightarrow> 'w coordinator \<Rightarrow> bool) \<Rightarrow> reconciliation_report \<Rightarrow> ('w coordinator, 'e, 'a) action \<Rightarrow> bool" where
  "fresh Rel report m \<longleftrightarrow> (\<forall>c r d. last_report (cd_trace c) = Some report \<longrightarrow> m c = (r, d) \<longrightarrow> Rel c d)"

lemma freshD: "fresh Rel report m \<Longrightarrow> last_report (cd_trace c) = Some report \<Longrightarrow> m c = (r, d) \<Longrightarrow> Rel c d"
  by (auto simp: fresh_def)

lemma fresh_moves: "moves Rel m \<Longrightarrow> fresh Rel report m"
  by (simp add: fresh_def movesD)

lemma fresh_cases:
  "(b \<Longrightarrow> fresh Rel report m) \<Longrightarrow> (\<not> b \<Longrightarrow> fresh Rel report n) \<Longrightarrow> fresh Rel report (if b then m else n)"
  "(\<And>e. fresh Rel report (f e)) \<Longrightarrow> (\<And>x. fresh Rel report (g x)) \<Longrightarrow>
   fresh Rel report (case v of Inl e \<Rightarrow> f e | Inr x \<Rightarrow> g x)"
  by (auto split: sum.splits)

lemma fresh_attempt: "fresh Rel report m \<Longrightarrow> fresh Rel report (attempt m)"
  by (auto simp: fresh_def attempt_def split: prod.splits)

lemma fresh_peek: "(\<And>x. fresh Rel report (k x)) \<Longrightarrow> fresh Rel report (and_do (peek f) k)"
  by (auto simp: fresh_def run_simps)

definition is_refresh :: "handler \<Rightarrow> bool" where
  "is_refresh h \<longleftrightarrow> (\<exists>rounds. h = Refresh rounds)"

section \<open>Relations of handlers\<close>

text \<open>
  Handlers make reports, apply a report just when they have made it, and dispatch.  A relation that
  admits these three, and that treats no other events but admissions, sends, reports and moves to
  readiness as special, admits every handler.
\<close>

locale handler_relation = coordinator_relation +
  assumes special_events: "special e \<Longrightarrow> (\<exists>purpose command r. e = Sent purpose command r)
      \<or> (\<exists>i admission. e = Admitted i admission) \<or> (\<exists>report. e = Reported report) \<or> (\<exists>s. e = Moved s Ready)"
    and reconciled: "moves Rel (reconcile_locked R)"
    and dispatched: "moves Rel (dispatch_for_purpose R command i correlation purpose)"
    and applied: "fresh Rel report (apply_reconciliation_report R report)"
begin

lemma quiet_events [moves_intros]:
  "\<not> special (Outcome i outcome)" "\<not> special (Answered answer)"
  using special_events by blast+

lemma fresh_then:
  assumes "fresh Rel report m" and "\<And>x. moves Rel (k x)"
  shows "fresh Rel report (and_do m k)"
  unfolding fresh_def
proof (intro allI impI)
  fix c r d
  assume before: "last_report (cd_trace c) = Some report" and "and_do m k c = (r, d)"
  from this(2) show "Rel c d"
  proof (cases rule: and_do_cases)
    case (failed e)
    then show ?thesis using freshD [OF assms(1) before] by blast
  next
    case (went_on x t)
    from freshD [OF assms(1) before went_on(1)] movesD [OF assms(2) went_on(2)] show ?thesis by (rule chains)
  qed
qed

lemma attempt_reconcile_keeps:
  assumes "\<And>e. moves Rel (k (Inl e))" and "\<And>report. fresh Rel report (k (Inr report))"
  shows "moves Rel (and_do (attempt (reconcile_locked R)) k)"
proof (rule movesI)
  fix c r d
  obtain x t where t: "reconcile_locked R c = (x, t)" by fastforce
  assume "and_do (attempt (reconcile_locked R)) k c = (r, d)"
  then have run: "k x t = (r, d)" by (simp add: run_simps t)
  have "Rel t d"
  proof (cases x)
    case (Inl e)
    then show ?thesis using run movesD [OF assms(1)] by simp
  next
    case (Inr report)
    then show ?thesis using run t freshD [OF assms(2) reconcile_locked_last] by simp
  qed
  with movesD [OF reconciled t] show "Rel c d" by (rule chains)
qed

lemma then_reconcile_keeps:
  assumes "\<And>report. fresh Rel report (k report)"
  shows "moves Rel (and_do (reconcile_locked R) k)"
proof (rule movesI)
  fix c r d
  assume "and_do (reconcile_locked R) k c = (r, d)"
  then show "Rel c d"
  proof (cases rule: and_do_cases)
    case (failed e)
    from movesD [OF reconciled failed(1)] show ?thesis .
  next
    case (went_on report t)
    from movesD [OF reconciled went_on(1)] freshD [OF assms reconcile_locked_last [OF went_on(1)] went_on(2)]
    show ?thesis by (rule chains)
  qed
qed

lemma force_reconciliation_keeps [moves_intros]: "moves Rel (force_reconciliation R reason detail)"
  unfolding force_reconciliation_def
  by (rule moves_and_do, rule transition_not_ready, simp)
    (intro then_reconcile_keeps fresh_then [OF applied] moves_intros)

lemma recover_stream_gap_keeps [moves_intros]: "moves Rel (recover_stream_gap R reason)"
proof -
  have reconnected: "moves Rel (and_do (attempt (connect_streams R)) (\<lambda>connected. case connected of
           Inl e \<Rightarrow>
             and_do (transition R Halted StreamDisconnected
               ''execution stream reconnect failed after bounded retries'') (\<lambda>_.
             fail_with e)
         | Inr _ \<Rightarrow>
             and_do (reconcile_locked R) (\<lambda>final_report.
             apply_reconciliation_report R final_report)))"
    by (intro then_reconcile_keeps applied moves_intros) simp
  show ?thesis
    unfolding recover_stream_gap_def
    by (rule moves_and_do, rule transition_not_ready, simp)
      (intro then_reconcile_keeps fresh_cases(1) applied fresh_moves reconnected moves_intros)
qed

lemma stream_state_keeps: "moves Rel (set_stream_state R stream state depth)" "moves Rel (stamp_stream R stream)"
  unfolding set_stream_state_def stamp_stream_def
  by (intro moves_intros; simp add: stream_update_def health_sound_def)+

lemma handle_stream_signal_keeps: "moves Rel (handle_stream_signal R signal depth)"
proof -
  have event: "moves Rel (handle_event R event depth)" for event
    unfolding handle_event_def Let_def stream_event_has_local_provenance_def request_coalesced_reconciliation_def
    by (intro stream_state_keeps moves_intros) simp_all
  have gap: "moves Rel (handle_gap R stream reason)" for stream reason
    unfolding handle_gap_def by (intro stream_state_keeps moves_intros) (simp_all add: health_sound_def)
  show ?thesis by (cases signal) (auto intro: event gap stream_state_keeps)
qed

lemma start_keeps: "moves Rel (start R)"
proof -
  have streams: "moves Rel (open_streams R)"
    unfolding open_streams_def
    by (intro then_reconcile_keeps fresh_then [OF applied] moves_intros) (simp_all add: health_sound_def)
  have first: "moves Rel (and_do (reconcile_locked R) (\<lambda>first.
       if rp_resulting_state first = Halted then
         and_do (apply_reconciliation_report R first) (\<lambda>_. done_with first)
       else open_streams R))"
    by (intro then_reconcile_keeps fresh_cases(1) fresh_then [OF applied] fresh_moves [OF streams] moves_intros)
  show ?thesis
    unfolding start_def acquire_epoch_def resolve_credentials_def Let_def move_state_def
    by (intro first moves_intros) (simp_all add: health_sound_def)
qed

lemma run_handler_keeps: "\<not> is_refresh h \<Longrightarrow> Rel c (run_handler R h c)"
proof (cases h)
  case Start
  then show ?thesis using start_keeps by (simp add: moves_def)
next
  case (Signal signal depth)
  then show ?thesis using handle_stream_signal_keeps by (simp add: moves_def)
next
  case Shutdown
  then show ?thesis using shutdown_keeps by (simp add: moves_def)
next
  case ReadHealth
  then show ?thesis using read_health_keeps by (simp add: moves_def)
next
  case (ForceReconciliation reason detail)
  then show ?thesis using force_reconciliation_keeps by (simp add: moves_def)
next
  case StreamOverflow
  then show ?thesis using force_reconciliation_keeps by (simp add: moves_def report_stream_overflow_def)
qed (use dispatched in \<open>simp_all add: moves_def dispatch_def dispatch_manual_def is_refresh_def\<close>)

lemma handlers_keep: "\<forall>h \<in> set hs. \<not> is_refresh h \<Longrightarrow> Rel c (run_handlers R hs c)"
proof (induction hs arbitrary: c)
  case (Cons h hs)
  then show ?case using chains [OF run_handler_keeps Cons.IH] by (simp add: run_handlers_def)
qed (simp add: run_handlers_def stays)

end

text \<open>The refresh task clears the flags.\<close>

locale refreshing_relation = handler_relation +
  assumes free_fields: "mm_health m = mm_health (cd_memory c) \<Longrightarrow> Rel c (c\<lparr>cd_memory := m\<rparr>)"
begin

lemma free_poke: "(\<And>m. mm_health (g m) = mm_health m) \<Longrightarrow> moves Rel (poke g)"
  by (simp add: moves_def poke_def change_def free_fields)

lemma coalesced_refresh_keeps: "moves Rel (coalesced_refresh R rounds)"
proof (induction rounds)
  case (Suc rounds)
  have after: "moves Rel (case applied of
             Inl _ \<Rightarrow> and_do stop_running (\<lambda>_. done_with True)
           | Inr _ \<Rightarrow>
               and_do stop_running (\<lambda>_.
               and_do (peek (\<lambda>m. \<not> mm_reconciliation_dirty m \<or> mm_reconciliation_running m)) (\<lambda>finished.
               if finished then done_with True
               else
                 and_do (poke (\<lambda>m. m\<lparr>mm_reconciliation_running := True\<rparr>)) (\<lambda>_.
                 and_do (attempt (transition R Reconciling ReconciliationStarted
                   ''capital state changed during authoritative refresh'')) (\<lambda>moved. case moved of
                     Inl _ \<Rightarrow> and_do stop_running (\<lambda>_. done_with True)
                   | Inr _ \<Rightarrow> coalesced_refresh R rounds)))))" for applied :: "runtime_error + unit"
    unfolding stop_running_def by (intro free_poke moves_intros Suc.IH) simp_all
  have stop: "moves Rel (and_do stop_running (\<lambda>_. done_with True))"
    unfolding stop_running_def by (intro free_poke moves_intros) simp
  have clear: "moves Rel (poke (\<lambda>m. m\<lparr>mm_reconciliation_dirty := False\<rparr>))" by (rule free_poke) simp
  show ?case
    unfolding coalesced_refresh.simps(2)
    by (rule moves_and_do [OF clear], rule attempt_reconcile_keeps)
      (simp only: sum.case stop,
       simp only: sum.case, intro fresh_peek fresh_cases(1) fresh_moves [OF Suc.IH]
         fresh_then [OF fresh_attempt [OF applied] after])
qed (simp, intro moves_intros)

lemma any_handler_keeps: "Rel c (run_handler R h c)"
proof (cases h)
  case (Refresh rounds)
  then show ?thesis using coalesced_refresh_keeps by (simp add: moves_def)
qed (rule run_handler_keeps, simp add: is_refresh_def)+

lemma run_handlers_keep: "Rel c (run_handlers R hs c)"
proof (induction hs arbitrary: c)
  case (Cons h hs)
  from chains [OF any_handler_keeps Cons.IH] show ?case by (simp add: run_handlers_def)
qed (simp add: run_handlers_def stays)

end

end
