(* ===== verification/Runtime_Dispatch.thy ===== *)
theory Runtime_Dispatch
  imports Runtime_Handlers
begin

text \<open>
  Dispatching: each request is sent at most once, only what was admitted is sent, the risk service hears
  of the outcome the broker gave, and a receipt is durable.
\<close>

section \<open>Sends\<close>

fun sent_id :: "trace_event \<Rightarrow> string option" where
  "sent_id (Sent purpose command r) = Some (mr_logical_request_id r)"
| "sent_id _ = None"

definition sent_ids :: "trace_event list \<Rightarrow> string list" where
  "sent_ids es = List.map_filter sent_id es"

lemma sent_ids_simps [simp]:
  "sent_ids [] = []"
  "sent_ids (e # es) = (case sent_id e of None \<Rightarrow> sent_ids es | Some i \<Rightarrow> i # sent_ids es)"
  "sent_ids (xs @ ys) = sent_ids xs @ sent_ids ys"
  by (auto simp: sent_ids_def List.map_filter_def split: option.splits)

text \<open>A request whose record has left the prepared state.\<close>

definition claimed :: "'w coordinator \<Rightarrow> string \<Rightarrow> bool" where
  "claimed c i \<longleftrightarrow> (\<exists>r. record_of (sy_db (cd_sys c)) i = Some r \<and> mr_state r \<noteq> NotDispatched)"

lemma claimed_stays:
  assumes "store_runs P (cd_sys c) (cd_sys d)" and "claimed c i"
  shows "claimed d i"
  using assms lifecycle_never_reopens [OF store_runs_record [OF assms(1), of i]]
  by (auto simp: claimed_def)

text \<open>Requests are sent once each, when nobody has claimed them before, and are claimed afterwards.\<close>

definition sends_once :: "'w ports \<Rightarrow> 'w coordinator \<Rightarrow> 'w coordinator \<Rightarrow> bool" where
  "sends_once P c d \<longleftrightarrow>
     store_runs P (cd_sys c) (cd_sys d)
     \<and> (\<exists>es. cd_trace d = cd_trace c @ es \<and> distinct (sent_ids es)
          \<and> (\<forall>i \<in> set (sent_ids es). \<not> claimed c i \<and> claimed d i))"

lemma sends_once_trans:
  assumes "sends_once P c d" and "sends_once P d e"
  shows "sends_once P c e"
proof -
  from assms(1) obtain xs where xs: "store_runs P (cd_sys c) (cd_sys d)" "cd_trace d = cd_trace c @ xs"
      "distinct (sent_ids xs)" "\<forall>i \<in> set (sent_ids xs). \<not> claimed c i \<and> claimed d i"
    unfolding sends_once_def by blast
  from assms(2) obtain ys where ys: "store_runs P (cd_sys d) (cd_sys e)" "cd_trace e = cd_trace d @ ys"
      "distinct (sent_ids ys)" "\<forall>i \<in> set (sent_ids ys). \<not> claimed d i \<and> claimed e i"
    unfolding sends_once_def by blast
  have "\<forall>i \<in> set (sent_ids (xs @ ys)). \<not> claimed c i \<and> claimed e i"
    using xs(4) ys(4) claimed_stays [OF xs(1)] claimed_stays [OF ys(1)] by auto
  moreover have "distinct (sent_ids (xs @ ys))" using xs(3,4) ys(3,4) by auto
  ultimately show ?thesis
    unfolding sends_once_def using xs(1,2) ys(1,2) store_runs_trans
    by (intro conjI exI [of _ "xs @ ys"]) (blast | simp)+
qed

lemma sends_once_silent:
  assumes "store_runs P (cd_sys c) (cd_sys d)" and "cd_trace d = cd_trace c @ es" and "sent_ids es = []"
  shows "sends_once P c d"
  using assms by (auto simp: sends_once_def)

section \<open>Emitted events\<close>

definition is_move :: "trace_event \<Rightarrow> bool" where
  "is_move e \<longleftrightarrow> (\<exists>from target. e = Moved from target)"

text \<open>Besides moves of the state machine only the given events are emitted.\<close>

definition emits :: "(trace_event \<Rightarrow> bool) \<Rightarrow> 'w coordinator \<Rightarrow> 'w coordinator \<Rightarrow> bool" where
  "emits N c d \<longleftrightarrow> (\<exists>es. cd_trace d = cd_trace c @ es \<and> (\<forall>e \<in> set es. is_move e \<or> N e))"

lemma emits_mono: "emits N c d \<Longrightarrow> (\<And>e. N e \<Longrightarrow> N' e) \<Longrightarrow> emits N' c d"
  by (auto simp: emits_def)

lemma emits_same: "cd_trace d = cd_trace c \<Longrightarrow> emits N c d"
  by (simp add: emits_def)

interpretation emits: coordinator_relation "emits N" R "\<lambda>e. \<not> is_move e \<and> \<not> N e" for N and R :: "'w runtime"
proof unfold_locales
  show "emits N s u" if "emits N s t" "emits N t u" for s t u :: "'w coordinator"
    using that unfolding emits_def by (metis append.assoc Un_iff set_append)
  show "emits N c (c\<lparr>cd_trace := cd_trace c @ [e]\<rparr>)" if "\<not> (\<not> is_move e \<and> \<not> N e)" for e and c :: "'w coordinator"
    using that by (auto simp: emits_def)
qed (auto simp: is_move_def intro: emits_same)

section \<open>Successful steps\<close>

lemma require_store_Inr [simp]: "require_store R detail m c = (Inr x, d) \<longleftrightarrow> m c = (Inr x, d)"
proof (cases "m c")
  case (Pair r t)
  then show ?thesis
  proof (cases r)
    case (Inl e)
    then show ?thesis using Pair by (auto simp: require_store_def action_simps split: if_splits)
  qed (auto simp: require_store_def and_do_def attempt_def done_with_def)
qed

lemma current_epoch_Inr [simp]:
  "current_epoch c = (Inr epoch, d) \<longleftrightarrow> epoch = mm_epoch (cd_memory c) \<and> epoch \<noteq> 0 \<and> d = c"
  by (auto simp: current_epoch_def peek_def action_simps split: if_splits)

lemma store_call_eq: "store_call R m c = (r, d) \<longleftrightarrow> on_sys m (tasks_run R c) = (r, d)"
  by (cases r) (auto simp: store_call_def wait_def action_simps)

lemma on_sys_eq: "on_sys m c = (r, d) \<longleftrightarrow> (\<exists>s. m (cd_sys c) = (r, s) \<and> d = c\<lparr>cd_sys := s\<rparr>)"
  by (auto simp: on_sys_def action_simps)

text \<open>The pre-dispatch fence: nobody had claimed the request before, and now it is stored as unknown with
  the evidence of the command.\<close>

lemma lifecycle_identity:
  assumes "record_step\<^sup>*\<^sup>* s t" and "s = Some r"
  shows "\<exists>r'. t = Some r' \<and> mr_kind r' = mr_kind r \<and> mr_request_evidence r' = mr_request_evidence r
    \<and> mr_scope_key r' = mr_scope_key r"
  using assms
proof (induction rule: rtranclp_induct)
  case (step y z)
  then show ?case by (auto elim!: record_step_SomeE)
qed simp

lemma insert_mutation_record:
  "insert_mutation js r db = Inr (u, db') \<Longrightarrow> record_of db' (mr_logical_request_id r) = Some r"
  by (auto simp: insert_mutation_def result_simps record_of_def row_with_append split: if_splits)

lemma fence_dispatch_Inr:
  assumes "runtime_others (ru_ports R)"
    and "fence_dispatch R command i correlation c = (Inr (epoch, fenced), d)"
  shows "\<not> claimed c i \<and> record_of (sy_db (cd_sys d)) i = Some fenced
    \<and> mr_state fenced = journal_state.UnknownAfterDispatch \<and> mr_logical_request_id fenced = i
    \<and> mr_scope_key fenced = scope_key (ru_scope R) \<and> mr_kind fenced = command_kind command
    \<and> mr_request_evidence fenced = command_evidence command \<and> epoch = mm_epoch (cd_memory c)
    \<and> epoch \<noteq> 0 \<and> (alone R \<longrightarrow> cd_memory d = cd_memory c) \<and> cd_trace d = cd_trace c"
proof -
  let ?P = "ru_ports R" and ?key = "scope_key (ru_scope R)"
  obtain now c1 prep c2 where clock: "now_unix_ms R c = (Inr now, c1)"
    and epoch: "epoch = mm_epoch (cd_memory c)" "epoch \<noteq> 0"
    and insert: "store_call R (store_write ?P (insert_mutation (po_to_json ?P) prep)) c1 = (Inr (), c2)"
    and prep: "record_prepared (po_to_json ?P) (ru_scope R) i (command_kind command) (command_evidence command)
        correlation epoch now = Inr prep"
    and claim: "store_call R (store_write ?P (claim_dispatch_unknown (po_to_json ?P) ?key i epoch now)) c2
        = (Inr fenced, d)"
    using assms(2) [unfolded fence_dispatch_def]
    by (elim and_do_InrE) (auto simp: action_simps result_simps eq_commute [of "Inr _" "map_err _ _"])
  let ?o = "others_run ?P (cd_sys (tasks_run R c2))"
  obtain db where wrote: "claim_dispatch_unknown (po_to_json ?P) ?key i epoch now (sy_db ?o) = Inr (fenced, db)"
    and d: "d = (tasks_run R c2)\<lparr>cd_sys := ?o\<lparr>sy_db := db\<rparr>\<rparr>"
    using claim by (auto simp: store_call_eq on_sys_eq store_write_Inr)
  have c2: "store_runs ?P (cd_sys c) (cd_sys c2) \<and> cd_trace c2 = cd_trace c
      \<and> (alone R \<longrightarrow> cd_memory c2 = cd_memory c)"
  proof -
    have insert_runs: "moves (store_runs ?P) (store_write ?P (insert_mutation (po_to_json ?P) prep))"
      by (rule store_write_runs [OF assms(1)], rule exI [of _ "InsertMutation prep"])
        (use record_prepared_state [OF prep] in \<open>auto simp: written_def\<close>)
    have c1: "cd_trace c1 = cd_trace c" "cd_memory c1 = cd_memory c" "store_runs ?P (cd_sys c) (cd_sys c1)"
      using clock movesD [OF now_runs [of ?P]]
      by (auto simp: now_unix_ms_def action_simps on_sys_eq)
    from insert obtain s where s: "store_write ?P (insert_mutation (po_to_json ?P) prep)
        (cd_sys (tasks_run R c1)) = (Inr (), s)" "c2 = (tasks_run R c1)\<lparr>cd_sys := s\<rparr>"
      by (auto simp: store_call_eq on_sys_eq)
    have "store_runs ?P (cd_sys c1) (cd_sys (tasks_run R c1))" by (rule store_runs_same) simp
    then show ?thesis
      using c1 s(2) store_runs_trans [OF store_runs_trans [OF c1(3)] movesD [OF insert_runs s(1)]] by simp
  qed
  have "store_runs ?P (cd_sys c) ?o"
  proof (rule store_runs_trans [OF _ others_runs [OF assms(1)]])
    show "store_runs ?P (cd_sys c) (cd_sys (tasks_run R c2))"
      by (rule store_runs_trans [OF conjunct1 [OF c2] store_runs_same]) simp
  qed
  then have "claimed c i \<Longrightarrow> claimed (c\<lparr>cd_sys := ?o\<rparr>) i"
    using claimed_stays [of ?P c "c\<lparr>cd_sys := ?o\<rparr>" i] by simp
  moreover have "\<not> claimed (c\<lparr>cd_sys := ?o\<rparr>) i"
    using claim_needs_prepared [OF wrote] by (auto simp: claimed_def)
  ultimately have "\<not> claimed c i" by blast
  moreover have "mr_logical_request_id fenced = i \<and> mr_scope_key fenced = ?key
      \<and> mr_kind fenced = command_kind command \<and> mr_request_evidence fenced = command_evidence command"
  proof -
    have "record_of (sy_db (cd_sys c2)) i = Some prep"
      using insert record_prepared_state [OF prep] insert_mutation_record [of "po_to_json ?P" prep]
      by (auto simp: store_call_eq on_sys_eq store_write_Inr)
    moreover have "store_runs ?P (cd_sys c2) ?o"
      by (rule store_runs_trans [OF store_runs_same others_runs [OF assms(1)]]) simp
    ultimately have kept: "\<exists>row. record_of (sy_db ?o) i = Some row \<and> mr_kind row = command_kind command
        \<and> mr_request_evidence row = command_evidence command"
      using lifecycle_identity [OF store_runs_record [of ?P "cd_sys c2" ?o i]]
        record_prepared_state [OF prep] by auto
    show ?thesis
      by (rule transition_mutation_elim [OF wrote [unfolded claim_dispatch_unknown_def]])
        (use kept in \<open>auto dest: record_of_id\<close>)
  qed
  ultimately show ?thesis
    using claim_needs_prepared [OF wrote] d c2 epoch by simp
qed

section \<open>One send per request\<close>

text \<open>Among well-behaved users of the store.\<close>

definition orderly :: "'w runtime \<Rightarrow> 'w coordinator \<Rightarrow> 'w coordinator \<Rightarrow> bool" where
  "orderly R c d \<longleftrightarrow> (runtime_others (ru_ports R) \<longrightarrow> sends_once (ru_ports R) c d)"

definition is_send :: "trace_event \<Rightarrow> bool" where
  "is_send e \<longleftrightarrow> (\<exists>purpose command r. e = Sent purpose command r)"

lemma orderly_quiet: "store_runs (ru_ports R) (cd_sys c) (cd_sys d) \<Longrightarrow> cd_trace d = cd_trace c \<Longrightarrow> orderly R c d"
  by (auto simp: orderly_def intro: sends_once_silent [where es = "[]"])

interpretation once: coordinator_relation "orderly R" R is_send for R :: "'w runtime"
proof unfold_locales
  show "orderly R c c" for c by (rule orderly_quiet) (auto intro: store_runs_same)
  show "orderly R c e" if "orderly R c d" "orderly R d e" for c d e
    using that sends_once_trans by (auto simp: orderly_def)
  show "orderly R c (c\<lparr>cd_sys := s\<rparr>)"
    if "runtime_others (ru_ports R) \<Longrightarrow> store_runs (ru_ports R) (cd_sys c) s" "port_runs (ru_ports R) (cd_sys c) s"
    for c s using that by (auto simp: orderly_def intro: sends_once_silent [where es = "[]"])
  show "orderly R c (c\<lparr>cd_trace := cd_trace c @ [e]\<rparr>)" if "\<not> is_send e" for c e
    using that by (cases e) (auto simp: orderly_def is_send_def intro!: sends_once_silent store_runs_same)
qed (auto simp: is_send_def intro!: orderly_quiet store_runs_same)

text \<open>The send itself: the fence makes it the first for its request.\<close>

lemma sent_once:
  assumes "runtime_others (ru_ports R)"
    and "fence_dispatch R command i correlation c = (Inr (epoch, fenced), d)"
    and "traced (Sent purpose sized fenced) d = (r, e)"
  shows "sends_once (ru_ports R) c e"
proof -
  note f = fence_dispatch_Inr [OF assms(1,2)]
  have e: "e = d\<lparr>cd_trace := cd_trace d @ [Sent purpose sized fenced]\<rparr>"
    using assms(3) by (simp add: traced_def action_simps)
  have "store_runs (ru_ports R) (cd_sys c) (cd_sys d)"
    using movesD [OF once.fence_dispatch_keeps assms(2)] assms(1) by (auto simp: orderly_def sends_once_def is_send_def)
  then show ?thesis
    using f e by (auto simp: sends_once_def claimed_def)
qed

lemma dispatch_with_permit_once: "moves (orderly R) (dispatch_with_permit R purpose command i correlation)"
proof (rule movesI)
  fix c r e
  assume "dispatch_with_permit R purpose command i correlation c = (r, e)"
  then show "orderly R c e"
    unfolding dispatch_with_permit_def
  proof (cases rule: and_do_cases)
    case (failed x)
    from movesD [OF once.fence_dispatch_keeps failed(1)] show ?thesis by (simp add: is_send_def)
  next
    case (went_on x d)
    obtain epoch fenced where x: "x = (epoch, fenced)" by (cases x)
    let ?rest = "and_do (attempt (port_call R (po_dispatch_once (ru_ports R) (ru_scope R) purpose command fenced)))
       (\<lambda>result. and_do (traced (Answered result)) (\<lambda>_. settle_dispatch R i epoch result))"
    let ?d = "d\<lparr>cd_trace := cd_trace d @ [Sent purpose command fenced]\<rparr>"
    have sent: "orderly R c ?d"
      using sent_once [OF _ went_on(1) [unfolded x]] by (auto simp: orderly_def traced_def change_def)
    have rest: "moves (orderly R) ?rest" by (intro moves_intros) (simp_all add: is_send_def)
    have "?rest ?d = (r, e)" using went_on(2) by (simp add: x run_simps)
    from once.chains [OF sent movesD [OF rest this]] show ?thesis .
  qed
qed

interpretation once_handlers: refreshing_relation "orderly R" R is_send for R :: "'w runtime"
proof unfold_locales
  show "moves (orderly R) (reconcile_locked R)" by (rule once.reconcile_locked_keeps) (simp add: is_send_def)
  show "moves (orderly R) (dispatch_for_purpose R command i correlation purpose)" for command i correlation purpose
    by (rule once.dispatch_for_purpose_keeps [OF dispatch_with_permit_once]) (simp_all add: is_send_def)
  have transition: "moves (orderly R) (transition R target reason detail)" for target reason detail
    by (rule once.transition_keeps) (simp add: is_send_def)
  show "fresh (orderly R) report (apply_reconciliation_report R report)" for report
    unfolding apply_reconciliation_report_def
    by (intro fresh_moves transition moves_intros) (simp add: reported_health_def health_sound_def)
qed (auto simp: is_send_def intro!: orderly_quiet store_runs_same)

text \<open>C5. A coordinator sends each logical request to the broker at most once.  Whatever handlers it runs,
  in whichever order, and whatever its other tasks and other processes do between any two of its steps,
  no request is sent twice, no request that anybody had claimed before is sent, and every request sent
  was fenced in the store first.\<close>

theorem sent_at_most_once:
  assumes "runtime_others (ru_ports R)"
    and "run_handlers R hs (c\<lparr>cd_trace := []\<rparr>) = d"
  shows "distinct (sent_ids (cd_trace d))
    \<and> (\<forall>i \<in> set (sent_ids (cd_trace d)). \<not> claimed c i \<and> claimed d i)"
  using once_handlers.run_handlers_keep [of R "c\<lparr>cd_trace := []\<rparr>" hs] assms
  by (auto simp: orderly_def sends_once_def claimed_def)

section \<open>What is sent\<close>

text \<open>A command with another quantity, and the direction it moves the position in.\<close>

fun with_quantity :: "int \<Rightarrow> runtime_execution_command \<Rightarrow> runtime_execution_command" where
  "with_quantity q (RegularOrder order) = RegularOrder (order\<lparr>ro_quantity_lots := q\<rparr>)"
| "with_quantity q (runtime_execution_command.PostOrderAsync order) =
     runtime_execution_command.PostOrderAsync (order\<lparr>ro_quantity_lots := q\<rparr>)"
| "with_quantity q (runtime_execution_command.ReplaceOrder order) =
     runtime_execution_command.ReplaceOrder (order\<lparr>rp_quantity_lots := q\<rparr>)"
| "with_quantity q command = command"

fun command_side :: "runtime_execution_command \<Rightarrow> order_side option" where
  "command_side (RegularOrder order) = Some (ro_side order)"
| "command_side (runtime_execution_command.PostOrderAsync order) = Some (ro_side order)"
| "command_side _ = None"

lemma approved_quantity_Inr: "approved_quantity text lots = Inr q \<longleftrightarrow> in_i64 \<bar>lots\<bar> \<and> q = \<bar>lots\<bar>"
  by (auto simp: approved_quantity_def result_simps range_simps)

text \<open>The approval decides the quantity and nothing else.\<close>

lemma apply_risk_approval_Inr:
  "apply_risk_approval command lots = Inr sized \<longleftrightarrow>
     sized = with_quantity \<bar>lots\<bar> command
     \<and> (if exposure_bearing command
        then in_i64 \<bar>lots\<bar>
          \<and> (\<forall>side. command_side command = Some side \<longrightarrow> sgn lots = (case side of Buy \<Rightarrow> 1 | Sell \<Rightarrow> -1))
        else lots = 0)"
  by (cases command)
    (auto simp: apply_risk_approval_def resize_order_def exposure_bearing_def approved_quantity_Inr
      result_simps split: if_splits)

text \<open>What stands behind a send of the sized command: the checks, the admission, the approval and its
  revalidation.\<close>

definition backed_send ::
  "'w runtime \<Rightarrow> runtime_execution_purpose \<Rightarrow> runtime_execution_command \<Rightarrow> string \<Rightarrow> risk_admission
   \<Rightarrow> runtime_execution_command \<Rightarrow> bool" where
  "backed_send R purpose command i admission sized \<longleftrightarrow>
     command_account_id command = sc_broker_account_id (ru_scope R)
     \<and> command_request_identity command \<in> {None, Some i}
     \<and> (\<exists>w w'. po_authorize_execution (ru_ports R) (ru_scope R) purpose w = (Inr (), w'))
     \<and> (\<exists>db w w'. po_admit (ru_ports R) (ru_scope R) purpose command i db w = (Inr admission, w'))
     \<and> \<not> incomplete_approval command admission
     \<and> apply_risk_approval command (ra_approved_delta_lots admission) = Inr sized
     \<and> (\<exists>db w w'. po_validate_before_dispatch (ru_ports R) (ru_scope R) purpose sized i admission db w
          = (Inr (), w'))"

text \<open>The record that fences a send.\<close>

definition fences :: "'w runtime \<Rightarrow> string \<Rightarrow> runtime_execution_command \<Rightarrow> mutation_record \<Rightarrow> bool" where
  "fences R i sized fenced \<longleftrightarrow>
     mr_logical_request_id fenced = i \<and> mr_scope_key fenced = scope_key (ru_scope R)
     \<and> mr_kind fenced = command_kind sized \<and> mr_request_evidence fenced = command_evidence sized
     \<and> mr_state fenced = journal_state.UnknownAfterDispatch"

text \<open>The events of a dispatch that has not sent, and of one that has not failed before the send.\<close>

definition nothing_sent :: "string \<Rightarrow> trace_event \<Rightarrow> bool" where
  "nothing_sent i e \<longleftrightarrow> (\<exists>a. e = Admitted i a) \<or> e = Outcome i risk_dispatch_outcome.Rejected"

definition quiet_event :: "string \<Rightarrow> trace_event \<Rightarrow> bool" where
  "quiet_event i e \<longleftrightarrow> (\<exists>a. e = Admitted i a)"

lemma event_kinds [simp]:
  "quiet_event i e \<Longrightarrow> nothing_sent i e" "nothing_sent i (Outcome i risk_dispatch_outcome.Rejected)"
  "nothing_sent i (Admitted i a)" "quiet_event i (Admitted i a)"
  by (auto simp: quiet_event_def nothing_sent_def)

lemma settle_dispatch_emits:
  "moves (emits (\<lambda>e. e = Outcome i (outcome_of answer))) (settle_dispatch R i epoch answer)"
  by (rule emits.settle_dispatch_keeps) simp

section \<open>How a dispatch gets to the send\<close>

lemma port_call_Inr:
  assumes "port_call R f c = (Inr x, d)"
  shows "\<exists>w w'. f w = (Inr x, w')"
proof -
  obtain r w where f: "f (sy_world (cd_sys (tasks_run R c))) = (r, w)" by fastforce
  with assms have "r = Inr x"
    by (simp add: port_call_def step_simps on_sys_def zoom_def call_port_def)
  with f show ?thesis by blast
qed

lemma ask_risk_Inr:
  assumes "ask_risk R f c = (Inr x, d)"
  shows "\<exists>db w w'. f db w = (Inr x, w')"
proof -
  let ?t = "others_run (ru_ports R) (cd_sys (tasks_run R c))"
  obtain r w where f: "f (sy_db ?t) (sy_world ?t) = (r, w)" by fastforce
  with assms have "r = Inr x"
    by (simp add: ask_risk_def step_simps on_sys_def zoom_def call_risk_def Let_def)
  with f show ?thesis by blast
qed

lemma ensure_execution_allowed_Inr:
  assumes "ensure_execution_allowed R purpose command c = (Inr u, d)"
  shows "gate_open command (cd_memory (tasks_run R c))
    \<and> (\<exists>w w'. po_authorize_execution (ru_ports R) (ru_scope R) purpose w = (Inr (), w'))"
proof
  let ?call = "port_call R (po_authorize_execution (ru_ports R) (ru_scope R) purpose)"
  show gate: "gate_open command (cd_memory (tasks_run R c))"
    using assms by (rule contrapos_pp) (simp add: ensure_execution_allowed_def step_simps fail_with_def)
  obtain answer t where call: "?call (tasks_run R c) = (answer, t)" by fastforce
  have "answer = Inr ()"
  proof (cases answer)
    case (Inl e)
    then have "fst (ensure_execution_allowed R purpose command c) = Inl ExecutionGateClosed"
      using gate call
      by (simp add: ensure_execution_allowed_def run_simps update_health_def fail_with_def)
    then show ?thesis using assms by simp
  qed simp
  show "\<exists>w w'. po_authorize_execution (ru_ports R) (ru_scope R) purpose w = (Inr (), w')"
    using port_call_Inr [OF call [unfolded \<open>answer = Inr ()\<close>]] by simp
qed

lemma port_call_frame:
  assumes "port_call R f c = (r, d)"
  shows "cd_trace d = cd_trace c \<and> sy_db (cd_sys d) = sy_db (cd_sys c) \<and> (alone R \<longrightarrow> cd_memory d = cd_memory c)"
proof -
  obtain x w where f: "f (sy_world (cd_sys (tasks_run R c))) = (x, w)" by fastforce
  with assms have "d = (tasks_run R c)\<lparr>cd_sys := (cd_sys (tasks_run R c))\<lparr>sy_world := w\<rparr>\<rparr>"
    by (simp add: port_call_def run_simps on_sys_def zoom_def call_port_def)
  then show ?thesis by simp
qed

text \<open>A dispatch that reaches the send: the fence, the send, the answer, and what is made of it.\<close>

lemma dispatch_with_permit_cases:
  assumes "dispatch_with_permit R purpose sized i correlation c = (r, d)"
  obtains (unsent) "emits (nothing_sent i) c d" and "\<nexists>x. r = Inr x"
    | (sent) epoch fenced t answer u where "fence_dispatch R sized i correlation c = (Inr (epoch, fenced), t)"
      and "cd_trace u = cd_trace t @ [Sent purpose sized fenced, Answered answer]"
      and "sy_db (cd_sys u) = sy_db (cd_sys t)" and "alone R \<Longrightarrow> cd_memory u = cd_memory t"
      and "settle_dispatch R i epoch answer u = (r, d)"
  using assms unfolding dispatch_with_permit_def
proof (cases rule: and_do_cases)
  case (failed e)
  have "moves (emits (nothing_sent i)) (fence_dispatch R sized i correlation)"
    by (rule emits.fence_dispatch_keeps) simp
  from movesD [OF this failed(1)] show ?thesis by (rule unsent) (simp add: failed(2))
next
  case (went_on x t)
  obtain epoch fenced where x: "x = (epoch, fenced)" by (cases x)
  let ?t1 = "t\<lparr>cd_trace := cd_trace t @ [Sent purpose sized fenced]\<rparr>"
  obtain answer t2 where call: "port_call R (po_dispatch_once (ru_ports R) (ru_scope R) purpose sized fenced) ?t1
      = (answer, t2)" by fastforce
  note frame = port_call_frame [OF call]
  show ?thesis
  proof (rule sent)
    show "fence_dispatch R sized i correlation c = (Inr (epoch, fenced), t)" using went_on(1) x by simp
    show "settle_dispatch R i epoch answer (t2\<lparr>cd_trace := cd_trace t2 @ [Answered answer]\<rparr>) = (r, d)"
      using went_on(2) by (simp add: x run_simps call)
  qed (use frame in simp_all)
qed

lemma emits_trace: "cd_trace c' = cd_trace c \<Longrightarrow> cd_trace d' = cd_trace d \<Longrightarrow> emits Q c' d' \<longleftrightarrow> emits Q c d"
  by (simp add: emits_def)

lemma release_slot_trace [simp]: "cd_trace (release_slot c) = cd_trace c" "cd_sys (release_slot c) = cd_sys c"
  by (simp_all add: release_slot_def)

lemma with_permit_reaches:
  assumes "with_permit R i m c = (r, d)"
  shows "emits (nothing_sent i) c d \<and> (\<exists>e. r = Inl e) \<or> (\<exists>t u. cd_trace t = cd_trace c \<and> m t = (r, u) \<and> d = release_slot u)"
proof (cases "mm_free_slots (cd_memory c) \<le> 0")
  case True
  then have rejected: "reject_with R i CommandQueueFull c = (r, d)"
    using assms by (simp add: with_permit_def run_simps)
  show ?thesis
    using movesD [OF emits.reject_keeps(1) [of i "nothing_sent i"] rejected] rejected by (cases r) auto
next
  case False
  then obtain u where "m (c\<lparr>cd_memory := (cd_memory c)\<lparr>mm_free_slots := mm_free_slots (cd_memory c) - 1\<rparr>\<rparr>)
      = (r, u)" "d = release_slot u"
    using assms by (auto simp: with_permit_def run_simps action_simps)
  then show ?thesis by (intro disjI2 exI conjI) simp_all
qed

text \<open>Either nothing is sent, or the dispatch holds a permit and everything before the fence has succeeded.\<close>

lemma dispatch_approved_reaches:
  assumes "dispatch_approved R command i correlation purpose admission c = (r, d)"
  shows "emits (nothing_sent i) c d \<and> (\<exists>e. r = Inl e) \<or> (\<exists>sized t u.
    apply_risk_approval command (ra_approved_delta_lots admission) = Inr sized
    \<and> (\<exists>db w w'. po_validate_before_dispatch (ru_ports R) (ru_scope R) purpose sized i admission db w = (Inr (), w'))
    \<and> emits (quiet_event i) c t \<and> dispatch_with_permit R purpose sized i correlation t = (r, u)
    \<and> d = release_slot u)"
  using assms unfolding dispatch_approved_def
proof (cases rule: and_do_cases)
  case (failed e)
  have "moves (emits (nothing_sent i)) (or_reject R i
      (of_result (apply_risk_approval command (ra_approved_delta_lots admission))))"
    by (intro moves_intros) simp_all
  from movesD [OF this failed(1)] failed(2) show ?thesis by simp
next
  case (went_on sized t0)
  then have sized: "apply_risk_approval command (ra_approved_delta_lots admission) = Inr sized" "t0 = c"
    by (auto simp: of_result_def)
  let ?validate = "on_err RiskAdmission (ask_risk R
      (po_validate_before_dispatch (ru_ports R) (ru_scope R) purpose sized i admission))"
  let ?m = "and_do (or_reject R i ?validate) (\<lambda>_. dispatch_with_permit R purpose sized i correlation)"
  from went_on(2) [unfolded sized(2)] show ?thesis
  proof (cases rule: and_do_cases)
    case (failed e)
    have "moves (emits (nothing_sent i)) current_epoch" by (intro moves_intros)
    from movesD [OF this failed(1)] failed(2) show ?thesis by simp
  next
    case (went_on epoch t1)
    then have "with_permit R i ?m c = (r, d)" by simp
    then consider "emits (nothing_sent i) c d" "\<exists>e. r = Inl e"
      | t u where "cd_trace t = cd_trace c" "?m t = (r, u)" "d = release_slot u"
      using with_permit_reaches by blast
    then show ?thesis
    proof cases
      case (2 t u)
      from 2(2) show ?thesis
      proof (cases rule: and_do_cases)
        case (failed e)
        have "moves (emits (nothing_sent i)) (or_reject R i ?validate)"
          by (intro moves_intros) simp_all
        from movesD [OF this failed(1)] failed(2) show ?thesis using 2(1,3) by (simp add: emits_def)
      next
        case (went_on v t2)
        then have validated: "ask_risk R (po_validate_before_dispatch (ru_ports R) (ru_scope R) purpose sized i
            admission) t = (Inr (), t2)"
          by (simp add: action_simps)
        have "moves (emits (quiet_event i)) (ask_risk R (po_validate_before_dispatch (ru_ports R) (ru_scope R)
            purpose sized i admission))"
          by (intro moves_intros)
        from movesD [OF this validated] have "emits (quiet_event i) c t2" using 2(1) by (simp add: emits_def)
        then show ?thesis using ask_risk_Inr [OF validated] sized(1) went_on(2) 2(3) by blast
      qed
    qed simp
  qed
qed

lemma dispatch_admitted_reaches:
  assumes "dispatch_admitted R command i correlation purpose c = (r, d)"
  shows "emits (nothing_sent i) c d \<and> (\<exists>e. r = Inl e) \<or> (\<exists>admission sized t u.
    (\<exists>db w w'. po_admit (ru_ports R) (ru_scope R) purpose command i db w = (Inr admission, w'))
    \<and> \<not> incomplete_approval command admission
    \<and> apply_risk_approval command (ra_approved_delta_lots admission) = Inr sized
    \<and> (\<exists>db w w'. po_validate_before_dispatch (ru_ports R) (ru_scope R) purpose sized i admission db w = (Inr (), w'))
    \<and> emits (quiet_event i) c t \<and> dispatch_with_permit R purpose sized i correlation t = (r, u)
    \<and> d = release_slot u)"
  using assms unfolding dispatch_admitted_def
proof (cases rule: and_do_cases)
  case (failed e)
  have "moves (emits (nothing_sent i)) (on_err RiskAdmission (ask_risk R
      (po_admit (ru_ports R) (ru_scope R) purpose command i)))"
    by (intro moves_intros)
  from movesD [OF this failed(1)] failed(2) show ?thesis by simp
next
  case (went_on admission t0)
  then have admit: "ask_risk R (po_admit (ru_ports R) (ru_scope R) purpose command i) c = (Inr admission, t0)"
    by (simp add: action_simps)
  let ?t1 = "t0\<lparr>cd_trace := cd_trace t0 @ [Admitted i admission]\<rparr>"
  have "moves (emits (\<lambda>_. False)) (ask_risk R (po_admit (ru_ports R) (ru_scope R) purpose command i))"
    by (intro moves_intros)
  from movesD [OF this admit] have t1: "emits (quiet_event i) c ?t1"
    by (auto simp: emits_def quiet_event_def)
  then have t1': "emits (nothing_sent i) c ?t1" by (rule emits_mono) (rule event_kinds)
  show ?thesis
  proof (cases "incomplete_approval command admission")
    case True
    let ?fail = "\<lambda>b. and_do (if b then record_risk_dispatch_outcome R i risk_dispatch_outcome.Rejected
      else done_with ()) (\<lambda>_. fail_with (RiskAdmission
        (Unavailable ''risk admission returned an incomplete approval'')))"
    have "moves (emits (nothing_sent i)) (?fail b)" for b by (intro moves_intros) simp_all
    moreover have "?fail (ra_reservation_id admission \<noteq> None) ?t1 = (r, d)"
      using went_on(2) True by (simp only: run_simps if_True)
    ultimately have "emits (nothing_sent i) ?t1 d" by (rule movesD)
    moreover have "\<exists>e. r = Inl e"
      using \<open>?fail (ra_reservation_id admission \<noteq> None) ?t1 = (r, d)\<close> by (cases r) (auto simp: action_simps)
    ultimately show ?thesis using t1' emits.chains by blast
  next
    case False
    then have "dispatch_approved R command i correlation purpose admission ?t1 = (r, d)"
      using went_on(2) by (simp add: run_simps)
    from dispatch_approved_reaches [OF this] show ?thesis
      using emits.chains [OF t1'] emits.chains [OF t1] False ask_risk_Inr [OF admit] by blast
  qed
qed

lemma dispatch_reaches:
  assumes "dispatch_for_purpose R command i correlation purpose c = (r, d)"
  shows "emits (nothing_sent i) c d \<and> (\<exists>e. r = Inl e) \<or> (\<exists>admission sized t u.
    backed_send R purpose command i admission sized \<and> gate_open command (cd_memory (tasks_run R c))
    \<and> emits (quiet_event i) c t \<and> dispatch_with_permit R purpose sized i correlation t = (r, u)
    \<and> d = release_slot u)"
  using assms unfolding dispatch_for_purpose_def
proof (cases rule: and_do_cases)
  case (failed e)
  have "moves (emits (nothing_sent i)) (ensure_execution_allowed R purpose command)"
    by (rule emits.ensure_execution_allowed_keeps)
  from movesD [OF this failed(1)] failed(2) show ?thesis by blast
next
  case (went_on u t)
  note gate = ensure_execution_allowed_Inr [OF went_on(1)]
  have t: "emits (quiet_event i) c t"
    using movesD [OF emits.ensure_execution_allowed_keeps went_on(1)] by simp
  then have t': "emits (nothing_sent i) c t" by (rule emits_mono) (rule event_kinds)
  show ?thesis
  proof (cases "command_account_id command = sc_broker_account_id (ru_scope R)
      \<and> command_request_identity command \<in> {None, Some i}")
    case True
    then have "dispatch_admitted R command i correlation purpose t = (r, d)" using went_on(2) by simp
    from dispatch_admitted_reaches [OF this] show ?thesis
      unfolding backed_send_def using True gate emits.chains [OF t] emits.chains [OF t'] by blast
  next
    case False
    then have "d = t" "\<exists>e. r = Inl e" using went_on(2) by (auto simp: fail_with_def split: if_splits)
    then show ?thesis using t' by simp
  qed
qed
section \<open>Dispatch theorems\<close>

fun answer_of :: "trace_event \<Rightarrow> (broker_port_error + execution_result) option" where
  "answer_of (Answered answer) = Some answer"
| "answer_of _ = None"

definition answers :: "trace_event list \<Rightarrow> (broker_port_error + execution_result) list" where
  "answers es = List.map_filter answer_of es"

lemma answers_simps [simp]:
  "answers [] = []"
  "answers (e # es) = (case answer_of e of None \<Rightarrow> answers es | Some a \<Rightarrow> a # answers es)"
  "answers (xs @ ys) = answers xs @ answers ys"
  by (auto simp: answers_def List.map_filter_def split: option.splits)

lemma no_sends: "\<forall>e \<in> set es. is_move e \<or> nothing_sent i e \<or> (\<exists>outcome. e = Outcome i outcome) \<Longrightarrow>
    sent_ids es = [] \<and> answers es = []"
  by (force simp: sent_ids_def answers_def List.map_filter_def filter_empty_conv nothing_sent_def is_move_def)

lemma quiet_no_sends: "\<forall>e \<in> set es. is_move e \<or> quiet_event i e \<Longrightarrow> sent_ids es = [] \<and> answers es = []"
  using event_kinds(1) no_sends [of es i] by blast

lemma settled_no_sends:
  "\<forall>e \<in> set es. is_move e \<or> e = Outcome i outcome \<Longrightarrow> sent_ids es = [] \<and> answers es = []"
  using no_sends [of es i] by (auto simp: nothing_sent_def)

text \<open>The events of a dispatch.\<close>

lemma dispatch_events:
  assumes "runtime_others (ru_ports R)"
    and "dispatch_for_purpose R command i correlation purpose c = (r, d)"
  shows "emits (nothing_sent i) c d \<or> (\<exists>pre admission sized fenced answer rest.
    cd_trace d = cd_trace c @ pre @ Sent purpose sized fenced # Answered answer # rest
    \<and> (\<forall>e \<in> set pre. is_move e \<or> quiet_event i e) \<and> (\<forall>e \<in> set rest. is_move e \<or> e = Outcome i (outcome_of answer))
    \<and> backed_send R purpose command i admission sized \<and> fences R i sized fenced
    \<and> gate_open command (cd_memory (tasks_run R c)))"
proof -
  from dispatch_reaches [OF assms(2)] consider "emits (nothing_sent i) c d" "\<exists>e. r = Inl e"
    | admission sized t u where "backed_send R purpose command i admission sized"
      "gate_open command (cd_memory (tasks_run R c))" "emits (quiet_event i) c t"
      "dispatch_with_permit R purpose sized i correlation t = (r, u)" "d = release_slot u" by blast
  then show ?thesis
  proof cases
    case (2 admission sized t u)
    from 2(3) obtain pre where pre: "cd_trace t = cd_trace c @ pre" "\<forall>e \<in> set pre. is_move e \<or> quiet_event i e"
      by (auto simp: emits_def)
    from 2(4) show ?thesis
    proof (cases rule: dispatch_with_permit_cases)
      case unsent
      have "emits (nothing_sent i) c t" by (rule emits_mono [OF 2(3)]) (rule event_kinds)
      then have "emits (nothing_sent i) c u" using unsent(1) by (rule emits.chains)
      then show ?thesis using 2(5) by (simp add: emits_def)
    next
      case (sent epoch fenced t1 answer t2)
      note fence = fence_dispatch_Inr [OF assms(1) sent(1)]
      from movesD [OF settle_dispatch_emits sent(5)] obtain rest
        where rest: "cd_trace u = cd_trace t2 @ rest"
          "\<forall>e \<in> set rest. is_move e \<or> e = Outcome i (outcome_of answer)"
        by (auto simp: emits_def)
      have "cd_trace d = cd_trace c @ pre @ Sent purpose sized fenced # Answered answer # rest"
        using 2(5) rest(1) sent(2) pre(1) fence by simp
      moreover have "fences R i sized fenced" using fence by (simp add: fences_def)
      ultimately show ?thesis using pre(2) rest(2) 2(1,2) by blast
    qed
  qed simp
qed

text \<open>C10. Only what was admitted is sent.  A dispatch either sends nothing or sends exactly one command: the
  requested one with the quantity the risk service approved, after the gate was open, execution
  authorised, the account and identity checked, the approval complete and revalidated, and the intent of
  that very command stored as unknown.\<close>

theorem sends_only_what_was_admitted:
  assumes "runtime_others (ru_ports R)"
    and "dispatch_for_purpose R command i correlation purpose c = (r, d)"
  shows "sent_ids (cd_trace d) = sent_ids (cd_trace c) \<or>
    (\<exists>pre admission sized fenced rest.
       cd_trace d = cd_trace c @ pre @ Sent purpose sized fenced # rest
       \<and> sent_ids pre = [] \<and> sent_ids rest = []
       \<and> backed_send R purpose command i admission sized
       \<and> sized = with_quantity \<bar>ra_approved_delta_lots admission\<bar> command
       \<and> fences R i sized fenced \<and> gate_open command (cd_memory (tasks_run R c)))"
  using dispatch_events [OF assms]
proof (elim disjE exE conjE)
  assume "emits (nothing_sent i) c d"
  then show ?thesis using no_sends by (fastforce simp: emits_def)
next
  fix pre admission sized fenced answer rest
  assume trace: "cd_trace d = cd_trace c @ pre @ Sent purpose sized fenced # Answered answer # rest"
    and events: "\<forall>e \<in> set pre. is_move e \<or> quiet_event i e"
      "\<forall>e \<in> set rest. is_move e \<or> e = Outcome i (outcome_of answer)"
    and facts: "backed_send R purpose command i admission sized" "fences R i sized fenced"
      "gate_open command (cd_memory (tasks_run R c))"
  have "sent_ids pre = []" using quiet_no_sends [OF events(1)] by simp
  moreover have "sent_ids (Answered answer # rest) = []"
    using settled_no_sends [OF events(2)] by simp
  moreover have "sized = with_quantity \<bar>ra_approved_delta_lots admission\<bar> command"
    using facts(1) by (simp add: backed_send_def apply_risk_approval_Inr)
  ultimately show ?thesis using trace facts by blast
qed

text \<open>C12. The risk service hears the truth about a dispatch.  It is told of no outcome but that of the
  request; told rejected, which frees the reservation, only if nothing was sent or the broker rejected
  the command; and acknowledged or unknown only if the broker's answer was that.\<close>

theorem outcome_follows_answer:
  assumes "runtime_others (ru_ports R)"
    and "dispatch_for_purpose R command i correlation purpose c = (r, d)"
    and "cd_trace d = cd_trace c @ es" and "Outcome j outcome \<in> set es"
  shows "j = i \<and> (sent_ids es = [] \<and> answers es = [] \<and> outcome = risk_dispatch_outcome.Rejected
    \<or> sent_ids es = [i] \<and> (\<exists>answer. answers es = [answer] \<and> outcome = outcome_of answer))"
  using dispatch_events [OF assms(1,2)]
proof (elim disjE exE conjE)
  assume "emits (nothing_sent i) c d"
  then have "\<forall>e \<in> set es. is_move e \<or> nothing_sent i e" using assms(3) by (simp add: emits_def)
  moreover from this have "sent_ids es = [] \<and> answers es = []" using no_sends by blast
  ultimately show ?thesis using assms(4) by (auto simp: nothing_sent_def is_move_def)
next
  fix pre admission sized fenced answer rest
  assume trace: "cd_trace d = cd_trace c @ pre @ Sent purpose sized fenced # Answered answer # rest"
    and events: "\<forall>e \<in> set pre. is_move e \<or> quiet_event i e"
      "\<forall>e \<in> set rest. is_move e \<or> e = Outcome i (outcome_of answer)"
    and fence: "fences R i sized fenced"
  have "sent_ids pre = [] \<and> answers pre = []" using quiet_no_sends [OF events(1)] by simp
  moreover have "sent_ids rest = [] \<and> answers rest = []"
    using settled_no_sends [OF events(2)] by simp
  moreover have "j = i \<and> outcome = outcome_of answer"
    using assms(3,4) trace events by (auto simp: quiet_event_def is_move_def)
  ultimately show ?thesis
    using assms(3) trace fence by (auto simp: fences_def)
qed

section \<open>Receipts\<close>

lemma timed_write_Inr:
  assumes "timed_write P operation s = (Inr x, t)"
  obtains now s1 where "store_write P (operation now) s1 = (Inr x, t)" and "sy_db s1 = sy_db s"
proof -
  from assms [unfolded timed_write_def] obtain now s1
    where "now_unix_ms_store P s = (Inr now, s1)" "store_write P (operation now) s1 = (Inr x, t)"
    by (elim and_do_InrE)
  moreover from this(1) have "sy_db s1 = sy_db s"
    by (auto simp: now_unix_ms_store_def action_simps call_out_def split: prod.splits)
  ultimately show ?thesis using that by blast
qed

lemma finish_mutation_Inr:
  assumes "finish_mutation R i target ref disp c = (Inr record, d)"
  shows "record_of (sy_db (cd_sys d)) i = Some record \<and> mr_state record = target
    \<and> mr_broker_evidence_ref record = ref \<and> mr_logical_request_id record = i"
proof -
  let ?P = "ru_ports R"
  from assms [unfolded finish_mutation_def]
  obtain epoch where "store_call R (timed_write ?P (\<lambda>now.
      transition_mutation (po_to_json ?P) (scope_key (ru_scope R)) i [journal_state.UnknownAfterDispatch] target
        ref disp epoch now)) c = (Inr record, d)"
    by (elim and_do_InrE) auto
  then obtain s where wrote: "timed_write ?P (\<lambda>now. transition_mutation (po_to_json ?P) (scope_key (ru_scope R)) i
        [journal_state.UnknownAfterDispatch] target ref disp epoch now) (cd_sys (tasks_run R c)) = (Inr record, s)"
    and d: "d = (tasks_run R c)\<lparr>cd_sys := s\<rparr>"
    by (auto simp: store_call_eq on_sys_eq)
  from wrote obtain now s1 where "store_write ?P (transition_mutation (po_to_json ?P) (scope_key (ru_scope R)) i
        [journal_state.UnknownAfterDispatch] target ref disp epoch now) s1 = (Inr record, s)"
    by (rule timed_write_Inr)
  then obtain db where t: "transition_mutation (po_to_json ?P) (scope_key (ru_scope R)) i
        [journal_state.UnknownAfterDispatch] target ref disp epoch now (sy_db (others_run ?P s1)) = Inr (record, db)"
    and "sy_db s = db"
    by (auto simp: store_write_Inr)
  then have "record_of (sy_db (cd_sys d)) i = Some record"
    using d transition_mutation_records [OF t] by simp
  moreover have "mr_state record = target \<and> mr_broker_evidence_ref record = ref"
    by (rule transition_mutation_elim [OF t]) simp
  ultimately show ?thesis using record_of_id by blast
qed

lemma terminal_stays:
  assumes "store_runs P s t" and "record_of (sy_db s) i = Some r" and "journal_terminal (mr_state r)"
  shows "record_of (sy_db t) i = Some r"
  using lifecycle_terminal [OF store_runs_record [OF assms(1)] assms(2,3)] assms(2) by simp

lemma settle_dispatch_Inr:
  assumes "runtime_others (ru_ports R)" and "settle_dispatch R i epoch answer c = (Inr rc, d)"
  shows "\<exists>row ref. rc = receipt row \<and> record_of (sy_db (cd_sys d)) i = Some row
    \<and> mr_logical_request_id row = i \<and> mr_broker_evidence_ref row = Some ref
    \<and> ((\<exists>links. answer = Inr (execution_result.Acknowledged ref links)) \<and> mr_state row = journal_state.Acknowledged
       \<or> answer = Inr (execution_result.Rejected ref) \<and> mr_state row = journal_state.Rejected)"
proof -
  have settled: "record_of (sy_db (cd_sys d)) i = Some row \<and> mr_state row = target
      \<and> mr_broker_evidence_ref row = Some ref \<and> mr_logical_request_id row = i"
    if finish: "finish_mutation R i target (Some ref) None c1 = (Inr row, c2)"
      and outcome: "record_risk_dispatch_outcome R i outcome c2 = (Inr x, d)"
      and target: "target \<in> {journal_state.Acknowledged, journal_state.Rejected}"
    for target ref c1 row c2 outcome x
  proof -
    have "store_runs (ru_ports R) (cd_sys c2) (cd_sys d)"
      using movesD [OF once.record_risk_dispatch_outcome_keeps outcome] assms(1)
      by (auto simp: is_send_def orderly_def sends_once_def)
    from terminal_stays [OF this] finish_mutation_Inr [OF finish] target show ?thesis
      by (auto simp: journal_terminal_def)
  qed
  show ?thesis
  proof (cases answer)
    case (Inl e)
    then show ?thesis using assms(2) by (simp add: settle_dispatch_def halt_unknown_def action_simps)
  next
    case (Inr result)
    show ?thesis
    proof (cases result)
      case (Acknowledged ref links)
      with Inr assms(2) show ?thesis
        by (auto simp: settle_dispatch_def action_simps dest!: settled)
    next
      case (Rejected ref)
      with Inr assms(2) show ?thesis
        by (auto simp: settle_dispatch_def action_simps dest!: settled)
    next
      case (UnknownAfterDispatch ref)
      with Inr assms(2) show ?thesis
        by (auto simp: settle_dispatch_def halt_unknown_def action_simps)
    qed
  qed
qed

text \<open>C13. A receipt is durable and true: when a dispatch returns one, the request was sent once and
  answered, the stored record is settled as the receipt says and as the broker answered, with the
  broker's evidence, and by then nothing can change it any more.\<close>

theorem receipt_is_durable:
  assumes "runtime_others (ru_ports R)"
    and "dispatch_for_purpose R command i correlation purpose c = (Inr rc, d)"
  shows "\<exists>row ref answer. rc = receipt row \<and> record_of (sy_db (cd_sys d)) i = Some row
    \<and> mr_logical_request_id row = i \<and> mr_broker_evidence_ref row = Some ref \<and> journal_terminal (mr_state row)
    \<and> answers (drop (length (cd_trace c)) (cd_trace d)) = [answer]
    \<and> ((\<exists>links. answer = Inr (execution_result.Acknowledged ref links)) \<and> mr_state row = journal_state.Acknowledged
       \<or> answer = Inr (execution_result.Rejected ref) \<and> mr_state row = journal_state.Rejected)"
proof -
  from dispatch_reaches [OF assms(2)] obtain sized t u where t: "emits (quiet_event i) c t"
    and run: "dispatch_with_permit R purpose sized i correlation t = (Inr rc, u)" and d: "d = release_slot u"
    by blast
  from run show ?thesis
  proof (cases rule: dispatch_with_permit_cases)
    case (sent epoch fenced t1 answer t2)
    from t obtain pre where pre: "cd_trace t = cd_trace c @ pre" "\<forall>e \<in> set pre. is_move e \<or> quiet_event i e"
      by (auto simp: emits_def)
    from movesD [OF settle_dispatch_emits sent(5)] obtain rest where rest: "cd_trace u = cd_trace t2 @ rest"
        "\<forall>e \<in> set rest. is_move e \<or> e = Outcome i (outcome_of answer)"
      by (auto simp: emits_def)
    have "answers pre = [] \<and> answers rest = []"
      using quiet_no_sends [OF pre(2)] settled_no_sends [OF rest(2)] by simp
    then have "answers (drop (length (cd_trace c)) (cd_trace d)) = [answer]"
      using d pre(1) rest(1) sent(2) fence_dispatch_Inr [OF assms(1) sent(1)] by simp
    moreover from settle_dispatch_Inr [OF assms(1) sent(5)] obtain row ref where "rc = receipt row"
      "record_of (sy_db (cd_sys d)) i = Some row" "mr_logical_request_id row = i"
      "mr_broker_evidence_ref row = Some ref"
      "(\<exists>links. answer = Inr (execution_result.Acknowledged ref links)) \<and> mr_state row = journal_state.Acknowledged
       \<or> answer = Inr (execution_result.Rejected ref) \<and> mr_state row = journal_state.Rejected"
      using d by auto
    moreover from this(5) have "journal_terminal (mr_state row)" by (auto simp: journal_terminal_def)
    ultimately show ?thesis by blast
  qed simp
qed

end
