(* ===== verification/Runtime_Gate.thy ===== *)
theory Runtime_Gate
  imports Runtime_Dispatch
begin

text \<open>
  The gate: an unknown outcome closes it, only a reconciliation that found the broker in agreement makes
  the runtime ready, the reported health never overstates, and the flags of the refresh task.  The last
  section runs a small coordinator.
\<close>

section \<open>Unknown outcomes\<close>

text \<open>What an action keeps of the shared fields, and of them the state machine and the epoch.\<close>

definition keeps :: "(memory \<Rightarrow> 'a) \<Rightarrow> 'w coordinator \<Rightarrow> 'w coordinator \<Rightarrow> bool" where
  "keeps f c d \<longleftrightarrow> f (cd_memory d) = f (cd_memory c)"

interpretation kept: run_relation "keeps f" for f
  by unfold_locales (auto simp: keeps_def)

lemma kept_primitives [moves_intros]:
  "alone R \<Longrightarrow> moves (keeps f) (wait R)" "alone R \<Longrightarrow> moves (keeps f) (wait_locked R)"
  "moves (keeps f) (peek k)" "moves (keeps f) (on_sys m)" "moves (keeps f) (traced e)"
  by (auto simp: moves_def wait_def wait_locked_def peek_def look_def change_def on_sys_def zoom_def traced_def
    keeps_def split: prod.splits)

lemma kept_pokes [moves_intros]:
  "(\<And>m. f (g m) = f m) \<Longrightarrow> moves (keeps f) (poke g)"
  "(\<And>m h. f (m\<lparr>mm_health := h\<rparr>) = f m) \<Longrightarrow> moves (keeps f) (set_health k)"
  by (simp_all add: moves_def poke_def set_health_def change_def keeps_def)

lemma kept_calls [moves_intros]:
  "alone R \<Longrightarrow> moves (keeps f) (store_call R m)" "alone R \<Longrightarrow> moves (keeps f) (port_call R p)"
  "alone R \<Longrightarrow> moves (keeps f) (ask_risk R q)"
  "alone R \<Longrightarrow> (\<And>m h. f (m\<lparr>mm_health := h\<rparr>) = f m) \<Longrightarrow> moves (keeps f) (update_health R k)"
  "moves (keeps f) (now_unix_ms R)" "moves (keeps f) current_epoch"
  unfolding store_call_def port_call_def ask_risk_def update_health_def now_unix_ms_def current_epoch_def
  by (intro moves_intros; assumption)+

abbreviation state_kept :: "'w coordinator \<Rightarrow> 'w coordinator \<Rightarrow> bool" where
  "state_kept \<equiv> keeps (\<lambda>m. (mm_state m, mm_epoch m))"

text \<open>A transition moves the machine or is not allowed; it may fail after it has moved the machine.\<close>

lemma transition_state:
  assumes "alone R" and "transition R target reason detail c = (r, d)"
  shows "mm_epoch (cd_memory d) = mm_epoch (cd_memory c) \<and>
    (if machine_transition (mm_state (cd_memory c)) target = Inr target then mm_state (cd_memory d) = target
     else d = tasks_run R c \<and> (\<exists>e. r = Inl e))"
proof (cases "machine_transition (mm_state (cd_memory c)) target")
  case (Inl e)
  then show ?thesis
    using assms(2) by (auto simp: transition_def move_state_def run_simps assms(1))
next
  case (Inr next_state)
  then have same: "next_state = target" by (simp add: machine_transition_def split: if_splits)
  let ?epoch = "mm_epoch (cd_memory c)" and ?from = "mm_state (cd_memory c)" and ?t = "tasks_run R c"
  let ?c1 = "?t\<lparr>cd_memory := (cd_memory ?t)\<lparr>mm_state := target\<rparr>, cd_trace := cd_trace ?t @ [Moved ?from target]\<rparr>"
  let ?rest = "and_do (if ?epoch > 0 then record_move R ?epoch ?from target reason detail else done_with ()) (\<lambda>_.
     and_do (peek (\<lambda>m. (mm_connected m, mm_execution_authorized m))) (\<lambda>(connected, authorized).
     and_do (wait_locked R) (\<lambda>_.
     set_health (moved_health target reason detail connected authorized))))"
  have "?rest ?c1 = (r, d)"
    using assms(2) Inr
    by (simp add: transition_def move_state_def run_simps assms(1) same)
  moreover have "moves state_kept ?rest"
    unfolding record_move_def using assms(1) by (intro moves_intros) simp_all
  ultimately have "state_kept ?c1 d" by (rule movesD [rotated])
  then show ?thesis using Inr same assms(1) by (simp add: keeps_def)
qed

definition shut :: "runtime_state \<Rightarrow> bool" where
  "shut s \<longleftrightarrow> s \<in> {Halted, Stopping, Stopped}"

lemma halting_shuts:
  assumes "alone R" and "transition R Halted reason detail c = (r, d)"
  shows "shut (mm_state (cd_memory d))"
  using transition_state [OF assms] assms(1)
  by (cases "mm_state (cd_memory c)") (auto simp: shut_def machine_transition_def split: if_splits)

lemma require_store_shuts:
  assumes "alone R" and "require_store R detail m c = (Inl e, d)" and "\<And>d. m c \<noteq> (Inl DuplicateMutation, d)"
  shows "shut (mm_state (cd_memory d))"
proof -
  obtain x t where m: "m c = (x, t)" by fastforce
  then obtain source where x: "x = Inl source" "source \<noteq> DuplicateMutation"
    using assms(2,3) by (cases x) (auto simp: require_store_def run_simps done_with_def)
  obtain y u where halted: "transition R Halted reason_code.PersistenceFailure detail t = (y, u)" by fastforce
  have "state_kept u d"
    using assms(2) m x halted assms(1)
    by (cases y) (auto simp: require_store_def run_simps update_health_def fail_with_def keeps_def)
  then show ?thesis using halting_shuts [OF assms(1) halted] by (simp add: keeps_def)
qed

lemma transition_mutation_not_duplicate:
  "transition_mutation js key i expected target ref disp epoch now db \<noteq> Inl DuplicateMutation"
  by (cases "checked_i64 epoch")
    (auto simp: transition_mutation_def verify_epoch_def to_i64_def load_mutation_def read_mutation_def
      insert_audit_def result_simps Let_def split: if_splits option.splits)

lemma halt_unknown_shuts:
  assumes "alone R" and "halt_unknown R i detail e c = (r, d)"
  shows "shut (mm_state (cd_memory d)) \<and> (\<exists>x. r = Inl x)"
proof -
  obtain x t where halted: "transition R Halted UnknownMutation detail c = (x, t)" by fastforce
  let ?rest = "and_do (traced (Outcome i risk_dispatch_outcome.UnknownAfterDispatch)) (\<lambda>_.
     and_do (attempt (ask_risk R (po_record_dispatch_outcome (ru_ports R) (ru_scope R) i
       risk_dispatch_outcome.UnknownAfterDispatch))) (\<lambda>_. fail_with e))"
  have "moves state_kept (?rest :: ('a, 'b) running)" using assms(1) by (intro moves_intros)
  then have "state_kept t d"
    using assms(2) halted kept.stays movesD
    by (cases x) (fastforce simp: halt_unknown_def and_do_def)+
  moreover have "\<exists>x. r = Inl x"
    using assms(2) by (cases r) (auto simp: halt_unknown_def action_simps)
  ultimately show ?thesis using halting_shuts [OF assms(1) halted] by (simp add: keeps_def)
qed

lemma finish_mutation_shuts:
  assumes "alone R" and "mm_epoch (cd_memory c) \<noteq> 0" and "finish_mutation R i target ref disp c = (Inl e, d)"
  shows "shut (mm_state (cd_memory d))"
proof -
  let ?P = "ru_ports R" and ?epoch = "mm_epoch (cd_memory c)"
  let ?m = "timed_write ?P (\<lambda>now. transition_mutation (po_to_json ?P) (scope_key (ru_scope R)) i
      [journal_state.UnknownAfterDispatch] target ref disp ?epoch now)"
  have "require_store R ''mutation outcome persistence failed'' (store_call R ?m) c = (Inl e, d)"
    using assms(2,3) by (simp add: finish_mutation_def current_epoch_def run_simps)
  moreover have "?m s \<noteq> (Inl DuplicateMutation, t)" for s t
    using transition_mutation_not_duplicate
    by (auto simp: timed_write_def now_unix_ms_store_def action_simps store_write_Inl result_simps
      call_out_def of_result_def split: prod.splits)
  then have "store_call R ?m c \<noteq> (Inl DuplicateMutation, t)" for t
    by (simp add: store_call_eq on_sys_eq)
  ultimately show ?thesis by (rule require_store_shuts [OF assms(1)])
qed

lemma settle_unknown_shuts:
  assumes "alone R" and "mm_epoch (cd_memory c) \<noteq> 0"
    and "outcome_of answer = risk_dispatch_outcome.UnknownAfterDispatch"
    and "settle_dispatch R i epoch answer c = (r, d)"
  shows "shut (mm_state (cd_memory d)) \<and> (\<exists>e. r = Inl e)"
proof (cases answer)
  case (Inl e)
  then show ?thesis
    using assms(4) halt_unknown_shuts [OF assms(1)] by (simp add: settle_dispatch_def)
next
  case (Inr result)
  then obtain ref where result: "result = execution_result.UnknownAfterDispatch ref"
    using assms(3) by (cases result) auto
  show ?thesis
  proof (cases ref)
    case None
    then show ?thesis
      using assms(4) Inr result halt_unknown_shuts [OF assms(1)] by (simp add: settle_dispatch_def run_simps)
  next
    case (Some reference)
    obtain x t where finish: "finish_mutation R i journal_state.UnknownAfterDispatch ref None c = (x, t)"
      by fastforce
    show ?thesis
    proof (cases x)
      case (Inl e)
      then show ?thesis
        using assms(4) Inr result Some finish finish_mutation_shuts [OF assms(1,2)]
        by (auto simp: settle_dispatch_def and_do_def)
    next
      case (Inr row)
      then have "halt_unknown R i ''capital mutation remains UNKNOWN_AFTER_DISPATCH''
          (UnknownAfterDispatch i) t = (r, d)"
        using assms(4) \<open>answer = Inr result\<close> result Some finish
        by (simp add: settle_dispatch_def and_do_def done_with_def)
      then show ?thesis by (rule halt_unknown_shuts [OF assms(1)])
    qed
  qed
qed

text \<open>The record of the request stays unknown when nobody else writes.\<close>

definition unknown_at :: "string \<Rightarrow> 'w coordinator \<Rightarrow> bool" where
  "unknown_at i c \<longleftrightarrow>
     (\<exists>row. record_of (sy_db (cd_sys c)) i = Some row \<and> mr_state row = journal_state.UnknownAfterDispatch)"

definition unknown_kept :: "string \<Rightarrow> 'w coordinator \<Rightarrow> 'w coordinator \<Rightarrow> bool" where
  "unknown_kept i c d \<longleftrightarrow> (unknown_at i c \<longrightarrow> unknown_at i d)"

interpretation unknown: run_relation "unknown_kept i" for i
  by unfold_locales (auto simp: unknown_kept_def)

lemma unknown_kept_same: "rt_journal (sy_db (cd_sys d)) = rt_journal (sy_db (cd_sys c)) \<Longrightarrow> unknown_kept i c d"
  by (simp add: unknown_kept_def unknown_at_def record_of_def)

lemma unknown_primitives [moves_intros]:
  "moves (unknown_kept i) (wait R)" "moves (unknown_kept i) (wait_locked R)" "moves (unknown_kept i) (peek f)"
  "moves (unknown_kept i) (poke g)" "moves (unknown_kept i) (set_health h)" "moves (unknown_kept i) (traced e)"
  "moves (unknown_kept i) (port_call R p)" "moves (unknown_kept i) (on_sys (call_out o1))"
  "moves (unknown_kept i) (now_unix_ms R)"
  by (auto simp: moves_def wait_def wait_locked_def peek_def poke_def set_health_def look_def change_def
    traced_def on_sys_def zoom_def call_out_def call_port_def port_call_def and_do_def now_unix_ms_def on_err_def
    now_unix_ms_store_def of_result_def intro!: unknown_kept_same split: prod.splits sum.splits)

lemma ask_risk_unknown [moves_intros]: "quiet (ru_ports R) \<Longrightarrow> moves (unknown_kept i) (ask_risk R f)"
  by (auto simp: moves_def ask_risk_def run_simps on_sys_def zoom_def call_risk_def Let_def quiet_others
    intro!: unknown_kept_same split: prod.splits)

lemma record_transition_same:
  assumes "quiet P"
  shows "moves same_journal (store_write P (record_transition tr))"
  by (rule store_write_same [OF assms])
    (auto simp: record_transition_def update_instance_Inr result_simps dest!: insert_audit_frame)

lemma transition_unknown [moves_intros]:
  assumes "quiet (ru_ports R)"
  shows "moves (unknown_kept i) (transition R target reason detail)"
proof -
  have "moves (unknown_kept i) (on_sys (store_write (ru_ports R) (record_transition tr)))" for tr
  proof (rule movesI)
    fix c d :: "'a coordinator" and r
    assume "on_sys (store_write (ru_ports R) (record_transition tr)) c = (r, d)"
    then obtain s where "store_write (ru_ports R) (record_transition tr) (cd_sys c) = (r, s)"
      and d: "d = c\<lparr>cd_sys := s\<rparr>" by (auto simp: on_sys_eq)
    from movesD [OF record_transition_same [OF assms] this(1)] d show "unknown_kept i c d"
      by (intro unknown_kept_same) (simp add: same_journal_def)
  qed
  then show ?thesis
    unfolding transition_def record_move_def move_state_def by (intro moves_intros)
qed

lemma require_store_unknown [moves_intros]:
  "quiet (ru_ports R) \<Longrightarrow> moves (unknown_kept i) m \<Longrightarrow> moves (unknown_kept i) (require_store R detail m)"
  unfolding require_store_def update_health_def by (intro moves_intros)

lemma on_sys_timed_write:
  "on_sys (timed_write P f) = and_do (on_sys (now_unix_ms_store P)) (\<lambda>now. on_sys (store_write P (f now)))"
  by (rule ext) (simp add: timed_write_def on_sys_def zoom_def and_do_def split: prod.splits sum.splits)

lemma finish_mutation_unknown [moves_intros]:
  assumes "quiet (ru_ports R)"
  shows "moves (unknown_kept i) (finish_mutation R i journal_state.UnknownAfterDispatch ref disp)"
proof -
  let ?P = "ru_ports R"
  let ?op = "\<lambda>epoch. transition_mutation (po_to_json ?P) (scope_key (ru_scope R)) i
      [journal_state.UnknownAfterDispatch] journal_state.UnknownAfterDispatch ref disp epoch"
  have op: "moves (unknown_kept i) (on_sys (store_write ?P (?op epoch now)))" for epoch now
  proof (rule movesI)
    fix c d :: "'a coordinator" and r
    assume "on_sys (store_write ?P (?op epoch now)) c = (r, d)"
    then obtain s where run: "store_write ?P (?op epoch now) (cd_sys c) = (r, s)" "d = c\<lparr>cd_sys := s\<rparr>"
      by (auto simp: on_sys_eq)
    show "unknown_kept i c d"
    proof (cases r)
      case (Inl e)
      then show ?thesis
        using run by (auto simp: store_write_Inl quiet_others [OF assms] intro: unknown_kept_same)
    next
      case (Inr row)
      then obtain db where t: "?op epoch now (sy_db (others_run ?P (cd_sys c))) = Inr (row, db)"
        and "sy_db s = db" using run(1) by (auto simp: store_write_Inr)
      moreover have "mr_state row = journal_state.UnknownAfterDispatch"
        by (rule transition_mutation_elim [OF t]) simp
      ultimately show ?thesis
        using run(2) transition_mutation_records [OF t] by (auto simp: unknown_kept_def unknown_at_def)
    qed
  qed
  have "moves (unknown_kept i) (on_sys (now_unix_ms_store ?P))"
    by (auto simp: moves_def on_sys_def zoom_def now_unix_ms_store_def and_do_def call_out_def of_result_def
      intro!: unknown_kept_same split: prod.splits)
  then show ?thesis
    unfolding finish_mutation_def store_call_def current_epoch_def on_sys_timed_write using assms op
    by (auto intro!: moves_intros)
qed

lemma settle_unknown_kept:
  assumes "quiet (ru_ports R)" and "outcome_of answer = risk_dispatch_outcome.UnknownAfterDispatch"
  shows "moves (unknown_kept i) (settle_dispatch R i epoch answer)"
proof -
  have halt: "moves (unknown_kept i) (halt_unknown R i detail e)" for detail e
    unfolding halt_unknown_def by (intro moves_intros assms(1))
  show ?thesis
  proof (cases answer)
    case (Inr result)
    then show ?thesis
      using assms halt by (cases result) (auto simp: settle_dispatch_def intro!: moves_intros)
  qed (use halt in \<open>simp add: settle_dispatch_def\<close>)
qed


section \<open>How the gate opens\<close>

text \<open>A broker snapshot agrees with what the store knows, no mutation is unknown, and the report is made
  from that snapshot.\<close>

definition broker_agreed :: "runtime_scope \<Rightarrow> reconciliation_report \<Rightarrow> bool" where
  "broker_agreed scope report \<longleftrightarrow> rp_unresolved_logical_request_ids report = []
     \<and> (\<exists>snapshot links expectations. consistent_snapshot scope snapshot links expectations
          \<and> rp_positions report = bs_positions snapshot \<and> rp_active_orders report = bs_active_orders snapshot
          \<and> rp_active_stops report = bs_stop_orders snapshot \<and> rp_portfolio report = bs_portfolio snapshot)"

lemma reconcile_agreed:
  assumes "reconcile P C scope epoch s = (Inr report, t)" and "rp_resulting_state report = Ready"
  shows "broker_agreed scope report"
  using assms(1)
proof (rule reconcile_elim)
  fix now rid snapshot unresolved s4
  assume "settle_snapshot P C scope epoch rid now snapshot unresolved s4 = (Inr report, t)"
  then show ?thesis
  proof (rule settle_snapshot_elim)
    fix links expectations outcomes dedup
    assume report: "report = report_of rid epoch snapshot outcomes
        (snapshot_discrepancies scope snapshot links expectations outcomes) dedup now"
    with assms(2) have "validate_snapshot scope snapshot
          (fold replace_links (map snd (resolved_of outcomes)) links) expectations = []"
      and "unresolved_of outcomes = []"
      by (auto simp: report_of_def snapshot_discrepancies_def split: if_splits)
    with report show ?thesis
      unfolding broker_agreed_def validate_snapshot_Nil by (auto simp: report_of_def)
  qed
qed

text \<open>Every report of readiness has a snapshot behind it, and the last report before a move to readiness is
  one.\<close>

definition opened_by_reports :: "runtime_scope \<Rightarrow> trace_event list \<Rightarrow> bool" where
  "opened_by_reports scope es \<longleftrightarrow>
     (\<forall>before state after. es = before @ Moved state Ready # after \<longrightarrow>
        (\<exists>report. last_report before = Some report \<and> rp_resulting_state report = Ready
           \<and> broker_agreed scope report))"

definition true_reports :: "runtime_scope \<Rightarrow> trace_event list \<Rightarrow> bool" where
  "true_reports scope es \<longleftrightarrow>
     (\<forall>report. Reported report \<in> set es \<longrightarrow> rp_resulting_state report = Ready \<longrightarrow> broker_agreed scope report)"

lemma last_report_in: "last_report es = Some report \<Longrightarrow> Reported report \<in> set es"
proof (induction es rule: rev_induct)
  case (snoc e es)
  then show ?case by (cases e) auto
qed (simp add: last_report_def)

lemma opened_snoc:
  assumes "opened_by_reports scope es" and "true_reports scope es"
    and "\<And>state. e = Moved state Ready \<Longrightarrow>
      \<exists>report. last_report es = Some report \<and> rp_resulting_state report = Ready"
  shows "opened_by_reports scope (es @ [e])"
  unfolding opened_by_reports_def
proof (intro allI impI)
  fix before state after
  assume "es @ [e] = before @ Moved state Ready # after"
  then consider "after = []" "e = Moved state Ready" "es = before"
    | after' where "es = before @ Moved state Ready # after'"
    by (cases after rule: rev_cases) auto
  then show "\<exists>report. last_report before = Some report \<and> rp_resulting_state report = Ready
      \<and> broker_agreed scope report"
  proof cases
    case 1
    then show ?thesis using assms(2,3) last_report_in by (fastforce simp: true_reports_def)
  next
    case 2
    then show ?thesis using assms(1) unfolding opened_by_reports_def by blast
  qed
qed

definition opens :: "'w runtime \<Rightarrow> 'w coordinator \<Rightarrow> 'w coordinator \<Rightarrow> bool" where
  "opens R c d \<longleftrightarrow>
     (opened_by_reports (ru_scope R) (cd_trace c) \<and> true_reports (ru_scope R) (cd_trace c) \<longrightarrow>
      opened_by_reports (ru_scope R) (cd_trace d) \<and> true_reports (ru_scope R) (cd_trace d))"

text \<open>The events that need a reason.\<close>

definition needs_reason :: "trace_event \<Rightarrow> bool" where
  "needs_reason e \<longleftrightarrow> (\<exists>report. e = Reported report) \<or> (\<exists>state. e = Moved state Ready)"

lemma opens_same: "cd_trace d = cd_trace c \<Longrightarrow> opens R c d"
  by (simp add: opens_def)

lemma opens_event:
  assumes "\<And>state. e = Moved state Ready \<Longrightarrow>
      \<exists>report. last_report (cd_trace c) = Some report \<and> rp_resulting_state report = Ready"
    and "\<And>report. e = Reported report \<Longrightarrow> rp_resulting_state report = Ready \<Longrightarrow> broker_agreed (ru_scope R) report"
    and "cd_trace d = cd_trace c @ [e]"
  shows "opens R c d"
  using opened_snoc [OF _ _ assms(1)] assms(2,3) by (auto simp: opens_def true_reports_def)

interpretation opens: coordinator_relation "opens R" R needs_reason for R :: "'w runtime"
proof unfold_locales
  show "opens R c (c\<lparr>cd_trace := cd_trace c @ [e]\<rparr>)" if "\<not> needs_reason e" for c e
    by (rule opens_event [of e]) (use that in \<open>auto simp: needs_reason_def\<close>)
qed (auto simp: opens_def needs_reason_def)

lemma last_report_append: "\<forall>e \<in> set fs. reported e = None \<Longrightarrow> last_report (es @ fs) = last_report es"
  by (induction fs rule: rev_induct) (auto simp flip: append_assoc)

lemma emitted_report: "emits (\<lambda>_. False) c d \<Longrightarrow> last_report (cd_trace d) = last_report (cd_trace c)"
  by (auto simp: emits_def is_move_def intro!: last_report_append) (metis reported.simps(6))

text \<open>A move to the state of the last report opens the gate only if that report says so.\<close>

lemma transition_fresh: "fresh (opens R) report (transition R (rp_resulting_state report) reason detail)"
proof (cases "rp_resulting_state report = Ready")
  case False
  then show ?thesis by (intro fresh_moves opens.transition_not_ready)
next
  case True
  show ?thesis
    unfolding fresh_def
  proof (intro allI impI)
    fix c r d
    assume before: "last_report (cd_trace c) = Some report"
      and run: "transition R (rp_resulting_state report) reason detail c = (r, d)"
    let ?t = "tasks_run R c" and ?from = "mm_state (cd_memory (tasks_run R c))"
    show "opens R c d"
    proof (cases "machine_transition ?from Ready")
      case (Inl e)
      then have "d = ?t" using run by (simp add: True transition_def move_state_def run_simps)
      then show ?thesis by (simp add: opens_same)
    next
      case (Inr s)
      let ?u = "?t\<lparr>cd_memory := (cd_memory ?t)\<lparr>mm_state := s\<rparr>, cd_trace := cd_trace ?t @ [Moved ?from Ready]\<rparr>"
      have "opens R c ?u" by (rule opens_event [of "Moved ?from Ready"]) (use before True in auto)
      moreover have "opens R ?u d"
        by (rule movesD [OF opens.announce_keeps])
          (use run Inr in \<open>simp add: True transition_def move_state_def run_simps\<close>)
      ultimately show ?thesis by (rule opens.chains)
    qed
  qed
qed

lemma opens_after:
  assumes "moves (opens R) m" and "moves (emits (\<lambda>_. False)) m" and "\<And>x. fresh (opens R) report (k x)"
  shows "fresh (opens R) report (and_do m k)"
  unfolding fresh_def
proof (intro allI impI)
  fix c r d
  assume before: "last_report (cd_trace c) = Some report" and "and_do m k c = (r, d)"
  from this(2) show "opens R c d"
  proof (cases rule: and_do_cases)
    case (failed e)
    then show ?thesis using movesD [OF assms(1)] by blast
  next
    case (went_on x t)
    have "last_report (cd_trace t) = Some report"
      using emitted_report [OF movesD [OF assms(2) went_on(1)]] before by simp
    from opens.chains [OF movesD [OF assms(1) went_on(1)] freshD [OF assms(3) this went_on(2)]] show ?thesis .
  qed
qed

lemma apply_fresh: "fresh (opens R) report (apply_reconciliation_report R report)"
proof -
  have health: "moves (opens R) (update_health R (reported_health report))"
    "moves (emits (\<lambda>_. False)) (update_health R (reported_health report))"
    by (intro moves_intros; simp add: reported_health_def health_sound_def)+
  have call: "moves (opens R) (attempt (ask_risk R (po_reconcile_risk (ru_ports R) (ru_scope R) report)))"
    "moves (emits (\<lambda>_. False)) (attempt (ask_risk R (po_reconcile_risk (ru_ports R) (ru_scope R) report)))"
    by (intro moves_intros)+
  have halted: "moves (opens R) (and_do (transition R Halted reason detail) (\<lambda>_. fail_with e) :: ('w, unit) running)"
    for R :: "'w runtime" and reason detail e
    by (intro moves_intros) simp
  show ?thesis
    unfolding apply_reconciliation_report_def
    by (rule opens_after [OF call])
      (intro fresh_cases(2) fresh_moves [OF halted] opens_after [OF health] transition_fresh)
qed

lemma reconcile_locked_opens: "moves (opens R) (reconcile_locked R)"
proof -
  have report: "moves (opens R) (traced (Reported report))"
    if "on_sys (reconcile (ru_ports R) (ru_config R) (ru_scope R) epoch) c = (Inr report, t)" for epoch c t report
  proof -
    from that obtain s where "reconcile (ru_ports R) (ru_config R) (ru_scope R) epoch (cd_sys c) = (Inr report, s)"
      by (auto simp: on_sys_eq)
    from reconcile_agreed [OF this] show ?thesis
      by (auto simp: moves_def traced_def change_def intro!: opens_event [of "Reported report"])
  qed
  have settled: "moves (opens R) (case result of
       Inr report \<Rightarrow> and_do (traced (Reported report)) (\<lambda>_. done_with report)
     | Inl e \<Rightarrow>
         and_do (attempt (transition R Halted (reconciliation_error_reason e)
           ''authoritative broker reconciliation failed'')) (\<lambda>moved.
         and_do (case moved of
                   Inl _ \<Rightarrow> update_health R (unhealthy (reconciliation_error_reason e)
                     ''authoritative broker reconciliation failed'')
                 | Inr _ \<Rightarrow> done_with ()) (\<lambda>_.
         fail_with (Reconciliation e))))"
    if "attempt (on_sys (reconcile (ru_ports R) (ru_config R) (ru_scope R) epoch)) c = (Inr result, t)"
    for epoch c t result
  proof (cases result)
    case (Inl e)
    then show ?thesis by (simp only: sum.case, intro moves_intros) simp_all
  next
    case (Inr x)
    with that have "on_sys (reconcile (ru_ports R) (ru_config R) (ru_scope R) epoch) c = (Inr x, t)"
      by (auto simp: attempt_def split: prod.splits)
    note traced_report = report [OF this]
    show ?thesis unfolding Inr sum.case by (rule opens.moves_and_do [OF traced_report]) (intro moves_intros)
  qed
  show ?thesis
    unfolding reconcile_locked_def
    by (intro opens.moves_and_do [OF opens.keeps_primitives(1)] opens.moves_and_do [OF opens.keeps_calls(5)]
        opens.moves_bind [OF _ settled]) (intro moves_intros)
qed

interpretation opens_handlers: refreshing_relation "opens R" R needs_reason for R :: "'w runtime"
proof unfold_locales
  show "moves (opens R) (dispatch_for_purpose R command i correlation purpose)" for command i correlation purpose
    by (rule opens.dispatch_for_purpose_keeps, unfold dispatch_with_permit_def, intro moves_intros)
      (simp_all add: needs_reason_def)
qed (simp_all add: needs_reason_def apply_fresh reconcile_locked_opens opens_same)


section \<open>The reported health\<close>

text \<open>No event is special to the health and the flags.\<close>

definition none_special :: "trace_event \<Rightarrow> bool" where
  "none_special e \<longleftrightarrow> False"

text \<open>The other tasks of the coordinator are its handlers; they keep the health sound as well.\<close>

definition sound_tasks :: "'w runtime \<Rightarrow> bool" where
  "sound_tasks R \<longleftrightarrow> (\<forall>w m. health_sound (mm_health m) \<longrightarrow> health_sound (mm_health (fst (ru_tasks R w m))))"

definition stays_sound :: "'w runtime \<Rightarrow> 'w coordinator \<Rightarrow> 'w coordinator \<Rightarrow> bool" where
  "stays_sound R c d \<longleftrightarrow> (sound_tasks R \<longrightarrow>
     health_sound (mm_health (cd_memory c)) \<longrightarrow> health_sound (mm_health (cd_memory d)))"

lemma tasks_run_sound: "stays_sound R c (tasks_run R c)" "stays_sound R c (tasks_run_locked R c)"
  by (cases "ru_tasks R (sy_world (cd_sys c)) (cd_memory c)";
      auto simp: stays_sound_def sound_tasks_def tasks_run_def tasks_run_locked_def; metis fst_conv)+

interpretation sound: coordinator_relation "stays_sound R" R none_special for R :: "'w runtime"
  by unfold_locales (auto simp: stays_sound_def none_special_def intro: tasks_run_sound [unfolded stays_sound_def, rule_format])

interpretation sound_handlers: refreshing_relation "stays_sound R" R none_special for R :: "'w runtime"
proof unfold_locales
  show "moves (stays_sound R) (dispatch_for_purpose R command i correlation purpose)" for command i correlation purpose
    by (rule sound.dispatch_for_purpose_keeps, unfold dispatch_with_permit_def, intro moves_intros)
      (simp_all add: none_special_def)
  have transition: "moves (stays_sound R) (transition R target reason detail)" for target reason detail
    by (rule sound.transition_keeps) (simp add: none_special_def)
  show "fresh (stays_sound R) report (apply_reconciliation_report R report)" for report
    unfolding apply_reconciliation_report_def
    by (intro fresh_moves transition moves_intros) (simp add: reported_health_def health_sound_def)
  show "moves (stays_sound R) (reconcile_locked R)" by (rule sound.reconcile_locked_keeps) (simp add: none_special_def)
qed (auto simp: stays_sound_def none_special_def)


section \<open>The flags of the refresh task\<close>

definition flags_stay :: "'w runtime \<Rightarrow> 'w coordinator \<Rightarrow> 'w coordinator \<Rightarrow> bool" where
  "flags_stay R c d \<longleftrightarrow> (alone R \<longrightarrow>
     (mm_reconciliation_running (cd_memory c) \<longrightarrow> mm_reconciliation_running (cd_memory d))
     \<and> (mm_reconciliation_dirty (cd_memory c) \<longrightarrow> mm_reconciliation_dirty (cd_memory d)))"

interpretation flags: coordinator_relation "flags_stay R" R none_special for R :: "'w runtime"
  by unfold_locales (auto simp: flags_stay_def none_special_def)

interpretation flags_handlers: handler_relation "flags_stay R" R none_special for R :: "'w runtime"
proof unfold_locales
  show "moves (flags_stay R) (dispatch_for_purpose R command i correlation purpose)" for command i correlation purpose
    by (rule flags.dispatch_for_purpose_keeps, unfold dispatch_with_permit_def, intro moves_intros)
      (simp_all add: none_special_def)
  have transition: "moves (flags_stay R) (transition R target reason detail)" for target reason detail
    by (rule flags.transition_keeps) (simp add: none_special_def)
  show "fresh (flags_stay R) report (apply_reconciliation_report R report)" for report
    unfolding apply_reconciliation_report_def
    by (intro fresh_moves transition moves_intros) (simp add: reported_health_def health_sound_def)
  show "moves (flags_stay R) (reconcile_locked R)" by (rule flags.reconcile_locked_keeps) (simp add: none_special_def)
qed (auto simp: flags_stay_def none_special_def)

lemma failed_request_runs:
  assumes "request_coalesced_reconciliation R reason detail c = (Inl e, d)" and "alone R"
  shows "mm_reconciliation_running (cd_memory d)"
proof -
  let ?c = "c\<lparr>cd_memory := (cd_memory c)\<lparr>mm_reconciliation_dirty := True, mm_reconciliation_running := True\<rparr>\<rparr>"
  have "moves (flags_stay R) (and_do (transition R Reconciling reason detail) (\<lambda>_.
      and_do (wait R) (\<lambda>_. poke (\<lambda>m. m\<lparr>mm_refresh_task := True\<rparr>))))"
    by (intro moves_intros) simp_all
  moreover have "and_do (transition R Reconciling reason detail) (\<lambda>_.
      and_do (wait R) (\<lambda>_. poke (\<lambda>m. m\<lparr>mm_refresh_task := True\<rparr>))) ?c = (Inl e, d)"
    using assms(1)
    by (auto simp: request_coalesced_reconciliation_def run_simps done_with_def split: if_splits)
  ultimately have "flags_stay R ?c d" by (rule movesD)
  then show ?thesis using assms(2) by (simp add: flags_stay_def)
qed

text \<open>C32. Only a refresh task opens the gate again.  When the request for a refresh fails, or an event has
  come that no refresh has taken up, then whatever handlers run afterwards, forced reconciliations that
  end ready included, no command that may open exposure passes the gate until a refresh task runs.\<close>

theorem lost_refresh_blocks_exposure:
  assumes "alone R"
    and "request_coalesced_reconciliation R reason detail b = (Inl e, c) \<or> mm_reconciliation_dirty (cd_memory c)"
    and "\<forall>h \<in> set hs. \<not> is_refresh h" and "\<not> cleanup_command command"
  shows "\<not> gate_open command (cd_memory (run_handlers R hs c))"
  using flags_handlers.handlers_keep [OF assms(3), of R c] failed_request_runs [of R reason detail b e c] assms
  by (auto simp: flags_stay_def gate_open_def)

text \<open>A refresh task that no event disturbs ends.  Alone, the loop returns in its first round, whatever
  the broker, the store and the risk service answer, and leaves neither flag set.\<close>

theorem refresh_ends:
  assumes "alone R" and "coalesced_refresh R (Suc rounds) c = (r, d)"
  shows "r = Inr True \<and> \<not> mm_reconciliation_running (cd_memory d) \<and> \<not> mm_reconciliation_dirty (cd_memory d)"
proof -
  let ?flags = "\<lambda>m. (mm_reconciliation_running m, mm_reconciliation_dirty m)"
  have move: "moves (keeps ?flags) (transition R target reason detail)" for target reason detail
    unfolding transition_def record_move_def move_state_def by (intro moves_intros assms(1)) simp_all
  have reconcile: "moves (keeps ?flags) (reconcile_locked R)"
    unfolding reconcile_locked_def by (intro move moves_intros assms(1)) simp_all
  have applied: "moves (keeps ?flags) (apply_reconciliation_report R report)" for report
    unfolding apply_reconciliation_report_def by (intro move moves_intros assms(1)) simp_all
  let ?c = "c\<lparr>cd_memory := (cd_memory c)\<lparr>mm_reconciliation_dirty := False\<rparr>\<rparr>"
  obtain x t where t: "reconcile_locked R ?c = (x, t)" by fastforce
  have dirty: "\<not> mm_reconciliation_dirty (cd_memory t)" using movesD [OF reconcile t] by (simp add: keeps_def)
  show ?thesis
  proof (cases x)
    case (Inl e)
    then show ?thesis
      using assms(2) t dirty by (auto simp: run_simps stop_running_def done_with_def)
  next
    case (Inr report)
    obtain y u where u: "apply_reconciliation_report R report t = (y, u)" by fastforce
    have "\<not> mm_reconciliation_dirty (cd_memory u)" using movesD [OF applied u] dirty by (simp add: keeps_def)
    then show ?thesis
      using assms(2) t dirty u Inr by (cases y) (auto simp: run_simps stop_running_def done_with_def)
  qed
qed

section \<open>Runs\<close>

definition sample_runtime :: "nat runtime" where
  "sample_runtime = \<lparr>ru_ports = sample_ports
       \<lparr>po_connect := (\<lambda>_ _ w. (Inr required_streams, w)),
        po_admit := (\<lambda>_ _ _ _ _ w. (Inr \<lparr>ra_decision_id = ''d1'', ra_reservation_id = Some ''v1'',
          ra_policy_revision = 1, ra_approved_delta_lots = 2\<rparr>, w))\<rparr>,
     ru_config = reconciliation_config_default, ru_scope = sample_scope, ru_owner_id = ''o1'',
     ru_tasks = (\<lambda>w m. (m, w))\<rparr>"

definition sample_command :: runtime_execution_command where
  "sample_command = RegularOrder
     \<lparr>ro_account_id = ''a1'', ro_instrument_id = ''i1'', ro_client_request_id = ''r1'', ro_quantity_lots = 3,
      ro_price = None, ro_price_convention = Points, ro_side = Buy, ro_order_type = regular_order_type.Market,
      ro_time_in_force = None, ro_confirm_margin_trade = False\<rparr>"

definition sample_ready :: "nat coordinator" where
  "sample_ready = \<lparr>cd_memory = (initial_memory sample_scope)\<lparr>mm_epoch := 1, mm_started := True,
       mm_connected := True, mm_execution_authorized := True, mm_state := Ready\<rparr>,
     cd_sys = \<lparr>sy_db = sample_owned, sy_world = 0\<rparr>, cd_trace = []\<rparr>"

definition sample_dispatch :: "(runtime_error + dispatch_receipt) \<times> nat coordinator" where
  "sample_dispatch = dispatch_for_purpose sample_runtime sample_command ''r1'' ''x1'' SandboxMutation sample_ready"
definition sample_lost_runtime :: "nat runtime" where
  "sample_lost_runtime = sample_runtime\<lparr>ru_ports := (ru_ports sample_runtime)
     \<lparr>po_dispatch_once := (\<lambda>_ _ _ _ w. (Inl sample_outage, w))\<rparr>\<rparr>"

definition sample_lost :: "(runtime_error + dispatch_receipt) \<times> nat coordinator" where
  "sample_lost = dispatch_for_purpose sample_lost_runtime sample_command ''r1'' ''x1'' SandboxMutation sample_ready"

text \<open>A forced reconciliation while an event waits for a refresh.\<close>

definition sample_dirty :: "nat coordinator" where
  "sample_dirty = sample_ready\<lparr>cd_memory := (cd_memory sample_ready)\<lparr>mm_reconciliation_dirty := True\<rparr>\<rparr>"

definition sample_forced :: "(runtime_error + reconciliation_report) \<times> nat coordinator" where
  "sample_forced = force_reconciliation sample_runtime ReconciliationStarted ''check'' sample_dirty"

lemma sample_handlers:
  "run_handlers sample_runtime [Dispatch sample_command ''r1'' ''x1''] sample_ready = snd sample_dispatch"
  "run_handlers sample_runtime [ForceReconciliation ReconciliationStarted ''check''] sample_dirty = snd sample_forced"
  by (simp_all add: run_handlers_def dispatch_def sample_dispatch_def sample_forced_def sample_runtime_def
    sample_scope_def)

lemma sample_runtime_facts:
  "alone sample_runtime" "runtime_others (ru_ports sample_runtime)" "sound_tasks sample_runtime"
  "alone sample_lost_runtime" "quiet (ru_ports sample_lost_runtime)" "ru_scope sample_runtime = sample_scope"
  by (simp_all add: alone_def runtime_others_def sound_tasks_def quiet_def sample_lost_runtime_def
    sample_runtime_def sample_ports_def)

lemma sample_traces [simp]:
  "cd_trace sample_ready = []" "sample_ready\<lparr>cd_trace := []\<rparr> = sample_ready"
  "sample_dirty\<lparr>cd_trace := []\<rparr> = sample_dirty"
  "mm_health (cd_memory sample_dirty) = mm_health (initial_memory sample_scope)"
  by (simp_all add: sample_ready_def sample_dirty_def)

lemma sample_dispatch_run:
  "case sample_dispatch of (r, d) \<Rightarrow> is_ok r \<and> sent_ids (cd_trace d) = [''r1'']
     \<and> list_ex (\<lambda>e. e = Outcome ''r1'' risk_dispatch_outcome.Acknowledged) (cd_trace d)"
  by code_simp

lemma sample_lost_run:
  "case sample_lost of (r, d) \<Rightarrow> list_ex (\<lambda>e. e = Answered (Inl sample_outage)) (cd_trace d)"
  by code_simp

lemma sample_forced_run:
  "case sample_forced of (r, d) \<Rightarrow> mm_state (cd_memory d) = Ready \<and> he_new_exposure_allowed (mm_health (cd_memory d))
     \<and> list_ex (\<lambda>e. e = Moved Reconciling Ready) (cd_trace d)"
  by code_simp

lemmas sample_runs = sample_dispatch_run [unfolded case_prod_beta] sample_lost_run [unfolded case_prod_beta]
  sample_forced_run [unfolded case_prod_beta]

lemma sample_run_pairs:
  "dispatch_for_purpose sample_runtime sample_command ''r1'' ''x1'' SandboxMutation sample_ready
     = (Inr (projr (fst sample_dispatch)), snd sample_dispatch)"
  "dispatch_for_purpose sample_lost_runtime sample_command ''r1'' ''x1'' SandboxMutation sample_ready
     = (fst sample_lost, snd sample_lost)"
  using run_ok [of sample_dispatch] sample_runs(1) unfolding sample_dispatch_def sample_lost_def by simp_all

theorem sent_at_most_once_witness:
  "sent_ids (cd_trace (snd sample_dispatch)) = [''r1'']
   \<and> \<not> claimed sample_ready ''r1'' \<and> claimed (snd sample_dispatch) ''r1''"
  using sent_at_most_once [OF sample_runtime_facts(2), of "[Dispatch sample_command ''r1'' ''x1'']" sample_ready
      "snd sample_dispatch"] sample_runs(1) sample_handlers(1) by simp

theorem sends_only_what_was_admitted_witness:
  "\<exists>pre admission sized fenced rest.
     cd_trace (snd sample_dispatch) = pre @ Sent SandboxMutation sized fenced # rest
     \<and> sent_ids pre = [] \<and> sent_ids rest = []
     \<and> backed_send sample_runtime SandboxMutation sample_command ''r1'' admission sized
     \<and> sized = with_quantity \<bar>ra_approved_delta_lots admission\<bar> sample_command
     \<and> fences sample_runtime ''r1'' sized fenced
     \<and> gate_open sample_command (cd_memory (tasks_run sample_runtime sample_ready))"
  using sends_only_what_was_admitted [OF sample_runtime_facts(2) sample_run_pairs(1)] sample_runs(1) by simp

theorem outcome_follows_answer_witness:
  "Outcome ''r1'' risk_dispatch_outcome.Acknowledged \<in> set (cd_trace (snd sample_dispatch))
   \<and> (\<exists>answer. answers (cd_trace (snd sample_dispatch)) = [answer]
        \<and> risk_dispatch_outcome.Acknowledged = outcome_of answer)"
proof -
  have told: "Outcome ''r1'' risk_dispatch_outcome.Acknowledged \<in> set (cd_trace (snd sample_dispatch))"
    using sample_runs(1) by (simp add: list_ex_iff)
  from outcome_follows_answer [OF sample_runtime_facts(2) sample_run_pairs(1) _ this] told show ?thesis by auto
qed

theorem receipt_is_durable_witness:
  "\<exists>row. projr (fst sample_dispatch) = receipt row
     \<and> record_of (sy_db (cd_sys (snd sample_dispatch))) ''r1'' = Some row \<and> journal_terminal (mr_state row)"
  using receipt_is_durable [OF sample_runtime_facts(2) sample_run_pairs(1)] by blast




theorem lost_refresh_blocks_exposure_witness:
  "mm_state (cd_memory (snd sample_forced)) = Ready
   \<and> he_new_exposure_allowed (mm_health (cd_memory (snd sample_forced)))
   \<and> \<not> gate_open sample_command (cd_memory (snd sample_forced))"
proof -
  have "mm_reconciliation_dirty (cd_memory sample_dirty)" by (simp add: sample_dirty_def)
  moreover have "\<not> cleanup_command sample_command" by (simp add: cleanup_command_def sample_command_def)
  ultimately show ?thesis
    using lost_refresh_blocks_exposure [OF sample_runtime_facts(1), of _ _ _ _ sample_dirty
        "[ForceReconciliation ReconciliationStarted ''check'']" sample_command] sample_runs(3)
    by (simp add: sample_handlers is_refresh_def)
qed

theorem refresh_ends_witness:
  "fst (coalesced_refresh sample_runtime (Suc 0) sample_dirty) = Inr True
   \<and> \<not> mm_reconciliation_running (cd_memory (snd (coalesced_refresh sample_runtime (Suc 0) sample_dirty)))"
  using refresh_ends [OF sample_runtime_facts(1) prod.collapse [symmetric]] by blast

end
