(* ===== verification/Tinvest_Risk_Read.thy ===== *)
theory Tinvest_Risk_Read
  imports Domain_Execution Vox_Action
begin

text \<open>
  What risk reads from the broker, \<open>crates/vox-tinvest/src/risk_read.rs\<close>, with the canonical facts of
  \<open>canonical.rs\<close> and \<open>execution.rs\<close> it returns.  The messages are those of \<open>proto/tinkoff\<close>, with the
  fields the adapter uses.  The gRPC client is a record of calls on a world of any type; a failed call
  returns the text of its error, and a session is a number that stands for the client behind it.
\<close>

section \<open>Messages\<close>

record quotation =
  q_units :: int
  q_nano :: int

record money_value =
  mv_currency :: string
  mv_units :: int
  mv_nano :: int

record get_margin_attributes_response =
  gm_liquid_portfolio :: "money_value option"
  gm_starting_margin :: "money_value option"
  gm_minimal_margin :: "money_value option"
  gm_funds_sufficiency_level :: "quotation option"
  gm_amount_of_missing_funds :: "money_value option"
  gm_corrected_margin :: "money_value option"
  gm_guarantee_for_futures :: "money_value option"

record instrument_message =
  im_uid :: string
  im_lot :: int
  im_api_trade_available_flag :: bool
  im_buy_available_flag :: bool
  im_sell_available_flag :: bool

record get_trading_status_response =
  ts_instrument_uid :: string
  ts_api_trade_available_flag :: bool
  ts_limit_order_available_flag :: bool
  ts_market_order_available_flag :: bool
  ts_bestprice_order_available_flag :: bool

record get_max_lots_request =
  xr_account_id :: string
  xr_instrument_id :: string
  xr_price :: "quotation option"

record buy_limits_view =
  bv_buy_money_amount :: "quotation option"
  bv_buy_max_lots :: int
  bv_buy_max_market_lots :: int

record sell_limits_view =
  sv_sell_max_lots :: int

record get_max_lots_response =
  xl_currency :: string
  xl_buy_limits :: "buy_limits_view option"
  xl_buy_margin_limits :: "buy_limits_view option"
  xl_sell_limits :: "sell_limits_view option"
  xl_sell_margin_limits :: "sell_limits_view option"

record get_order_price_request =
  or_account_id :: string
  or_instrument_id :: string
  or_price :: "quotation option"
  or_direction :: int
  or_quantity :: int

datatype instrument_extra =
    ExtraBond "money_value option" "quotation option"
  | ExtraFuture "money_value option"

record get_order_price_response =
  op_total_order_amount :: "money_value option"
  op_initial_order_amount :: "money_value option"
  op_lots_requested :: int
  op_executed_commission :: "money_value option"
  op_executed_commission_rub :: "money_value option"
  op_service_commission :: "money_value option"
  op_deal_commission :: "money_value option"
  op_instrument_extra :: "instrument_extra option"

section \<open>Canonical facts\<close>

record canonical_money =
  cm_currency :: "string option"
  cm_amount :: units_nano

datatype economics_error = Missing string | InvalidUnitsNano

datatype execution_decode_error = MissingPayload | InvalidEconomics | InvalidTimestamp

definition optional_text :: "string \<Rightarrow> string option" where
  "optional_text value = (if blank value then None else Some value)"

definition canonical_money_of :: "money_value \<Rightarrow> economics_error + canonical_money" where
  "canonical_money_of value =
     and_then (map_err (\<lambda>_. InvalidUnitsNano) (units_nano_new (mv_units value) (mv_nano value))) (\<lambda>amount.
     Inr \<lparr>cm_currency = optional_text (mv_currency value), cm_amount = amount\<rparr>)"

definition execution_money :: "money_value option \<Rightarrow> execution_decode_error + canonical_money option" where
  "execution_money value = map_err (\<lambda>_. InvalidEconomics) (transpose_map canonical_money_of value)"

definition execution_units_nano :: "quotation option \<Rightarrow> execution_decode_error + units_nano option" where
  "execution_units_nano value =
     map_err (\<lambda>_. InvalidEconomics) (transpose_map (\<lambda>q. units_nano_new (q_units q) (q_nano q)) value)"

record canonical_buy_limits =
  cb_available_money :: "units_nano option"
  cb_max_lots :: int
  cb_max_market_lots :: int

record canonical_sell_limits =
  cs_max_lots :: int

record canonical_max_lots =
  cl_currency :: "string option"
  cl_buy :: "canonical_buy_limits option"
  cl_buy_with_margin :: "canonical_buy_limits option"
  cl_sell :: "canonical_sell_limits option"
  cl_sell_with_margin :: "canonical_sell_limits option"

datatype canonical_order_price_extra =
    Bond "canonical_money option" "units_nano option"
  | Future "canonical_money option"

record canonical_order_price =
  cp_total_order_amount :: "canonical_money option"
  cp_initial_order_amount :: "canonical_money option"
  cp_lots_requested :: int
  cp_executed_commission :: "canonical_money option"
  cp_executed_commission_rub :: "canonical_money option"
  cp_service_commission :: "canonical_money option"
  cp_deal_commission :: "canonical_money option"
  cp_instrument_extra :: "canonical_order_price_extra option"

definition canonical_buy_limits_of :: "buy_limits_view \<Rightarrow> execution_decode_error + canonical_buy_limits" where
  "canonical_buy_limits_of value =
     and_then (execution_units_nano (bv_buy_money_amount value)) (\<lambda>money.
     Inr \<lparr>cb_available_money = money, cb_max_lots = bv_buy_max_lots value,
          cb_max_market_lots = bv_buy_max_market_lots value\<rparr>)"

definition canonical_sell_limits_of :: "sell_limits_view \<Rightarrow> canonical_sell_limits" where
  "canonical_sell_limits_of value = \<lparr>cs_max_lots = sv_sell_max_lots value\<rparr>"

definition canonical_max_lots_of :: "get_max_lots_response \<Rightarrow> execution_decode_error + canonical_max_lots" where
  "canonical_max_lots_of value =
     and_then (transpose_map canonical_buy_limits_of (xl_buy_limits value)) (\<lambda>buy.
     and_then (transpose_map canonical_buy_limits_of (xl_buy_margin_limits value)) (\<lambda>buy_with_margin.
     Inr \<lparr>cl_currency = optional_text (xl_currency value), cl_buy = buy,
          cl_buy_with_margin = buy_with_margin,
          cl_sell = map_option canonical_sell_limits_of (xl_sell_limits value),
          cl_sell_with_margin = map_option canonical_sell_limits_of (xl_sell_margin_limits value)\<rparr>))"

fun canonical_extra_of ::
  "instrument_extra option \<Rightarrow> execution_decode_error + canonical_order_price_extra option" where
  "canonical_extra_of (Some (ExtraBond aci_value nominal_conversion_rate)) =
     and_then (execution_money aci_value) (\<lambda>accrued_interest.
     and_then (execution_units_nano nominal_conversion_rate) (\<lambda>rate.
     Inr (Some (Bond accrued_interest rate))))"
| "canonical_extra_of (Some (ExtraFuture initial_margin)) =
     and_then (execution_money initial_margin) (\<lambda>margin. Inr (Some (Future margin)))"
| "canonical_extra_of None = Inr None"

definition canonical_order_price_of ::
  "get_order_price_response \<Rightarrow> execution_decode_error + canonical_order_price" where
  "canonical_order_price_of value =
     and_then (canonical_extra_of (op_instrument_extra value)) (\<lambda>extra.
     and_then (execution_money (op_total_order_amount value)) (\<lambda>total.
     and_then (execution_money (op_initial_order_amount value)) (\<lambda>initial.
     and_then (execution_money (op_executed_commission value)) (\<lambda>executed.
     and_then (execution_money (op_executed_commission_rub value)) (\<lambda>executed_rub.
     and_then (execution_money (op_service_commission value)) (\<lambda>service.
     and_then (execution_money (op_deal_commission value)) (\<lambda>deal.
     Inr \<lparr>cp_total_order_amount = total, cp_initial_order_amount = initial,
          cp_lots_requested = op_lots_requested value, cp_executed_commission = executed,
          cp_executed_commission_rub = executed_rub, cp_service_commission = service,
          cp_deal_commission = deal, cp_instrument_extra = extra\<rparr>)))))))"

section \<open>The read adapter\<close>

record canonical_margin_attributes =
  ca_liquid_portfolio :: "canonical_money option"
  ca_starting_margin :: "canonical_money option"
  ca_minimal_margin :: "canonical_money option"
  ca_funds_sufficiency_level :: "units_nano option"
  ca_amount_of_missing_funds :: "canonical_money option"
  ca_corrected_margin :: "canonical_money option"
  ca_guarantee_for_futures :: "canonical_money option"

record canonical_risk_instrument =
  ci_uid :: string
  ci_lot_size :: int
  ci_api_trade_available :: bool
  ci_buy_available :: bool
  ci_sell_available :: bool
  ci_limit_order_available :: bool
  ci_market_order_available :: bool
  ci_best_price_order_available :: bool

datatype risk_read_error =
    Grpc string
  | ExecutionDecode execution_decode_error
  | Economics economics_error
  | InvalidEconomics
  | InvalidQuantity
  | InstrumentMissing
  | InvalidInstrument

fun execution_decode_error_display :: "execution_decode_error \<Rightarrow> string" where
  "execution_decode_error_display MissingPayload = ''execution stream response omitted payload''"
| "execution_decode_error_display execution_decode_error.InvalidEconomics =
     ''provider execution economics invalid''"
| "execution_decode_error_display InvalidTimestamp = ''provider execution timestamp invalid''"

fun risk_read_error_display :: "risk_read_error \<Rightarrow> string" where
  "risk_read_error_display (Grpc e) = ''T-Invest risk read failed: '' @ e"
| "risk_read_error_display (ExecutionDecode e) =
     ''T-Invest execution fact decode failed: '' @ execution_decode_error_display e"
| "risk_read_error_display (Economics e) = ''T-Invest economics decode failed''"
| "risk_read_error_display risk_read_error.InvalidEconomics =
     ''risk read economics are not exactly representable''"
| "risk_read_error_display risk_read_error.InvalidQuantity = ''risk read quantity must be positive''"
| "risk_read_error_display InstrumentMissing = ''risk instrument is missing''"
| "risk_read_error_display InvalidInstrument = ''risk instrument contract is invalid''"

datatype broker_environment = Production | Sandbox

record risk_read_adapter =
  rr_client :: nat
  rr_environment :: broker_environment

type_synonym ('x, 'a) remote = "'x \<Rightarrow> (string + 'a) \<times> 'x"

record 'x risk_rpc =
  rc_get_margin_attributes :: "nat \<Rightarrow> string \<Rightarrow> ('x, get_margin_attributes_response) remote"
  rc_get_instrument_by_uid :: "nat \<Rightarrow> string \<Rightarrow> ('x, instrument_message option) remote"
  rc_get_trading_status :: "nat \<Rightarrow> string \<Rightarrow> ('x, get_trading_status_response) remote"
  rc_get_max_lots :: "nat \<Rightarrow> get_max_lots_request \<Rightarrow> ('x, get_max_lots_response) remote"
  rc_get_sandbox_max_lots :: "nat \<Rightarrow> get_max_lots_request \<Rightarrow> ('x, get_max_lots_response) remote"
  rc_get_order_price :: "nat \<Rightarrow> get_order_price_request \<Rightarrow> ('x, get_order_price_response) remote"
  rc_get_sandbox_order_price :: "nat \<Rightarrow> get_order_price_request \<Rightarrow> ('x, get_order_price_response) remote"

type_synonym ('x, 'a) reading = "('x, risk_read_error, 'a) action"

definition canonical_margin_attributes_of ::
  "get_margin_attributes_response \<Rightarrow> risk_read_error + canonical_margin_attributes" where
  "canonical_margin_attributes_of value =
     (let money = (\<lambda>m. map_err Economics (transpose_map canonical_money_of m)) in
      and_then (money (gm_liquid_portfolio value)) (\<lambda>liquid.
      and_then (money (gm_starting_margin value)) (\<lambda>starting.
      and_then (money (gm_minimal_margin value)) (\<lambda>minimal.
      and_then (map_err (\<lambda>_. risk_read_error.InvalidEconomics)
        (transpose_map (\<lambda>q. units_nano_new (q_units q) (q_nano q)) (gm_funds_sufficiency_level value)))
        (\<lambda>sufficiency.
      and_then (money (gm_amount_of_missing_funds value)) (\<lambda>missing.
      and_then (money (gm_corrected_margin value)) (\<lambda>corrected.
      and_then (money (gm_guarantee_for_futures value)) (\<lambda>futures.
      Inr \<lparr>ca_liquid_portfolio = liquid, ca_starting_margin = starting, ca_minimal_margin = minimal,
           ca_funds_sufficiency_level = sufficiency, ca_amount_of_missing_funds = missing,
           ca_corrected_margin = corrected, ca_guarantee_for_futures = futures\<rparr>))))))))"

definition margin_attributes ::
  "'x risk_rpc \<Rightarrow> risk_read_adapter \<Rightarrow> string \<Rightarrow> ('x, canonical_margin_attributes) reading" where
  "margin_attributes rpc self account_id =
     and_do (on_err Grpc (rc_get_margin_attributes rpc (rr_client self) account_id)) (\<lambda>response.
     of_result (canonical_margin_attributes_of response))"

definition read_instrument_constraints ::
  "'x risk_rpc \<Rightarrow> risk_read_adapter \<Rightarrow> string \<Rightarrow> ('x, canonical_risk_instrument) reading" where
  "read_instrument_constraints rpc self instrument_uid =
     (if blank instrument_uid then fail_with InvalidInstrument
      else
        and_do (on_err Grpc (rc_get_instrument_by_uid rpc (rr_client self) instrument_uid)) (\<lambda>found.
        and_do (of_result (ok_or InstrumentMissing found)) (\<lambda>response.
        if im_uid response \<noteq> instrument_uid \<or> im_lot response \<le> 0 then fail_with InvalidInstrument
        else
          and_do (on_err Grpc (rc_get_trading_status rpc (rr_client self) instrument_uid)) (\<lambda>status.
          if ts_instrument_uid status \<noteq> instrument_uid then fail_with InvalidInstrument
          else done_with
            \<lparr>ci_uid = im_uid response,
             ci_lot_size = im_lot response,
             ci_api_trade_available =
               im_api_trade_available_flag response \<and> ts_api_trade_available_flag status,
             ci_buy_available = im_buy_available_flag response,
             ci_sell_available = im_sell_available_flag response,
             ci_limit_order_available = ts_limit_order_available_flag status,
             ci_market_order_available = ts_market_order_available_flag status,
             ci_best_price_order_available = ts_bestprice_order_available_flag status\<rparr>))))"

definition risk_quotation :: "fixed_point \<Rightarrow> risk_read_error + quotation" where
  "risk_quotation value =
     (case units_nano_parts value of (units, nano) \<Rightarrow>
        and_then (ok_or risk_read_error.InvalidEconomics (checked_i64 units)) (\<lambda>units.
        Inr \<lparr>q_units = units, q_nano = nano\<rparr>))"

definition max_lots ::
  "'x risk_rpc \<Rightarrow> risk_read_adapter \<Rightarrow> string \<Rightarrow> string \<Rightarrow> fixed_point option
   \<Rightarrow> ('x, canonical_max_lots) reading" where
  "max_lots rpc self account_id instrument_id price =
     and_do (of_result (transpose_map risk_quotation price)) (\<lambda>price.
     let request = \<lparr>xr_account_id = account_id, xr_instrument_id = instrument_id, xr_price = price\<rparr> in
     and_do (on_err Grpc (case rr_environment self of
         Sandbox \<Rightarrow> rc_get_sandbox_max_lots rpc (rr_client self) request
       | Production \<Rightarrow> rc_get_max_lots rpc (rr_client self) request)) (\<lambda>response.
     of_result (map_err ExecutionDecode (canonical_max_lots_of response))))"

text \<open>\<open>ORDER_DIRECTION_BUY\<close> is 1 and \<open>ORDER_DIRECTION_SELL\<close> is 2 on the wire.\<close>

definition limit_order_price ::
  "'x risk_rpc \<Rightarrow> risk_read_adapter \<Rightarrow> string \<Rightarrow> string \<Rightarrow> fixed_point \<Rightarrow> order_side \<Rightarrow> int
   \<Rightarrow> ('x, canonical_order_price) reading" where
  "limit_order_price rpc self account_id instrument_id price side quantity_lots =
     (if quantity_lots \<le> 0 then fail_with risk_read_error.InvalidQuantity
      else
        and_do (of_result (risk_quotation price)) (\<lambda>price.
        let request = \<lparr>or_account_id = account_id, or_instrument_id = instrument_id,
          or_price = Some price, or_direction = (case side of Buy \<Rightarrow> 1 | Sell \<Rightarrow> 2),
          or_quantity = quantity_lots\<rparr> in
        and_do (on_err Grpc (case rr_environment self of
            Sandbox \<Rightarrow> rc_get_sandbox_order_price rpc (rr_client self) request
          | Production \<Rightarrow> rc_get_order_price rpc (rr_client self) request)) (\<lambda>response.
        of_result (map_err ExecutionDecode (canonical_order_price_of response)))))"

section \<open>Properties\<close>

text \<open>What the adapter sends as a price is the price, to the nano.\<close>

lemma risk_quotation_exact:
  assumes "risk_quotation p = Inr q"
  shows "from_units_nano (q_units q) (q_nano q) = Inr p"
proof -
  from assms have "units_nano_parts p = (q_units q, q_nano q)"
    by (auto simp: risk_quotation_def result_simps split: prod.splits)
  then show ?thesis
    using units_nano_parts_recompose [of p] units_nano_parts_nano [of p]
    by (cases p) (auto simp: from_units_nano_def units_nano_new_def validate_nano_def fixed_point_of_def
      NANO_SCALE_def)
qed

lemma read_instrument_constraints_positive:
  assumes "read_instrument_constraints rpc self uid s = (Inr c, t)"
  shows "ci_uid c = uid \<and> 0 < ci_lot_size c"
  using assms by (auto simp: read_instrument_constraints_def action_simps split: if_splits)

end
