(* ===== verification/Production_Risk.thy ===== *)
theory Production_Risk
  imports Runtime_Gate Risk_Plan Tinvest_Risk_Read
begin

text \<open>
  The production risk adapter, \<open>crates/vox-core/src/production_risk.rs\<close>: what the coordinator asks before it
  sends, what it tells about the outcome, and what a reconciliation does to the reservations.  An operation
  is an action on the state the adapter shares: the risk store, the last reconciliation report, the cache of
  instrument constraints, and the world outside with its clock and its broker.

  Whatever runs beside the adapter is \<open>ax_tasks\<close>; it runs wherever the adapter awaits or takes the lock of
  the store.  The runtime store is read as it was when the coordinator made the call.  The client factory,
  the connection service behind it and the gRPC client are fields of the record \<open>risk_adapter\<close>.
\<close>


section \<open>Data\<close>

datatype execution_purpose = SandboxMutation | ProductionManual | ProductionAutomated

record 'x adapter_state =
  ad_db :: risk_db
  ad_snapshot :: "reconciliation_report option"
  ad_cache :: "string \<Rightarrow> (int \<times> canonical_risk_instrument) option"
  ad_world :: 'x

text \<open>The fields an adapter does not change, the client factory, the clock, and its other tasks: what they do
  whenever the adapter awaits or another thread gets at the store.\<close>

record 'x risk_adapter =
  ax_canonical_account_id :: string
  ax_broker_connection_id :: string
  ax_to_json :: to_json
  ax_rpc :: "'x risk_rpc"
  ax_tasks :: "'x adapter_state \<Rightarrow> 'x adapter_state"
  ax_clock_nanos :: "'x \<Rightarrow> int \<times> 'x"
  ax_uuid :: "'x \<Rightarrow> string \<times> 'x"
  ax_uuid_parses :: "string \<Rightarrow> bool"
  ax_execution_session :: "string \<Rightarrow> string \<Rightarrow> execution_purpose \<Rightarrow> ('x, int) remote"
  ax_read_session :: "string \<Rightarrow> string \<Rightarrow> ('x, risk_read_adapter) remote"

type_synonym ('x, 'a) admitting = "('x adapter_state, risk_admission_error, 'a) action"

record command_description =
  ds_action :: risk_action_kind
  ds_instrument_id :: string
  ds_delta_lots :: int
  ds_price :: "fixed_point option"
  ds_order_type :: "regular_order_type option"
  ds_confirm_margin_trade :: bool
  ds_replaced_order_id :: "string option"

section \<open>Texts\<close>

fun risk_store_error_display :: "risk_store_error \<Rightarrow> string" where
  "risk_store_error_display (Sqlite e) = ''risk sqlite persistence failed: '' @ e"
| "risk_store_error_display CapacityExceeded = ''risk reservation capacity exceeded''"
| "risk_store_error_display InvalidCapacity = ''risk reservation capacity is invalid''"
| "risk_store_error_display risk_store_error.ReservationNotFound = ''risk reservation not found''"
| "risk_store_error_display InvalidTransition = ''invalid risk reservation transition''"
| "risk_store_error_display risk_store_error.ArithmeticOverflow = ''risk arithmetic overflow''"
| "risk_store_error_display (ApprovalInvariantViolation e) = ''risk approval invariant violated: '' @ e"
| "risk_store_error_display PolicyRevisionConflict = ''risk policy revision changed''"
| "risk_store_error_display InvalidPolicyMutation = ''risk policy mutation is invalid''"

fun risk_engine_error_display :: "risk_engine_error \<Rightarrow> string" where
  "risk_engine_error_display risk_engine_error.ArithmeticOverflow = ''risk arithmetic overflow''"
| "risk_engine_error_display (InvalidPolicy e) = ''invalid risk policy: '' @ e"
| "risk_engine_error_display (InvalidProviderFact e) = ''invalid provider risk fact: '' @ e"

fun risk_reconcile_error_display :: "risk_reconcile_error \<Rightarrow> string" where
  "risk_reconcile_error_display risk_reconcile_error.ReservationNotFound = ''risk reservation not found''"
| "risk_reconcile_error_display InvalidFill = ''fill quantity must be non-zero''"
| "risk_reconcile_error_display FillDirectionMismatch =
     ''fill direction does not match the reservation''"
| "risk_reconcile_error_display FillExceedsReservation = ''fill exceeds remaining reserved quantity''"
| "risk_reconcile_error_display TerminalReservation =
     ''terminal reservation cannot consume another fill''"
| "risk_reconcile_error_display risk_reconcile_error.ArithmeticOverflow =
     ''risk reservation arithmetic overflow''"
| "risk_reconcile_error_display (risk_reconcile_error.Store e) =
     ''risk store failure: '' @ risk_store_error_display e"

fun runtime_model_error_display :: "model_error \<Rightarrow> string" where
  "runtime_model_error_display (Empty field) = field @ '' cannot be empty''"
| "runtime_model_error_display SecretLikeOpaqueReference = ''opaque reference resembles secret material''"
| "runtime_model_error_display UnsafeRequestEvidence =
     ''request evidence must be bounded, structured and redacted''"
| "runtime_model_error_display (InvalidField field) = ''invalid '' @ field"

text \<open>The SCREAMING_SNAKE_CASE names under which reasons are serialised.\<close>

fun risk_reason_code_name :: "risk_reason_code \<Rightarrow> string" where
  "risk_reason_code_name Approved = ''APPROVED''"
| "risk_reason_code_name ResizedToProviderLimit = ''RESIZED_TO_PROVIDER_LIMIT''"
| "risk_reason_code_name ResizedToPolicyLimit = ''RESIZED_TO_POLICY_LIMIT''"
| "risk_reason_code_name risk_reason_code.InvalidQuantity = ''INVALID_QUANTITY''"
| "risk_reason_code_name InstrumentUnavailable = ''INSTRUMENT_UNAVAILABLE''"
| "risk_reason_code_name InstrumentNotTradable = ''INSTRUMENT_NOT_TRADABLE''"
| "risk_reason_code_name PriceUnavailable = ''PRICE_UNAVAILABLE''"
| "risk_reason_code_name PositionLotMismatch = ''POSITION_LOT_MISMATCH''"
| "risk_reason_code_name CriticalInputMissing = ''CRITICAL_INPUT_MISSING''"
| "risk_reason_code_name RuntimeNotReady = ''RUNTIME_NOT_READY''"
| "risk_reason_code_name risk_reason_code.ExecutionUnauthorized = ''EXECUTION_UNAUTHORIZED''"
| "risk_reason_code_name AuthorizationRevisionChanged = ''AUTHORIZATION_REVISION_CHANGED''"
| "risk_reason_code_name PolicyRevisionChanged = ''POLICY_REVISION_CHANGED''"
| "risk_reason_code_name ReconciliationRevisionChanged = ''RECONCILIATION_REVISION_CHANGED''"
| "risk_reason_code_name PositionRevisionChanged = ''POSITION_REVISION_CHANGED''"
| "risk_reason_code_name OrderRevisionChanged = ''ORDER_REVISION_CHANGED''"
| "risk_reason_code_name InstrumentConstraintRevisionChanged = ''INSTRUMENT_CONSTRAINT_REVISION_CHANGED''"
| "risk_reason_code_name MarketDataMissing = ''MARKET_DATA_MISSING''"
| "risk_reason_code_name MarketDataStale = ''MARKET_DATA_STALE''"
| "risk_reason_code_name UnknownMutationConflict = ''UNKNOWN_MUTATION_CONFLICT''"
| "risk_reason_code_name risk_reason_code.ReduceOnly = ''REDUCE_ONLY''"
| "risk_reason_code_name risk_reason_code.Halted = ''HALTED''"
| "risk_reason_code_name MarginNotAllowed = ''MARGIN_NOT_ALLOWED''"
| "risk_reason_code_name MarginConfirmationRequired = ''MARGIN_CONFIRMATION_REQUIRED''"
| "risk_reason_code_name MarginUtilizationExceeded = ''MARGIN_UTILIZATION_EXCEEDED''"
| "risk_reason_code_name ProviderLimitUnavailable = ''PROVIDER_LIMIT_UNAVAILABLE''"
| "risk_reason_code_name ProviderLimitExceeded = ''PROVIDER_LIMIT_EXCEEDED''"
| "risk_reason_code_name MaxSingleOrderExceeded = ''MAX_SINGLE_ORDER_EXCEEDED''"
| "risk_reason_code_name MaxPositionExceeded = ''MAX_POSITION_EXCEEDED''"
| "risk_reason_code_name MaxGrossExposureExceeded = ''MAX_GROSS_EXPOSURE_EXCEEDED''"
| "risk_reason_code_name MaxNetExposureExceeded = ''MAX_NET_EXPOSURE_EXCEEDED''"
| "risk_reason_code_name MaxInstrumentExposureExceeded = ''MAX_INSTRUMENT_EXPOSURE_EXCEEDED''"
| "risk_reason_code_name DailyLossExceeded = ''DAILY_LOSS_EXCEEDED''"
| "risk_reason_code_name ProtectionRequired = ''PROTECTION_REQUIRED''"
| "risk_reason_code_name KillSwitchActive = ''KILL_SWITCH_ACTIVE''"
| "risk_reason_code_name risk_reason_code.PersistenceFailure = ''PERSISTENCE_FAILURE''"

definition store_unavailable :: "risk_store_error \<Rightarrow> risk_admission_error" where
  "store_unavailable e = Unavailable (risk_store_error_display e)"

section \<open>Pure parts\<close>

fun map_purpose :: "runtime_execution_purpose \<Rightarrow> execution_purpose" where
  "map_purpose runtime_execution_purpose.SandboxMutation = SandboxMutation"
| "map_purpose runtime_execution_purpose.ProductionManual = ProductionManual"
| "map_purpose runtime_execution_purpose.ProductionAutomated = ProductionAutomated"

definition risk_revision :: "int \<Rightarrow> risk_admission_error + int" where
  "risk_revision unix_ms = ok_or (Unavailable ''risk revision is out of range'') (checked_u64 unix_ms)"

definition initial_policy :: risk_policy_set where
  "initial_policy =
     \<lparr>pol_revision = 1,
      pol_state = risk_state.ReduceOnly,
      pol_allow_margin = False,
      pol_require_provider_lot_limit = True,
      pol_max_market_data_age_ms = None,
      pol_max_single_order_lots = None,
      pol_max_position_abs_lots = None,
      pol_max_gross_exposure_nanos = None,
      pol_max_net_exposure_abs_nanos = None,
      pol_max_instrument_exposure_nanos = None,
      pol_max_margin_utilization_ppm = None,
      pol_max_daily_loss_nanos = None,
      pol_protection_required_for_new_exposure = False,
      pol_max_unprotected_duration_ms = None\<rparr>"

definition notional_policy_enabled :: "risk_policy_set \<Rightarrow> bool" where
  "notional_policy_enabled p \<longleftrightarrow>
     pol_max_gross_exposure_nanos p \<noteq> None \<or> pol_max_net_exposure_abs_nanos p \<noteq> None
     \<or> pol_max_instrument_exposure_nanos p \<noteq> None"

text \<open>\<open>checked_abs\<close> of a widened \<open>i64\<close> cannot fail; the product may, and the division truncates.\<close>

definition scaled_notional :: "int \<Rightarrow> int \<Rightarrow> int \<Rightarrow> risk_admission_error + int" where
  "scaled_notional requested_notional requested_delta approved_delta =
     and_then (ok_or (Unavailable ''requested quantity overflow'') (checked_i128 \<bar>requested_delta\<bar>))
       (\<lambda>requested_abs.
     and_then (ok_or (Unavailable ''approved quantity overflow'') (checked_i128 \<bar>approved_delta\<bar>))
       (\<lambda>approved_abs.
     if requested_abs = 0 then Inr 0
     else and_then (ok_or (Unavailable ''approved notional overflow'')
         (checked_i128 (requested_notional * approved_abs))) (\<lambda>value.
       Inr (value sdiv requested_abs))))"

definition map_lot_limits :: "canonical_max_lots \<Rightarrow> broker_lot_limits" where
  "map_lot_limits value =
     (let buy = map_option (\<lambda>limit. \<lparr>bl_max_lots = cb_max_lots limit,
            bl_max_market_lots = cb_max_market_lots limit\<rparr>);
          sell = map_option (\<lambda>limit. \<lparr>sl_max_lots = canonical_sell_limits.cs_max_lots limit\<rparr>)
      in \<lparr>ll_buy_own = buy (cl_buy value), ll_buy_margin = buy (cl_buy_with_margin value),
          ll_sell_own = sell (cl_sell value), ll_sell_margin = sell (cl_sell_with_margin value)\<rparr>)"

definition critical_input_missing :: "string \<Rightarrow> risk_admission_error" where
  "critical_input_missing message = Denied ''CRITICAL_INPUT_MISSING'' message"

definition required_margin_money ::
  "canonical_money option \<Rightarrow> string \<Rightarrow> risk_admission_error + string option \<times> int" where
  "required_margin_money value field =
     ok_or (critical_input_missing (''broker margin field '' @ field @ '' is missing''))
       (map_option (\<lambda>money. (cm_currency money, total_nanos (fixed_point_of (cm_amount money)))) value)"

definition broker_margin_facts_of ::
  "canonical_margin_attributes \<Rightarrow> int \<Rightarrow> risk_admission_error + broker_margin_facts" where
  "broker_margin_facts_of value broker_as_of_unix_ms =
     and_then (required_margin_money (ca_liquid_portfolio value) ''liquid_portfolio'') (\<lambda>liquid.
     and_then (required_margin_money (ca_starting_margin value) ''starting_margin'') (\<lambda>starting.
     and_then (required_margin_money (ca_minimal_margin value) ''minimal_margin'') (\<lambda>minimal.
     and_then (required_margin_money (ca_corrected_margin value) ''corrected_margin'') (\<lambda>corrected.
     and_then (required_margin_money (ca_amount_of_missing_funds value) ''amount_of_missing_funds'')
       (\<lambda>missing.
     and_then (required_margin_money (ca_guarantee_for_futures value) ''guarantee_for_futures'')
       (\<lambda>futures.
     if fst liquid \<noteq> fst corrected then
       Inl (critical_input_missing ''broker margin currencies are inconsistent'')
     else
       and_then (transpose_map (\<lambda>level.
           ok_or (critical_input_missing ''funds sufficiency level is out of range'')
             (checked_i64 (total_nanos (fixed_point_of level) sdiv 1000)))
         (ca_funds_sufficiency_level value)) (\<lambda>funds_sufficiency_ppm.
       Inr \<lparr>mf_liquid_portfolio_nanos = snd liquid, mf_starting_margin_nanos = snd starting,
            mf_minimal_margin_nanos = snd minimal, mf_corrected_margin_nanos = snd corrected,
            mf_funds_sufficiency_ppm = funds_sufficiency_ppm,
            mf_amount_of_missing_funds_nanos = snd missing,
            mf_guarantee_for_futures_nanos = snd futures,
            mf_broker_as_of_unix_ms = broker_as_of_unix_ms\<rparr>)))))))"

definition adapter_increasing_portion :: "int \<Rightarrow> int \<Rightarrow> risk_admission_error + int" where
  "adapter_increasing_portion base delta =
     (let overflow = Unavailable ''risk quantity overflow'' in
      if delta = 0 then Inr 0
      else if base = 0 \<or> sgn base = sgn delta then ok_or overflow (checked_i64 \<bar>delta\<bar>)
      else
        and_then (ok_or overflow (checked_i64 \<bar>base\<bar>)) (\<lambda>base_abs.
        and_then (ok_or overflow (checked_i64 \<bar>delta\<bar>)) (\<lambda>delta_abs.
        Inr (sat_i64 (delta_abs - base_abs)))))"

definition signed_lots :: "order_side \<Rightarrow> int \<Rightarrow> risk_admission_error + int" where
  "signed_lots side lots =
     (if lots \<le> 0 then Inl (Denied ''INVALID_QUANTITY'' ''quantity must be positive'')
      else case side of
        Buy \<Rightarrow> Inr lots
      | Sell \<Rightarrow> ok_or (Denied ''INVALID_QUANTITY'' ''quantity is not representable'')
          (checked_i64 (- lots)))"

text \<open>The open order a command names, by its broker identity or by that of its request.\<close>

definition names_order :: "string \<Rightarrow> order_fact \<Rightarrow> bool" where
  "names_order i candidate \<longleftrightarrow>
     of_broker_order_id candidate = i \<or> of_logical_request_id candidate = Some i"

definition describe_order :: "regular_order_command \<Rightarrow> risk_admission_error + command_description" where
  "describe_order order =
     and_then (signed_lots (ro_side order) (ro_quantity_lots order)) (\<lambda>delta.
     Inr \<lparr>ds_action = DirectionalOrder, ds_instrument_id = ro_instrument_id order,
          ds_delta_lots = delta, ds_price = ro_price order, ds_order_type = Some (ro_order_type order),
          ds_confirm_margin_trade = ro_confirm_margin_trade order, ds_replaced_order_id = None\<rparr>)"

definition describe_maintenance :: "risk_action_kind \<Rightarrow> string \<Rightarrow> bool \<Rightarrow> command_description" where
  "describe_maintenance action instrument_id confirm_margin_trade =
     \<lparr>ds_action = action, ds_instrument_id = instrument_id, ds_delta_lots = 0, ds_price = None,
      ds_order_type = None, ds_confirm_margin_trade = confirm_margin_trade,
      ds_replaced_order_id = None\<rparr>"

definition command_description_of ::
  "runtime_execution_command \<Rightarrow> reconciliation_report \<Rightarrow> risk_admission_error + command_description" where
  "command_description_of command report =
     (case command of
        RegularOrder order \<Rightarrow> describe_order order
      | runtime_execution_command.PostOrderAsync order \<Rightarrow> describe_order order
      | runtime_execution_command.ReplaceOrder order \<Rightarrow>
          and_then (ok_or (Denied ''ORDER_NOT_FOUND''
              ''replacement target absent from authoritative open orders'')
            (List.find (names_order (rp_existing_order_id order)) (rp_active_orders report)))
            (\<lambda>existing.
          and_then (ok_or (Denied ''ORDER_DIRECTION_UNKNOWN''
              ''replacement target direction is unavailable'') (of_side existing)) (\<lambda>side.
          and_then (signed_lots side (rp_quantity_lots order)) (\<lambda>delta.
          Inr \<lparr>ds_action = ReplaceDirectionalOrder, ds_instrument_id = of_instrument_uid existing,
               ds_delta_lots = delta, ds_price = Some (rp_price order),
               ds_order_type = Some Limit,
               ds_confirm_margin_trade = rp_confirm_margin_trade order,
               ds_replaced_order_id = Some (rp_existing_order_id order)\<rparr>)))
      | runtime_execution_command.CancelOrder order \<Rightarrow>
          Inr (describe_maintenance risk_action_kind.CancelOrder
            (case List.find (names_order (co_order_id order)) (rp_active_orders report) of
               None \<Rightarrow> ''maintenance:cancel-order''
             | Some value \<Rightarrow> of_instrument_uid value) False)
      | runtime_execution_command.PostStopOrder order \<Rightarrow>
          Inr (describe_maintenance ProtectionMaintenance (pg_instrument_id order)
            (pg_confirm_margin_trade order))
      | runtime_execution_command.ProtectionLeg order \<Rightarrow>
          Inr (describe_maintenance ProtectionMaintenance (pg_instrument_id order)
            (pg_confirm_margin_trade order))
      | runtime_execution_command.CancelStopOrder order \<Rightarrow>
          Inr (describe_maintenance CancelProtection ''maintenance:cancel-protection'' False))"

section \<open>Access to the shared state\<close>

definition resume :: "'x risk_adapter \<Rightarrow> ('x adapter_state, 'e, unit) action" where
  "resume A = change (ax_tasks A)"

definition outside :: "('x, 'e, 'a) action \<Rightarrow> ('x adapter_state, 'e, 'a) action" where
  "outside = zoom ad_world (\<lambda>w s. s\<lparr>ad_world := w\<rparr>)"

definition ask :: "('x \<Rightarrow> 'a \<times> 'x) \<Rightarrow> ('x adapter_state, 'e, 'a) action" where
  "ask f = outside (\<lambda>w. case f w of (x, w') \<Rightarrow> (Inr x, w'))"

text \<open>A statement of the risk store, after whatever other threads did to it.\<close>

definition risk_query :: "'x risk_adapter \<Rightarrow> (risk_db \<Rightarrow> 'e + 'a) \<Rightarrow> ('x adapter_state, 'e, 'a) action" where
  "risk_query A f = and_do (resume A) (\<lambda>_. \<lambda>s. (f (ad_db s), s))"

definition risk_update ::
  "'x risk_adapter \<Rightarrow> (risk_db \<Rightarrow> 'e + 'a \<times> risk_db) \<Rightarrow> ('x adapter_state, 'e, 'a) action" where
  "risk_update A f = and_do (resume A) (\<lambda>_. \<lambda>s. case f (ad_db s) of
     Inr (x, db) \<Rightarrow> (Inr x, s\<lparr>ad_db := db\<rparr>)
   | Inl e \<Rightarrow> (Inl e, s))"

definition adapter_now :: "'x risk_adapter \<Rightarrow> ('x, int) admitting" where
  "adapter_now A =
     and_do (ask (ax_clock_nanos A)) (\<lambda>nanos.
     of_result (ok_or (Unavailable ''system clock is out of range'') (checked_i64 (nanos sdiv 1000000))))"

definition cached_report ::
  "'x risk_adapter \<Rightarrow> risk_admission_error \<Rightarrow> ('x, reconciliation_report) admitting" where
  "cached_report A missing =
     and_do (resume A) (\<lambda>_. and_do (look ad_snapshot) (\<lambda>snapshot. of_result (ok_or missing snapshot)))"

text \<open>\<open>ConnectionId::parse\<close>: the prefix, then a UUID.\<close>

definition parse_connection_id :: "'x risk_adapter \<Rightarrow> string \<Rightarrow> risk_admission_error + string" where
  "parse_connection_id A value =
     (if starts_with value ''connection:'' \<and> ax_uuid_parses A (drop 11 value) then Inr value
      else Inl (Unavailable ''invalid ConnectionId''))"

definition execution_session ::
  "'x risk_adapter \<Rightarrow> string \<Rightarrow> runtime_scope \<Rightarrow> runtime_execution_purpose \<Rightarrow> ('x, int) admitting" where
  "execution_session A connection_id scope purpose =
     on_err (Denied ''EXECUTION_UNAUTHORIZED'') (outside
       (ax_execution_session A connection_id (sc_broker_account_id scope) (map_purpose purpose)))"

section \<open>Policy\<close>

definition adapter_policy :: "'x risk_adapter \<Rightarrow> ('x, risk_policy_set) admitting" where
  "adapter_policy A =
     and_do (risk_query A (\<lambda>db. Inr (policy db (ax_canonical_account_id A)))) (\<lambda>found. case found of
       Some p \<Rightarrow> done_with p
     | None \<Rightarrow>
         and_do (adapter_now A) (\<lambda>now.
         and_do (ask (ax_uuid A)) (\<lambda>uuid.
         on_err store_unavailable (risk_update A (put_policy uuid (ax_canonical_account_id A) None
           initial_policy ''initialize fail-closed account policy'' now)))))"

definition policy_conflict :: "risk_store_error \<Rightarrow> risk_admission_error" where
  "policy_conflict e =
     (if e = PolicyRevisionConflict then risk_admission_error.Stale ''risk policy revision changed''
      else store_unavailable e)"

definition replace_state ::
  "'x risk_adapter \<Rightarrow> int \<Rightarrow> risk_state \<Rightarrow> string \<Rightarrow> ('x, risk_policy_set) admitting" where
  "replace_state A expected_revision state reason =
     and_do (adapter_policy A) (\<lambda>p.
     if pol_revision p \<noteq> expected_revision then
       fail_with (risk_admission_error.Stale ''risk policy revision changed'')
     else
       and_do (of_result (ok_or (Unavailable ''policy revision overflow'')
         (checked_u64 (pol_revision p + 1)))) (\<lambda>revision.
       and_do (adapter_now A) (\<lambda>now.
       and_do (ask (ax_uuid A)) (\<lambda>uuid.
       on_err policy_conflict (risk_update A (put_policy uuid (ax_canonical_account_id A)
         (Some expected_revision) (p\<lparr>pol_revision := revision, pol_state := state\<rparr>) reason now))))))"

definition adapter_active_reservations :: "'x risk_adapter \<Rightarrow> ('x, risk_reservation list) admitting" where
  "adapter_active_reservations A =
     risk_query A (\<lambda>db. Inr (active_reservations db (ax_canonical_account_id A)))"

definition adapter_decision_for_request ::
  "'x risk_adapter \<Rightarrow> string \<Rightarrow> ('x, risk_decision option) admitting" where
  "adapter_decision_for_request A logical_request_id =
     risk_query A (\<lambda>db. Inr (decision_for_request db (ax_canonical_account_id A) logical_request_id))"

section \<open>The request\<close>

text \<open>\<open>max_by_key\<close> keeps the last of the greatest.\<close>

definition max_by_key :: "('a \<Rightarrow> int) \<Rightarrow> 'a list \<Rightarrow> 'a option" where
  "max_by_key f xs = fold (\<lambda>x best. case best of
     None \<Rightarrow> Some x | Some b \<Rightarrow> if f b \<le> f x then Some x else Some b) xs None"

text \<open>\<open>sum::<i64>()\<close> wraps around.\<close>

definition protection_status ::
  "'x risk_adapter \<Rightarrow> reconciliation_report \<Rightarrow> string \<Rightarrow> ('x, risk_protection_status) admitting" where
  "protection_status A report instrument_id =
     (let position = List.find (\<lambda>p. pf_instrument_uid p = instrument_id) (rp_positions report);
          stops = filter (\<lambda>stop. sf_instrument_uid stop = instrument_id \<and> stop_active (sf_status stop))
            (rp_active_stops report)
      in
      and_do (risk_query A (\<lambda>db.
        Inr (protection_plans_for_instrument db (ax_canonical_account_id A) instrument_id))) (\<lambda>plans.
      let plan = max_by_key pl_created_at_unix_ms (filter (\<lambda>p. \<not> plan_terminal (pl_state p)) plans) in
      done_with
        \<lparr>ps_active_stop_lots = wrap_i64 (sum_list (map (\<lambda>stop. case sf_quantity_lots stop of
             None \<Rightarrow> 0 | Some n \<Rightarrow> n) stops)),
         ps_position_lots = (case position of None \<Rightarrow> 0 | Some p \<Rightarrow> pf_quantity_units p),
         ps_position_entered_at_unix_ms =
           (case position of None \<Rightarrow> None | Some p \<Rightarrow> pf_broker_observed_at_unix_ms p),
         ps_plan_id = map_option pl_plan_id plan,
         ps_plan_state = map_option pl_state plan\<rparr>))"

definition instrument_constraints ::
  "'x risk_adapter \<Rightarrow> risk_read_adapter \<Rightarrow> string \<Rightarrow> int
   \<Rightarrow> ('x, canonical_risk_instrument \<times> int) admitting" where
  "instrument_constraints A reads instrument_id now =
     and_do (resume A) (\<lambda>_.
     and_do (look (\<lambda>s. ad_cache s instrument_id)) (\<lambda>cached.
     case (case cached of
        Some (cached_at, v) \<Rightarrow> if sat_i64 (now - cached_at) \<le> 1000 then Some (cached_at, v) else None
      | None \<Rightarrow> None) of
       Some (cached_at, v) \<Rightarrow>
         and_do (of_result (risk_revision cached_at)) (\<lambda>revision. done_with (v, revision))
     | None \<Rightarrow>
         and_do (on_err (\<lambda>e. Denied ''INSTRUMENT_UNAVAILABLE'' (risk_read_error_display e))
           (outside (read_instrument_constraints (ax_rpc A) reads instrument_id))) (\<lambda>v.
         and_do (change (\<lambda>s. s\<lparr>ad_cache := (ad_cache s)(instrument_id \<mapsto> (now, v))\<rparr>)) (\<lambda>_.
         and_do (of_result (risk_revision now)) (\<lambda>revision. done_with (v, revision))))))"

record directional_facts =
  df_instrument_tradable :: bool
  df_lot_size :: int
  df_broker_lot_limits :: "broker_lot_limits option"
  df_current_position_lots :: int
  df_instrument_constraints_revision :: int

definition side_allowed :: "canonical_risk_instrument \<Rightarrow> int \<Rightarrow> bool" where
  "side_allowed constraints delta =
     (if sgn delta = 1 then ci_buy_available constraints
      else if sgn delta = - 1 then ci_sell_available constraints else False)"

definition order_type_allowed :: "canonical_risk_instrument \<Rightarrow> regular_order_type option \<Rightarrow> bool" where
  "order_type_allowed constraints order_type =
     (case order_type of
        Some Limit \<Rightarrow> ci_limit_order_available constraints
      | Some Market \<Rightarrow> ci_market_order_available constraints
      | Some BestPrice \<Rightarrow> ci_best_price_order_available constraints
      | None \<Rightarrow> True)"

definition read_directional_facts ::
  "'x risk_adapter \<Rightarrow> runtime_scope \<Rightarrow> risk_read_adapter \<Rightarrow> reconciliation_report \<Rightarrow> command_description
   \<Rightarrow> int \<Rightarrow> ('x, directional_facts) admitting" where
  "read_directional_facts A scope reads report description now =
     and_do (instrument_constraints A reads (ds_instrument_id description) now)
       (\<lambda>(constraints, constraints_revision).
     and_do (of_result (ok_or (Unavailable ''position quantity overflow'')
       (try_sum in_i64 0 (map pf_quantity_units
         (filter (\<lambda>p. pf_instrument_uid p = ds_instrument_id description) (rp_positions report))))))
       (\<lambda>current_units.
     if current_units smod ci_lot_size constraints \<noteq> 0 then
       fail_with (Denied ''POSITION_LOT_MISMATCH''
         ''broker position is not exactly divisible by instrument lot'')
     else
       and_do (on_err (\<lambda>e. Denied ''PROVIDER_LIMIT_UNAVAILABLE'' (risk_read_error_display e))
         (outside (max_lots (ax_rpc A) reads (sc_broker_account_id scope) (ds_instrument_id description)
           (ds_price description)))) (\<lambda>limits.
       done_with
         \<lparr>df_instrument_tradable =
            ci_api_trade_available constraints \<and> side_allowed constraints (ds_delta_lots description)
            \<and> order_type_allowed constraints (ds_order_type description),
          df_lot_size = ci_lot_size constraints,
          df_broker_lot_limits = Some (map_lot_limits limits),
          df_current_position_lots = current_units sdiv ci_lot_size constraints,
          df_instrument_constraints_revision = constraints_revision\<rparr>)))"

definition maintenance_facts :: directional_facts where
  "maintenance_facts =
     \<lparr>df_instrument_tradable = True, df_lot_size = 1, df_broker_lot_limits = None,
      df_current_position_lots = 0, df_instrument_constraints_revision = 0\<rparr>"

text \<open>The open orders of the instrument, without the one that is replaced.\<close>

definition open_order_delta ::
  "reconciliation_report \<Rightarrow> command_description \<Rightarrow> risk_admission_error + int" where
  "open_order_delta report description =
     try_fold (\<lambda>order total.
         and_then (map_err (\<lambda>e. Unavailable (''broker open-order direction unavailable: ''
             @ runtime_model_error_display e)) (signed_remaining_lots order)) (\<lambda>remaining.
         ok_or (Unavailable ''open-order exposure overflow'') (checked_i64 (total + remaining))))
       (filter (\<lambda>order. of_instrument_uid order = ds_instrument_id description
           \<and> (case ds_replaced_order_id description of
                None \<Rightarrow> True | Some target \<Rightarrow> \<not> names_order target order))
         (rp_active_orders report)) 0"

definition conflicts_with :: "string \<Rightarrow> mutation_record \<Rightarrow> bool" where
  "conflicts_with instrument_id m \<longleftrightarrow>
     safety_unresolved (mr_state m) \<and> ev_instrument_ref (mr_request_evidence m) = Some instrument_id"

definition price_unavailable :: "string \<Rightarrow> risk_admission_error" where
  "price_unavailable message = Denied ''PRICE_UNAVAILABLE'' message"

definition read_notional ::
  "'x risk_adapter \<Rightarrow> runtime_scope \<Rightarrow> risk_read_adapter \<Rightarrow> command_description \<Rightarrow> ('x, int) admitting" where
  "read_notional A scope reads description =
     (case ds_price description of
        None \<Rightarrow> fail_with (price_unavailable ''price-dependent policy cannot validate this order type'')
      | Some price \<Rightarrow>
          and_do (of_result (ok_or (Denied ''INVALID_QUANTITY'' ''order quantity is not representable'')
            (checked_i64 \<bar>ds_delta_lots description\<bar>))) (\<lambda>quantity.
          and_do (on_err (\<lambda>e. price_unavailable (risk_read_error_display e)) (outside
            (limit_order_price (ax_rpc A) reads (sc_broker_account_id scope)
              (ds_instrument_id description) price
              (if ds_delta_lots description > 0 then Buy else Sell) quantity))) (\<lambda>estimate.
          and_do (of_result (ok_or
            (price_unavailable ''broker limit-order estimate omitted total amount'')
            (cp_total_order_amount estimate))) (\<lambda>total.
          let nanos = total_nanos (fixed_point_of (cm_amount total)) in
          if ds_delta_lots description < 0 then
            of_result (ok_or (Unavailable ''order notional overflow'') (checked_i128 (- nanos)))
          else done_with nanos))))"

definition daily_pnl :: "reconciliation_report \<Rightarrow> risk_admission_error + int option" where
  "daily_pnl report =
     map_err (\<lambda>e. Unavailable (''broker daily_yield is invalid: '' @ parse_int_error_display e))
       (transpose_map (\<lambda>value. parse_i128 (mf_amount_nanos value))
         (pt_broker_daily_yield (rp_portfolio report)))"

definition snapshot_revision :: "reconciliation_report \<Rightarrow> risk_admission_error + int" where
  "snapshot_revision report =
     ok_or (Unavailable ''snapshot revision invalid'')
       (checked_u64 (max (rp_snapshot_observed_at_unix_ms report) 0))"

definition read_margin ::
  "'x risk_adapter \<Rightarrow> runtime_scope \<Rightarrow> risk_read_adapter \<Rightarrow> int \<Rightarrow> ('x, broker_margin_facts) admitting" where
  "read_margin A scope reads now =
     and_do (on_err (\<lambda>e. critical_input_missing (risk_read_error_display e))
       (outside (margin_attributes (ax_rpc A) reads (sc_broker_account_id scope)))) (\<lambda>attributes.
     of_result (broker_margin_facts_of attributes now))"

text \<open>Everything from the description on.\<close>

definition describe_request ::
  "'x risk_adapter \<Rightarrow> runtime_db \<Rightarrow> runtime_scope \<Rightarrow> runtime_execution_purpose \<Rightarrow> string
   \<Rightarrow> risk_policy_set \<Rightarrow> reconciliation_report \<Rightarrow> risk_read_adapter \<Rightarrow> int \<Rightarrow> command_description \<Rightarrow> int
   \<Rightarrow> directional_facts \<Rightarrow> ('x, risk_request) admitting" where
  "describe_request A rdb scope purpose logical_request_id p report reads authorization_revision
     description now facts =
     and_do (of_result (open_order_delta report description)) (\<lambda>open_order_delta_lots.
     and_do (of_result (map_err (\<lambda>e. Unavailable (store_error_display e))
       (unresolved_mutations (ax_to_json A) (scope_key scope) rdb))) (\<lambda>unresolved.
     and_do (on_err store_unavailable (risk_query A (\<lambda>db.
       active_reserved_delta db (ax_canonical_account_id A) (ds_instrument_id description))))
       (\<lambda>active_reservation_delta_lots.
     and_do (of_result (ok_or (Unavailable ''risk position overflow'')
       (try_sum in_i64 (df_current_position_lots facts)
         [open_order_delta_lots, active_reservation_delta_lots]))) (\<lambda>base_position_lots.
     and_do (of_result (adapter_increasing_portion base_position_lots (ds_delta_lots description)))
       (\<lambda>increasing_lots.
     and_do (if directional_action (ds_action description) \<and> increasing_lots > 0
               \<and> notional_policy_enabled p
             then read_notional A scope reads description else done_with 0)
       (\<lambda>requested_notional_nanos.
     and_do (of_result (snapshot_revision report)) (\<lambda>revision.
     and_do (of_result (daily_pnl report)) (\<lambda>broker_daily_pnl_nanos.
     and_do (if increasing_lots > 0 \<and> (pol_max_margin_utilization_ppm p \<noteq> None
               \<or> pol_allow_margin p \<and> ds_confirm_margin_trade description)
             then and_do (read_margin A scope reads now) (\<lambda>m. done_with (Some m)) else done_with None)
       (\<lambda>margin.
     and_do (protection_status A report (ds_instrument_id description)) (\<lambda>protection.
     done_with
       \<lparr>rq_request_id = logical_request_id,
        rq_account_id = ax_canonical_account_id A,
        rq_broker_connection_id = ax_broker_connection_id A,
        rq_instrument_id = ds_instrument_id description,
        rq_strategy_id = None,
        rq_source = (case purpose of
            runtime_execution_purpose.ProductionAutomated \<Rightarrow> Strategy | _ \<Rightarrow> Manual),
        rq_action = ds_action description,
        rq_requested_delta_lots = ds_delta_lots description,
        rq_requested_notional_nanos = requested_notional_nanos,
        rq_is_market_order = (ds_order_type description = Some Market),
        rq_confirm_margin_trade = ds_confirm_margin_trade description,
        rq_emergency_reduction = False,
        rq_now_unix_ms = now,
        rq_snapshot =
          \<lparr>sn_runtime_ready = (rp_resulting_state report = Ready),
           sn_execution_authorized = True,
           sn_instrument_tradable = df_instrument_tradable facts,
           sn_instrument_lot_size = df_lot_size facts,
           sn_unresolved_unknown_conflict =
             list_ex (conflicts_with (ds_instrument_id description)) unresolved,
           sn_current_position_lots = df_current_position_lots facts,
           sn_open_order_delta_lots = open_order_delta_lots,
           sn_unresolved_unknown_delta_lots = 0,
           sn_active_reservation_delta_lots = active_reservation_delta_lots,
           sn_gross_exposure_nanos = None,
           sn_net_exposure_nanos = None,
           sn_instrument_exposure_nanos = None,
           sn_broker_daily_pnl_nanos = broker_daily_pnl_nanos,
           sn_broker_lot_limits = df_broker_lot_limits facts,
           sn_margin = margin,
           sn_protection = protection,
           sn_validity =
             \<lparr>vc_runtime_epoch = rp_runtime_epoch report,
              vc_reconciliation_revision = revision,
              vc_position_revision = revision,
              vc_order_revision = revision,
              vc_market_data_as_of_unix_ms = None,
              vc_instrument_constraints_revision = df_instrument_constraints_revision facts,
              vc_policy_revision = pol_revision p,
              vc_execution_authorization_revision = authorization_revision\<rparr>\<rparr>\<rparr>))))))))))"

text \<open>The permit for a broker query is awaited; the semaphore is never closed.\<close>

definition build_request ::
  "'x risk_adapter \<Rightarrow> runtime_db \<Rightarrow> runtime_scope \<Rightarrow> runtime_execution_purpose \<Rightarrow> runtime_execution_command
   \<Rightarrow> string \<Rightarrow> risk_policy_set \<Rightarrow> ('x, risk_request) admitting" where
  "build_request A rdb scope purpose command logical_request_id p =
     and_do (cached_report A
       (Unavailable ''risk has no broker-authoritative reconciliation snapshot'')) (\<lambda>report.
     if rp_runtime_epoch report = 0 then
       fail_with (Unavailable ''risk snapshot runtime epoch is invalid'')
     else
       and_do (of_result (parse_connection_id A (sc_connection_ref scope))) (\<lambda>connection_id.
       and_do (execution_session A connection_id scope purpose) (\<lambda>authorization_revision.
       and_do (of_result (command_description_of command report)) (\<lambda>description.
       and_do (adapter_now A) (\<lambda>now.
       and_do (on_err Unavailable
         (outside (ax_read_session A connection_id (sc_broker_account_id scope)))) (\<lambda>reads.
       and_do (if directional_action (ds_action description) then
           and_do (resume A) (\<lambda>_. read_directional_facts A scope reads report description now)
         else done_with maintenance_facts) (\<lambda>facts.
       describe_request A rdb scope purpose logical_request_id p report reads
         authorization_revision description now facts)))))))"

section \<open>Admission\<close>

definition risk_admission_of :: "risk_decision \<Rightarrow> string option \<Rightarrow> risk_admission" where
  "risk_admission_of d reservation_id =
     \<lparr>ra_decision_id = dec_decision_id d, ra_reservation_id = reservation_id,
      ra_policy_revision = dec_policy_revision d,
      ra_approved_delta_lots = dec_approved_delta_lots d\<rparr>"

text \<open>A request that was admitted before.\<close>

definition replay_admission ::
  "'x risk_adapter \<Rightarrow> runtime_db \<Rightarrow> runtime_scope \<Rightarrow> runtime_execution_command \<Rightarrow> string
   \<Rightarrow> persisted_risk_approval \<Rightarrow> ('x, risk_admission) admitting" where
  "replay_admission A rdb scope command logical_request_id existing =
     (if res_state (pa_reservation existing) \<noteq> reservation_state.Active then
        fail_with (risk_admission_error.Stale ''logical request reservation is no longer dispatchable'')
      else
        and_do (of_result (map_err (\<lambda>e. Unavailable (store_error_display e))
          (mutation (ax_to_json A) (scope_key scope) logical_request_id rdb))) (\<lambda>journalled.
        if journalled \<noteq> None then
          fail_with (risk_admission_error.Stale ''logical request already entered runtime journal'')
        else
          and_do (cached_report A (risk_admission_error.Stale ''risk snapshot disappeared'')) (\<lambda>report.
          and_do (of_result (command_description_of command report)) (\<lambda>replay.
          if ds_action replay \<noteq> dec_action (pa_decision existing)
             \<or> ds_instrument_id replay \<noteq> res_instrument_id (pa_reservation existing)
             \<or> ds_delta_lots replay \<noteq> dec_requested_delta_lots (pa_decision existing)
          then fail_with (risk_admission_error.Stale ''logical request replay changed risk semantics'')
          else done_with (risk_admission_of (pa_decision existing)
            (Some (res_reservation_id (pa_reservation existing))))))))"

definition denial :: "risk_decision \<Rightarrow> risk_admission_error" where
  "denial d =
     (let reason = (case dec_reasons d of
          r # _ \<Rightarrow> r | [] \<Rightarrow> risk_reason_new risk_reason_code.PersistenceFailure ''risk denied'')
      in Denied (risk_reason_code_name (rr_code reason)) (rr_message reason))"

definition capacity_denied :: "risk_store_error \<Rightarrow> risk_admission_error" where
  "capacity_denied e =
     (if e = CapacityExceeded then Denied ''RESERVATION_CAPACITY_EXCEEDED''
        ''concurrent reservations consumed remaining capacity''
      else store_unavailable e)"

definition persist_decision :: "risk_decision \<Rightarrow> risk_db \<Rightarrow> risk_store_error + unit \<times> risk_db" where
  "persist_decision d db = and_then (put_decision d db) (\<lambda>db. Inr ((), db))"

definition persist_admission ::
  "'x risk_adapter \<Rightarrow> risk_policy_set \<Rightarrow> risk_request \<Rightarrow> risk_decision \<Rightarrow> ('x, risk_admission) admitting" where
  "persist_admission A p request d =
     (if directional_action (rq_action request) then
        and_do (ask (ax_uuid A)) (\<lambda>uuid.
        let reservation_id = risk_reservation_new_id uuid in
        and_do (of_result (scaled_notional (rq_requested_notional_nanos request)
          (rq_requested_delta_lots request) (dec_approved_delta_lots d))) (\<lambda>approved_notional.
        and_do (on_err capacity_denied (risk_update A (persist_approval_atomic
            (d\<lparr>dec_reservation_id := Some reservation_id\<rparr>)
            (reservation_for request d reservation_id approved_notional)
            \<lparr>cap_max_account_reserved_notional_nanos = pol_max_gross_exposure_nanos p,
             cap_max_instrument_reserved_abs_lots = pol_max_position_abs_lots p\<rparr>))) (\<lambda>persisted.
        done_with (risk_admission_of (pa_decision persisted)
          (Some (res_reservation_id (pa_reservation persisted)))))))
      else
        and_do (on_err store_unavailable (risk_update A (persist_decision d))) (\<lambda>_.
        done_with (risk_admission_of d None)))"

definition admit_new ::
  "'x risk_adapter \<Rightarrow> runtime_db \<Rightarrow> runtime_scope \<Rightarrow> runtime_execution_purpose \<Rightarrow> runtime_execution_command
   \<Rightarrow> string \<Rightarrow> ('x, risk_admission) admitting" where
  "admit_new A rdb scope purpose command logical_request_id =
     and_do (adapter_policy A) (\<lambda>p.
     and_do (build_request A rdb scope purpose command logical_request_id p) (\<lambda>request.
     and_do (ask (ax_uuid A)) (\<lambda>uuid.
     and_do (of_result (map_err (\<lambda>e. Unavailable (risk_engine_error_display e))
       (evaluate uuid p request))) (\<lambda>d.
     if \<not> permits_dispatch d then
       and_do (on_err store_unavailable (risk_update A (persist_decision d))) (\<lambda>_.
       fail_with (denial d))
     else persist_admission A p request d))))"

definition admit ::
  "'x risk_adapter \<Rightarrow> runtime_scope \<Rightarrow> runtime_execution_purpose \<Rightarrow> runtime_execution_command \<Rightarrow> string
   \<Rightarrow> runtime_db \<Rightarrow> ('x, risk_admission) admitting" where
  "admit A scope purpose command logical_request_id rdb =
     and_do (on_err store_unavailable (risk_query A (\<lambda>db.
       approval_for_request db (ax_canonical_account_id A) logical_request_id))) (\<lambda>existing.
     case existing of
       Some approval \<Rightarrow> replay_admission A rdb scope command logical_request_id approval
     | None \<Rightarrow> admit_new A rdb scope purpose command logical_request_id)"

section \<open>Validation\<close>

definition validate_constraints :: "'x risk_adapter \<Rightarrow> command_description \<Rightarrow> risk_decision \<Rightarrow> ('x, unit) admitting"
  where
  "validate_constraints A description d =
     (if directional_action (ds_action description) then
        and_do (resume A) (\<lambda>_.
        and_do (look (\<lambda>s. ad_cache s (ds_instrument_id description))) (\<lambda>cached.
        and_do (of_result (transpose_map (\<lambda>(cached_at, _). risk_revision cached_at) cached)) (\<lambda>revision.
        and_do (of_result (ok_or (risk_admission_error.Stale ''instrument constraints disappeared'') revision))
          (\<lambda>current_revision.
        if current_revision \<noteq> vc_instrument_constraints_revision (dec_validity d) then
          fail_with (risk_admission_error.Stale ''instrument constraint revision changed'')
        else done_with ()))))
      else done_with ())"

definition watermark_changed :: "reconciliation_report \<Rightarrow> int \<Rightarrow> risk_validity_context \<Rightarrow> bool" where
  "watermark_changed report revision v \<longleftrightarrow>
     rp_runtime_epoch report \<noteq> vc_runtime_epoch v \<or> revision \<noteq> vc_reconciliation_revision v
     \<or> revision \<noteq> vc_position_revision v \<or> revision \<noteq> vc_order_revision v"

definition mismatched :: "'x risk_adapter \<Rightarrow> string \<Rightarrow> risk_admission \<Rightarrow> risk_decision \<Rightarrow> bool" where
  "mismatched A logical_request_id admission d \<longleftrightarrow>
     dec_request_id d \<noteq> logical_request_id \<or> dec_account_id d \<noteq> ax_canonical_account_id A
     \<or> dec_policy_revision d \<noteq> ra_policy_revision admission
     \<or> dec_approved_delta_lots d \<noteq> ra_approved_delta_lots admission
     \<or> dec_reservation_id d \<noteq> ra_reservation_id admission"

text \<open>From the decision on.\<close>

definition validate_decision ::
  "'x risk_adapter \<Rightarrow> runtime_scope \<Rightarrow> runtime_execution_purpose \<Rightarrow> runtime_execution_command \<Rightarrow> string
   \<Rightarrow> risk_admission \<Rightarrow> runtime_db \<Rightarrow> risk_decision \<Rightarrow> ('x, unit) admitting" where
  "validate_decision A scope purpose command logical_request_id admission rdb d =
     (if mismatched A logical_request_id admission d then
        fail_with (risk_admission_error.Stale ''persisted risk approval does not match dispatch'')
      else
        and_do (case dec_expires_at_unix_ms d of
            None \<Rightarrow> done_with ()
          | Some expires_at \<Rightarrow> and_do (adapter_now A) (\<lambda>now.
              if now > expires_at then fail_with (risk_admission_error.Stale ''risk approval expired'')
              else done_with ())) (\<lambda>_.
        and_do (adapter_policy A) (\<lambda>p.
        if pol_revision p \<noteq> vc_policy_revision (dec_validity d) then
          fail_with (risk_admission_error.Stale ''risk policy revision changed'')
        else
          and_do (of_result (parse_connection_id A (sc_connection_ref scope))) (\<lambda>connection_id.
          and_do (execution_session A connection_id scope purpose) (\<lambda>authorization_revision.
          if authorization_revision \<noteq> vc_execution_authorization_revision (dec_validity d) then
            fail_with (risk_admission_error.Stale ''execution authorization revision changed'')
          else
            and_do (cached_report A (risk_admission_error.Stale ''risk snapshot disappeared'')) (\<lambda>report.
            and_do (of_result (snapshot_revision report)) (\<lambda>revision.
            if watermark_changed report revision (dec_validity d) then
              fail_with (risk_admission_error.Stale ''broker account-state watermark changed'')
            else
              and_do (of_result (command_description_of command report)) (\<lambda>description.
              if ds_delta_lots description \<noteq> dec_approved_delta_lots d
                 \<or> ds_action description \<noteq> dec_action d
              then fail_with (risk_admission_error.Stale ''approved command semantics changed'')
              else
                and_do (validate_constraints A description d) (\<lambda>_.
                and_do (of_result (map_err (\<lambda>e. Unavailable (store_error_display e))
                  (unresolved_mutations (ax_to_json A) (scope_key scope) rdb))) (\<lambda>unresolved.
                if list_ex (\<lambda>m. mr_logical_request_id m \<noteq> logical_request_id
                     \<and> conflicts_with (ds_instrument_id description) m) unresolved
                then fail_with
                  (risk_admission_error.Stale ''conflicting UNKNOWN_AFTER_DISPATCH mutation appeared'')
                else done_with ()))))))))))"

definition validate_before_dispatch ::
  "'x risk_adapter \<Rightarrow> runtime_scope \<Rightarrow> runtime_execution_purpose \<Rightarrow> runtime_execution_command \<Rightarrow> string
   \<Rightarrow> risk_admission \<Rightarrow> runtime_db \<Rightarrow> ('x, unit) admitting" where
  "validate_before_dispatch A scope purpose command logical_request_id admission rdb =
     and_do (risk_query A (\<lambda>db. Inr (decision_by_id db (ra_decision_id admission)))) (\<lambda>found.
     and_do (of_result (ok_or (risk_admission_error.Stale ''risk decision disappeared'') found))
       (validate_decision A scope purpose command logical_request_id admission rdb))"

section \<open>Outcomes and reconciliations\<close>

text \<open>The lookup and the update of a reconciler operation are taken as one step of the store.\<close>

definition risk_reconcile ::
  "'x risk_adapter \<Rightarrow> reservation_evidence \<Rightarrow> string \<Rightarrow> int
   \<Rightarrow> ('x adapter_state, risk_reconcile_error, risk_reservation) action" where
  "risk_reconcile A e logical_request_id now =
     risk_update A (sqlite_reconcile e (ax_canonical_account_id A) logical_request_id now)"

fun outcome_evidence :: "risk_dispatch_outcome \<Rightarrow> reservation_evidence" where
  "outcome_evidence risk_dispatch_outcome.Acknowledged = reservation_evidence.Acknowledged"
| "outcome_evidence risk_dispatch_outcome.Rejected = BrokerReject"
| "outcome_evidence risk_dispatch_outcome.UnknownAfterDispatch = UnknownDispatch"

definition record_dispatch_outcome ::
  "'x risk_adapter \<Rightarrow> runtime_scope \<Rightarrow> string \<Rightarrow> risk_dispatch_outcome \<Rightarrow> runtime_db \<Rightarrow> ('x, unit) admitting"
  where
  "record_dispatch_outcome A scope logical_request_id outcome rdb =
     and_do (adapter_now A) (\<lambda>now.
     and_do (attempt (risk_reconcile A (outcome_evidence outcome) logical_request_id now)) (\<lambda>result.
     case result of
       Inr _ \<Rightarrow> done_with ()
     | Inl e \<Rightarrow>
         if e = risk_reconcile_error.ReservationNotFound then done_with ()
         else fail_with (Unavailable (risk_reconcile_error_display e))))"

definition reservation_evidence_of ::
  "reconciliation_report \<Rightarrow> risk_reservation \<Rightarrow> risk_admission_error + reservation_evidence" where
  "reservation_evidence_of report r =
     (if res_logical_request_id r \<in> set (rp_unresolved_logical_request_ids report) then Inr UnknownDispatch
      else
        case List.find (\<lambda>order. of_logical_request_id order = Some (res_logical_request_id r))
          (rp_active_orders report) of
          Some order \<Rightarrow>
            and_then (map_err (\<lambda>e. Unavailable (runtime_model_error_display e))
              (signed_remaining_lots order)) (\<lambda>remaining. Inr (RuntimeRemaining remaining))
        | None \<Rightarrow> Inr NoRemainingExposure)"

definition reconcile_reservation ::
  "'x risk_adapter \<Rightarrow> reconciliation_report \<Rightarrow> risk_reservation \<Rightarrow> ('x, risk_reservation) admitting" where
  "reconcile_reservation A report r =
     and_do (of_result (reservation_evidence_of report r)) (\<lambda>e.
     on_err (\<lambda>e. Unavailable (risk_reconcile_error_display e))
       (risk_reconcile A e (res_logical_request_id r) (rp_completed_at_unix_ms report)))"

definition adapter_reconcile ::
  "'x risk_adapter \<Rightarrow> runtime_scope \<Rightarrow> reconciliation_report \<Rightarrow> runtime_db \<Rightarrow> ('x, unit) admitting" where
  "adapter_reconcile A scope report rdb =
     and_do (resume A) (\<lambda>_.
     and_do (change (\<lambda>s. s\<lparr>ad_snapshot := Some report\<rparr>)) (\<lambda>_.
     and_do (adapter_active_reservations A) (\<lambda>active.
     and_do (each_do (reconcile_reservation A report) active) (\<lambda>_.
     done_with ()))))"

end
