(* ===== verification/Production_Store.thy ===== *)
theory Production_Store
  imports Production_Risk
begin

text \<open>
  The risk store under the production adapter.  \<open>risk_step\<close> is what the components that share the store do to
  it; a store that is sound stays sound and only grows in decisions and approvals.  Every operation of the
  adapter is a sequence of such steps.
\<close>

section \<open>Runs of the risk store\<close>

text \<open>What the components that share the risk store do to it: they persist decisions of the engine,
  approvals with the reservation of just the approved lots, policies, protection plans, and the evidence of
  reconciliations.\<close>

inductive risk_step :: "risk_db \<Rightarrow> risk_db \<Rightarrow> bool" where
  approve: "evaluate uuid p rq = Inr d \<Longrightarrow> directional_action (rq_action rq) \<Longrightarrow> i \<noteq> [] \<Longrightarrow>
    persist_approval_atomic (d\<lparr>dec_reservation_id := Some i\<rparr>) (reservation_for rq d i notional) c db
      = Inr (a, db') \<Longrightarrow> risk_step db db'"
| decide: "evaluate uuid p rq = Inr d \<Longrightarrow> put_decision d db = Inr db' \<Longrightarrow> risk_step db db'"
| configure: "put_policy uuid account expected new reason now db = Inr (p, db') \<Longrightarrow> risk_step db db'"
| settle: "sqlite_reconcile e account request now db = Inr (r, db') \<Longrightarrow> risk_step db db'"
| protect: "put_protection_plan plan db = Inr db' \<Longrightarrow> risk_step db db'"
| progress: "transition_protection_plan i expected new_state now db = Inr (plan, db') \<Longrightarrow> risk_step db db'"

text \<open>A decision of the engine.\<close>

definition engine_decided :: "risk_decision \<Rightarrow> bool" where
  "engine_decided d \<longleftrightarrow> (\<exists>uuid p rq. evaluate uuid p rq = Inr (d\<lparr>dec_reservation_id := None\<rparr>))"

text \<open>A store that holds nothing but decisions of the engine, approvals of orders with their reservations
  and reservations, each under a name, with their approvals.\<close>

definition sound_store :: "risk_db \<Rightarrow> bool" where
  "sound_store db \<longleftrightarrow>
     risk_db_inv db \<and> linked db \<and> (\<forall>r \<in> set (db_reservations db). res_reservation_id r \<noteq> []) \<and>
     (\<forall>d \<in> set (db_decisions db). engine_decided d
       \<and> (dec_reservation_id d \<noteq> None \<longrightarrow> directional_action (dec_action d) \<and>
            (\<exists>r \<in> set (db_reservations db). validate_approval_link d r = Inr ())))"

text \<open>A reservation changes in its state and in what remains of it.\<close>

definition same_reservation :: "risk_reservation \<Rightarrow> risk_reservation \<Rightarrow> bool" where
  "same_reservation r r' \<longleftrightarrow> set_reservation r' 0 Released 0 = set_reservation r 0 Released 0"

definition risk_grows :: "risk_db \<Rightarrow> risk_db \<Rightarrow> bool" where
  "risk_grows db db' \<longleftrightarrow>
     set (db_decisions db) \<subseteq> set (db_decisions db') \<and>
     (\<forall>r \<in> set (db_reservations db). \<exists>r' \<in> set (db_reservations db'). same_reservation r r')"

lemma same_reservation_refl: "same_reservation r r"
  by (simp add: same_reservation_def)

lemma same_reservation_trans: "same_reservation r s \<Longrightarrow> same_reservation s t \<Longrightarrow> same_reservation r t"
  by (simp add: same_reservation_def)

lemma same_reservation_link:
  "same_reservation r r' \<Longrightarrow> validate_approval_link d r' = validate_approval_link d r"
  by (cases r; cases r') (simp add: same_reservation_def validate_approval_link_def)

lemma reservation_step_same: "reservation_step e r r' \<Longrightarrow> same_reservation r r'"
  unfolding same_reservation_def by (erule reservation_stepE) simp_all

lemma risk_grows_refl: "risk_grows db db"
  using same_reservation_refl by (auto simp: risk_grows_def)

lemma risk_grows_trans: "risk_grows db db' \<Longrightarrow> risk_grows db' db'' \<Longrightarrow> risk_grows db db''"
  unfolding risk_grows_def by (meson same_reservation_trans subset_trans)

lemma risk_grows_same:
  "set (db_decisions db) \<subseteq> set (db_decisions db') \<Longrightarrow> set (db_reservations db) \<subseteq> set (db_reservations db') \<Longrightarrow>
   risk_grows db db'"
  using same_reservation_refl by (auto simp: risk_grows_def)

text \<open>A refusal of the engine.\<close>

definition rejection :: "string \<Rightarrow> risk_policy_set \<Rightarrow> risk_request \<Rightarrow> risk_decision \<Rightarrow> bool" where
  "rejection u p rq d \<longleftrightarrow> (\<exists>out code msg. d = reject u p rq out code msg)"

lemma rejection_reject [simp]: "rejection u p rq (reject u p rq out code msg)"
  by (auto simp: rejection_def)

lemma gates_reject:
  "gate_request_shape u p rq = Inr (Some d) \<Longrightarrow> rejection u p rq d"
  "gate_policy_revision u p rq = Inr (Some d) \<Longrightarrow> rejection u p rq d"
  "gate_runtime u p rq = Inr (Some d) \<Longrightarrow> rejection u p rq d"
  "gate_policy_state u p rq n = Inr (Some d) \<Longrightarrow> rejection u p rq d"
  "gate_new_exposure u p rq n = Inr (Some d) \<Longrightarrow> rejection u p rq d"
  "gate_margin_permission u p rq = Inr (Some d) \<Longrightarrow> rejection u p rq d"
  "gate_margin_utilization u p rq n = Inr (Some d) \<Longrightarrow> rejection u p rq d"
  "gate_daily_loss u p rq n = Inr (Some d) \<Longrightarrow> rejection u p rq d"
  "gate_max_position u p rq j n = Inr (Some d) \<Longrightarrow> rejection u p rq d"
  "gate_gross_exposure u p rq n = Inr (Some d) \<Longrightarrow> rejection u p rq d"
  "gate_net_exposure u p rq n = Inr (Some d) \<Longrightarrow> rejection u p rq d"
  "gate_instrument_exposure u p rq n = Inr (Some d) \<Longrightarrow> rejection u p rq d"
  unfolding gate_request_shape_def gate_policy_revision_def gate_runtime_def gate_policy_state_def
    gate_new_exposure_def gate_margin_permission_def gate_margin_utilization_def gate_daily_loss_def
    gate_max_position_def gate_gross_exposure_def gate_net_exposure_def gate_instrument_exposure_def
    validate_market_data_def validate_protection_def protection_duration_gate_def Let_def
  by (auto simp: result_simps split: if_splits option.splits sum.splits risk_state.splits)

lemma size_to_provider_reject: "size_to_provider u p rq n z = Inr (Inl d) \<Longrightarrow> rejection u p rq d"
  by (auto simp: size_to_provider_def result_simps split: if_splits option.splits)

lemma gate_then_cases:
  assumes "gate_then g k = Inr d"
  obtains "g = Inr (Some d)" | "g = Inr None" "k = Inr d"
  using assms by (auto simp: gate_then_def split: sum.splits option.splits)

text \<open>A decision is a refusal, or approves a maintenance action or a sized order.\<close>

lemma evaluate_cases:
  assumes "evaluate u p rq = Inr d"
  obtains "rejection u p rq d"
  | "d = approve_maintenance u p rq" "gate_request_shape u p rq = Inr None" "\<not> directional_action (rq_action rq)"
  | z where "approve_sized u p rq z = Inr d"
proof -
  have "rejection u p rq d \<or> (\<exists>z. approve_sized u p rq z = Inr d)" if sized: "size_order u p rq n = Inr d" for n
  proof -
    obtain z s where "size_to_provider u p rq n z = Inr s"
      "(case s of Inl d \<Rightarrow> Inr d | Inr sizing \<Rightarrow> approve_sized u p rq sizing) = Inr d"
      using sized by (auto simp: size_order_def and_then_Inr)
    then show ?thesis using size_to_provider_reject by (cases s) auto
  qed
  then have directional: "rejection u p rq d \<or> (\<exists>z. approve_sized u p rq z = Inr d)"
    if "evaluate_directional u p rq j n = Inr d" for j n
    using that unfolding evaluate_directional_def by (elim gate_then_cases) (auto dest: gates_reject)
  have "rejection u p rq d \<or> (d = approve_maintenance u p rq \<and> gate_request_shape u p rq = Inr None
      \<and> \<not> directional_action (rq_action rq)) \<or> (\<exists>z. approve_sized u p rq z = Inr d)"
    using assms unfolding evaluate_def
    by (elim gate_then_cases; clarsimp simp: and_then_Inr)
      (use directional in \<open>auto dest: gates_reject elim!: gate_then_cases split: if_splits\<close>)
  then show thesis using that by blast
qed

text \<open>Every decision, refusals included, is bound to its request, its policy and its snapshot.\<close>

lemma evaluate_decision_of:
  assumes "evaluate u p rq = Inr d"
  shows "decision_of p rq d \<and> dec_decision_id d = risk_decision_new_id u"
  using assms
proof (cases rule: evaluate_cases)
  case 2
  then show ?thesis
    by (auto simp: decision_of_def approve_maintenance_def gate_request_shape_def Let_def split: if_splits)
qed (auto simp: rejection_def decision_of_def reject_def approve_sized_def result_simps split: if_splits)

lemma evaluate_unreserved: "evaluate uuid p rq = Inr d \<Longrightarrow> dec_reservation_id d = None"
  by (drule evaluate_decision_of) (simp add: decision_of_def)

lemma evaluate_engine:
  assumes "evaluate uuid p rq = Inr d"
  shows "engine_decided d" "engine_decided (d\<lparr>dec_reservation_id := i\<rparr>)"
proof -
  have "d\<lparr>dec_reservation_id := None\<rparr> = d" using evaluate_unreserved [OF assms] by (cases d) simp
  then show "engine_decided d" "engine_decided (d\<lparr>dec_reservation_id := i\<rparr>)"
    using assms by (auto simp: engine_decided_def)
qed

lemma approve_sound:
  assumes "evaluate uuid p rq = Inr d" and "directional_action (rq_action rq)" and "i \<noteq> []"
    and persist: "persist_approval_atomic (d\<lparr>dec_reservation_id := Some i\<rparr>) (reservation_for rq d i notional) c db
      = Inr (a, db')"
    and "sound_store db"
  shows "sound_store db' \<and> risk_grows db db'"
  using persist
proof (cases rule: persist_approval_cases)
  case replay
  then show ?thesis using assms(5) risk_grows_refl by simp
next
  case (fresh db1)
  let ?d = "d\<lparr>dec_reservation_id := Some i\<rparr>" and ?r = "reservation_for rq d i notional"
  have rows: "db_decisions db' = db_decisions db @ [?d]" "db_reservations db' = db_reservations db @ [?r]"
    using fresh(4,5) by (auto dest!: insert_decision_db insert_reservation_db)
  have "risk_db_inv db'" "linked db'"
    using persist_approval_inv [OF persist] persist_approval_linked [OF persist] assms(5)
    by (auto simp: sound_store_def)
  moreover have "res_reservation_id ?r = i" "dec_action d = rq_action rq"
    using evaluate_decision_of [OF assms(1)] by (simp_all add: reservation_for_def decision_of_def)
  ultimately show ?thesis
    using assms(2,3,5) rows fresh(2) evaluate_engine(2) [OF assms(1)]
    by (auto simp: sound_store_def intro: risk_grows_same)
qed

lemma decide_sound:
  assumes "evaluate uuid p rq = Inr d" and put: "put_decision d db = Inr db'" and "sound_store db"
  shows "sound_store db' \<and> risk_grows db db'"
proof -
  have res: "db_reservations db' = db_reservations db" and sub: "set (db_decisions db) \<subseteq> set (db_decisions db')"
    using put_decision_tables [OF put] by blast+
  have new: "set (db_decisions db') \<subseteq> insert d (set (db_decisions db))"
    using put by (auto simp: put_decision_def dest!: insert_decision_db split: if_splits)
  have "risk_db_inv db'" "linked db'"
    using put_decision_inv [OF put] linked_mono [OF _ res sub] assms(3) by (auto simp: sound_store_def)
  then show ?thesis
    using new evaluate_engine(1) [OF assms(1)] evaluate_unreserved [OF assms(1)] assms(3) res sub
    by (auto simp: sound_store_def intro: risk_grows_same)
qed

lemma same_tables_sound:
  assumes "db_reservations db' = db_reservations db" "db_decisions db' = db_decisions db"
    and "risk_db_inv db \<Longrightarrow> risk_db_inv db'" and "sound_store db"
  shows "sound_store db' \<and> risk_grows db db'"
proof -
  have "risk_db_inv db'" "linked db'"
    using assms(3) linked_mono [OF _ assms(1)] assms(2,4) by (auto simp: sound_store_def)
  then show ?thesis using assms by (auto simp: sound_store_def intro: risk_grows_same)
qed

lemma plan_tables:
  "put_protection_plan plan db = Inr db' \<Longrightarrow>
     db_reservations db' = db_reservations db \<and> db_decisions db' = db_decisions db"
  "transition_protection_plan i expected new_state now db = Inr (row, db') \<Longrightarrow>
     db_reservations db' = db_reservations db \<and> db_decisions db' = db_decisions db"
  by (auto simp: put_protection_plan_def transition_protection_plan_def Let_def result_simps split: if_splits)

lemma modify_row_grows:
  assumes "same_reservation r r'" and "r \<in> set rows" and "distinct (map res_reservation_id rows)"
    and "x \<in> set rows"
  shows "\<exists>x' \<in> set (modify_row res_reservation_id (res_reservation_id r) (\<lambda>_. r') rows). same_reservation x x'"
proof (cases "res_reservation_id x = res_reservation_id r")
  case True
  then have "x = r" using assms(2-4) row_unique [of res_reservation_id rows x r] by simp
  then show ?thesis using assms(1,2) by (auto simp: set_modify_row)
next
  case False
  then show ?thesis using assms(4) same_reservation_refl by (auto simp: set_modify_row)
qed

lemma settle_sound:
  assumes rec: "sqlite_reconcile e account request now db = Inr (r', db')" and sound: "sound_store db"
  shows "sound_store db' \<and> risk_grows db db'"
proof -
  have inv: "risk_db_inv db" using sound by (simp add: sound_store_def)
  obtain r where r: "r \<in> set (db_reservations db)" and cases:
    "db' = db \<or> reservation_step e r r' \<and> risk_db_inv db' \<and> db_reservations db' =
       modify_row res_reservation_id (res_reservation_id r) (\<lambda>_. r') (db_reservations db)"
    using sq.evidence_reconciles [OF inv rec] by (auto simp: sq.reconciles_def)
  have decs: "db_decisions db' = db_decisions db" using rec by (rule reconcile_decisions)
  from cases show ?thesis
  proof
    assume st: "reservation_step e r r' \<and> risk_db_inv db' \<and> db_reservations db' =
       modify_row res_reservation_id (res_reservation_id r) (\<lambda>_. r') (db_reservations db)"
    then have rows: "set (db_reservations db') \<subseteq> insert r' (set (db_reservations db))" by (auto simp: set_modify_row)
    have "res_reservation_id r' = res_reservation_id r"
      using reservation_step_same [of e r r'] st by (cases r; cases r') (simp add: same_reservation_def)
    then have named: "\<forall>x \<in> set (db_reservations db'). res_reservation_id x \<noteq> []"
      using rows r sound unfolding sound_store_def by (metis insertE subset_iff)
    from rows st have linked: "linked db'"
      using sound step_linked [OF _ r decs, of r' e] unfolding sound_store_def by blast
    have "distinct (map res_reservation_id (db_reservations db))" using inv by (simp add: risk_db_inv_def)
    then have grows: "risk_grows db db'"
      using modify_row_grows [OF reservation_step_same r] st decs by (auto simp: risk_grows_def)
    have "\<exists>x \<in> set (db_reservations db'). validate_approval_link d x = Inr ()"
      if "x \<in> set (db_reservations db)" "validate_approval_link d x = Inr ()" for d x
      using grows that same_reservation_link unfolding risk_grows_def by metis
    with linked grows named show ?thesis using sound st decs by (fastforce simp: sound_store_def)
  qed (use sound risk_grows_refl in simp)
qed

lemma risk_step_sound: "risk_step db db' \<Longrightarrow> sound_store db \<Longrightarrow> sound_store db' \<and> risk_grows db db'"
proof (induction rule: risk_step.induct)
  case approve
  then show ?case by (rule approve_sound)
next
  case decide
  then show ?case by (rule decide_sound)
next
  case configure
  then show ?case using put_policy_tables [OF configure(1)] put_policy_inv [OF configure(1)]
    by (intro same_tables_sound) blast+
next
  case settle
  then show ?case by (rule settle_sound)
next
  case protect
  then show ?case using plan_tables(1) [OF protect(1)] put_protection_plan_inv [OF protect(1)]
    by (intro same_tables_sound) blast+
next
  case progress
  then show ?case using plan_tables(2) [OF progress(1)] transition_protection_plan_inv [OF progress(1)]
    by (intro same_tables_sound) blast+
qed

lemma risk_steps_sound:
  assumes "risk_step\<^sup>*\<^sup>* db db'" and "sound_store db"
  shows "sound_store db' \<and> risk_grows db db'"
  using assms
proof induction
  case (step y z)
  then show ?case using risk_step_sound [of y z] risk_grows_trans by blast
qed (simp add: risk_grows_refl)

section \<open>Runs of the adapter\<close>

text \<open>The other tasks of the adapter do to the store what components of the system do.\<close>

definition risk_tasks :: "'x risk_adapter \<Rightarrow> bool" where
  "risk_tasks A \<longleftrightarrow> (\<forall>s. risk_step\<^sup>*\<^sup>* (ad_db s) (ad_db (ax_tasks A s)))"

definition risk_follows :: "'x risk_adapter \<Rightarrow> 'x adapter_state \<Rightarrow> 'x adapter_state \<Rightarrow> bool" where
  "risk_follows A s t \<longleftrightarrow> (risk_tasks A \<longrightarrow> risk_step\<^sup>*\<^sup>* (ad_db s) (ad_db t))"

interpretation follows: run_relation "risk_follows A" for A
  by unfold_locales (auto simp: risk_follows_def)

lemma risk_follows_same: "ad_db t = ad_db s \<Longrightarrow> risk_follows A s t"
  by (simp add: risk_follows_def)

lemma resume_follows [moves_intros]: "moves (risk_follows A) (resume A)"
  by (simp add: moves_def resume_def change_def risk_follows_def risk_tasks_def)

lemma outside_follows [moves_intros]: "moves (risk_follows A) (outside m)" "moves (risk_follows A) (ask f)"
  by (auto simp: moves_def ask_def outside_def zoom_def intro: risk_follows_same split: prod.splits)

lemma change_follows [moves_intros]: "(\<And>s. ad_db (g s) = ad_db s) \<Longrightarrow> moves (risk_follows A) (change g)"
  by (simp add: moves_def change_def risk_follows_same)

lemma risk_query_follows [moves_intros]: "moves (risk_follows A) (risk_query A f)"
proof -
  have "moves (risk_follows A) (\<lambda>s. (f (ad_db s), s))" by (simp add: moves_def risk_follows_same)
  then show ?thesis unfolding risk_query_def by (intro moves_intros)
qed

lemma risk_update_follows:
  assumes "\<And>db x db'. f db = Inr (x, db') \<Longrightarrow> risk_step\<^sup>*\<^sup>* db db'"
  shows "moves (risk_follows A) (risk_update A f)"
proof -
  have "moves (risk_follows A) (\<lambda>s. case f (ad_db s) of
     Inr (x, db) \<Rightarrow> (Inr x, s\<lparr>ad_db := db\<rparr>)
   | Inl e \<Rightarrow> (Inl e, s))"
    using assms by (auto simp: moves_def risk_follows_def split: sum.splits)
  then show ?thesis unfolding risk_update_def by (intro moves_intros)
qed

lemma updates_follow [moves_intros]:
  "moves (risk_follows A) (risk_update A (put_policy uuid account expected new reason now))"
  "moves (risk_follows A) (risk_reconcile A e request now)"
  unfolding risk_reconcile_def
  by (rule risk_update_follows, blast intro: risk_step.configure risk_step.settle)+

lemma reservation_named: "risk_reservation_new_id u \<noteq> []"
  by (simp add: risk_reservation_new_id_def)

lemma persist_follows:
  assumes "evaluate uuid p rq = Inr d"
  shows "moves (risk_follows A) (risk_update A (persist_decision d))"
    and "moves (risk_follows A) (persist_admission A q rq d)"
proof -
  show decision: "moves (risk_follows A) (risk_update A (persist_decision d))"
    by (rule risk_update_follows)
      (auto simp: persist_decision_def result_simps intro: risk_step.decide [OF assms])
  have approval: "moves (risk_follows A) (risk_update A (persist_approval_atomic
      (d\<lparr>dec_reservation_id := Some (risk_reservation_new_id u)\<rparr>)
      (reservation_for rq d (risk_reservation_new_id u) n) c))" if "directional_action (rq_action rq)" for u n c
    by (rule risk_update_follows) (blast intro: risk_step.approve [OF assms that] intro!: r_into_rtranclp
      reservation_named)
  show "moves (risk_follows A) (persist_admission A q rq d)"
    unfolding persist_admission_def Let_def by (intro decision approval moves_intros)
qed

lemma adapter_now_follows [moves_intros]: "moves (risk_follows A) (adapter_now A)"
  unfolding adapter_now_def by (intro moves_intros)

lemma adapter_policy_follows [moves_intros]: "moves (risk_follows A) (adapter_policy A)"
  unfolding adapter_policy_def by (intro moves_intros)

lemma replace_state_follows: "moves (risk_follows A) (replace_state A expected state reason)"
  unfolding replace_state_def by (intro moves_intros)

lemma build_request_follows [moves_intros]:
  "moves (risk_follows A) (build_request A rdb scope purpose command i p)"
  unfolding build_request_def cached_report_def execution_session_def read_directional_facts_def
    instrument_constraints_def describe_request_def read_notional_def read_margin_def protection_status_def
    Let_def
  by (intro moves_intros) simp_all

lemma admit_follows: "moves (risk_follows A) (admit A scope purpose command i rdb)"
proof -
  have decided: "moves (risk_follows A) (if \<not> permits_dispatch d then
       and_do (on_err store_unavailable (risk_update A (persist_decision d))) (\<lambda>_. fail_with (denial d))
     else persist_admission A p request d)"
    if "of_result (map_err (\<lambda>e. Unavailable (risk_engine_error_display e)) (evaluate uuid p request)) s = (Inr d, t)"
    for uuid p request d and s t :: "'x adapter_state"
  proof -
    have "evaluate uuid p request = Inr d" using that by (auto simp: action_simps result_simps eq_commute [of "Inr _"])
    note persist = persist_follows [OF this]
    show ?thesis by (intro persist moves_intros)
  qed
  have "moves (risk_follows A) (admit_new A rdb scope purpose command i)"
    unfolding admit_new_def
    by (intro follows.moves_and_do [OF adapter_policy_follows] follows.moves_and_do [OF build_request_follows]
        follows.moves_and_do [OF outside_follows(2)] follows.moves_bind [OF follows.moves_of_result decided])
  then show ?thesis
    unfolding admit_def replay_admission_def cached_report_def by (intro moves_intros)
qed

lemma validate_decision_follows [moves_intros]:
  "moves (risk_follows A) (validate_decision A scope purpose command i admission rdb d)"
  unfolding validate_decision_def validate_constraints_def cached_report_def execution_session_def
  by (intro moves_intros)

lemma validate_follows: "moves (risk_follows A) (validate_before_dispatch A scope purpose command i admission rdb)"
  unfolding validate_before_dispatch_def by (intro moves_intros)

lemma outcome_follows: "moves (risk_follows A) (record_dispatch_outcome A scope i outcome rdb)"
  unfolding record_dispatch_outcome_def by (intro moves_intros)

lemma adapter_reconcile_follows: "moves (risk_follows A) (adapter_reconcile A scope report rdb)"
  unfolding adapter_reconcile_def reconcile_reservation_def adapter_active_reservations_def
  by (intro moves_intros) simp

end
