(* ===== verification/Production_Runtime.thy ===== *)
theory Production_Runtime
  imports Production_Store
begin

text \<open>
  The coordinator with the production risk adapter behind its risk port, as
  \<open>crates/vox-core/src/production_runtime.rs\<close> wires them: what validation lets pass, and that every command
  the coordinator sends is one the risk engine decided on.
\<close>

section \<open>What validation lets pass\<close>

text \<open>The lots a command moves the position by; a replacement takes its direction from the order it replaces.\<close>

fun moves_lots :: "runtime_execution_command \<Rightarrow> int \<Rightarrow> bool" where
  "moves_lots (RegularOrder order) n \<longleftrightarrow>
     0 < ro_quantity_lots order \<and> n = (case ro_side order of Buy \<Rightarrow> ro_quantity_lots order | Sell \<Rightarrow> - ro_quantity_lots order)"
| "moves_lots (runtime_execution_command.PostOrderAsync order) n \<longleftrightarrow>
     0 < ro_quantity_lots order \<and> n = (case ro_side order of Buy \<Rightarrow> ro_quantity_lots order | Sell \<Rightarrow> - ro_quantity_lots order)"
| "moves_lots (runtime_execution_command.ReplaceOrder order) n \<longleftrightarrow>
     0 < rp_quantity_lots order \<and> \<bar>n\<bar> = rp_quantity_lots order"
| "moves_lots _ n \<longleftrightarrow> n = 0"

lemma signed_lots_Inr:
  "signed_lots side lots = Inr n \<longleftrightarrow> 0 < lots \<and> n = (case side of Buy \<Rightarrow> lots | Sell \<Rightarrow> - lots)
     \<and> (side = Sell \<longrightarrow> in_i64 (- lots))"
  by (cases side) (auto simp: signed_lots_def result_simps)

lemma description_lots:
  assumes "command_description_of command report = Inr description"
  shows "moves_lots command (ds_delta_lots description)"
    and "directional_action (ds_action description) \<longleftrightarrow> exposure_bearing command"
proof -
  have "moves_lots command (ds_delta_lots description)
    \<and> (directional_action (ds_action description) \<longleftrightarrow> exposure_bearing command)"
  proof (cases command)
    case (ReplaceOrder order)
    then obtain existing side n where "signed_lots side (rp_quantity_lots order) = Inr n"
      "ds_delta_lots description = n" "ds_action description = ReplaceDirectionalOrder"
      using assms by (auto simp: command_description_of_def and_then_Inr)
    then show ?thesis
      using ReplaceOrder by (cases side) (auto simp: signed_lots_Inr exposure_bearing_def directional_action_def)
  qed (use assms in \<open>auto simp: command_description_of_def describe_order_def describe_maintenance_def
      signed_lots_Inr exposure_bearing_def directional_action_def and_then_Inr\<close>)
  then show "moves_lots command (ds_delta_lots description)"
    and "directional_action (ds_action description) \<longleftrightarrow> exposure_bearing command" by blast+
qed

text \<open>A command of a request is backed by the store: the engine made a decision for the request, over just
  the lots the command moves, and an exposure-bearing one has its reservation.\<close>

definition backed :: "'x risk_adapter \<Rightarrow> risk_db \<Rightarrow> string \<Rightarrow> runtime_execution_command \<Rightarrow> bool" where
  "backed A db i command \<longleftrightarrow>
     (\<exists>d \<in> set (db_decisions db). engine_decided d
        \<and> dec_request_id d = i \<and> dec_account_id d = ax_canonical_account_id A
        \<and> moves_lots command (dec_approved_delta_lots d)
        \<and> (exposure_bearing command \<longrightarrow>
             (\<exists>r \<in> set (db_reservations db). validate_approval_link d r = Inr ())))"

lemma backed_grows: "risk_grows db db' \<Longrightarrow> backed A db i command \<Longrightarrow> backed A db' i command"
proof -
  assume grows: "risk_grows db db'" and "backed A db i command"
  then obtain d where d: "d \<in> set (db_decisions db)" "engine_decided d" "dec_request_id d = i"
      "dec_account_id d = ax_canonical_account_id A" "moves_lots command (dec_approved_delta_lots d)"
    and reserved: "exposure_bearing command \<Longrightarrow> \<exists>r \<in> set (db_reservations db). validate_approval_link d r = Inr ()"
    by (auto simp: backed_def)
  have "\<exists>r \<in> set (db_reservations db'). validate_approval_link d r = Inr ()" if "exposure_bearing command"
    using reserved [OF that] grows same_reservation_link [of _ _ d] unfolding risk_grows_def by metis
  moreover have "d \<in> set (db_decisions db')" using d(1) grows by (auto simp: risk_grows_def)
  ultimately show ?thesis using d(2-5) unfolding backed_def by blast
qed

lemma guarded_Inr:
  "(if b then fail_with e else m) s = (Inr x, t) \<longleftrightarrow> \<not> b \<and> m s = (Inr x, t)"
  by (simp add: fail_with_def)

lemma of_result_Inr: "of_result r s = (Inr x, t) \<longleftrightarrow> r = Inr x \<and> t = s"
  by (auto simp: of_result_def)

lemma validate_decision_Inr:
  assumes "validate_decision A scope purpose command i admission rdb d s = (Inr (), t)"
  shows "\<not> mismatched A i admission d \<and> (\<exists>report description. command_description_of command report = Inr description
    \<and> ds_delta_lots description = dec_approved_delta_lots d \<and> ds_action description = dec_action d)"
  using assms unfolding validate_decision_def
  by (auto simp: guarded_Inr of_result_Inr elim!: and_do_InrE) blast

lemma validated_backed:
  assumes "validate_before_dispatch A scope purpose command i admission rdb s = (Inr (), t)"
    and "exposure_bearing command \<Longrightarrow> ra_reservation_id admission \<noteq> None"
    and tasks: "risk_tasks A" and sound: "sound_store (ad_db s)"
  shows "backed A (ad_db t) i command"
proof -
  obtain s1 d where found: "risk_query A (\<lambda>db. Inr (decision_by_id db (ra_decision_id admission))) s
      = (Inr (Some d) :: risk_admission_error + risk_decision option, s1)"
    and rest: "validate_decision A scope purpose command i admission rdb d s1 = (Inr (), t)"
    using assms(1) unfolding validate_before_dispatch_def
    by (elim and_do_InrE) (auto simp: of_result_Inr ok_or_Inr)
  have s1: "risk_step\<^sup>*\<^sup>* (ad_db s) (ad_db s1)" "risk_step\<^sup>*\<^sup>* (ad_db s1) (ad_db t)"
    using movesD [OF risk_query_follows found] movesD [OF validate_decision_follows rest] tasks
    by (auto simp: risk_follows_def)
  then have sound1: "sound_store (ad_db s1)" using risk_steps_sound sound by blast
  have "decision_by_id (ad_db s1) (ra_decision_id admission) = Some d"
    using found by (auto simp: risk_query_def action_simps resume_def)
  then have stored: "d \<in> set (db_decisions (ad_db s1))"
    by (auto simp: decision_by_id_def dest: row_with_SomeD)
  obtain report description where description: "command_description_of command report = Inr description"
    "ds_delta_lots description = dec_approved_delta_lots d" and match: "\<not> mismatched A i admission d"
    using validate_decision_Inr [OF rest] by blast
  have "backed A (ad_db s1) i command"
    unfolding backed_def
    using stored sound1 match description_lots(1) [OF description(1)] description(2) assms(2)
    by (intro bexI [OF _ stored]) (auto simp: sound_store_def mismatched_def)
  then show ?thesis using backed_grows risk_steps_sound [OF s1(2) sound1] by blast
qed

section \<open>The coordinator with its risk adapter\<close>

definition with_risk_adapter ::
  "'x risk_adapter \<Rightarrow> 'x adapter_state ports \<Rightarrow> 'x adapter_state ports" where
  "with_risk_adapter A P =
     P\<lparr>po_admit := admit A, po_validate_before_dispatch := validate_before_dispatch A,
       po_record_dispatch_outcome := record_dispatch_outcome A, po_reconcile_risk := adapter_reconcile A\<rparr>"

text \<open>Everything around the adapter does to the risk store only what components of the system do.\<close>

definition production :: "'x risk_adapter \<Rightarrow> 'x adapter_state ports \<Rightarrow> 'x adapter_state runtime \<Rightarrow> bool" where
  "production A P R \<longleftrightarrow>
     ru_ports R = with_risk_adapter A P \<and> risk_tasks A
     \<and> (\<forall>w w'. port_step P w w' \<longrightarrow> risk_step\<^sup>*\<^sup>* (ad_db w) (ad_db w'))
     \<and> (\<forall>w m. risk_step\<^sup>*\<^sup>* (ad_db w) (ad_db (snd (ru_tasks R w m))))"

abbreviation risk_store_of :: "'x adapter_state coordinator \<Rightarrow> risk_db" where
  "risk_store_of c \<equiv> ad_db (sy_world (cd_sys c))"

lemma adapter_port_step:
  assumes "port_step (with_risk_adapter A P) w w'" and "production A P R"
  shows "risk_step\<^sup>*\<^sup>* (ad_db w) (ad_db w')"
proof -
  have adapter: "risk_step\<^sup>*\<^sup>* (ad_db w) (ad_db (snd (m w)))" if "moves (risk_follows A) m" "risk_tasks A"
    for m :: "'a adapter_state \<Rightarrow> (risk_admission_error + 'b) \<times> 'a adapter_state" and A w
    using that by (simp add: moves_def risk_follows_def)
  have tasks: "risk_tasks A" and P: "\<And>w w'. port_step P w w' \<Longrightarrow> risk_step\<^sup>*\<^sup>* (ad_db w) (ad_db w')"
    using assms(2) by (auto simp: production_def)
  show ?thesis
    using assms(1)
    by (cases rule: port_step.cases)
      (auto simp: with_risk_adapter_def intro: P port_step.intros adapter [OF admit_follows tasks]
        adapter [OF validate_follows tasks] adapter [OF outcome_follows tasks] adapter [OF adapter_reconcile_follows tasks])
qed

lemma adapter_port_runs:
  assumes "port_runs (ru_ports R) s t" and "production A P R"
  shows "risk_step\<^sup>*\<^sup>* (ad_db (sy_world s)) (ad_db (sy_world t))"
proof -
  have ports: "ru_ports R = with_risk_adapter A P" using assms(2) by (simp add: production_def)
  have "(port_step (with_risk_adapter A P))\<^sup>*\<^sup>* (sy_world s) (sy_world t)"
    using assms(1) by (simp add: port_runs_def ports)
  then show ?thesis
  proof induction
    case (step y z)
    then show ?case using adapter_port_step [OF step.hyps(2) assms(2)] by (rule_tac rtranclp_trans)
  qed simp
qed

text \<open>Every send of a run is backed by the risk store.\<close>

definition sends_backed :: "'x risk_adapter \<Rightarrow> risk_db \<Rightarrow> trace_event list \<Rightarrow> bool" where
  "sends_backed A db es \<longleftrightarrow>
     (\<forall>purpose command r. Sent purpose command r \<in> set es \<longrightarrow> backed A db (mr_logical_request_id r) command)"

definition vetted ::
  "'x risk_adapter \<Rightarrow> 'x adapter_state ports \<Rightarrow> 'x adapter_state runtime
   \<Rightarrow> 'x adapter_state coordinator \<Rightarrow> 'x adapter_state coordinator \<Rightarrow> bool" where
  "vetted A P R c d \<longleftrightarrow>
     (production A P R \<longrightarrow> sound_store (risk_store_of c) \<longrightarrow>
        risk_step\<^sup>*\<^sup>* (risk_store_of c) (risk_store_of d)
        \<and> (\<exists>es. cd_trace d = cd_trace c @ es \<and> sends_backed A (risk_store_of d) es))"

lemma vetted_quiet:
  "(production A P R \<Longrightarrow> risk_step\<^sup>*\<^sup>* (risk_store_of c) (risk_store_of d)) \<Longrightarrow> cd_trace d = cd_trace c \<Longrightarrow>
   vetted A P R c d"
  by (auto simp: vetted_def sends_backed_def)

lemma sends_backed_grows:
  "risk_grows db db' \<Longrightarrow> sends_backed A db es \<Longrightarrow> sends_backed A db' es"
  using backed_grows unfolding sends_backed_def by blast

lemma vetted_trans:
  assumes "vetted A P R c d" and "vetted A P R d e"
  shows "vetted A P R c e"
  unfolding vetted_def
proof (intro impI)
  assume prod: "production A P R" and sound: "sound_store (risk_store_of c)"
  then obtain es where es: "risk_step\<^sup>*\<^sup>* (risk_store_of c) (risk_store_of d)" "cd_trace d = cd_trace c @ es"
      "sends_backed A (risk_store_of d) es"
    using assms(1) by (auto simp: vetted_def)
  have d: "sound_store (risk_store_of d)" using risk_steps_sound [OF es(1) sound] by simp
  then obtain fs where fs: "risk_step\<^sup>*\<^sup>* (risk_store_of d) (risk_store_of e)" "cd_trace e = cd_trace d @ fs"
      "sends_backed A (risk_store_of e) fs"
    using assms(2) prod by (auto simp: vetted_def)
  have "sends_backed A (risk_store_of e) es"
    using sends_backed_grows risk_steps_sound [OF fs(1) d] es(3) by blast
  then have "cd_trace e = cd_trace c @ es @ fs \<and> sends_backed A (risk_store_of e) (es @ fs)"
    using es(2) fs(2,3) by (auto simp: sends_backed_def)
  then show "risk_step\<^sup>*\<^sup>* (risk_store_of c) (risk_store_of e)
      \<and> (\<exists>es. cd_trace e = cd_trace c @ es \<and> sends_backed A (risk_store_of e) es)"
    using rtranclp_trans [OF es(1) fs(1)] by blast
qed

lemma tasks_run_risk:
  assumes "production A P R"
  shows "risk_step\<^sup>*\<^sup>* (risk_store_of c) (risk_store_of (tasks_run R c))"
    and "risk_step\<^sup>*\<^sup>* (risk_store_of c) (risk_store_of (tasks_run_locked R c))"
proof -
  obtain m w where "ru_tasks R (sy_world (cd_sys c)) (cd_memory c) = (m, w)" by fastforce
  moreover from this have "risk_step\<^sup>*\<^sup>* (risk_store_of c) (ad_db w)"
    using assms unfolding production_def by (metis snd_conv)
  ultimately show "risk_step\<^sup>*\<^sup>* (risk_store_of c) (risk_store_of (tasks_run R c))"
    and "risk_step\<^sup>*\<^sup>* (risk_store_of c) (risk_store_of (tasks_run_locked R c))"
    by (simp_all add: tasks_run_def tasks_run_locked_def)
qed

interpretation vetted: coordinator_relation "vetted A P R" R is_send
  for A P and R :: "'x adapter_state runtime"
proof unfold_locales
  show "vetted A P R c e" if "vetted A P R c d" "vetted A P R d e" for c d e using that by (rule vetted_trans)
  show "vetted A P R c (tasks_run R c)" for c by (rule vetted_quiet) (simp_all add: tasks_run_risk)
  show "vetted A P R c (tasks_run_locked R c)" for c by (rule vetted_quiet) (simp_all add: tasks_run_risk)
  show "vetted A P R c (c\<lparr>cd_sys := s\<rparr>)" if "port_runs (ru_ports R) (cd_sys c) s" for c s
    by (rule vetted_quiet) (use adapter_port_runs [OF that] in auto)
  show "vetted A P R c (c\<lparr>cd_trace := cd_trace c @ [e]\<rparr>)" if "\<not> is_send e" for c e
    using that by (auto simp: vetted_def sends_backed_def is_send_def)
qed (auto simp: is_send_def intro!: vetted_quiet)

text \<open>After a validation that passed, the send is backed.\<close>

lemma ask_validated:
  assumes "production A P R"
    and "ask_risk R (po_validate_before_dispatch (ru_ports R) scope purpose command i admission) c = (Inr (), d)"
    and "sound_store (risk_store_of c)"
    and "exposure_bearing command \<Longrightarrow> ra_reservation_id admission \<noteq> None"
  shows "backed A (risk_store_of d) i command"
proof -
  let ?P = "ru_ports R"
  let ?t = "others_run ?P (cd_sys (tasks_run R c))"
  let ?f = "validate_before_dispatch A scope purpose command i admission"
  have f: "po_validate_before_dispatch ?P scope purpose command i admission = ?f"
    using assms(1) by (simp add: production_def with_risk_adapter_def)
  obtain r w where run: "?f (sy_db ?t) (sy_world ?t) = (r, w)" by fastforce
  with assms(2) have r: "r = Inr ()" and d: "risk_store_of d = ad_db w"
    by (auto simp: f ask_risk_def step_simps on_sys_def zoom_def call_risk_def Let_def)
  have "risk_step\<^sup>*\<^sup>* (risk_store_of c) (ad_db (sy_world ?t))"
    using tasks_run_risk(1) [OF assms(1)] adapter_port_runs [OF others_port assms(1)] by (rule rtranclp_trans)
  then have "sound_store (ad_db (sy_world ?t))" using risk_steps_sound assms(3) by blast
  moreover have "risk_tasks A" using assms(1) by (simp add: production_def)
  ultimately show ?thesis using validated_backed [OF run [unfolded r] assms(4)] d by simp
qed

lemma fence_names:
  assumes "fence_dispatch R command i correlation c = (Inr (epoch, fenced), d)"
  shows "mr_logical_request_id fenced = i"
proof -
  let ?P = "ru_ports R"
  obtain now c2 where "store_call R (store_write ?P (claim_dispatch_unknown (po_to_json ?P)
      (scope_key (ru_scope R)) i epoch now)) c2 = (Inr fenced, d)"
    using assms unfolding fence_dispatch_def by (elim and_do_InrE) (auto simp: action_simps)
  then obtain db db' where "claim_dispatch_unknown (po_to_json ?P) (scope_key (ru_scope R)) i epoch now db
      = Inr (fenced, db')"
    by (auto simp: store_call_eq on_sys_eq store_write_Inr)
  then show ?thesis
    unfolding claim_dispatch_unknown_def
    by (rule transition_mutation_elim) (auto dest: record_of_id)
qed

lemma dispatch_with_permit_vetted:
  assumes "dispatch_with_permit R purpose command i correlation c = (r, e)"
    and "production A P R \<Longrightarrow> sound_store (risk_store_of c) \<Longrightarrow> backed A (risk_store_of c) i command"
  shows "vetted A P R c e"
  using assms(1) unfolding dispatch_with_permit_def
proof (cases rule: and_do_cases)
  case (failed x)
  from movesD [OF vetted.fence_dispatch_keeps failed(1)] show ?thesis by (simp add: is_send_def)
next
  case (went_on x d)
  obtain epoch fenced where x: "x = (epoch, fenced)" by (cases x)
  let ?rest = "and_do (attempt (port_call R (po_dispatch_once (ru_ports R) (ru_scope R) purpose command fenced)))
     (\<lambda>result. and_do (traced (Answered result)) (\<lambda>_. settle_dispatch R i epoch result))"
  let ?d = "d\<lparr>cd_trace := cd_trace d @ [Sent purpose command fenced]\<rparr>"
  have fence: "vetted A P R c d" using movesD [OF vetted.fence_dispatch_keeps went_on(1)] by (simp add: is_send_def)
  have id: "mr_logical_request_id fenced = i" by (rule fence_names [OF went_on(1) [unfolded x]])
  have sent: "vetted A P R c ?d"
    unfolding vetted_def
  proof (intro impI)
    assume prod: "production A P R" and sound: "sound_store (risk_store_of c)"
    obtain es where es: "risk_step\<^sup>*\<^sup>* (risk_store_of c) (risk_store_of d)" "cd_trace d = cd_trace c @ es"
        "sends_backed A (risk_store_of d) es"
      using fence prod sound by (auto simp: vetted_def)
    moreover have "backed A (risk_store_of d) i command"
      using backed_grows [OF _ assms(2) [OF prod sound]] risk_steps_sound [OF es(1) sound] by simp
    ultimately have "sends_backed A (risk_store_of ?d) (es @ [Sent purpose command fenced])"
      using id by (auto simp: sends_backed_def)
    then show "risk_step\<^sup>*\<^sup>* (risk_store_of c) (risk_store_of ?d)
        \<and> (\<exists>es. cd_trace ?d = cd_trace c @ es \<and> sends_backed A (risk_store_of ?d) es)"
      using es(1,2) by auto
  qed
  have rest: "moves (vetted A P R) ?rest" by (intro moves_intros)
  have "?rest ?d = (r, e)" using went_on(2) by (simp add: x run_simps)
  from vetted_trans [OF sent movesD [OF rest this]] show ?thesis .
qed

lemma validated_dispatch_vetted:
  assumes "exposure_bearing command \<Longrightarrow> ra_reservation_id admission \<noteq> None"
  shows "moves (vetted A P R) (and_do (or_reject R i (on_err RiskAdmission (ask_risk R
         (po_validate_before_dispatch (ru_ports R) (ru_scope R) purpose command i admission)))) (\<lambda>_.
        dispatch_with_permit R purpose command i correlation))" (is "moves _ (and_do ?v _)")
proof (rule movesI)
  fix c r e
  assume "and_do ?v (\<lambda>_. dispatch_with_permit R purpose command i correlation) c = (r, e)"
  then show "vetted A P R c e"
  proof (cases rule: and_do_cases)
    case (failed x)
    have "moves (vetted A P R) ?v" by (intro moves_intros)
    from movesD [OF this failed(1)] show ?thesis .
  next
    case (went_on u d)
    have v: "moves (vetted A P R) ?v" by (intro moves_intros)
    from movesD [OF this went_on(1)] have cd: "vetted A P R c d" .
    have asked: "ask_risk R (po_validate_before_dispatch (ru_ports R) (ru_scope R) purpose command i admission) c
        = (Inr (), d)"
      using went_on(1) by (simp add: action_simps)
    show ?thesis
    proof (cases "production A P R \<and> sound_store (risk_store_of c)")
      case True
      then have "backed A (risk_store_of d) i command" using ask_validated [OF _ asked _ assms] by blast
      then have "vetted A P R d e" by (intro dispatch_with_permit_vetted [OF went_on(2)])
      with cd show ?thesis by (rule vetted_trans)
    qed (simp add: vetted_def)
  qed
qed

lemma with_quantity_exposure: "exposure_bearing (with_quantity q command) = exposure_bearing command"
  by (cases command) (simp_all add: exposure_bearing_def)

lemma dispatch_approved_vetted:
  assumes "exposure_bearing command \<Longrightarrow> ra_reservation_id admission \<noteq> None"
  shows "moves (vetted A P R) (dispatch_approved R command i correlation purpose admission)"
proof -
  let ?send = "\<lambda>sized. and_do (or_reject R i (on_err RiskAdmission (ask_risk R
         (po_validate_before_dispatch (ru_ports R) (ru_scope R) purpose sized i admission)))) (\<lambda>_.
        dispatch_with_permit R purpose sized i correlation)"
  have sized: "moves (vetted A P R) (and_do current_epoch (\<lambda>_. with_permit R i (?send sized)))"
    if "or_reject R i (of_result (apply_risk_approval command (ra_approved_delta_lots admission))) c
        = (Inr sized, d)" for sized and c d :: "'a adapter_state coordinator"
  proof -
    have "sized = with_quantity \<bar>ra_approved_delta_lots admission\<bar> command"
      using that by (simp add: of_result_Inr apply_risk_approval_Inr)
    then have send: "moves (vetted A P R) (?send sized)"
      using assms by (intro validated_dispatch_vetted) (simp add: with_quantity_exposure)
    show ?thesis
      unfolding with_permit_def
      by (intro send vetted.moves_finally vetted.release_slot_keeps moves_intros) (simp_all add: is_send_def)
  qed
  have approval: "moves (vetted A P R)
      (or_reject R i (of_result (apply_risk_approval command (ra_approved_delta_lots admission))))"
    by (intro moves_intros)
  show ?thesis
    unfolding dispatch_approved_def by (rule vetted.moves_bind [OF approval sized])
qed

lemma dispatch_vetted: "moves (vetted A P R) (dispatch_for_purpose R command i correlation purpose)"
proof -
  have judged: "moves (vetted A P R) (if incomplete_approval command admission then
       and_do (if ra_reservation_id admission \<noteq> None then
           record_risk_dispatch_outcome R i risk_dispatch_outcome.Rejected
         else done_with ()) (\<lambda>_.
       fail_with (RiskAdmission
         (Unavailable ''risk admission returned an incomplete approval'')))
     else dispatch_approved R command i correlation purpose admission)" for admission
  proof (cases "incomplete_approval command admission")
    case True
    have "moves (vetted A P R) (and_do (if ra_reservation_id admission \<noteq> None then
           record_risk_dispatch_outcome R i risk_dispatch_outcome.Rejected
         else done_with ()) (\<lambda>_.
       fail_with (RiskAdmission (Unavailable ''risk admission returned an incomplete approval'')))
       :: ('a adapter_state, dispatch_receipt) running)"
      by (intro moves_intros)
    then show ?thesis using True by simp
  next
    case False
    then have "exposure_bearing command \<Longrightarrow> ra_reservation_id admission \<noteq> None"
      by (auto simp: incomplete_approval_def split: option.splits)
    then have "moves (vetted A P R) (dispatch_approved R command i correlation purpose admission)"
      by (rule dispatch_approved_vetted)
    then show ?thesis using False by simp
  qed
  have admitted: "moves (vetted A P R) (dispatch_admitted R command i correlation purpose)"
    unfolding dispatch_admitted_def by (intro judged moves_intros) (simp add: is_send_def)
  show ?thesis
    unfolding dispatch_for_purpose_def by (intro admitted moves_intros)
qed

interpretation vetted_handlers: refreshing_relation "vetted A P R" R is_send
  for A P and R :: "'x adapter_state runtime"
proof unfold_locales
  show "moves (vetted A P R) (reconcile_locked R)" by (rule vetted.reconcile_locked_keeps) (simp add: is_send_def)
  show "moves (vetted A P R) (dispatch_for_purpose R command i correlation purpose)" for command i correlation purpose
    by (rule dispatch_vetted)
  have transition: "moves (vetted A P R) (transition R target reason detail)" for target reason detail
    by (rule vetted.transition_keeps) (simp add: is_send_def)
  show "fresh (vetted A P R) report (apply_reconciliation_report R report)" for report
    unfolding apply_reconciliation_report_def
    by (intro fresh_moves transition moves_intros) (simp add: reported_health_def health_sound_def)
qed (auto simp: is_send_def intro!: vetted_quiet)

lemma run_handlers_risk:
  assumes "production A P R" and "sound_store (risk_store_of c)"
    and "run_handlers R hs (c\<lparr>cd_trace := []\<rparr>) = d"
  shows "risk_step\<^sup>*\<^sup>* (risk_store_of c) (risk_store_of d)" "sends_backed A (risk_store_of d) (cd_trace d)"
proof -
  have "vetted A P R (c\<lparr>cd_trace := []\<rparr>) d"
    using vetted_handlers.run_handlers_keep [of A P R "c\<lparr>cd_trace := []\<rparr>" hs] assms(3) by simp
  then show "risk_step\<^sup>*\<^sup>* (risk_store_of c) (risk_store_of d)" "sends_backed A (risk_store_of d) (cd_trace d)"
    using assms(1,2) by (auto simp: vetted_def)
qed

text \<open>C1. What the coordinator sends, risk approved.  Take a coordinator whose risk port is the production
  adapter, on a risk store that holds only decisions of the engine with their reservations.  Whatever
  handlers it runs and whatever interferes, every command it sent to the broker has a stored decision of
  the risk engine for its request and account, over exactly the lots the command moves, and every
  exposure-bearing one has the reservation of those lots.\<close>

theorem sends_are_risk_approved:
  assumes "production A P R" and "sound_store (risk_store_of c)"
    and "run_handlers R hs (c\<lparr>cd_trace := []\<rparr>) = d"
  shows "sound_store (risk_store_of d)
    \<and> (\<forall>purpose command r. Sent purpose command r \<in> set (cd_trace d) \<longrightarrow>
         backed A (risk_store_of d) (mr_logical_request_id r) command)"
  using run_handlers_risk [OF assms] risk_steps_sound assms(2) by (auto simp: sends_backed_def)

section \<open>A run\<close>

text \<open>A broker that lets the account buy two lots, and an order for three.\<close>

definition sample_rpc :: "unit risk_rpc" where
  "sample_rpc = \<lparr>rc_get_margin_attributes = (\<lambda>_ _ w. (Inl ''down'', w)),
     rc_get_instrument_by_uid = (\<lambda>_ i w. (Inr (Some \<lparr>im_uid = i, im_lot = 1, im_api_trade_available_flag = True,
       im_buy_available_flag = True, im_sell_available_flag = True\<rparr>), w)),
     rc_get_trading_status = (\<lambda>_ i w. (Inr \<lparr>ts_instrument_uid = i, ts_api_trade_available_flag = True,
       ts_limit_order_available_flag = True, ts_market_order_available_flag = True,
       ts_bestprice_order_available_flag = True\<rparr>, w)),
     rc_get_max_lots = (\<lambda>_ _ w. (Inl ''down'', w)),
     rc_get_sandbox_max_lots = (\<lambda>_ _ w. (Inr \<lparr>xl_currency = ''rub'', xl_buy_limits = Some
       \<lparr>bv_buy_money_amount = None, bv_buy_max_lots = 2, bv_buy_max_market_lots = 2\<rparr>,
       xl_buy_margin_limits = None, xl_sell_limits = None, xl_sell_margin_limits = None\<rparr>, w)),
     rc_get_order_price = (\<lambda>_ _ w. (Inl ''down'', w)),
     rc_get_sandbox_order_price = (\<lambda>_ _ w. (Inl ''down'', w))\<rparr>"

definition sample_adapter :: "unit risk_adapter" where
  "sample_adapter = \<lparr>ax_canonical_account_id = ''account:1'', ax_broker_connection_id = ''connection:1'',
     ax_to_json = sample_json, ax_rpc = sample_rpc, ax_tasks = (\<lambda>s. s), ax_clock_nanos = (\<lambda>w. (9000000, w)),
     ax_uuid = (\<lambda>w. (''1'', w)), ax_uuid_parses = (\<lambda>_. True), ax_execution_session = (\<lambda>_ _ _ w. (Inr 7, w)),
     ax_read_session = (\<lambda>_ _ w. (Inr \<lparr>rr_client = 0, rr_environment = broker_environment.Sandbox\<rparr>, w))\<rparr>"

definition sample_report :: reconciliation_report where
  "sample_report = \<lparr>rp_reconciliation_id = ''q1'', rp_runtime_epoch = 1, rp_resulting_state = Ready,
     rp_reason_code = ReconciliationComplete, rp_resolved_logical_request_ids = [],
     rp_unresolved_logical_request_ids = [], rp_discrepancies = [], rp_position_count = 0,
     rp_active_order_count = 0, rp_active_stop_count = 0, rp_deduplicated_event_count = 0,
     rp_completed_at_unix_ms = 9, rp_portfolio = \<lparr>portfolio_fact.pt_account_id = ''a1'', pt_total_portfolio_valuation = None,
       pt_total_currency_valuation = None, pt_broker_daily_yield = None, pt_cash_balances = [],
       pt_broker_observed_at_unix_ms = None\<rparr>,
     rp_positions = [], rp_active_orders = [], rp_active_stops = [], rp_snapshot_observed_at_unix_ms = 9\<rparr>"

definition sample_configured :: risk_db where
  "sample_configured = risk_db_empty\<lparr>db_policies := [\<lparr>policy_table_row.pt_account_id = ''account:1'', pt_revision = 6,
     pt_payload = sample_policy\<lparr>pol_max_market_data_age_ms := None\<rparr>, pt_updated_at_unix_ms = 8\<rparr>]\<rparr>"

definition sample_adapter_state :: "unit adapter_state" where
  "sample_adapter_state = \<lparr>ad_db = sample_configured, ad_snapshot = Some sample_report, ad_cache = (\<lambda>_. None),
     ad_world = ()\<rparr>"

definition sample_connected :: runtime_scope where
  "sample_connected = sample_scope\<lparr>sc_connection_ref := ''connection:1''\<rparr>"

definition sample_production :: "unit adapter_state runtime" where
  "sample_production = \<lparr>ru_ports = with_risk_adapter sample_adapter sample_ports,
     ru_config = reconciliation_config_default, ru_scope = sample_connected, ru_owner_id = ''o1'',
     ru_tasks = (\<lambda>w m. (m, w))\<rparr>"

definition sample_started :: "unit adapter_state coordinator" where
  "sample_started = \<lparr>cd_memory = cd_memory sample_ready,
     cd_sys = \<lparr>sy_db = sample_owned, sy_world = sample_adapter_state\<rparr>, cd_trace = []\<rparr>"

definition sample_order_run :: "unit adapter_state coordinator" where
  "sample_order_run = run_handlers sample_production [Dispatch sample_command ''r1'' ''x1''] sample_started"

lemma sample_ports_world: "port_step sample_ports w w' \<Longrightarrow> w' = w"
  by (cases rule: port_step.cases) (auto simp: sample_ports_def)

lemma sample_production_facts:
  "production sample_adapter sample_ports sample_production" "sound_store (risk_store_of sample_started)"
  "sample_started\<lparr>cd_trace := []\<rparr> = sample_started"
  using sample_ports_world
  by (fastforce simp: production_def risk_tasks_def sample_production_def sample_adapter_def sample_started_def
    sample_adapter_state_def sample_configured_def sound_store_def risk_db_inv_def linked_def risk_db_empty_def
    sample_policy_def)+

lemma sample_order_sent:
  "list_ex (\<lambda>e. case e of
     Sent _ command r \<Rightarrow> command = with_quantity 2 sample_command \<and> mr_logical_request_id r = ''r1''
   | _ \<Rightarrow> False) (cd_trace sample_order_run)"
  by code_simp

theorem sends_are_risk_approved_witness:
  "\<exists>d \<in> set (db_decisions (risk_store_of sample_order_run)). engine_decided d \<and> dec_request_id d = ''r1''
     \<and> dec_approved_delta_lots d = 2
     \<and> (\<exists>r \<in> set (db_reservations (risk_store_of sample_order_run)). validate_approval_link d r = Inr ())"
proof -
  obtain purpose r where "Sent purpose (with_quantity 2 sample_command) r \<in> set (cd_trace sample_order_run)"
    "mr_logical_request_id r = ''r1''"
  proof -
    obtain e where e: "e \<in> set (cd_trace sample_order_run)" "case e of
       Sent _ command r \<Rightarrow> command = with_quantity 2 sample_command \<and> mr_logical_request_id r = ''r1''
     | _ \<Rightarrow> False"
      using sample_order_sent by (auto simp: list_ex_iff)
    show thesis by (cases e) (use that e in simp_all)
  qed
  moreover have "run_handlers sample_production [Dispatch sample_command ''r1'' ''x1''] (sample_started\<lparr>cd_trace := []\<rparr>)
      = sample_order_run"
    by (simp only: sample_order_run_def sample_production_facts(3))
  ultimately have "backed sample_adapter (risk_store_of sample_order_run) ''r1'' (with_quantity 2 sample_command)"
    using sends_are_risk_approved [OF sample_production_facts(1,2)] by metis
  then show ?thesis by (auto simp: backed_def sample_command_def exposure_bearing_def)
qed

end
