(* ===== verification/Spec2Isabelle.thy ===== *)
theory Spec2Isabelle
  imports Money Domain_Mutation Domain_Execution Risk_Plan Risk_Audit Production_Runtime
begin

text \<open>
  Vox Trader: a verification development for the trading kernel.
\<close>

end
